(* ===== verification/Prelude.thy ===== *)
theory Prelude
  imports Complex_Main "HOL-Library.Word"
begin

text \<open>
  Shared vocabulary of the development: the machine integer types of the Rust sources, the
  reading of \<^verbatim>\<open>Result<T, E>\<close> as a sum with the error on the left, the question-mark operator,
  and generic facts about lists that several components use. The collections \<open>rust_std\<close> and
  \<open>cfg_defs\<close> gather the unfolding rules that the component proofs hand to the simplifier.
\<close>

named_theorems rust_std \<open>unfolding rules of the modelled part of the Rust standard library\<close>
named_theorems cfg_defs \<open>unfolding rules of the configuration checks\<close>
named_theorems srv_defs \<open>unfolding rules of the connection-handling components\<close>

section \<open>Machine integers and results\<close>

type_synonym u8 = "8 word"
type_synonym u16 = "16 word"
type_synonym u32 = "32 word"
type_synonym u64 = "64 word"
type_synonym usize = "64 word"

text \<open>Instants are nanoseconds on the monotonic clock, durations are non-negative.\<close>

type_synonym instant = int
type_synonym duration = nat

abbreviation Ok :: "'a \<Rightarrow> 'e + 'a" where
  "Ok \<equiv> Inr"

abbreviation Err :: "'e \<Rightarrow> 'e + 'a" where
  "Err \<equiv> Inl"

text \<open>The question-mark operator: stop at the first error, go on with the value otherwise.\<close>

definition and_then :: "'e + 'a \<Rightarrow> ('a \<Rightarrow> 'e + 'b) \<Rightarrow> 'e + 'b" where
  "and_then r f = (case r of Inl e \<Rightarrow> Inl e | Inr x \<Rightarrow> f x)"

definition map_err :: "('e \<Rightarrow> 'f) \<Rightarrow> 'e + 'a \<Rightarrow> 'f + 'a" where
  "map_err g r = (case r of Inl e \<Rightarrow> Inl (g e) | Inr x \<Rightarrow> Inr x)"

definition ok_or :: "'e \<Rightarrow> 'a option \<Rightarrow> 'e + 'a" where
  "ok_or e v = (case v of None \<Rightarrow> Inl e | Some x \<Rightarrow> Inr x)"

definition unwrap_or :: "'a option \<Rightarrow> 'a \<Rightarrow> 'a" where
  "unwrap_or v d = (case v of None \<Rightarrow> d | Some x \<Rightarrow> x)"

definition is_ok :: "'e + 'a \<Rightarrow> bool" where
  "is_ok r = (case r of Inl _ \<Rightarrow> False | Inr _ \<Rightarrow> True)"

lemma and_then_simps [simp]:
  "and_then (Inl e) f = Inl e" "and_then (Inr x) f = f x"
  by (simp_all add: and_then_def)

lemma map_err_simps [simp]:
  "map_err g (Inl e) = Inl (g e)" "map_err g (Inr x) = Inr x"
  by (simp_all add: map_err_def)

lemma ok_or_simps [simp]:
  "ok_or e None = Inl e" "ok_or e (Some x) = Inr x"
  by (simp_all add: ok_or_def)

lemma unwrap_or_simps [simp]:
  "unwrap_or None d = d" "unwrap_or (Some x) d = x"
  by (simp_all add: unwrap_or_def)

lemma is_ok_simps [simp]:
  "is_ok (Inl e) = False" "is_ok (Inr x) = True"
  by (simp_all add: is_ok_def)

lemma and_then_Inr_iff: "and_then r f = Inr y \<longleftrightarrow> (\<exists>x. r = Inr x \<and> f x = Inr y)"
  by (cases r) auto

lemma and_then_Inl_iff:
  "and_then r f = Inl e \<longleftrightarrow> r = Inl e \<or> (\<exists>x. r = Inr x \<and> f x = Inl e)"
  by (cases r) auto

lemma map_err_Inr_iff [simp]: "map_err g r = Inr x \<longleftrightarrow> r = Inr x"
  by (cases r) auto

lemma ok_or_Inr_iff [simp]: "ok_or e v = Inr x \<longleftrightarrow> v = Some x"
  by (cases v) auto

lemma is_ok_iff: "is_ok r \<longleftrightarrow> (\<exists>x. r = Inr x)"
  by (cases r) auto

section \<open>Generic lemmas\<close>

lemma word_gt_0_unat: "0 < (w :: 'a::len word) \<longleftrightarrow> 0 < unat w"
  by (simp add: word_less_nat_alt)

lemma unat_bounds:
  "unat (a :: u8) < 2 ^ 8" "unat (b :: u16) < 2 ^ 16"
  "unat (c :: u32) < 2 ^ 32" "unat (d :: u64) < 2 ^ 64"
  using unsigned_less [of a, where ?'a = nat] unsigned_less [of b, where ?'a = nat]
    unsigned_less [of c, where ?'a = nat] unsigned_less [of d, where ?'a = nat]
  by simp_all

lemma concat_map_eq_Nil [simp]: "concat (map f xs) = [] \<longleftrightarrow> (\<forall>x\<in>set xs. f x = [])"
  by auto

text \<open>The first entry of an association list built from a list with distinct keys is the entry.\<close>

lemma map_of_map_distinct:
  assumes "distinct (map k xs)" and "x \<in> set xs"
  shows "map_of (map (\<lambda>y. (k y, v y)) xs) (k x) = Some (v x)"
  using assms by (induction xs) (auto simp: image_iff)

lemma notin_image: "k \<notin> f ` S \<longleftrightarrow> (\<forall>x\<in>S. f x \<noteq> k)"
  by auto

text \<open>
  Counting the elements of a list with a property when one element is replaced.
\<close>

lemma length_filter_update:
  assumes "i < length xs"
  shows "length (filter P (xs[i := x])) + of_bool (P (xs ! i)) = length (filter P xs) + of_bool (P x)"
proof -
  have "filter P xs = filter P (take i xs @ xs ! i # drop (Suc i) xs)"
    using id_take_nth_drop [OF assms] by simp
  then show ?thesis using assms by (simp add: upd_conv_take_nth_drop)
qed

end
