(* ===== verification/Rust_Str.thy ===== *)
theory Rust_Str
  imports Prelude
begin

text \<open>
  The part of Rust's \<^verbatim>\<open>str\<close> and integer parsing that the sources use. A Rust string is a
  \<^typ>\<open>string\<close>: its UTF-8 bytes. Searching for an ASCII character or an ASCII pattern and slicing at
  the position found mean the same on bytes and on characters. \<open>to_lowercase\<close> maps the
  ASCII letters and leaves the bytes of other characters alone: non-ASCII letters have no case in
  the model. Every host that reaches a routing decision is ASCII (a header value is read through
  \<^verbatim>\<open>HeaderValue::to_str\<close>, a site host has passed \<open>is_valid_hostname\<close>).
\<close>

section \<open>Searching and slicing\<close>

fun starts_with :: "string \<Rightarrow> string \<Rightarrow> bool" where
  "starts_with s [] = True"
| "starts_with [] (p # ps) = False"
| "starts_with (c # cs) (p # ps) = (c = p \<and> starts_with cs ps)"

definition ends_with :: "string \<Rightarrow> string \<Rightarrow> bool" where
  "ends_with s p = starts_with (rev s) (rev p)"

definition contains_char :: "string \<Rightarrow> char \<Rightarrow> bool" where
  "contains_char s c = (c \<in> set s)"

fun contains_str :: "string \<Rightarrow> string \<Rightarrow> bool" where
  "contains_str [] p = (p = [])"
| "contains_str (c # cs) p = (starts_with (c # cs) p \<or> contains_str cs p)"

fun find_char :: "string \<Rightarrow> char \<Rightarrow> nat option" where
  "find_char [] x = None"
| "find_char (c # cs) x = (if c = x then Some 0 else map_option Suc (find_char cs x))"

definition rfind_char :: "string \<Rightarrow> char \<Rightarrow> nat option" where
  "rfind_char s x = map_option (\<lambda>i. length s - Suc i) (find_char (rev s) x)"

fun split_on :: "char \<Rightarrow> string \<Rightarrow> string list" where
  "split_on x [] = [[]]"
| "split_on x (c # cs) =
     (if c = x then [] # split_on x cs
      else (case split_on x cs of [] \<Rightarrow> [[c]] | p # ps \<Rightarrow> (c # p) # ps))"

definition strip_prefix :: "string \<Rightarrow> string \<Rightarrow> string option" where
  "strip_prefix s p = (if starts_with s p then Some (drop (length p) s) else None)"

definition strip_suffix :: "string \<Rightarrow> string \<Rightarrow> string option" where
  "strip_suffix s p = (if ends_with s p then Some (take (length s - length p) s) else None)"

fun join_str :: "string \<Rightarrow> string list \<Rightarrow> string" where
  "join_str sep [] = []"
| "join_str sep [p] = p"
| "join_str sep (p # q # ps) = p @ sep @ join_str sep (q # ps)"

lemma starts_with_iff: "starts_with s p \<longleftrightarrow> (\<exists>r. s = p @ r)"
  by (induction s p rule: starts_with.induct) auto

lemma starts_with_append [simp]: "starts_with (p @ r) p"
  by (auto simp: starts_with_iff)

lemma starts_with_single: "starts_with s [c] \<longleftrightarrow> s \<noteq> [] \<and> hd s = c"
  by (cases s) auto

lemma ends_with_iff: "ends_with s p \<longleftrightarrow> (\<exists>r. s = r @ p)"
  unfolding ends_with_def starts_with_iff
  by (metis rev_append rev_rev_ident)

lemma ends_with_single: "ends_with s [c] \<longleftrightarrow> s \<noteq> [] \<and> last s = c"
  by (auto simp: ends_with_def starts_with_single hd_rev)

lemma contains_str_iff: "contains_str s p \<longleftrightarrow> (\<exists>a b. s = a @ p @ b)"
proof (induction s)
  case Nil
  then show ?case by auto
next
  case (Cons c cs)
  show ?case
  proof
    assume "contains_str (c # cs) p"
    then consider "starts_with (c # cs) p" | "contains_str cs p" by auto
    then show "\<exists>a b. c # cs = a @ p @ b"
    proof cases
      case 1
      then show ?thesis by (metis starts_with_iff append_Nil)
    next
      case 2
      then show ?thesis using Cons.IH by (metis append_Cons)
    qed
  next
    assume "\<exists>a b. c # cs = a @ p @ b"
    then obtain a b where *: "c # cs = a @ p @ b" by blast
    show "contains_str (c # cs) p"
    proof (cases a)
      case Nil
      then have "starts_with (c # cs) p" using * by (auto simp: starts_with_iff)
      then show ?thesis by simp
    next
      case (Cons d ds)
      then have "cs = ds @ p @ b" using * by simp
      then show ?thesis using Cons.IH by auto
    qed
  qed
qed

lemma find_char_None_iff [simp]: "find_char s x = None \<longleftrightarrow> x \<notin> set s"
  by (induction s) auto

lemma find_char_append: "x \<notin> set a \<Longrightarrow> find_char (a @ x # b) x = Some (length a)"
  by (induction a) auto

lemma find_char_SomeD:
  "find_char s x = Some i \<Longrightarrow> \<exists>a b. s = a @ x # b \<and> x \<notin> set a \<and> length a = i"
proof (induction s arbitrary: i)
  case Nil
  then show ?case by simp
next
  case (Cons c cs)
  show ?case
  proof (cases "c = x")
    case True
    then show ?thesis using Cons.prems by (auto intro: exI [of _ "[]"])
  next
    case False
    then obtain j where "find_char cs x = Some j" "i = Suc j" using Cons.prems by auto
    then obtain a b where "cs = a @ x # b" "x \<notin> set a" "length a = j" using Cons.IH by blast
    then have "c # cs = (c # a) @ x # b \<and> x \<notin> set (c # a) \<and> length (c # a) = i"
      using False \<open>i = Suc j\<close> by simp
    then show ?thesis by blast
  qed
qed

lemma rfind_char_None_iff [simp]: "rfind_char s x = None \<longleftrightarrow> x \<notin> set s"
  by (simp add: rfind_char_def)

lemma rfind_char_append: "x \<notin> set b \<Longrightarrow> rfind_char (a @ x # b) x = Some (length a)"
  by (simp add: rfind_char_def find_char_append)

lemma rfind_char_SomeD:
  assumes "rfind_char s x = Some i"
  shows "\<exists>a b. s = a @ x # b \<and> x \<notin> set b \<and> length a = i"
proof -
  obtain j where j: "find_char (rev s) x = Some j" "i = length s - Suc j"
    using assms by (auto simp: rfind_char_def)
  obtain a b where ab: "rev s = a @ x # b" "x \<notin> set a" "length a = j"
    using find_char_SomeD [OF j(1)] by blast
  have "rev (rev s) = rev b @ x # rev a" unfolding ab(1) by simp
  then have s: "s = rev b @ x # rev a" by (simp only: rev_rev_ident)
  moreover have "length (rev b) = i" using s ab(3) j(2) by simp
  ultimately show ?thesis using ab(2) by (metis set_rev)
qed

lemma split_on_nonempty [simp]: "split_on x s \<noteq> []"
  by (induction s) (auto split: list.splits)

lemma split_on_no_sep: "x \<notin> set s \<Longrightarrow> split_on x s = [s]"
  by (induction s) auto

lemma split_on_sep: "x \<notin> set a \<Longrightarrow> split_on x (a @ x # b) = a # split_on x b"
  by (induction a) auto

lemma split_on_pieces: "p \<in> set (split_on x s) \<Longrightarrow> x \<notin> set p"
  by (induction s arbitrary: p) (auto split: list.splits if_splits)

lemma set_split_on: "(\<Union>p\<in>set (split_on x s). set p) = set s - {x}"
proof (induction s)
  case Nil
  then show ?case by simp
next
  case (Cons c cs)
  obtain p ps where ps: "split_on x cs = p # ps" by (cases "split_on x cs") auto
  show ?case using Cons.IH ps by auto
qed

lemma join_split [simp]: "join_str [x] (split_on x s) = s"
proof (induction s)
  case Nil
  then show ?case by simp
next
  case (Cons c cs)
  obtain p ps where ps: "split_on x cs = p # ps" by (cases "split_on x cs") auto
  then show ?case using Cons.IH by (cases ps) auto
qed

lemma split_join:
  "ps \<noteq> [] \<Longrightarrow> \<forall>p\<in>set ps. x \<notin> set p \<Longrightarrow> split_on x (join_str [x] ps) = ps"
proof (induction "[x]" ps rule: join_str.induct)
  case (3 p q ps)
  then show ?case by (simp add: split_on_sep)
qed (auto simp: split_on_no_sep)

lemma strip_prefix_simps:
  "starts_with s p \<Longrightarrow> strip_prefix s p = Some (drop (length p) s)"
  "\<not> starts_with s p \<Longrightarrow> strip_prefix s p = None"
  by (simp_all add: strip_prefix_def)

section \<open>Character classes and case\<close>

definition is_ascii_digit :: "char \<Rightarrow> bool" where
  "is_ascii_digit c = (48 \<le> (of_char c :: nat) \<and> (of_char c :: nat) \<le> 57)"

definition is_ascii_upper :: "char \<Rightarrow> bool" where
  "is_ascii_upper c = (65 \<le> (of_char c :: nat) \<and> (of_char c :: nat) \<le> 90)"

definition is_ascii_lower :: "char \<Rightarrow> bool" where
  "is_ascii_lower c = (97 \<le> (of_char c :: nat) \<and> (of_char c :: nat) \<le> 122)"

definition is_ascii_alphanumeric :: "char \<Rightarrow> bool" where
  "is_ascii_alphanumeric c = (is_ascii_digit c \<or> is_ascii_upper c \<or> is_ascii_lower c)"

definition ascii_lower :: "char \<Rightarrow> char" where
  "ascii_lower c = (if is_ascii_upper c then char_of ((of_char c :: nat) + 32) else c)"

definition to_lowercase :: "string \<Rightarrow> string" where
  "to_lowercase s = map ascii_lower s"

lemmas char_class_defs = is_ascii_digit_def is_ascii_upper_def is_ascii_lower_def
  is_ascii_alphanumeric_def

lemma of_char_ascii_lower:
  "(of_char (ascii_lower c) :: nat) = (if is_ascii_upper c then of_char c + 32 else of_char c)"
  by (simp add: ascii_lower_def is_ascii_upper_def)

lemma ascii_lower_not_upper [simp]: "\<not> is_ascii_upper (ascii_lower c)"
  by (simp add: is_ascii_upper_def of_char_ascii_lower split: if_splits)

lemma ascii_lower_idem [simp]: "ascii_lower (ascii_lower c) = ascii_lower c"
  by (subst ascii_lower_def) simp

lemma ascii_lower_alnum [simp]: "is_ascii_alphanumeric (ascii_lower c) = is_ascii_alphanumeric c"
  by (auto simp: char_class_defs of_char_ascii_lower)

lemma ascii_lower_eq_nonletter:
  assumes "\<not> is_ascii_upper x" and "\<not> is_ascii_lower x"
  shows "ascii_lower c = x \<longleftrightarrow> c = x"
proof
  assume l: "ascii_lower c = x"
  have "\<not> is_ascii_upper c"
  proof
    assume "is_ascii_upper c"
    then have "is_ascii_lower x"
      using l by (auto simp: is_ascii_lower_def is_ascii_upper_def of_char_ascii_lower)
    then show False using assms by simp
  qed
  then show "c = x" using l by (simp add: ascii_lower_def)
next
  assume "c = x"
  then show "ascii_lower c = x" using assms by (simp add: ascii_lower_def)
qed

lemma ascii_lower_punct [simp]:
  "ascii_lower c = CHR '':'' \<longleftrightarrow> c = CHR '':''"
  "ascii_lower c = CHR ''['' \<longleftrightarrow> c = CHR ''[''"
  "ascii_lower c = CHR '']'' \<longleftrightarrow> c = CHR '']''"
  "ascii_lower c = CHR ''-'' \<longleftrightarrow> c = CHR ''-''"
  "ascii_lower c = CHR ''.'' \<longleftrightarrow> c = CHR ''.''"
  by (simp_all add: ascii_lower_eq_nonletter char_class_defs)

lemma to_lowercase_Nil_iff [simp]: "to_lowercase s = [] \<longleftrightarrow> s = []"
  by (simp add: to_lowercase_def)

lemma length_to_lowercase [simp]: "length (to_lowercase s) = length s"
  by (simp add: to_lowercase_def)

lemma to_lowercase_idem [simp]: "to_lowercase (to_lowercase s) = to_lowercase s"
  by (simp add: to_lowercase_def comp_def)

lemma to_lowercase_append: "to_lowercase (a @ b) = to_lowercase a @ to_lowercase b"
  by (simp add: to_lowercase_def)

lemma mem_to_lowercase_punct [simp]:
  "CHR '':'' \<in> set (to_lowercase s) \<longleftrightarrow> CHR '':'' \<in> set s"
  "CHR ''['' \<in> set (to_lowercase s) \<longleftrightarrow> CHR ''['' \<in> set s"
  "CHR '']'' \<in> set (to_lowercase s) \<longleftrightarrow> CHR '']'' \<in> set s"
  by (auto simp: to_lowercase_def image_iff) (metis ascii_lower_punct)+

end
