(* ===== verification/Rust_Num.thy ===== *)
theory Rust_Num
  imports Rust_Str
begin

text \<open>
  Reading and printing of unsigned integers as the Rust standard library does it:
  \<^verbatim>\<open>char::to_digit\<close>, \<^verbatim>\<open>FromStr\<close> for the unsigned types (one optional leading plus sign, then
  digits only, an error on overflow), \<^verbatim>\<open>Display\<close> in base ten and lower hexadecimal; and
  \<^verbatim>\<open>str::trim\<close>. The lemmas give the round trip: what is printed parses back to the same number.
\<close>

section \<open>Digits\<close>

definition to_digit :: "nat \<Rightarrow> char \<Rightarrow> nat option" where
  "to_digit radix c =
     (let n = (of_char c :: nat);
          v = (if 48 \<le> n \<and> n \<le> 57 then n - 48
               else if 97 \<le> n \<and> n \<le> 122 then n - 87
               else if 65 \<le> n \<and> n \<le> 90 then n - 55 else 36)
      in if v < 36 \<and> v < radix then Some v else None)"

definition digit_char :: "nat \<Rightarrow> char" where
  "digit_char d = (if d < 10 then char_of (48 + d) else char_of (87 + d))"

fun show_radix :: "nat \<Rightarrow> nat \<Rightarrow> string" where
  "show_radix r n =
     (if n < r \<or> r < 2 then [digit_char n]
      else show_radix r (n div r) @ [digit_char (n mod r)])"

declare show_radix.simps [simp del]

fun parse_digits :: "nat \<Rightarrow> nat \<Rightarrow> string \<Rightarrow> nat option" where
  "parse_digits r acc [] = Some acc"
| "parse_digits r acc (c # cs) =
     (case to_digit r c of None \<Rightarrow> None | Some d \<Rightarrow> parse_digits r (acc * r + d) cs)"

definition from_str_uint :: "nat \<Rightarrow> string \<Rightarrow> nat option" where
  "from_str_uint bits s =
     (case s of
        [] \<Rightarrow> None
      | c # cs \<Rightarrow>
          (let ds = (if c = CHR ''+'' then cs else s) in
           if ds = [] then None
           else (case parse_digits 10 0 ds of
                   None \<Rightarrow> None
                 | Some n \<Rightarrow> if n < 2 ^ bits then Some n else None)))"

definition parse_u16 :: "string \<Rightarrow> u16 option" where
  "parse_u16 s = map_option of_nat (from_str_uint 16 s)"

definition parse_u64 :: "string \<Rightarrow> u64 option" where
  "parse_u64 s = map_option of_nat (from_str_uint 64 s)"

definition show_nat :: "nat \<Rightarrow> string" where
  "show_nat n = show_radix 10 n"

definition show_word :: "'a::len word \<Rightarrow> string" where
  "show_word w = show_nat (unat w)"

lemma to_digit_digit_char: "d < r \<Longrightarrow> d < 36 \<Longrightarrow> to_digit r (digit_char d) = Some d"
  by (auto simp: to_digit_def digit_char_def Let_def)

lemma to_digit_lt: "to_digit r c = Some d \<Longrightarrow> d < r"
  by (auto simp: to_digit_def Let_def split: if_splits)

lemma show_radix_nonempty [simp]: "show_radix r n \<noteq> []"
  by (subst show_radix.simps) simp

lemma parse_digits_append:
  "parse_digits r acc (a @ b) =
     (case parse_digits r acc a of None \<Rightarrow> None | Some v \<Rightarrow> parse_digits r v b)"
  by (induction r acc a rule: parse_digits.induct) (auto split: option.splits)

lemma parse_digits_show:
  "2 \<le> r \<Longrightarrow> r \<le> 36 \<Longrightarrow> parse_digits r 0 (show_radix r n) = Some n"
proof (induction r n rule: show_radix.induct)
  case (1 r n)
  show ?case
  proof (cases "n < r")
    case True
    then show ?thesis using 1(2,3) by (subst show_radix.simps) (simp add: to_digit_digit_char)
  next
    case False
    then have "parse_digits r 0 (show_radix r (n div r)) = Some (n div r)"
      using 1 by simp
    moreover have "to_digit r (digit_char (n mod r)) = Some (n mod r)"
      using 1(2,3) by (intro to_digit_digit_char) (auto intro: less_le_trans [of _ r])
    ultimately show ?thesis using False 1(2)
      by (subst show_radix.simps) (simp add: parse_digits_append)
  qed
qed

lemma show_radix_digits:
  "2 \<le> r \<Longrightarrow> r \<le> 36 \<Longrightarrow> c \<in> set (show_radix r n) \<Longrightarrow> \<exists>d<r. to_digit r c = Some d \<and> c = digit_char d"
proof (induction r n rule: show_radix.induct)
  case (1 r n)
  show ?case
  proof (cases "n < r")
    case True
    then have "c = digit_char n" using 1(4) by (subst (asm) show_radix.simps) simp
    then show ?thesis using True 1(3) by (auto simp: to_digit_digit_char)
  next
    case False
    then have "c \<in> set (show_radix r (n div r)) \<or> c = digit_char (n mod r)"
      using 1(2,4) by (subst (asm) show_radix.simps) auto
    then show ?thesis
    proof
      assume "c \<in> set (show_radix r (n div r))"
      then show ?thesis using 1 False by simp
    next
      assume "c = digit_char (n mod r)"
      moreover have "n mod r < r" using 1(2) by simp
      ultimately show ?thesis using 1(3) by (auto simp: to_digit_digit_char)
    qed
  qed
qed

lemma digit_char_neq_plus: "d < 36 \<Longrightarrow> digit_char d \<noteq> CHR ''+''"
proof
  assume d: "d < 36" and "digit_char d = CHR ''+''"
  then have "to_digit 36 (CHR ''+'') = Some d" using to_digit_digit_char [of d 36] by simp
  then show False by (simp add: to_digit_def)
qed

lemma from_str_show:
  assumes "n < 2 ^ bits"
  shows "from_str_uint bits (show_nat n) = Some n"
proof -
  obtain c cs where c: "show_radix 10 n = c # cs" by (cases "show_radix 10 n") auto
  then have "c \<noteq> CHR ''+''"
    using show_radix_digits [of 10 c n] digit_char_neq_plus by auto
  then show ?thesis
    using assms c parse_digits_show [of 10 n]
    by (simp add: from_str_uint_def show_nat_def)
qed

lemma parse_show_u16 [simp]: "parse_u16 (show_word w) = Some w"
  using from_str_show [of "unat w" 16] unat_bounds(2) [of w]
  by (simp add: parse_u16_def show_word_def)

lemma parse_show_u64 [simp]: "parse_u64 (show_word w) = Some w"
  using from_str_show [of "unat w" 64] unat_bounds(4) [of w]
  by (simp add: parse_u64_def show_word_def)

lemma from_str_uint_bound: "from_str_uint bits s = Some n \<Longrightarrow> n < 2 ^ bits"
  by (auto simp: from_str_uint_def Let_def split: list.splits if_splits option.splits)

lemma show_nat_digits: "c \<in> set (show_nat n) \<Longrightarrow> is_ascii_digit c"
  using show_radix_digits [of 10 c n]
  by (auto simp: show_nat_def to_digit_def is_ascii_digit_def Let_def split: if_splits)

lemma show_nat_nonempty [simp]: "show_nat n \<noteq> []"
  by (simp add: show_nat_def)

section \<open>Trimming white space\<close>

text \<open>
  The UTF-8 encodings of the code points with the Unicode property \<^verbatim>\<open>White_Space\<close>, which is what
  \<^verbatim>\<open>str::trim\<close> removes at both ends.
\<close>

definition white_space :: "string list" where
  "white_space =
     map (\<lambda>n. [char_of (n :: nat)]) [9, 10, 11, 12, 13, 32] @
     map (map (\<lambda>n. char_of (n :: nat)))
       ([[194, 133], [194, 160], [225, 154, 128], [226, 128, 168], [226, 128, 169],
         [226, 128, 175], [226, 129, 159], [227, 128, 128]] @
        map (\<lambda>k. [226, 128, k]) [128, 129, 130, 131, 132, 133, 134, 135, 136, 137, 138])"

fun trim_start_with :: "string list \<Rightarrow> nat \<Rightarrow> string \<Rightarrow> string" where
  "trim_start_with ws 0 s = s"
| "trim_start_with ws (Suc k) s =
     (case find (\<lambda>w. w \<noteq> [] \<and> starts_with s w) ws of
        None \<Rightarrow> s
      | Some w \<Rightarrow> trim_start_with ws k (drop (length w) s))"

text \<open>
  Each round removes at least one byte, so the length of the string is enough fuel. The end is
  trimmed by the same function on the reversed string with the reversed encodings.
\<close>

definition trim_start :: "string \<Rightarrow> string" where
  "trim_start s = trim_start_with white_space (length s) s"

definition trim_end :: "string \<Rightarrow> string" where
  "trim_end s = rev (trim_start_with (map rev white_space) (length s) (rev s))"

definition trim :: "string \<Rightarrow> string" where
  "trim s = trim_end (trim_start s)"

lemma trim_start_with_done:
  "length s \<le> k \<Longrightarrow> find (\<lambda>w. w \<noteq> [] \<and> starts_with (trim_start_with ws k s) w) ws = None"
proof (induction ws k s rule: trim_start_with.induct)
  case (1 ws s)
  have "starts_with [] w \<Longrightarrow> w = []" for w by (cases w) auto
  then show ?case using 1 by (auto simp: find_None_iff)
next
  case (2 ws k s)
  show ?case
  proof (cases "find (\<lambda>w. w \<noteq> [] \<and> starts_with s w) ws")
    case None
    then show ?thesis by simp
  next
    case (Some w)
    then have "w \<noteq> []" by (auto simp: find_Some_iff)
    then have "1 \<le> length w" by (cases w) auto
    then have "length (drop (length w) s) \<le> k" using 2(2) unfolding length_drop by linarith
    then show ?thesis using 2(1) Some by simp
  qed
qed

text \<open>The text that is left starts with no white space.\<close>

lemma trim_start_no_space:
  "w \<in> set white_space \<Longrightarrow> w \<noteq> [] \<Longrightarrow> \<not> starts_with (trim_start s) w"
  using trim_start_with_done [of s "length s" white_space]
  by (auto simp: trim_start_def find_None_iff)

section \<open>Debug formatting of strings\<close>

definition escape_debug :: "char \<Rightarrow> string" where
  "escape_debug c =
     (if c = CHR 0x00 then [CHR 0x5C, CHR ''0'']
      else if c = CHR 0x09 then [CHR 0x5C, CHR ''t'']
      else if c = CHR 0x0A then [CHR 0x5C, CHR ''n'']
      else if c = CHR 0x0D then [CHR 0x5C, CHR ''r'']
      else if c = CHR 0x22 \<or> c = CHR 0x5C then [CHR 0x5C, c]
      else if (of_char c :: nat) < 32 \<or> c = CHR 0x7F
      then [CHR 0x5C] @ ''u{'' @ show_radix 16 (of_char c) @ ''}''
      else [c])"

definition debug_str :: "string \<Rightarrow> string" where
  "debug_str s = [CHR 0x22] @ concat (map escape_debug s) @ [CHR 0x22]"

definition debug_strs :: "string list \<Rightarrow> string" where
  "debug_strs ss = ''['' @ join_str '', '' (map debug_str ss) @ '']''"

end
