(* ===== verification/Rust_Net.thy ===== *)
theory Rust_Net
  imports Rust_Num
begin

text \<open>
  Internet addresses as the Rust standard library (\<^verbatim>\<open>std::net\<close>) represents, parses and prints
  them. The sources call \<^verbatim>\<open>parse::<IpAddr>\<close>, \<^verbatim>\<open>parse::<Ipv6Addr>\<close>, \<^verbatim>\<open>parse::<SocketAddr>\<close> and
  \<^verbatim>\<open>IpAddr::to_string\<close>. A parser takes the rest of the input and returns the value with what is
  left, or \<^const>\<open>None\<close> without consuming anything. The section ends with the round trip: a printed
  address parses back to itself.
\<close>

section \<open>Addresses\<close>

datatype ip_addr =
    V4 u8 u8 u8 u8
  | V6 u16 u16 u16 u16 u16 u16 u16 u16

record socket_addr =
  sa_ip :: ip_addr
  sa_port :: u16
  sa_scope :: u32

section \<open>Parsing\<close>

definition read_char :: "char \<Rightarrow> string \<Rightarrow> string option" where
  "read_char x s = (case s of [] \<Rightarrow> None | c # cs \<Rightarrow> if c = x then Some cs else None)"

definition read_sep :: "char \<Rightarrow> nat \<Rightarrow> string \<Rightarrow> string option" where
  "read_sep x i s = (if i = 0 then Some s else read_char x s)"

definition is_digit_of :: "nat \<Rightarrow> char \<Rightarrow> bool" where
  "is_digit_of radix c = (to_digit radix c \<noteq> None)"

definition read_number ::
  "nat \<Rightarrow> nat option \<Rightarrow> bool \<Rightarrow> nat \<Rightarrow> string \<Rightarrow> (nat \<times> string) option" where
  "read_number radix max_digits allow_zero_prefix bound s =
     (let ds = takeWhile (is_digit_of radix) s; rest = dropWhile (is_digit_of radix) s in
      if ds = [] then None
      else if (case max_digits of None \<Rightarrow> False | Some m \<Rightarrow> m < length ds) then None
      else if \<not> allow_zero_prefix \<and> hd ds = CHR ''0'' \<and> 1 < length ds then None
      else (case parse_digits radix 0 ds of
              None \<Rightarrow> None
            | Some v \<Rightarrow> if v < bound then Some (v, rest) else None))"

definition read_octet :: "string \<Rightarrow> (nat \<times> string) option" where
  "read_octet s = read_number 10 (Some 3) False 256 s"

definition read_ipv4 :: "string \<Rightarrow> ((nat \<times> nat \<times> nat \<times> nat) \<times> string) option" where
  "read_ipv4 s =
     Option.bind (read_octet s) (\<lambda>(a, s1).
     Option.bind (read_char CHR ''.'' s1) (\<lambda>s2.
     Option.bind (read_octet s2) (\<lambda>(b, s3).
     Option.bind (read_char CHR ''.'' s3) (\<lambda>s4.
     Option.bind (read_octet s4) (\<lambda>(c, s5).
     Option.bind (read_char CHR ''.'' s5) (\<lambda>s6.
     Option.bind (read_octet s6) (\<lambda>(d, s7). Some ((a, b, c, d), s7))))))))"

text \<open>
  Up to \<open>n\<close> more groups of an IPv6 address, the first of them at index \<open>i\<close>: an embedded IPv4
  address is tried first as long as two groups are free, then a group of up to four hexadecimal
  digits. The Boolean says whether the groups end with an IPv4 address.
\<close>

fun read_groups :: "nat \<Rightarrow> nat \<Rightarrow> string \<Rightarrow> nat list \<times> bool \<times> string" where
  "read_groups 0 i s = ([], False, s)"
| "read_groups (Suc n) i s =
     (case (if 0 < n then Option.bind (read_sep CHR '':'' i s) read_ipv4 else None) of
        Some ((a, b, c, d), r) \<Rightarrow> ([a * 256 + b, c * 256 + d], True, r)
      | None \<Rightarrow>
         (case Option.bind (read_sep CHR '':'' i s) (read_number 16 (Some 4) True 65536) of
            Some (g, r) \<Rightarrow> (case read_groups n (Suc i) r of (gs, v4, r') \<Rightarrow> (g # gs, v4, r'))
          | None \<Rightarrow> ([], False, s)))"

definition read_ipv6 :: "string \<Rightarrow> (nat list \<times> string) option" where
  "read_ipv6 s =
     (case read_groups 8 0 s of (hs, v4, r) \<Rightarrow>
        if length hs = 8 then Some (hs, r)
        else if v4 then None
        else Option.bind (read_char CHR '':'' r) (\<lambda>r1.
             Option.bind (read_char CHR '':'' r1) (\<lambda>r2.
             (case read_groups (8 - (length hs + 1)) 0 r2 of (ts, _, r3) \<Rightarrow>
                Some (hs @ replicate (8 - (length hs + length ts)) 0 @ ts, r3)))))"

definition ipv4_of :: "nat \<times> nat \<times> nat \<times> nat \<Rightarrow> ip_addr" where
  "ipv4_of q = (case q of (a, b, c, d) \<Rightarrow> V4 (of_nat a) (of_nat b) (of_nat c) (of_nat d))"

fun ipv6_of :: "nat list \<Rightarrow> ip_addr option" where
  "ipv6_of [a, b, c, d, e, f, g, h] =
     Some (V6 (of_nat a) (of_nat b) (of_nat c) (of_nat d)
              (of_nat e) (of_nat f) (of_nat g) (of_nat h))"
| "ipv6_of _ = None"

definition read_ipv6_addr :: "string \<Rightarrow> (ip_addr \<times> string) option" where
  "read_ipv6_addr s =
     Option.bind (read_ipv6 s) (\<lambda>(gs, r). map_option (\<lambda>a. (a, r)) (ipv6_of gs))"

definition read_ip_addr :: "string \<Rightarrow> (ip_addr \<times> string) option" where
  "read_ip_addr s =
     (case read_ipv4 s of
        Some (q, r) \<Rightarrow> Some (ipv4_of q, r)
      | None \<Rightarrow> read_ipv6_addr s)"

definition parse_with :: "(string \<Rightarrow> ('a \<times> string) option) \<Rightarrow> string \<Rightarrow> 'a option" where
  "parse_with p s = (case p s of Some (v, []) \<Rightarrow> Some v | _ \<Rightarrow> None)"

definition parse_ip_addr :: "string \<Rightarrow> ip_addr option" where
  "parse_ip_addr s = parse_with read_ip_addr s"

definition parse_ipv6_addr :: "string \<Rightarrow> ip_addr option" where
  "parse_ipv6_addr s = parse_with read_ipv6_addr s"

definition read_port :: "string \<Rightarrow> (nat \<times> string) option" where
  "read_port s =
     Option.bind (read_char CHR '':'' s) (read_number 10 None True 65536)"

definition read_scope_id :: "string \<Rightarrow> (nat \<times> string) option" where
  "read_scope_id s =
     Option.bind (read_char CHR ''%'' s) (read_number 10 None True (2 ^ 32))"

definition read_socket_addr_v4 :: "string \<Rightarrow> (socket_addr \<times> string) option" where
  "read_socket_addr_v4 s =
     Option.bind (read_ipv4 s) (\<lambda>(q, r).
     Option.bind (read_port r) (\<lambda>(p, r').
       Some (\<lparr>sa_ip = ipv4_of q, sa_port = of_nat p, sa_scope = 0\<rparr>, r')))"

definition read_socket_addr_v6 :: "string \<Rightarrow> (socket_addr \<times> string) option" where
  "read_socket_addr_v6 s =
     Option.bind (read_char CHR ''['' s) (\<lambda>s1.
     Option.bind (read_ipv6_addr s1) (\<lambda>(ip, r).
     (case (case read_scope_id r of None \<Rightarrow> (0, r) | Some sr \<Rightarrow> sr) of (sc, r1) \<Rightarrow>
     Option.bind (read_char CHR '']'' r1) (\<lambda>r2.
     Option.bind (read_port r2) (\<lambda>(p, r').
       Some (\<lparr>sa_ip = ip, sa_port = of_nat p, sa_scope = of_nat sc\<rparr>, r'))))))"

definition parse_socket_addr :: "string \<Rightarrow> socket_addr option" where
  "parse_socket_addr s =
     parse_with (\<lambda>t. case read_socket_addr_v4 t of
                       Some v \<Rightarrow> Some v | None \<Rightarrow> read_socket_addr_v6 t) s"

section \<open>Printing\<close>

fun zero_span :: "nat \<Rightarrow> nat \<times> nat \<Rightarrow> nat \<times> nat \<Rightarrow> u16 list \<Rightarrow> nat \<times> nat" where
  "zero_span i cur best [] = best"
| "zero_span i (cs, cl) (bs, bl) (x # xs) =
     (if x = 0 then
        (let cs' = (if cl = 0 then i else cs); cl' = Suc cl in
         zero_span (Suc i) (cs', cl') (if bl < cl' then (cs', cl') else (bs, bl)) xs)
      else zero_span (Suc i) (0, 0) (bs, bl) xs)"

definition show_hex :: "u16 \<Rightarrow> string" where
  "show_hex w = show_radix 16 (unat w)"

definition fmt_subslice :: "u16 list \<Rightarrow> string" where
  "fmt_subslice xs = join_str '':'' (map show_hex xs)"

definition show_quad :: "nat \<Rightarrow> nat \<Rightarrow> nat \<Rightarrow> nat \<Rightarrow> string" where
  "show_quad a b c d =
     show_nat a @ ''.'' @ show_nat b @ ''.'' @ show_nat c @ ''.'' @ show_nat d"

definition show_ipv6 :: "u16 list \<Rightarrow> string" where
  "show_ipv6 xs =
     (case zero_span 0 (0, 0) (0, 0) xs of (st, len) \<Rightarrow>
        if 1 < len
        then fmt_subslice (take st xs) @ ''::'' @ fmt_subslice (drop (st + len) xs)
        else fmt_subslice xs)"

fun show_ip_addr :: "ip_addr \<Rightarrow> string" where
  "show_ip_addr (V4 a b c d) = show_quad (unat a) (unat b) (unat c) (unat d)"
| "show_ip_addr (V6 a b c d e f g h) =
     (if a = 0 \<and> b = 0 \<and> c = 0 \<and> d = 0 \<and> e = 0 \<and> f = 0xffff
      then ''::ffff:'' @ show_quad (unat g div 256) (unat g mod 256)
                                   (unat h div 256) (unat h mod 256)
      else show_ipv6 [a, b, c, d, e, f, g, h])"

definition show_socket_addr :: "socket_addr \<Rightarrow> string" where
  "show_socket_addr a =
     (case sa_ip a of
        V4 _ _ _ _ \<Rightarrow> show_ip_addr (sa_ip a) @ '':'' @ show_word (sa_port a)
      | V6 _ _ _ _ _ _ _ _ \<Rightarrow>
          ''['' @ show_ip_addr (sa_ip a) @
          (if sa_scope a = 0 then [] else ''%'' @ show_word (sa_scope a)) @
          '']:'' @ show_word (sa_port a))"

section \<open>Round trip\<close>

lemma show_radix_length: "2 \<le> r \<Longrightarrow> 0 < m \<Longrightarrow> n < r ^ m \<Longrightarrow> length (show_radix r n) \<le> m"
proof (induction m arbitrary: n)
  case (Suc m)
  show ?case
  proof (cases "n < r")
    case True
    then show ?thesis using Suc by (subst show_radix.simps) simp
  next
    case False
    then have "0 < m" using Suc by (cases m) auto
    moreover have "n div r < r ^ m"
      using Suc.prems by (simp add: less_mult_imp_div_less mult.commute)
    ultimately have "length (show_radix r (n div r)) \<le> m" using Suc by simp
    then show ?thesis using False Suc.prems(1) by (subst show_radix.simps) simp
  qed
qed simp

lemma show_radix_no_leading_zero:
  "2 \<le> r \<Longrightarrow> r \<le> 36 \<Longrightarrow> 1 < length (show_radix r n) \<Longrightarrow> hd (show_radix r n) \<noteq> CHR ''0''"
proof (induction r n rule: show_radix.induct)
  case (1 r n)
  have n: "\<not> n < r" using 1(2,4) by (subst (asm) show_radix.simps) (auto split: if_splits)
  then have s: "hd (show_radix r n) = hd (show_radix r (n div r))"
    using 1(2) by (subst show_radix.simps) (simp add: hd_append)
  show ?case
  proof (cases "n div r < r")
    case True
    have "0 < n div r" using n 1(2) by (simp add: div_greater_zero_iff)
    then have "to_digit r (digit_char (n div r)) \<noteq> to_digit r (CHR ''0'')"
      using True 1(2,3) to_digit_digit_char [of "n div r" r] by (auto simp: to_digit_def)
    then show ?thesis unfolding s using True by (subst show_radix.simps) auto
  next
    case False
    have "1 < length (show_radix r (n div r))"
      using False 1(2) by (subst show_radix.simps) (simp add: Suc_lessI)
    then show ?thesis unfolding s using 1 n by simp
  qed
qed

definition stops :: "nat \<Rightarrow> string \<Rightarrow> bool" where
  "stops radix s = (s = [] \<or> \<not> is_digit_of radix (hd s))"

lemma stops_simps [simp]:
  "stops radix []" "stops radix (c # s) = (to_digit radix c = None)"
  by (simp_all add: stops_def is_digit_of_def)

lemma read_number_show:
  assumes r: "2 \<le> r" "r \<le> 36" and n: "n < bound" "0 < m" "n < r ^ m" and s: "stops r rest"
  shows "read_number r (Some m) z bound (show_radix r n @ rest) = Some (n, rest)"
proof -
  have d: "\<forall>c\<in>set (show_radix r n). is_digit_of r c"
    using show_radix_digits [OF r] by (force simp: is_digit_of_def)
  have "takeWhile (is_digit_of r) rest = [] \<and> dropWhile (is_digit_of r) rest = rest"
    using s by (cases rest) (auto simp: is_digit_of_def)
  then have "takeWhile (is_digit_of r) (show_radix r n @ rest) = show_radix r n"
    "dropWhile (is_digit_of r) (show_radix r n @ rest) = rest"
    using d by (auto simp: takeWhile_append2 dropWhile_append2)
  then show ?thesis
    using show_radix_length [of r m n] show_radix_no_leading_zero [OF r, of n]
      parse_digits_show [OF r, of n] r n
    by (auto simp: read_number_def Let_def)
qed

lemma to_digit_punct [simp]:
  "to_digit r CHR ''.'' = None" "to_digit r CHR '':'' = None" "to_digit r CHR '']'' = None"
  by (simp_all add: to_digit_def)

lemma read_number_bad: "stops r s \<Longrightarrow> read_number r m z b s = None"
  by (cases s) (auto simp: read_number_def is_digit_of_def)

lemma read_octet_show [simp]:
  "n < 256 \<Longrightarrow> stops 10 rest \<Longrightarrow> read_octet (show_nat n @ rest) = Some (n, rest)"
  unfolding read_octet_def show_nat_def by (rule read_number_show) auto

lemma read_ipv4_show [simp]:
  assumes "a < 256" "b < 256" "c < 256" "d < 256" "stops 10 rest"
  shows "read_ipv4 (show_quad a b c d @ rest) = Some ((a, b, c, d), rest)"
  using assms by (simp add: read_ipv4_def show_quad_def read_char_def)

lemma read_char_set: "read_char x s = Some r \<Longrightarrow> x \<in> set s"
  by (auto simp: read_char_def split: list.splits if_splits)

lemma read_number_set: "read_number r m z b s = Some (v, t) \<Longrightarrow> set t \<subseteq> set s"
  by (auto simp: read_number_def Let_def split: if_splits option.splits dest: set_dropWhileD)

lemma read_ipv4_no_dot: "CHR ''.'' \<notin> set s \<Longrightarrow> read_ipv4 s = None"
  by (cases "read_octet s")
    (auto simp: read_ipv4_def read_octet_def bind_eq_None_conv dest!: read_number_set read_char_set)

lemma hex_no_punct: "c \<in> {CHR ''.'', CHR '':''} \<Longrightarrow> c \<notin> set (show_hex w)"
  using show_radix_digits [of 16 c "unat w"] by (auto simp: show_hex_def)

lemma read_hex_show:
  "stops 16 rest \<Longrightarrow> read_number 16 (Some 4) True 65536 (show_hex w @ rest) = Some (unat w, rest)"
  unfolding show_hex_def using unat_bounds(2) [of w] by (intro read_number_show) auto

definition sep_hex :: "u16 list \<Rightarrow> string" where
  "sep_hex gs = concat (map (\<lambda>w. CHR '':'' # show_hex w) gs)"

lemma sep_hex_simps [simp]:
  "sep_hex [] = []" "sep_hex (g # gs) = CHR '':'' # show_hex g @ sep_hex gs"
  by (simp_all add: sep_hex_def)

lemma fmt_subslice_Cons: "fmt_subslice (g # gs) = show_hex g @ sep_hex gs"
  by (induction gs arbitrary: g) (simp_all add: fmt_subslice_def)

definition group_end :: "string \<Rightarrow> bool" where
  "group_end s = (CHR ''.'' \<notin> set s \<and> (s = [] \<or> (\<exists>r. s = CHR '':'' # CHR '':'' # r)))"

lemma sep_hex_no_dot: "CHR ''.'' \<notin> set (sep_hex gs)"
  by (induction gs) (auto simp: hex_no_punct)

lemma stops_sep_hex: "group_end rest \<Longrightarrow> stops 16 (sep_hex gs @ rest)"
  by (cases gs) (auto simp: group_end_def)

lemma read_groups_step:
  assumes "read_sep CHR '':'' i s = Some t" "read_ipv4 t = None"
    "read_number 16 (Some 4) True 65536 t = Some (g, r)" "read_groups n (Suc i) r = (gs, v4, r')"
  shows "read_groups (Suc n) i s = (g # gs, v4, r')"
  using assms by (cases "0 < n") simp_all

lemma read_groups_v4:
  assumes "read_sep CHR '':'' i s = Some t" "read_ipv4 t = Some ((a, b, c, d), r)" "0 < n"
  shows "read_groups (Suc n) i s = ([a * 256 + b, c * 256 + d], True, r)"
  using assms by simp

lemma read_groups_stop:
  assumes "\<And>t. read_sep CHR '':'' i s = Some t \<Longrightarrow>
             read_ipv4 t = None \<and> read_number 16 (Some 4) True 65536 t = None"
  shows "read_groups n i s = ([], False, s)"
  using assms by (cases n; cases "read_sep CHR '':'' i s"; cases "1 < n") simp_all

lemma read_groups_end: "group_end s \<Longrightarrow> read_groups n (Suc i) s = ([], False, s)"
  by (rule read_groups_stop)
    (auto simp: group_end_def read_sep_def read_char_def read_ipv4_no_dot read_number_bad)

lemma hex_groups_no_dot:
  "group_end rest \<Longrightarrow> read_ipv4 (show_hex g @ sep_hex gs @ rest) = None"
  using sep_hex_no_dot [of gs]
  by (intro read_ipv4_no_dot) (auto simp: group_end_def hex_no_punct)

lemma read_groups_sep:
  "length gs \<le> n \<Longrightarrow> group_end rest \<Longrightarrow>
   read_groups n (Suc i) (sep_hex gs @ rest) = (map unat gs, False, rest)"
proof (induction gs arbitrary: n i)
  case Nil
  then show ?case using read_groups_end by simp
next
  case (Cons g gs)
  obtain m where m: "n = Suc m" "length gs \<le> m" using Cons.prems(1) by (cases n) auto
  have "read_groups (Suc m) (Suc i) (sep_hex (g # gs) @ rest) = (unat g # map unat gs, False, rest)"
    using Cons m stops_sep_hex hex_groups_no_dot
    by (intro read_groups_step [where t = "show_hex g @ sep_hex gs @ rest"])
      (auto simp: read_sep_def read_char_def read_hex_show)
  then show ?case using m by simp
qed

lemma read_groups_fmt:
  assumes "length gs \<le> n" "group_end rest"
  shows "read_groups n 0 (fmt_subslice gs @ rest) = (map unat gs, False, rest)"
proof (cases gs)
  case Nil
  have "read_groups n 0 rest = ([], False, rest)"
    using assms by (intro read_groups_stop)
      (auto simp: read_sep_def group_end_def read_ipv4_no_dot intro!: read_number_bad)
  then show ?thesis using Nil by (simp add: fmt_subslice_def)
next
  case (Cons g gs')
  obtain m where m: "n = Suc m" "length gs' \<le> m" using assms(1) Cons by (cases n) auto
  have "read_groups (Suc m) 0 (fmt_subslice gs @ rest) = (unat g # map unat gs', False, rest)"
    using m Cons stops_sep_hex [OF assms(2)] read_groups_sep [OF _ assms(2)] hex_groups_no_dot [OF assms(2)]
    by (intro read_groups_step [where t = "show_hex g @ sep_hex gs' @ rest"])
      (auto simp: read_sep_def fmt_subslice_Cons read_hex_show)
  then show ?thesis using m Cons by simp
qed

definition span_ok :: "u16 list \<Rightarrow> nat \<times> nat \<Rightarrow> bool" where
  "span_ok xs p = (case p of (st, len) \<Rightarrow>
     st + len \<le> length xs \<and> (\<forall>j<len. xs ! (st + j) = 0))"

lemma zero_span_ok:
  "span_ok ys (cs, cl) \<Longrightarrow> (cl = 0 \<or> cs + cl = length ys) \<Longrightarrow> span_ok ys (bs, bl) \<Longrightarrow>
   span_ok (ys @ xs) (zero_span (length ys) (cs, cl) (bs, bl) xs)"
proof (induction xs arbitrary: ys cs cl bs bl)
  case Nil
  then show ?case by simp
next
  case (Cons x xs)
  have ext: "span_ok (ys @ [x]) (bs, bl)" using Cons.prems(3) by (auto simp: span_ok_def nth_append)
  show ?case
  proof (cases "x = 0")
    case False
    then show ?thesis using Cons.IH [of "ys @ [x]" 0 0 bs bl] ext by (simp add: span_ok_def)
  next
    case True
    define c where "c = (if cl = 0 then length ys else cs)"
    have c: "span_ok (ys @ [x]) (c, Suc cl)" "c + Suc cl = length (ys @ [x])"
      using Cons.prems(1,2) True by (auto simp: c_def span_ok_def nth_append less_Suc_eq)
    define b where "b = (if bl < Suc cl then (c, Suc cl) else (bs, bl))"
    have "span_ok (ys @ [x]) b" using c ext by (simp add: b_def)
    then show ?thesis using Cons.IH [of "ys @ [x]" c "Suc cl" "fst b" "snd b"] c True
      by (simp add: c_def [symmetric] b_def [symmetric] Let_def)
  qed
qed

lemma span_ok_split:
  assumes "span_ok xs (st, len)"
  shows "xs = take st xs @ replicate len 0 @ drop (st + len) xs"
proof -
  have "take len (drop st xs) = replicate len 0"
    using assms by (intro nth_equalityI) (auto simp: span_ok_def)
  then have "drop st xs = replicate len 0 @ drop (st + len) xs"
    by (metis append_take_drop_id drop_drop add.commute)
  then show ?thesis by (metis append_take_drop_id)
qed

lemma fmt_no_dot: "CHR ''.'' \<notin> set (fmt_subslice gs)"
  by (cases gs) (auto simp: fmt_subslice_Cons fmt_subslice_def [of "[]"] hex_no_punct sep_hex_no_dot)

lemma read_ipv6_show:
  assumes "length xs = 8" shows "read_ipv6 (show_ipv6 xs) = Some (map unat xs, [])"
proof -
  obtain st len where z: "zero_span 0 (0, 0) (0, 0) xs = (st, len)" by fastforce
  have ok: "span_ok xs (st, len)"
    using zero_span_ok [of "[]" 0 0 0 0 xs] z by (simp add: span_ok_def)
  show ?thesis
  proof (cases "1 < len")
    case False
    have "read_groups 8 0 (fmt_subslice xs) = (map unat xs, False, [])"
      using read_groups_fmt [of xs 8 "[]"] assms by (simp add: group_end_def)
    then show ?thesis using False z assms by (simp add: show_ipv6_def read_ipv6_def)
  next
    case True
    define h t where "h = take st xs" and "t = drop (st + len) xs"
    have len: "length h = st" "length t = 8 - (st + len)" "st + len \<le> 8"
      using ok assms by (auto simp: h_def t_def span_ok_def)
    have x: "xs = h @ replicate len 0 @ t" using span_ok_split [OF ok] by (simp add: h_def t_def)
    have "read_groups 8 0 (fmt_subslice h @ ''::'' @ fmt_subslice t)
          = (map unat h, False, ''::'' @ fmt_subslice t)"
      using len by (intro read_groups_fmt) (auto simp: group_end_def fmt_no_dot)
    moreover have "read_groups (8 - (st + 1)) 0 (fmt_subslice t) = (map unat t, False, [])"
      using read_groups_fmt [of t "8 - (st + 1)" "[]"] len True by (simp add: group_end_def)
    ultimately show ?thesis
      using z True len unfolding show_ipv6_def h_def [symmetric] t_def [symmetric]
      by (simp add: read_ipv6_def read_char_def h_def [symmetric] t_def [symmetric] x)
  qed
qed


lemma read_ipv4_show_ipv6: "read_ipv4 (show_ipv6 xs) = None"
  by (rule read_ipv4_no_dot) (auto simp: show_ipv6_def fmt_no_dot split: prod.splits)

lemma unat_byte_split:
  "unat (g :: u16) div 256 < 256" "of_nat (unat g div 256 * 256 + unat g mod 256) = g"
  using unat_bounds(2) [of g] by auto

lemma ipv6_of_map_unat: "ipv6_of (map unat [a, b, c, d, e, f, g, h :: u16]) = Some (V6 a b c d e f g h)"
  by simp

lemma read_ipv6_mapped:
  "read_ipv6 (''::ffff:'' @ show_quad (unat g div 256) (unat g mod 256)
                                      (unat h div 256) (unat h mod 256))
   = Some ([0, 0, 0, 0, 0, 0xffff, unat (g :: u16), unat (h :: u16)], [])"
proof -
  let ?q = "show_quad (unat g div 256) (unat g mod 256) (unat h div 256) (unat h mod 256)"
  have q: "read_ipv4 ?q = Some ((unat g div 256, unat g mod 256, unat h div 256, unat h mod 256), [])"
    using read_ipv4_show [of _ _ _ _ "[]"] unat_byte_split(1) by simp
  have c: "read_ipv4 (CHR '':'' # t) = None" for t
    by (simp add: read_ipv4_def read_octet_def read_number_bad)
  have "read_groups (Suc 5) 1 (CHR '':'' # ?q)
        = ([unat g div 256 * 256 + unat g mod 256, unat h div 256 * 256 + unat h mod 256], True, [])"
    using q by (intro read_groups_v4) (simp_all add: read_sep_def read_char_def)
  moreover have "read_ipv4 (''ffff:'' @ ?q) = None"
    by (simp add: read_ipv4_def read_octet_def read_number_bad to_digit_def)
  moreover have "read_number 16 (Some 4) True 65536 (''ffff'' @ CHR '':'' # ?q) = Some (0xffff, CHR '':'' # ?q)"
    by (simp add: read_number_def is_digit_of_def to_digit_def)
  ultimately have "read_groups (Suc 6) 0 (''ffff:'' @ ?q) = ([0xffff, unat g, unat h], True, [])"
    by (intro read_groups_step [where r = "CHR '':'' # ?q"]) (simp_all add: read_sep_def)
  moreover have "read_groups 8 0 (''::ffff:'' @ ?q) = ([], False, ''::ffff:'' @ ?q)"
    by (rule read_groups_stop) (auto simp: read_sep_def c read_number_bad)
  moreover have "replicate 5 (0 :: nat) = [0, 0, 0, 0, 0]" by (simp add: numeral_eq_Suc)
  ultimately show ?thesis by (simp add: read_ipv6_def read_char_def)
qed

lemma parse_show_ipv6_addr:
  "parse_ipv6_addr (show_ip_addr (V6 a b c d e f g h)) = Some (V6 a b c d e f g h)"
  using read_ipv6_show [of "[a, b, c, d, e, f, g, h]"] read_ipv6_mapped [of g h]
  by (simp add: parse_ipv6_addr_def parse_with_def read_ipv6_addr_def del: append.simps)

theorem parse_show_ip_addr: "parse_ip_addr (show_ip_addr ip) = Some ip"
proof (cases ip)
  case (V4 a b c d)
  then show ?thesis
    using read_ipv4_show [of "unat a" "unat b" "unat c" "unat d" "[]"]
      unat_bounds(1) [of a] unat_bounds(1) [of b] unat_bounds(1) [of c] unat_bounds(1) [of d]
    by (simp add: parse_ip_addr_def parse_with_def read_ip_addr_def ipv4_of_def)
next
  case (V6 a b c d e f g h)
  have "read_ipv4 (''::ffff:'' @ s) = None" for s
    by (simp add: read_ipv4_def read_octet_def read_number_bad)
  then show ?thesis
    using V6 read_ipv6_show [of "[a, b, c, d, e, f, g, h]"] read_ipv6_mapped [of g h]
    by (simp add: parse_ip_addr_def parse_with_def read_ip_addr_def read_ipv6_addr_def
        read_ipv4_show_ipv6 del: append.simps)
qed

lemma read_number_show_free:
  assumes r: "2 \<le> r" "r \<le> 36" and n: "n < bound" and s: "stops r rest"
  shows "read_number r None True bound (show_radix r n @ rest) = Some (n, rest)"
proof -
  have d: "\<forall>c\<in>set (show_radix r n). is_digit_of r c"
    using show_radix_digits [OF r] by (force simp: is_digit_of_def)
  have "takeWhile (is_digit_of r) rest = [] \<and> dropWhile (is_digit_of r) rest = rest"
    using s by (cases rest) (auto simp: is_digit_of_def)
  then have "takeWhile (is_digit_of r) (show_radix r n @ rest) = show_radix r n"
    "dropWhile (is_digit_of r) (show_radix r n @ rest) = rest"
    using d by (auto simp: takeWhile_append2 dropWhile_append2)
  then show ?thesis
    using parse_digits_show [OF r, of n] n by (auto simp: read_number_def Let_def)
qed

lemma read_port_show: "read_port (CHR '':'' # show_word (p :: u16)) = Some (unat p, [])"
  using read_number_show_free [of 10 "unat p" 65536 "[]"] unat_bounds(2) [of p]
  by (simp add: read_port_def read_char_def show_word_def show_nat_def)

text \<open>
  An IPv4 address followed by a port is a socket address.
\<close>

lemma parse_socket_addr_v4:
  "parse_socket_addr (show_ip_addr (V4 a b c d) @ '':'' @ show_word p) =
     Some \<lparr>sa_ip = V4 a b c d, sa_port = p, sa_scope = 0\<rparr>"
  using read_ipv4_show [of "unat a" "unat b" "unat c" "unat d" "CHR '':'' # show_word p"]
    unat_bounds(1) [of a] unat_bounds(1) [of b] unat_bounds(1) [of c] unat_bounds(1) [of d]
  by (simp add: parse_socket_addr_def parse_with_def read_socket_addr_v4_def read_port_show ipv4_of_def)

end
