(* ===== verification/Config_Data.thy ===== *)
theory Config_Data
  imports Rust_Net
begin

text \<open>
  The configuration of the proxy: the structs of \<^verbatim>\<open>config/static_config.rs\<close> and
  \<^verbatim>\<open>config/dynamic_config.rs\<close> as records (each field carries a prefix for its struct), the default
  values of their \<^verbatim>\<open>#[serde(default)]\<close> attributes, and what deserialisation makes of a table of
  the configuration file: a key that is absent takes its default. The TOML reader itself is not
  part of the sources; it delivers the \<open>raw_\<close> records, in which a key that may be absent is an
  option.
\<close>

section \<open>Structs\<close>

record site_config =
  s_host :: string
  s_upstream :: string
  s_upstream_scheme :: string
  s_upstream_connect_timeout_secs :: u64
  s_upstream_request_timeout_secs :: u64

record rate_limit_config =
  requests_per_second :: u32
  burst :: u32

record body_config =
  limit_bytes :: u64

record tls_config =
  tls_mode :: string
  acme_domains :: "string list"
  acme_cache_dir :: string
  acme_directory :: string
  acme_contact :: string
  cert_path :: string
  key_path :: string

record logging_config =
  log_level :: string
  log_format :: string
  log_file_path :: "string option"

record listener_config =
  bind_addr :: string
  http_port :: u16
  https_port :: u16
  l_tls :: tls_config
  l_sites :: "site_config list"

record static_config =
  listeners :: "listener_config list"
  allow_wildcard_bind :: bool
  health_check_port :: u16
  admin_key_path :: string
  shutdown_timeout_secs :: u64
  connection_idle_timeout_secs :: u64
  tls_handshake_timeout_secs :: u64
  max_connections :: usize
  logging :: logging_config

section \<open>Default values\<close>

definition default_health_check_port :: u16 where "default_health_check_port = 9900"

definition default_admin_key_path :: string where
  "default_admin_key_path = ''/etc/reverse-proxy/admin-key''"

definition default_shutdown_timeout_secs :: u64 where "default_shutdown_timeout_secs = 30"

definition default_connection_idle_timeout_secs :: u64 where
  "default_connection_idle_timeout_secs = 60"

definition default_tls_handshake_timeout_secs :: u64 where
  "default_tls_handshake_timeout_secs = 10"

definition default_max_connections :: usize where "default_max_connections = 1024"

definition default_http_port :: u16 where "default_http_port = 80"

definition default_https_port :: u16 where "default_https_port = 443"

definition default_acme_directory :: string where "default_acme_directory = ''production''"

definition default_log_level :: string where "default_log_level = ''info''"

definition default_log_format :: string where "default_log_format = ''text''"

definition default_logging :: logging_config where
  "default_logging =
     \<lparr>log_level = default_log_level, log_format = default_log_format, log_file_path = None\<rparr>"

definition default_upstream_scheme :: string where "default_upstream_scheme = ''http''"

definition default_connect_timeout :: u64 where "default_connect_timeout = 5"

definition default_request_timeout :: u64 where "default_request_timeout = 60"

lemmas default_defs =
  default_health_check_port_def default_admin_key_path_def default_shutdown_timeout_secs_def
  default_connection_idle_timeout_secs_def default_tls_handshake_timeout_secs_def
  default_max_connections_def default_http_port_def default_https_port_def
  default_acme_directory_def default_log_level_def default_log_format_def default_logging_def
  default_upstream_scheme_def default_connect_timeout_def default_request_timeout_def

declare default_defs [cfg_defs]

section \<open>Deserialisation\<close>

record raw_site =
  rs_host :: string
  rs_upstream :: string
  rs_upstream_scheme :: "string option"
  rs_upstream_connect_timeout_secs :: "u64 option"
  rs_upstream_request_timeout_secs :: "u64 option"

record raw_tls =
  rt_mode :: string
  rt_acme_domains :: "string list option"
  rt_acme_cache_dir :: "string option"
  rt_acme_directory :: "string option"
  rt_acme_contact :: "string option"
  rt_cert_path :: "string option"
  rt_key_path :: "string option"

record raw_listener =
  rl_bind_addr :: string
  rl_http_port :: "u16 option"
  rl_https_port :: "u16 option"
  rl_tls :: raw_tls
  rl_sites :: "raw_site list option"

record raw_logging =
  rg_level :: "string option"
  rg_format :: "string option"
  rg_log_file_path :: "string option"

definition de_site :: "raw_site \<Rightarrow> site_config" where
  "de_site r =
     \<lparr>s_host = rs_host r,
      s_upstream = rs_upstream r,
      s_upstream_scheme = unwrap_or (rs_upstream_scheme r) default_upstream_scheme,
      s_upstream_connect_timeout_secs =
        unwrap_or (rs_upstream_connect_timeout_secs r) default_connect_timeout,
      s_upstream_request_timeout_secs =
        unwrap_or (rs_upstream_request_timeout_secs r) default_request_timeout\<rparr>"

definition de_tls :: "raw_tls \<Rightarrow> tls_config" where
  "de_tls r =
     \<lparr>tls_mode = rt_mode r,
      acme_domains = unwrap_or (rt_acme_domains r) [],
      acme_cache_dir = unwrap_or (rt_acme_cache_dir r) '''',
      acme_directory = unwrap_or (rt_acme_directory r) default_acme_directory,
      acme_contact = unwrap_or (rt_acme_contact r) '''',
      cert_path = unwrap_or (rt_cert_path r) '''',
      key_path = unwrap_or (rt_key_path r) ''''\<rparr>"

definition de_listener :: "raw_listener \<Rightarrow> listener_config" where
  "de_listener r =
     \<lparr>bind_addr = rl_bind_addr r,
      http_port = unwrap_or (rl_http_port r) default_http_port,
      https_port = unwrap_or (rl_https_port r) default_https_port,
      l_tls = de_tls (rl_tls r),
      l_sites = map de_site (unwrap_or (rl_sites r) [])\<rparr>"

definition de_logging :: "raw_logging \<Rightarrow> logging_config" where
  "de_logging r =
     \<lparr>log_level = unwrap_or (rg_level r) default_log_level,
      log_format = unwrap_or (rg_format r) default_log_format,
      log_file_path = rg_log_file_path r\<rparr>"

text \<open>
  The default of the whole logging table is what an empty logging table gives.
\<close>

lemma de_logging_empty:
  "de_logging \<lparr>rg_level = None, rg_format = None, rg_log_file_path = None\<rparr> = default_logging"
  by (simp add: de_logging_def default_logging_def)

end
