(* ===== verification/Machines.thy ===== *)
theory Machines
  imports Prelude
begin

text \<open>
  Interfaces that several components share. A \<open>machine\<close> is a component that reacts to events, with
  \<^const>\<open>None\<close> for an event that cannot happen in a state; an \<open>invariant_machine\<close> comes with a property
  that its steps keep; a \<open>machine_refinement\<close> relates it to an abstract one whose events are those of
  the detailed machine or nothing. A \<open>keyed_service\<close> answers queries from a map and uses for a query
  nothing but the entry of its key. A \<open>permit_pool\<close> hands out permits. A \<open>keyed_table\<close> is built from a
  list and finds its members by their key. A \<open>guarded_update\<close> is a way to change a state
  that leaves a shared part of it alone unless the new value is good.
\<close>

section \<open>Machines\<close>

locale machine =
  fixes step :: "'e \<Rightarrow> 's \<Rightarrow> 's option"
    and run :: "'e list \<Rightarrow> 's \<Rightarrow> 's option"
  assumes run_Nil: "run [] s = Some s"
    and run_Cons: "run (e # es) s = Option.bind (step e s) (run es)"
begin

lemma run_Cons_Some_iff: "run (e # es) s = Some t \<longleftrightarrow> (\<exists>u. step e s = Some u \<and> run es u = Some t)"
  by (simp add: run_Cons bind_eq_Some_conv)

lemma run_append: "run (es @ fs) s = Option.bind (run es s) (run fs)"
proof (induction es arbitrary: s)
  case (Cons e es)
  then show ?case by (cases "step e s") (simp_all add: run_Cons)
qed (simp add: run_Nil)

lemma run_preserves:
  assumes "run es s = Some t" and "I s" and "\<And>e s t. step e s = Some t \<Longrightarrow> I s \<Longrightarrow> I t"
  shows "I t"
  using assms(1,2)
proof (induction es arbitrary: s)
  case (Cons e es)
  then show ?case using assms(3) unfolding run_Cons_Some_iff by blast
qed (simp add: run_Nil)

lemma run_related:
  assumes "run es s = Some t" and "reflp R" and "transp R"
    and "\<And>e s t. step e s = Some t \<Longrightarrow> R s t"
  shows "R s t"
  using assms(1)
proof (induction es arbitrary: s)
  case Nil
  then show ?case using reflpD [OF assms(2)] by (simp add: run_Nil)
next
  case (Cons e es)
  then show ?case using assms(4) transpD [OF assms(3)] unfolding run_Cons_Some_iff by blast
qed

end

locale invariant_machine = machine +
  fixes inv :: "'b \<Rightarrow> bool"
  assumes inv_step: "step e s = Some t \<Longrightarrow> inv s \<Longrightarrow> inv t"
begin

lemma inv_run: "run es s = Some t \<Longrightarrow> inv s \<Longrightarrow> inv t"
  using run_preserves inv_step by blast

lemma inv_always:
  "run (es @ fs) s = Some t \<Longrightarrow> inv s \<Longrightarrow> \<exists>u. run es s = Some u \<and> inv u \<and> run fs u = Some t"
  using inv_run by (auto simp: run_append bind_eq_Some_conv)

end

locale machine_refinement =
  conc: invariant_machine cstep crun inv + abst: machine astep arun
  for cstep :: "'e \<Rightarrow> 's \<Rightarrow> 's option" and crun :: "'e list \<Rightarrow> 's \<Rightarrow> 's option" and inv :: "'s \<Rightarrow> bool"
    and astep :: "'f \<Rightarrow> 'a \<Rightarrow> 'a option" and arun :: "'f list \<Rightarrow> 'a \<Rightarrow> 'a option" +
  fixes abs_state :: "'s \<Rightarrow> 'a" and abs_event :: "'e \<Rightarrow> 'f option"
  assumes step_refines: "cstep e s = Some t \<Longrightarrow> inv s \<Longrightarrow>
      (case abs_event e of None \<Rightarrow> abs_state t = abs_state s | Some f \<Rightarrow> astep f (abs_state s) = Some (abs_state t))"
begin

lemma run_refines:
  "crun es s = Some t \<Longrightarrow> inv s \<Longrightarrow> arun (List.map_filter abs_event es) (abs_state s) = Some (abs_state t)"
proof (induction es arbitrary: s)
  case (Cons e es)
  then obtain u where u: "cstep e s = Some u" "crun es u = Some t" unfolding conc.run_Cons_Some_iff by blast
  then show ?case
    using Cons.IH [OF u(2) conc.inv_step [OF u(1) Cons.prems(2)]] step_refines [OF u(1) Cons.prems(2)]
    by (auto simp: map_filter_simps abst.run_Cons split: option.splits)
qed (simp add: conc.run_Nil abst.run_Nil map_filter_simps)

end

section \<open>Services with one entry per key\<close>

locale keyed_service =
  fixes serve :: "'q \<Rightarrow> ('k \<Rightarrow> 'v) \<Rightarrow> ('k \<Rightarrow> 'v) \<times> 'r"
    and run :: "'q list \<Rightarrow> ('k \<Rightarrow> 'v) \<Rightarrow> ('k \<Rightarrow> 'v) \<times> 'r list"
    and key :: "'q \<Rightarrow> 'k"
    and serve_entry :: "'q \<Rightarrow> 'v \<Rightarrow> 'v \<times> 'r"
    and run_entry :: "'q list \<Rightarrow> 'v \<Rightarrow> 'v \<times> 'r list"
  assumes serve_local: "serve q m = (case serve_entry q (m (key q)) of (v, r) \<Rightarrow> (m(key q := v), r))"
    and run_Nil: "run [] m = (m, [])"
    and run_Cons: "run (q # qs) m = (case serve q m of (m1, r) \<Rightarrow> case run qs m1 of (m2, rs) \<Rightarrow> (m2, r # rs))"
    and run_entry_Nil: "run_entry [] v = (v, [])"
    and run_entry_Cons: "run_entry (q # qs) v =
      (case serve_entry q v of (v1, r) \<Rightarrow> case run_entry qs v1 of (v2, rs) \<Rightarrow> (v2, r # rs))"
begin

lemma run_length: "length (snd (run qs m)) = length qs"
proof (induction qs arbitrary: m)
  case (Cons q qs)
  then show ?case by (simp add: run_Cons split: prod.splits) (metis snd_conv)
qed (simp add: run_Nil)

lemma run_key:
  "run qs m = (m', rs) \<Longrightarrow>
   run_entry (filter (\<lambda>q. key q = k) qs) (m k) =
     (m' k, map snd (filter (\<lambda>(q, r). key q = k) (zip qs rs)))"
proof (induction qs arbitrary: m m' rs)
  case (Cons q qs)
  obtain v r where v: "serve_entry q (m (key q)) = (v, r)" by fastforce
  obtain m2 rs2 where r2: "run qs (m(key q := v)) = (m2, rs2)" by fastforce
  show ?case using Cons.prems Cons.IH [OF r2] v r2
    by (auto simp: run_Cons run_entry_Cons serve_local)
qed (auto simp: run_Nil run_entry_Nil)

lemma run_isolated:
  assumes "run qs m = (m', rs)"
  shows "map snd (filter (\<lambda>(q, r). key q = k) (zip qs rs)) = snd (run (filter (\<lambda>q. key q = k) qs) m)"
proof -
  let ?f = "filter (\<lambda>q. key q = k) qs"
  obtain m2 rs2 where r2: "run ?f m = (m2, rs2)" by fastforce
  then have len: "length rs2 = length ?f" using run_length [of ?f m] by simp
  have "filter (\<lambda>(q, r). key q = k) (zip ?f rs2) = zip ?f rs2"
    by (rule filter_True) (auto dest: set_zip_leftD)
  then show ?thesis using run_key [OF assms, of k] run_key [OF r2, of k] r2 len by simp
qed

lemma run_other_keys:
  assumes "run qs m = (m', rs)" and "k \<notin> key ` set qs"
  shows "m' k = m k"
proof -
  have "filter (\<lambda>q. key q = k) qs = []" using assms(2) by (auto simp: filter_empty_conv)
  then show ?thesis using run_key [OF assms(1), of k] by (simp add: run_entry_Nil)
qed

end

section \<open>Pools of permits\<close>

locale permit_pool =
  fixes free :: "'p \<Rightarrow> nat" and capacity :: "'p \<Rightarrow> nat"
    and acquire :: "'p \<Rightarrow> 'p option" and give_back :: "'p \<Rightarrow> 'p"
  assumes acquire_None_iff: "acquire p = None \<longleftrightarrow> free p = 0"
    and acquire_Some: "acquire p = Some p' \<Longrightarrow> Suc (free p') = free p \<and> capacity p' = capacity p"
    and give_back: "free (give_back p) = Suc (free p)" "capacity (give_back p) = capacity p"
begin

definition held :: "'p \<Rightarrow> nat" where
  "held p = capacity p - free p"

lemma acquire_held: "acquire p = Some p' \<Longrightarrow> free p \<le> capacity p \<Longrightarrow> held p' = Suc (held p)"
  using acquire_Some [of p p'] by (auto simp: held_def)

lemma give_back_held: "free p < capacity p \<Longrightarrow> Suc (held (give_back p)) = held p"
  by (simp add: held_def give_back)

lemma acquire_possible: "held p < capacity p \<Longrightarrow> \<exists>p'. acquire p = Some p'"
  using acquire_None_iff [of p] by (cases "acquire p") (auto simp: held_def)

end

section \<open>Tables built from a list\<close>

locale keyed_table =
  fixes build :: "'x list \<Rightarrow> 't" and find_in :: "'t \<Rightarrow> 'k \<Rightarrow> 'x option" and key_of :: "'x \<Rightarrow> 'k"
  assumes find_build: "find_in (build xs) k = find (\<lambda>x. key_of x = k) (rev xs)"
begin

lemma found_iff_key: "(\<exists>x. find_in (build xs) k = Some x) \<longleftrightarrow> k \<in> key_of ` set xs"
proof -
  have "find_in (build xs) k = None \<longleftrightarrow> k \<notin> key_of ` set xs"
    by (auto simp: find_build find_None_iff)
  then show ?thesis by (cases "find_in (build xs) k") auto
qed

lemma found_member: "find_in (build xs) k = Some x \<Longrightarrow> x \<in> set xs \<and> key_of x = k"
  by (auto simp: find_build find_Some_iff) (metis nth_mem set_rev length_rev)

lemma found_distinct:
  assumes "distinct (map key_of xs)" and "x \<in> set xs"
  shows "find_in (build xs) (key_of x) = Some x"
proof -
  obtain y where y: "find_in (build xs) (key_of x) = Some y" using found_iff_key assms(2) by blast
  then have "y \<in> set xs" "key_of y = key_of x" using found_member by blast+
  then show ?thesis using y assms by (auto simp: distinct_map inj_on_def)
qed

lemma order_irrelevant:
  assumes "distinct (map key_of xs)" and "set ys = set xs"
  shows "find_in (build ys) k = find_in (build xs) k"
proof (cases "find_in (build ys) k")
  case None
  then show ?thesis using found_iff_key assms(2) by (metis not_None_eq)
next
  case (Some y)
  then show ?thesis using found_member [OF Some] found_distinct [OF assms(1)] assms(2) by auto
qed

end

section \<open>Guarded updates\<close>

locale guarded_update =
  fixes update :: "'e \<Rightarrow> 's \<Rightarrow> 's" and part :: "'s \<Rightarrow> 'h" and good :: "'h \<Rightarrow> bool"
  assumes guarded: "part (update e s) = part s \<or> good (part (update e s))"
begin

lemma good_update: "good (part s) \<Longrightarrow> good (part (update e s))"
  using guarded [of e s] by metis

lemma good_updates: "good (part s) \<Longrightarrow> good (part (fold update es s))"
  by (induction es arbitrary: s) (simp_all add: good_update)

lemma updates_cases: "part (fold update es s) = part s \<or> good (part (fold update es s))"
proof (induction es arbitrary: s)
  case (Cons e es)
  show ?case using guarded [of e s] good_updates [of "update e s" es] Cons.IH [of "update e s"] by auto
qed simp

end

end
