(* ===== verification/Routing.thy ===== *)
theory Routing
  imports Config_Data Machines
begin

text \<open>
  Routing by host name: \<^verbatim>\<open>utils.rs\<close> (\<^verbatim>\<open>strip_port_from_host\<close>) and the routing table of
  \<^verbatim>\<open>config/dynamic_config.rs\<close> (\<^verbatim>\<open>normalize_host\<close>, \<^verbatim>\<open>build_routing_table\<close>,
  \<^verbatim>\<open>DynamicConfig::from_sites\<close>, \<^verbatim>\<open>DynamicConfig::lookup\<close>). The routing table is a hash map keyed
  by lower-case host names; collecting pairs into it keeps the last value of a repeated key.
\<close>

section \<open>Definitions\<close>

definition strip_port_from_host :: "string \<Rightarrow> string" where
  "strip_port_from_host h =
     (if starts_with h ''['' then
        (case find_char h CHR '']'' of
           Some bracket_end \<Rightarrow> take (bracket_end + 1) h
         | None \<Rightarrow> h)
      else
        (case rfind_char h CHR '':'' of
           Some colon_pos \<Rightarrow> take colon_pos h
         | None \<Rightarrow> h))"

definition normalize_host :: "string \<Rightarrow> string" where
  "normalize_host h =
     (let lower = to_lowercase (strip_port_from_host h) in
      unwrap_or (strip_suffix (unwrap_or (strip_prefix lower ''['') lower) '']'') lower)"

definition build_routing_table :: "site_config list \<Rightarrow> (string \<rightharpoonup> site_config)" where
  "build_routing_table sites =
     foldl (\<lambda>m s. m(to_lowercase (s_host s) \<mapsto> s)) Map.empty sites"

record dynamic_config =
  sites :: "site_config list"
  routing_table :: "string \<rightharpoonup> site_config"
  rate_limit :: rate_limit_config
  body :: body_config

definition from_sites ::
  "site_config list \<Rightarrow> rate_limit_config \<Rightarrow> body_config \<Rightarrow> dynamic_config" where
  "from_sites ss rl b =
     \<lparr>sites = ss, routing_table = build_routing_table ss, rate_limit = rl, body = b\<rparr>"

definition lookup :: "dynamic_config \<Rightarrow> string \<Rightarrow> site_config option" where
  "lookup dc h = routing_table dc (normalize_host h)"

definition dynamic_config_eq :: "dynamic_config \<Rightarrow> dynamic_config \<Rightarrow> bool" where
  "dynamic_config_eq a b =
     (sites a = sites b \<and> rate_limit a = rate_limit b \<and> body a = body b)"

record serializable_dynamic_config =
  sd_sites :: "site_config list"
  sd_rate_limit :: rate_limit_config
  sd_body :: body_config

definition from_serializable :: "serializable_dynamic_config \<Rightarrow> dynamic_config" where
  "from_serializable v = from_sites (sd_sites v) (sd_rate_limit v) (sd_body v)"

section \<open>Host names and the table\<close>

lemma take_to_lowercase: "to_lowercase (take n s) = take n (to_lowercase s)"
  by (simp add: to_lowercase_def take_map)

lemma find_char_to_lowercase:
  "c \<in> {CHR '':'', CHR ''['', CHR '']''} \<Longrightarrow> find_char (to_lowercase s) c = find_char s c"
  by (induction s) (auto simp: to_lowercase_def ascii_lower_eq_nonletter)

lemma rfind_char_to_lowercase:
  "c \<in> {CHR '':'', CHR ''['', CHR '']''} \<Longrightarrow> rfind_char (to_lowercase s) c = rfind_char s c"
  using find_char_to_lowercase [of c "rev s"] by (simp add: rfind_char_def to_lowercase_def rev_map)

lemma starts_with_to_lowercase_bracket: "starts_with (to_lowercase s) ''['' = starts_with s ''[''"
  by (cases s) (auto simp: to_lowercase_def)

lemma strip_port_to_lowercase:
  "strip_port_from_host (to_lowercase h) = to_lowercase (strip_port_from_host h)"
  by (cases "find_char h CHR '']''"; cases "rfind_char h CHR '':''")
    (simp_all add: strip_port_from_host_def starts_with_to_lowercase_bracket
      find_char_to_lowercase rfind_char_to_lowercase take_to_lowercase
      del: find_char_None_iff rfind_char_None_iff)

lemma normalize_host_lowercase: "normalize_host (to_lowercase h) = normalize_host h"
  by (simp add: normalize_host_def strip_port_to_lowercase)

lemma normalize_host_cong:
  "to_lowercase h = to_lowercase h' \<Longrightarrow> normalize_host h = normalize_host h'"
  by (metis normalize_host_lowercase)

abbreviation plain_name :: "string \<Rightarrow> bool" where
  "plain_name h \<equiv> CHR '':'' \<notin> set h \<and> CHR ''['' \<notin> set h \<and> CHR '']'' \<notin> set h"

lemma plain_name_brackets:
  assumes "plain_name h"
  shows "\<not> starts_with h ''[''" "\<not> ends_with h '']''"
  using assms by (metis starts_with_single hd_in_set, metis ends_with_single last_in_set)

lemma unbracket_plain:
  assumes "plain_name h"
  shows "unwrap_or (strip_suffix (unwrap_or (strip_prefix h ''['') h) '']'') h = h"
  using plain_name_brackets [OF assms] by (simp add: strip_prefix_def strip_suffix_def)

lemma normalize_host_plain: "plain_name h \<Longrightarrow> normalize_host h = to_lowercase h"
  using plain_name_brackets [of h] unbracket_plain [of "to_lowercase h"]
  by (simp add: normalize_host_def strip_port_from_host_def Let_def rfind_char_None_iff [THEN iffD2])

lemma strip_port_port:
  assumes "h \<noteq> []" "hd h \<noteq> CHR ''[''" "CHR '':'' \<notin> set p"
  shows "strip_port_from_host (h @ '':'' @ p) = h"
  using assms rfind_char_append [of "CHR '':''" p h]
  by (simp add: strip_port_from_host_def starts_with_single)

lemma normalize_host_port:
  assumes "plain_name h" "CHR '':'' \<notin> set p"
  shows "normalize_host (h @ '':'' @ p) = to_lowercase h"
proof (cases "h = []")
  case True
  then show ?thesis using rfind_char_append [of "CHR '':''" p "[]"] assms
    by (simp add: normalize_host_def strip_port_from_host_def Let_def to_lowercase_def
        strip_prefix_def strip_suffix_def ends_with_def)
next
  case False
  then have "hd h \<noteq> CHR ''[''" using assms by (auto dest: hd_in_set)
  then show ?thesis
    using strip_port_port [OF False _ assms(2)] unbracket_plain [of "to_lowercase h"] assms
    by (simp add: normalize_host_def Let_def)
qed

lemma normalize_host_bracketed:
  assumes "CHR '']'' \<notin> set a"
  shows "normalize_host (''['' @ a @ '']'' @ rest) = to_lowercase a"
proof -
  have "find_char (''['' @ a @ '']'' @ rest) CHR '']'' = Some (length (''['' @ a))"
    using find_char_append [of "CHR '']''" "''['' @ a" rest] assms by simp
  then have "strip_port_from_host (''['' @ a @ '']'' @ rest) = ''['' @ a @ '']''"
    by (simp add: strip_port_from_host_def)
  moreover have "to_lowercase (''['' @ a @ '']'') = ''['' @ to_lowercase a @ '']''"
    by (simp add: to_lowercase_append to_lowercase_def ascii_lower_def char_class_defs)
  ultimately show ?thesis
    by (simp add: normalize_host_def strip_prefix_def strip_suffix_def ends_with_single)
qed

lemma foldl_upd_find:
  "foldl (\<lambda>m s. m(k s \<mapsto> s)) m ss x =
     (case find (\<lambda>s. k s = x) (rev ss) of None \<Rightarrow> m x | Some s \<Rightarrow> Some s)"
proof (induction ss arbitrary: m)
  case (Cons a ss)
  have "find P (xs @ [y]) = (case find P xs of None \<Rightarrow> if P y then Some y else None | Some z \<Rightarrow> Some z)"
    for P xs and y :: 'a
    by (induction xs) auto
  then show ?case using Cons.IH by (auto split: option.splits)
qed simp

lemma build_routing_table_find:
  "build_routing_table ss k = find (\<lambda>s. to_lowercase (s_host s) = k) (rev ss)"
  using foldl_upd_find [of "\<lambda>s. to_lowercase (s_host s)" Map.empty ss k]
  by (simp add: build_routing_table_def split: option.splits)

interpretation table: keyed_table build_routing_table "\<lambda>t k. t k" "\<lambda>s. to_lowercase (s_host s)"
  by unfold_locales (rule build_routing_table_find)

lemma lookup_from_sites:
  "lookup (from_sites ss rl b) h = find (\<lambda>s. to_lowercase (s_host s) = normalize_host h) (rev ss)"
  by (simp add: lookup_def from_sites_def build_routing_table_find)

lemma lookup_distinct:
  assumes "distinct (map (\<lambda>s. to_lowercase (s_host s)) ss)" "s \<in> set ss"
    "normalize_host h = to_lowercase (s_host s)"
  shows "lookup (from_sites ss rl b) h = Some s"
  using table.found_distinct [OF assms(1,2)] assms(3) by (simp add: lookup_def from_sites_def)

text \<open>
  The host of a request is matched without regard to the case of its ASCII letters: the
  routing decision for any host string is the one for its lower-case form.
\<close>

theorem lookup_case_insensitive:
  "lookup dc (to_lowercase h) = lookup dc h"
  by (simp add: lookup_def normalize_host_lowercase)

text \<open>
  The routing table agrees with a scan of the configured sites, for every host string: the
  lookup returns the last site, in configuration order, whose lower-case host name is the
  normalised host, and nothing when no site has that name.
\<close>

theorem lookup_is_last_match:
  "lookup (from_sites ss rl b) h =
     (case rev (filter (\<lambda>s. to_lowercase (s_host s) = normalize_host h) ss) of
        [] \<Rightarrow> None
      | s # _ \<Rightarrow> Some s)"
proof -
  have "find P xs = (case filter P xs of [] \<Rightarrow> None | m # ms \<Rightarrow> Some m)"
    for P and xs :: "site_config list"
    by (induction xs) auto
  then show ?thesis by (simp add: lookup_from_sites rev_filter)
qed

text \<open>
  The three ways in which a client writes a host are resolved as intended: a name is looked up
  in lower case, a port after the name is dropped, and an IPv6 literal loses its brackets together
  with whatever follows them.
\<close>

theorem normalize_host_forms:
  assumes "plain_name h" "CHR '':'' \<notin> set p" "CHR '']'' \<notin> set a"
  shows "normalize_host h = to_lowercase h \<and>
         normalize_host (h @ '':'' @ p) = to_lowercase h \<and>
         normalize_host (''['' @ a @ '']'' @ rest) = to_lowercase a"
  using normalize_host_plain normalize_host_port normalize_host_bracketed assms by blast

theorem normalize_host_forms_witness:
  "normalize_host ''API.Example.com'' = to_lowercase ''API.Example.com'' \<and>
   normalize_host ''API.Example.com:8443'' = to_lowercase ''API.Example.com'' \<and>
   normalize_host ''[2001:DB8::1]:443'' = to_lowercase ''2001:DB8::1''"
  using normalize_host_forms [of "''API.Example.com''" "''8443''" "''2001:DB8::1''" "'':443''"]
  by simp

end
