(* ===== verification/Validation.thy ===== *)
theory Validation
  imports Routing
begin

text \<open>
  The validation of a configuration, \<^verbatim>\<open>config/validation.rs\<close>: the error type with its messages,
  \<^verbatim>\<open>is_valid_hostname\<close>, \<^verbatim>\<open>is_valid_upstream\<close> and \<^verbatim>\<open>validate\<close>, which walks the listeners and
  their sites, keeps the keys it has seen in hash sets and collects every error. The loop bodies
  of \<^verbatim>\<open>validate\<close> are definitions of their own. \<^verbatim>\<open>Path::exists\<close> is the argument \<open>exists\<close>. The lemmas
  compare the checks with declarative descriptions of what they accept.
\<close>

section \<open>Errors\<close>

datatype validation_error =
    NoListeners
  | WildcardBindNotAllowed string
  | DuplicateHttpsBind string u16
  | AcmeDomainsEmpty string
  | ManualCertMissing string
  | CertPathNotReadable string string string
  | KeyPathNotReadable string string string
  | SiteHostEmpty string
  | SiteUpstreamEmpty string
  | DuplicateSiteHost string
  | RequestsPerSecondZero u32
  | BodyLimitBytesZero u64
  | DuplicateHttpBind string u16
  | HttpsAndHttpPortSame string u16 u16
  | HttpsPortInvalid string u16
  | HttpPortInvalid string u16
  | HealthCheckPortConflict u16 string u16
  | SiteHostContainsPort string
  | SiteHostInvalid string
  | UpstreamInvalid string string
  | UpstreamSchemeInvalid string string
  | AcmeContactInvalid string
  | AdminKeyPathNotAbsolute string
  | AdminKeyPathTraversal string
  | ConnectionIdleTimeoutZero u64
  | TlsHandshakeTimeoutZero u64
  | MaxConnectionsZero usize
  | MaxConnectionsExceedsNofile usize u64 u64

fun show_validation_error :: "validation_error \<Rightarrow> string" where
  "show_validation_error NoListeners = ''at least one listener must be defined''"
| "show_validation_error (WildcardBindNotAllowed a) =
     ''listener '' @ a @ '': bind_addr is 0.0.0.0 but allow_wildcard_bind is not enabled (config or CLI flag required)''"
| "show_validation_error (DuplicateHttpsBind a p) =
     ''duplicate bind_addr:https_port combination: '' @ a @ '':'' @ show_word p"
| "show_validation_error (AcmeDomainsEmpty a) =
     ''listener '' @ a @ '': ACME mode requires acme_domains to be non-empty''"
| "show_validation_error (ManualCertMissing a) =
     ''listener '' @ a @ '': manual mode requires both cert_path and key_path''"
| "show_validation_error (CertPathNotReadable a p r) =
     ''listener '' @ a @ '': cert_path '' @ [CHR 0x27] @ p @ [CHR 0x27] @ '' is not readable: '' @ r"
| "show_validation_error (KeyPathNotReadable a p r) =
     ''listener '' @ a @ '': key_path '' @ [CHR 0x27] @ p @ [CHR 0x27] @ '' is not readable: '' @ r"
| "show_validation_error (SiteHostEmpty h) =
     ''site '' @ [CHR 0x27] @ h @ [CHR 0x27] @ '': host must be set''"
| "show_validation_error (SiteUpstreamEmpty h) =
     ''site '' @ [CHR 0x27] @ h @ [CHR 0x27] @ '': upstream must be set''"
| "show_validation_error (DuplicateSiteHost h) =
     ''duplicate site host '' @ [CHR 0x27] @ h @ [CHR 0x27] @ '' across listeners''"
| "show_validation_error (RequestsPerSecondZero v) =
     ''rate_limit.requests_per_second must be > 0, got '' @ show_word v"
| "show_validation_error (BodyLimitBytesZero v) =
     ''body.limit_bytes must be > 0, got '' @ show_word v"
| "show_validation_error (DuplicateHttpBind a p) =
     ''duplicate bind_addr:http_port combination: '' @ a @ '':'' @ show_word p"
| "show_validation_error (HttpsAndHttpPortSame a hp sp) =
     ''listener '' @ a @ '': http_port ('' @ show_word hp @ '') and https_port ('' @ show_word sp
       @ '') must differ''"
| "show_validation_error (HttpsPortInvalid a p) =
     ''listener '' @ a @ '': https_port must be 1-65535, got '' @ show_word p"
| "show_validation_error (HttpPortInvalid a p) =
     ''listener '' @ a @ '': http_port must be 0 (disabled) or 1-65535, got '' @ show_word p"
| "show_validation_error (HealthCheckPortConflict hc a p) =
     ''health_check_port '' @ show_word hc @ '' conflicts with listener '' @ a @ '':'' @ show_word p"
| "show_validation_error (SiteHostContainsPort h) =
     ''site '' @ [CHR 0x27] @ h @ [CHR 0x27] @ '': host must not include a port number''"
| "show_validation_error (SiteHostInvalid h) =
     ''site '' @ [CHR 0x27] @ h @ [CHR 0x27]
       @ '': invalid hostname (must be a valid DNS name, not an IP address)''"
| "show_validation_error (UpstreamInvalid h u) =
     ''site '' @ [CHR 0x27] @ h @ [CHR 0x27]
       @ '': upstream must be in host:port format with port 1-65535, got ''
       @ [CHR 0x27] @ u @ [CHR 0x27]"
| "show_validation_error (UpstreamSchemeInvalid h s) =
     ''site '' @ [CHR 0x27] @ h @ [CHR 0x27] @ '': upstream_scheme must be '' @ [CHR 0x27]
       @ ''http'' @ [CHR 0x27] @ '' or '' @ [CHR 0x27] @ ''https'' @ [CHR 0x27] @ '', got ''
       @ [CHR 0x27] @ s @ [CHR 0x27]"
| "show_validation_error (AcmeContactInvalid a) =
     ''listener '' @ a @ '': ACME mode requires acme_contact to be a valid mailto: URI (e.g., ''
       @ [CHR 0x22] @ ''mailto:admin@example.com'' @ [CHR 0x22] @ '')''"
| "show_validation_error (AdminKeyPathNotAbsolute p) =
     ''admin_key_path must be an absolute path or empty, got '' @ [CHR 0x27] @ p @ [CHR 0x27]"
| "show_validation_error (AdminKeyPathTraversal p) =
     ''admin_key_path must not contain '' @ [CHR 0x27] @ ''..'' @ [CHR 0x27]
       @ '' path traversal: '' @ [CHR 0x27] @ p @ [CHR 0x27]"
| "show_validation_error (ConnectionIdleTimeoutZero v) =
     ''connection_idle_timeout_secs must be > 0, got '' @ show_word v"
| "show_validation_error (TlsHandshakeTimeoutZero v) =
     ''tls_handshake_timeout_secs must be > 0, got '' @ show_word v"
| "show_validation_error (MaxConnectionsZero v) = ''max_connections must be > 0, got '' @ show_word v"
| "show_validation_error (MaxConnectionsExceedsNofile m s r) =
     ''max_connections ('' @ show_word m @ '') + reserved FDs ('' @ show_word r
       @ '') exceeds soft RLIMIT_NOFILE ('' @ show_word s
       @ ''); raise nofile (docker-compose ulimits / systemd LimitNOFILE, e.g. 8192) or lower max_connections''"

declare show_validation_error.simps [simp del]

section \<open>Names\<close>

definition hostname_char :: "char \<Rightarrow> bool" where
  "hostname_char c = (is_ascii_alphanumeric c \<or> c = CHR ''-'')"

definition is_valid_hostname :: "string \<Rightarrow> bool" where
  "is_valid_hostname h =
     (if h = [] then False
      else if contains_char h CHR '':'' then False
      else if parse_ip_addr h \<noteq> None then False
      else if starts_with h ''-'' \<or> ends_with h ''-'' then False
      else if contains_char h CHR ''.'' then
        list_all (\<lambda>label.
          \<not> (label = []) \<and>
          \<not> (starts_with label ''-'' \<or> ends_with label ''-'') \<and>
          list_all hostname_char label) (split_on CHR ''.'' h)
      else list_all hostname_char h)"

definition is_valid_upstream :: "string \<Rightarrow> bool" where
  "is_valid_upstream upstream =
     (case rfind_char upstream CHR '':'' of
        None \<Rightarrow> False
      | Some idx \<Rightarrow>
          (let host_part = take idx upstream; port_str = drop (idx + 1) upstream in
           if host_part = [] then False
           else if starts_with upstream ''http://'' \<or> starts_with upstream ''https://'' then False
           else (case parse_u16 port_str of
                   None \<Rightarrow> False
                 | Some port \<Rightarrow>
                     if port = 0 then False
                     else if starts_with host_part ''['' \<and> ends_with host_part '']''
                     then parse_ipv6_addr (drop 1 (take (length host_part - 1) host_part)) \<noteq> None
                     else parse_ip_addr host_part \<noteq> None \<or> is_valid_hostname host_part)))"

section \<open>Validation\<close>

definition acme_errors :: "listener_config \<Rightarrow> validation_error list" where
  "acme_errors l =
     (if acme_domains (l_tls l) = [] then [AcmeDomainsEmpty (bind_addr l)] else []) @
     (let contact = acme_contact (l_tls l) in
      if contact = [] \<or> \<not> starts_with contact ''mailto:''
      then [AcmeContactInvalid (bind_addr l)]
      else (let email = drop 7 contact in
            if email = [] \<or> \<not> contains_char email CHR ''@''
            then [AcmeContactInvalid (bind_addr l)] else []))"

definition manual_errors :: "(string \<Rightarrow> bool) \<Rightarrow> listener_config \<Rightarrow> validation_error list" where
  "manual_errors exists l =
     (if cert_path (l_tls l) = [] \<or> key_path (l_tls l) = []
      then [ManualCertMissing (bind_addr l)]
      else
        (if \<not> exists (cert_path (l_tls l))
         then [CertPathNotReadable (bind_addr l) (cert_path (l_tls l)) ''file does not exist'']
         else []) @
        (if \<not> exists (key_path (l_tls l))
         then [KeyPathNotReadable (bind_addr l) (key_path (l_tls l)) ''file does not exist'']
         else []))"

type_synonym bind_key = "string \<times> u16"

definition validate_listener ::
  "(string \<Rightarrow> bool) \<Rightarrow> bool \<Rightarrow> bind_key set \<times> bind_key set \<times> validation_error list \<Rightarrow>
   listener_config \<Rightarrow> bind_key set \<times> bind_key set \<times> validation_error list" where
  "validate_listener exists allow_wildcard st l =
     (case st of (https_bind_keys, http_bind_keys, errors) \<Rightarrow>
        let https_key = (bind_addr l, https_port l);
            http_key = (bind_addr l, http_port l)
        in (insert https_key https_bind_keys,
            if http_port l > 0 then insert http_key http_bind_keys else http_bind_keys,
            errors
            @ (if bind_addr l = ''0.0.0.0'' \<and> \<not> allow_wildcard
               then [WildcardBindNotAllowed (bind_addr l)] else [])
            @ (if https_key \<in> https_bind_keys
               then [DuplicateHttpsBind (bind_addr l) (https_port l)] else [])
            @ (if http_port l > 0 \<and> http_key \<in> http_bind_keys
               then [DuplicateHttpBind (bind_addr l) (http_port l)] else [])
            @ (if https_port l = 0
               then [HttpsPortInvalid (bind_addr l) (https_port l)] else [])
            @ (if http_port l > 0 \<and> http_port l = https_port l
               then [HttpsAndHttpPortSame (bind_addr l) (http_port l) (https_port l)] else [])
            @ (if tls_mode (l_tls l) = ''acme'' then acme_errors l
               else if tls_mode (l_tls l) = ''manual'' then manual_errors exists l
               else [])))"

definition health_port_errors :: "u16 \<Rightarrow> listener_config \<Rightarrow> validation_error list" where
  "health_port_errors hp l =
     (if hp = https_port l then [HealthCheckPortConflict hp (bind_addr l) (https_port l)] else []) @
     (if http_port l > 0 \<and> hp = http_port l
      then [HealthCheckPortConflict hp (bind_addr l) (http_port l)] else [])"

definition validate_site ::
  "string set \<times> validation_error list \<Rightarrow> site_config \<Rightarrow> string set \<times> validation_error list" where
  "validate_site st s =
     (case st of (site_hosts, errors) \<Rightarrow>
        let normalized_host = to_lowercase (s_host s) in
        (insert normalized_host site_hosts,
         errors
         @ (if s_host s = [] then [SiteHostEmpty []] else [])
         @ (if s_upstream s = [] then [SiteUpstreamEmpty (s_host s)] else [])
         @ (if normalized_host \<in> site_hosts then [DuplicateSiteHost normalized_host] else [])
         @ (if contains_char (s_host s) CHR '':'' then [SiteHostContainsPort (s_host s)] else [])
         @ (if \<not> is_valid_hostname (s_host s) then [SiteHostInvalid (s_host s)] else [])
         @ (if s_upstream s \<noteq> [] \<and> \<not> is_valid_upstream (s_upstream s)
            then [UpstreamInvalid (s_host s) (s_upstream s)] else [])
         @ (if s_upstream_scheme s \<noteq> ''http'' \<and> s_upstream_scheme s \<noteq> ''https''
            then [UpstreamSchemeInvalid (s_host s) (s_upstream_scheme s)] else [])))"

definition admin_key_path_errors :: "string \<Rightarrow> validation_error list" where
  "admin_key_path_errors path =
     (if path \<noteq> [] then
        if \<not> starts_with path ''/'' then [AdminKeyPathNotAbsolute path]
        else if contains_str path ''..'' then [AdminKeyPathTraversal path] else []
      else [])"

definition scalar_errors :: "static_config \<Rightarrow> dynamic_config \<Rightarrow> validation_error list" where
  "scalar_errors sc dc =
     (if requests_per_second (rate_limit dc) = 0 then [RequestsPerSecondZero 0] else []) @
     (if limit_bytes (body dc) = 0 then [BodyLimitBytesZero 0] else []) @
     admin_key_path_errors (admin_key_path sc) @
     (if connection_idle_timeout_secs sc = 0
      then [ConnectionIdleTimeoutZero (connection_idle_timeout_secs sc)] else []) @
     (if tls_handshake_timeout_secs sc = 0
      then [TlsHandshakeTimeoutZero (tls_handshake_timeout_secs sc)] else []) @
     (if max_connections sc = 0 then [MaxConnectionsZero (max_connections sc)] else [])"

definition validate ::
  "(string \<Rightarrow> bool) \<Rightarrow> static_config \<Rightarrow> dynamic_config \<Rightarrow> bool \<Rightarrow> validation_error list + unit" where
  "validate exists sc dc cli_allow_wildcard_bind =
     (let allow_wildcard = (allow_wildcard_bind sc \<or> cli_allow_wildcard_bind);
          errors0 = (if listeners sc = [] then [NoListeners] else []);
          (_, _, errors1) =
            foldl (validate_listener exists allow_wildcard) ({}, {}, errors0) (listeners sc);
          errors2 = errors1 @
            (if health_check_port sc > 0
             then concat (map (health_port_errors (health_check_port sc)) (listeners sc)) else []);
          (_, errors3) =
            foldl (\<lambda>st l. foldl validate_site st (l_sites l)) ({}, errors2) (listeners sc);
          errors = errors3 @ scalar_errors sc dc
      in if errors = [] then Ok () else Err errors)"

section \<open>What validation accepts\<close>

subsection \<open>Host names\<close>

definition label_ok :: "string \<Rightarrow> bool" where
  "label_ok l = (l \<noteq> [] \<and> hd l \<noteq> CHR ''-'' \<and> last l \<noteq> CHR ''-'' \<and> list_all hostname_char l)"

definition hostname_spec :: "string \<Rightarrow> bool" where
  "hostname_spec h = (list_all label_ok (split_on CHR ''.'' h) \<and> parse_ip_addr h = None)"

lemma hostname_char_punct [simp]:
  "\<not> hostname_char CHR '':''" "\<not> hostname_char CHR ''.''" "\<not> hostname_char CHR ''[''"
  "\<not> hostname_char CHR '']''" "\<not> hostname_char CHR ''/''"
  by (simp_all add: hostname_char_def char_class_defs)

lemma split_on_append_last:
  "x \<noteq> c \<Longrightarrow> split_on x (s @ [c]) = butlast (split_on x s) @ [last (split_on x s) @ [c]]"
proof (induction s)
  case (Cons a s)
  obtain p ps where ps: "split_on x s = p # ps" by (cases "split_on x s") auto
  show ?case
  proof (cases "a = x")
    case True
    then show ?thesis using Cons by simp
  next
    case False
    then show ?thesis using Cons ps by (cases ps) auto
  qed
qed simp

lemma hd_split_on: "s \<noteq> [] \<Longrightarrow> hd s \<noteq> x \<Longrightarrow> hd (split_on x s) \<noteq> [] \<and> hd (hd (split_on x s)) = hd s"
proof (cases s)
  case (Cons c cs)
  assume "hd s \<noteq> x"
  then show ?thesis using Cons by (cases "split_on x cs") auto
qed simp

lemma last_split_on: "s \<noteq> [] \<Longrightarrow> last s \<noteq> x \<Longrightarrow> last (split_on x s) \<noteq> [] \<and> last (last (split_on x s)) = last s"
  by (cases s rule: rev_cases) (auto simp: split_on_append_last)

lemma labels_chars:
  assumes "list_all label_ok (split_on CHR ''.'' h)" "c \<in> set h"
  shows "hostname_char c \<or> c = CHR ''.''"
proof (rule disjCI)
  assume "c \<noteq> CHR ''.''"
  then have "c \<in> (\<Union>p\<in>set (split_on CHR ''.'' h). set p)"
    using assms(2) unfolding set_split_on by simp
  then show "hostname_char c" using assms(1) by (auto simp: list_all_iff label_ok_def)
qed

lemma hyphen_edges:
  assumes "list_all label_ok (split_on CHR ''.'' h)" "h \<noteq> []"
  shows "hd h \<noteq> CHR ''-''" "last h \<noteq> CHR ''-''"
proof -
  have "label_ok (hd (split_on CHR ''.'' h))" "label_ok (last (split_on CHR ''.'' h))"
    using assms(1) by (auto simp: list_all_iff)
  then show "hd h \<noteq> CHR ''-''" "last h \<noteq> CHR ''-''"
    using hd_split_on [OF assms(2), of "CHR ''.''"] last_split_on [OF assms(2), of "CHR ''.''"]
    by (auto simp: label_ok_def)
qed

lemma label_check:
  "(\<lambda>l. \<not> (l = []) \<and> \<not> (starts_with l ''-'' \<or> ends_with l ''-'') \<and> list_all hostname_char l) = label_ok"
  by (auto simp: label_ok_def starts_with_single ends_with_single fun_eq_iff)

lemma is_valid_hostname_eq_spec: "is_valid_hostname h = hostname_spec h"
proof (cases "h = []")
  case True
  then show ?thesis by (simp add: is_valid_hostname_def hostname_spec_def label_ok_def)
next
  case ne: False
  have colon: "CHR '':'' \<notin> set h" if "list_all label_ok (split_on CHR ''.'' h)"
    using labels_chars [OF that, of "CHR '':''"] by auto
  show ?thesis
  proof (cases "CHR ''.'' \<in> set h")
    case True
    then show ?thesis using ne colon hyphen_edges [OF _ ne]
      unfolding is_valid_hostname_def hostname_spec_def label_check
      by (auto simp: contains_char_def starts_with_single ends_with_single)
  next
    case False
    then have "split_on CHR ''.'' h = [h]" by (rule split_on_no_sep)
    moreover have "list_all hostname_char h \<Longrightarrow> CHR '':'' \<notin> set h" by (auto simp: list_all_iff)
    ultimately show ?thesis using ne False
      by (auto simp: is_valid_hostname_def hostname_spec_def label_ok_def contains_char_def
          starts_with_single ends_with_single)
  qed
qed

lemma valid_hostname_chars:
  "is_valid_hostname h \<Longrightarrow> c \<in> set h \<Longrightarrow> hostname_char c \<or> c = CHR ''.''"
  by (auto simp: is_valid_hostname_eq_spec hostname_spec_def dest: labels_chars)

lemma valid_hostname_plain: "is_valid_hostname h \<Longrightarrow> plain_name h"
  using valid_hostname_chars [of h "CHR '':''"] valid_hostname_chars [of h "CHR ''[''"]
    valid_hostname_chars [of h "CHR '']''"] by auto

lemma valid_hostname_nonempty: "is_valid_hostname h \<Longrightarrow> h \<noteq> []"
  by (auto simp: is_valid_hostname_def)

subsection \<open>Upstream addresses\<close>

lemma parse_digits_chars: "parse_digits r a s = Some n \<Longrightarrow> c \<in> set s \<Longrightarrow> to_digit r c \<noteq> None"
  by (induction r a s rule: parse_digits.induct) (auto split: option.splits)

lemma parse_u16_chars:
  assumes "parse_u16 s = Some w" "c \<in> set s"
  shows "is_ascii_digit c \<or> c = CHR ''+''"
proof -
  define ds where "ds = (if hd s = CHR ''+'' then tl s else s)"
  have "s \<noteq> []" "\<exists>n. parse_digits 10 0 ds = Some n"
    using assms(1) by (auto simp: parse_u16_def from_str_uint_def ds_def Let_def
        split: list.splits if_splits option.splits simp del: parse_digits.simps)
  then obtain n where ds: "parse_digits 10 0 ds = Some n" by blast
  have "set s \<subseteq> insert CHR ''+'' (set ds)" using \<open>s \<noteq> []\<close> by (cases s) (auto simp: ds_def)
  then have "c = CHR ''+'' \<or> to_digit 10 c \<noteq> None"
    using assms(2) parse_digits_chars [OF ds(1), of c] by blast
  then show ?thesis by (auto simp: to_digit_def is_ascii_digit_def Let_def split: if_splits)
qed

lemma parse_ip_addr_bad:
  assumes "stops 16 s" "s = [] \<or> hd s \<noteq> CHR '':''"
  shows "parse_ip_addr s = None"
proof -
  have "stops 10 s"
    using assms(1) by (cases s) (auto simp: to_digit_def Let_def split: if_splits)
  then have v4: "read_ipv4 s = None"
    by (simp add: read_ipv4_def read_octet_def read_number_bad)
  then have "read_groups 8 0 s = ([], False, s)"
    using read_number_bad [OF assms(1)] by (intro read_groups_stop) (auto simp: read_sep_def)
  then show ?thesis using v4 assms(2)
    by (cases s) (simp_all add: parse_ip_addr_def parse_with_def read_ip_addr_def read_ipv6_addr_def
        read_ipv6_def read_char_def)
qed

definition upstream_host :: "string \<Rightarrow> bool" where
  "upstream_host h =
     (parse_ip_addr h \<noteq> None \<or> hostname_spec h \<or>
      (\<exists>a. h = ''['' @ a @ '']'' \<and> parse_ipv6_addr a \<noteq> None))"

definition upstream_spec :: "string \<Rightarrow> bool" where
  "upstream_spec u =
     (\<exists>h p port. u = h @ '':'' @ p \<and> upstream_host h \<and> parse_u16 p = Some port \<and> port \<noteq> 0)"

lemma upstream_host_nonempty: "upstream_host h \<Longrightarrow> h \<noteq> []"
  using parse_ip_addr_bad [of "[]"] by (auto simp: upstream_host_def hostname_spec_def label_ok_def)

lemma bracketed_iff:
  "starts_with h ''['' \<and> ends_with h '']'' \<longleftrightarrow> (\<exists>a. h = ''['' @ a @ '']'')"
proof
  assume *: "starts_with h ''['' \<and> ends_with h '']''"
  then obtain r where r: "h = CHR ''['' # r" by (auto simp: starts_with_iff)
  moreover have "last h = CHR '']''" using * by (simp add: ends_with_single)
  ultimately obtain a where "r = a @ '']''" by (cases r rule: rev_cases) auto
  then show "\<exists>a. h = ''['' @ a @ '']''" using r by auto
qed (auto simp: starts_with_single ends_with_single)

lemma not_url_prefix:
  assumes h: "upstream_host h" and p: "parse_u16 p = Some port" and s: "starts_with s ''http''"
    and u: "u = h @ '':'' @ p" "u = s" and sl: "CHR ''/'' \<in> set s"
  shows False
proof -
  obtain c cs where c: "h = c # cs" using upstream_host_nonempty [OF h] by (cases h) auto
  then have "c = CHR ''h''" using u s by (auto simp: starts_with_iff)
  then have "parse_ip_addr h = None"
    using c parse_ip_addr_bad [of h] by (simp add: to_digit_def)
  then have "is_valid_hostname h"
    using h c \<open>c = CHR ''h''\<close> by (auto simp: upstream_host_def is_valid_hostname_eq_spec)
  then have "CHR ''/'' \<notin> set h" using valid_hostname_chars [of h "CHR ''/''"] by auto
  moreover have "CHR ''/'' \<notin> set p"
    using parse_u16_chars [OF p, of "CHR ''/''"] by (auto simp: is_ascii_digit_def)
  ultimately show False using u sl by auto
qed

lemma is_valid_upstream_eq_spec: "is_valid_upstream u = upstream_spec u"
proof
  assume v: "is_valid_upstream u"
  then obtain i where i: "rfind_char u CHR '':'' = Some i"
    by (auto simp: is_valid_upstream_def split: option.splits)
  then obtain h p where u: "u = h @ '':'' @ p" "length h = i" using rfind_char_SomeD by fastforce
  then have "upstream_host h \<and> (\<exists>port. parse_u16 p = Some port \<and> port \<noteq> 0)" using v i
    by (auto simp: is_valid_upstream_def upstream_host_def Let_def
        is_valid_hostname_eq_spec bracketed_iff split: option.splits if_splits)
  then show "upstream_spec u" using u unfolding upstream_spec_def by blast
next
  assume "upstream_spec u"
  then obtain h p port where u: "u = h @ '':'' @ p" and h: "upstream_host h"
    and p: "parse_u16 p = Some port" "port \<noteq> 0"
    by (auto simp: upstream_spec_def)
  have "CHR '':'' \<notin> set p"
    using parse_u16_chars [OF p(1), of "CHR '':''"] by (auto simp: is_ascii_digit_def)
  then have i: "rfind_char u CHR '':'' = Some (length h)"
    using rfind_char_append [of "CHR '':''" p h] u by simp
  have url: "\<not> starts_with u ''http://''" "\<not> starts_with u ''https://''"
    using not_url_prefix [OF h p(1) _ u refl] by (auto simp: starts_with_iff)
  have b: "parse_ip_addr (CHR ''['' # s) = None" for s
    by (rule parse_ip_addr_bad) (simp_all add: to_digit_def)
  have "\<not> hostname_spec (CHR ''['' # s)" for s
    using valid_hostname_plain [of "CHR ''['' # s"] by (auto simp: is_valid_hostname_eq_spec)
  then show "is_valid_upstream u"
    using i url u p h upstream_host_nonempty [OF h] b
    by (auto simp: is_valid_upstream_def upstream_host_def is_valid_hostname_eq_spec bracketed_iff)
qed

subsection \<open>Whole configurations\<close>

definition https_key :: "listener_config \<Rightarrow> bind_key" where
  "https_key l = (bind_addr l, https_port l)"

definition http_key :: "listener_config \<Rightarrow> bind_key" where
  "http_key l = (bind_addr l, http_port l)"

definition tls_ok :: "(string \<Rightarrow> bool) \<Rightarrow> tls_config \<Rightarrow> bool" where
  "tls_ok exists t =
     ((tls_mode t = ''acme'' \<longrightarrow>
         acme_domains t \<noteq> [] \<and>
         (\<exists>email. acme_contact t = ''mailto:'' @ email \<and> CHR ''@'' \<in> set email)) \<and>
      (tls_mode t = ''manual'' \<longrightarrow>
         cert_path t \<noteq> [] \<and> key_path t \<noteq> [] \<and> exists (cert_path t) \<and> exists (key_path t)))"

definition listener_ok :: "(string \<Rightarrow> bool) \<Rightarrow> bool \<Rightarrow> listener_config \<Rightarrow> bool" where
  "listener_ok exists allow l =
     ((bind_addr l = ''0.0.0.0'' \<longrightarrow> allow) \<and> https_port l \<noteq> 0 \<and> http_port l \<noteq> https_port l \<and>
      tls_ok exists (l_tls l))"

definition site_ok :: "site_config \<Rightarrow> bool" where
  "site_ok s =
     (hostname_spec (s_host s) \<and> upstream_spec (s_upstream s) \<and>
      s_upstream_scheme s \<in> {''http'', ''https''})"

definition all_sites :: "static_config \<Rightarrow> site_config list" where
  "all_sites sc = concat (map l_sites (listeners sc))"

definition ports_ok :: "static_config \<Rightarrow> bool" where
  "ports_ok sc =
     (distinct (map https_key (listeners sc)) \<and>
      distinct (map http_key (filter (\<lambda>l. http_port l \<noteq> 0) (listeners sc))) \<and>
      (health_check_port sc \<noteq> 0 \<longrightarrow>
         (\<forall>l\<in>set (listeners sc). health_check_port sc \<notin> {https_port l, http_port l})))"

definition admin_key_path_ok :: "string \<Rightarrow> bool" where
  "admin_key_path_ok p =
     (p = [] \<or> (\<exists>r. p = ''/'' @ r) \<and> (\<nexists>a b. p = a @ ''..'' @ b))"

definition config_ok :: "(string \<Rightarrow> bool) \<Rightarrow> static_config \<Rightarrow> dynamic_config \<Rightarrow> bool \<Rightarrow> bool" where
  "config_ok exists sc dc cli =
     (listeners sc \<noteq> [] \<and>
      (\<forall>l\<in>set (listeners sc). listener_ok exists (allow_wildcard_bind sc \<or> cli) l) \<and>
      ports_ok sc \<and>
      (\<forall>s\<in>set (all_sites sc). site_ok s) \<and>
      distinct (map (\<lambda>s. to_lowercase (s_host s)) (all_sites sc)) \<and>
      requests_per_second (rate_limit dc) \<noteq> 0 \<and> limit_bytes (body dc) \<noteq> 0 \<and>
      admin_key_path_ok (admin_key_path sc) \<and>
      connection_idle_timeout_secs sc \<noteq> 0 \<and> tls_handshake_timeout_secs sc \<noteq> 0 \<and>
      max_connections sc \<noteq> 0)"

lemma acme_errors_Nil:
  "acme_errors l = [] \<longleftrightarrow>
     acme_domains (l_tls l) \<noteq> [] \<and>
     (\<exists>email. acme_contact (l_tls l) = ''mailto:'' @ email \<and> CHR ''@'' \<in> set email)"
  by (auto simp: acme_errors_def Let_def starts_with_iff contains_char_def)

lemma manual_errors_Nil:
  "manual_errors exists l = [] \<longleftrightarrow>
     cert_path (l_tls l) \<noteq> [] \<and> key_path (l_tls l) \<noteq> [] \<and>
     exists (cert_path (l_tls l)) \<and> exists (key_path (l_tls l))"
  by (simp add: manual_errors_def)

lemma validate_listener_errs:
  "snd (snd (validate_listener exists allow (A, B, es) l)) = [] \<longleftrightarrow>
     es = [] \<and> listener_ok exists allow l \<and> https_key l \<notin> A \<and>
     (http_port l \<noteq> 0 \<longrightarrow> http_key l \<notin> B)"
  unfolding validate_listener_def Let_def prod.case snd_conv append_is_Nil_conv
  by (auto simp: listener_ok_def tls_ok_def acme_errors_Nil manual_errors_Nil
      https_key_def http_key_def word_gt_0)

lemma validate_listener_sets:
  "fst (validate_listener exists allow (A, B, es) l) = insert (https_key l) A"
  "fst (snd (validate_listener exists allow (A, B, es) l)) =
     (if http_port l \<noteq> 0 then insert (http_key l) B else B)"
  unfolding validate_listener_def Let_def prod.case fst_conv snd_conv https_key_def http_key_def
  by (simp_all add: word_gt_0)

lemma validate_listeners_errs:
  "snd (snd (foldl (validate_listener exists allow) (A, B, es) ls)) = [] \<longleftrightarrow>
     es = [] \<and> (\<forall>l\<in>set ls. listener_ok exists allow l) \<and>
     distinct (map https_key ls) \<and> (\<forall>l\<in>set ls. https_key l \<notin> A) \<and>
     distinct (map http_key (filter (\<lambda>l. http_port l \<noteq> 0) ls)) \<and>
     (\<forall>l\<in>set ls. http_port l \<noteq> 0 \<longrightarrow> http_key l \<notin> B)"
proof (induction ls arbitrary: A B es)
  case (Cons l ls)
  obtain A' B' es' where st: "validate_listener exists allow (A, B, es) l = (A', B', es')"
    by (metis prod_cases3)
  show ?case
    using validate_listener_sets [of exists allow A B es l]
      validate_listener_errs [of exists allow A B es l]
    unfolding foldl.simps st Cons.IH by (cases "http_port l = 0") (auto simp: notin_image)
qed simp

lemma validate_site_errs:
  "snd (validate_site (H, es) s) = [] \<longleftrightarrow> es = [] \<and> site_ok s \<and> to_lowercase (s_host s) \<notin> H"
proof -
  have "is_valid_hostname (s_host s) \<Longrightarrow> s_host s \<noteq> [] \<and> CHR '':'' \<notin> set (s_host s)"
    using valid_hostname_plain valid_hostname_nonempty by blast
  moreover have "is_valid_upstream (s_upstream s) \<Longrightarrow> s_upstream s \<noteq> []"
    by (auto simp: is_valid_upstream_def rfind_char_def)
  ultimately show ?thesis
    by (auto simp: validate_site_def site_ok_def Let_def is_valid_hostname_eq_spec [symmetric]
        is_valid_upstream_eq_spec [symmetric] contains_char_def)
qed

lemma validate_site_set: "fst (validate_site (H, es) s) = insert (to_lowercase (s_host s)) H"
  by (simp add: validate_site_def Let_def)

lemma validate_sites_errs:
  "snd (foldl validate_site (H, es) ss) = [] \<longleftrightarrow>
     es = [] \<and> (\<forall>s\<in>set ss. site_ok s) \<and> distinct (map (\<lambda>s. to_lowercase (s_host s)) ss) \<and>
     (\<forall>s\<in>set ss. to_lowercase (s_host s) \<notin> H)"
proof (induction ss arbitrary: H es)
  case (Cons s ss)
  obtain H' es' where st: "validate_site (H, es) s = (H', es')" by fastforce
  show ?case
    using validate_site_set [of H es s] validate_site_errs [of H es s]
    unfolding foldl.simps st Cons.IH by (auto simp: notin_image)
qed simp

lemma foldl_nested: "foldl (\<lambda>st l. foldl f st (g l)) st ls = foldl f st (concat (map g ls))"
  by (induction ls arbitrary: st) simp_all

lemma health_port_errors_Nil:
  "hp \<noteq> 0 \<Longrightarrow> health_port_errors hp l = [] \<longleftrightarrow> hp \<notin> {https_port l, http_port l}"
  by (auto simp: health_port_errors_def word_gt_0)

lemma admin_key_path_errors_Nil: "admin_key_path_errors p = [] \<longleftrightarrow> admin_key_path_ok p"
  by (auto simp: admin_key_path_errors_def admin_key_path_ok_def starts_with_iff contains_str_iff)

lemma scalar_errors_Nil:
  "scalar_errors sc dc = [] \<longleftrightarrow>
     requests_per_second (rate_limit dc) \<noteq> 0 \<and> limit_bytes (body dc) \<noteq> 0 \<and>
     admin_key_path_ok (admin_key_path sc) \<and> connection_idle_timeout_secs sc \<noteq> 0 \<and>
     tls_handshake_timeout_secs sc \<noteq> 0 \<and> max_connections sc \<noteq> 0"
  by (simp add: scalar_errors_def admin_key_path_errors_Nil)

lemma validate_iff: "validate exists sc dc cli = Ok () \<longleftrightarrow> config_ok exists sc dc cli"
proof -
  let ?al = "allow_wildcard_bind sc \<or> cli"
  obtain A B e1 where l: "foldl (validate_listener exists ?al)
      ({}, {}, if listeners sc = [] then [NoListeners] else []) (listeners sc) = (A, B, e1)"
    by (metis prod_cases3)
  define e2 where "e2 = e1 @ (if health_check_port sc > 0
             then concat (map (health_port_errors (health_check_port sc)) (listeners sc)) else [])"
  obtain H e3 where s: "foldl (\<lambda>st l. foldl validate_site st (l_sites l)) ({}, e2) (listeners sc) = (H, e3)"
    by fastforce
  have v: "validate exists sc dc cli = Ok () \<longleftrightarrow> e3 = [] \<and> scalar_errors sc dc = []"
    using l s by (simp add: validate_def Let_def e2_def)
  have e1: "e1 = [] \<longleftrightarrow> listeners sc \<noteq> [] \<and> (\<forall>l\<in>set (listeners sc). listener_ok exists ?al l) \<and>
     distinct (map https_key (listeners sc)) \<and>
     distinct (map http_key (filter (\<lambda>l. http_port l \<noteq> 0) (listeners sc)))"
    using validate_listeners_errs [of exists ?al "{}" "{}" "if listeners sc = [] then [NoListeners] else []"
        "listeners sc"] l by simp
  have e2: "e2 = [] \<longleftrightarrow> e1 = [] \<and> (health_check_port sc \<noteq> 0 \<longrightarrow>
         (\<forall>l\<in>set (listeners sc). health_check_port sc \<notin> {https_port l, http_port l}))"
    by (auto simp: e2_def word_gt_0 health_port_errors_Nil)
  have e3: "e3 = [] \<longleftrightarrow> e2 = [] \<and> (\<forall>s\<in>set (all_sites sc). site_ok s) \<and>
      distinct (map (\<lambda>s. to_lowercase (s_host s)) (all_sites sc))"
    using validate_sites_errs [of "{}" e2 "all_sites sc"] s
    by (simp add: foldl_nested all_sites_def)
  show ?thesis
    unfolding v e3 e2 e1 scalar_errors_Nil config_ok_def ports_ok_def by blast
qed

subsection \<open>The configuration reference\<close>

text \<open>
  The rules of \<^verbatim>\<open>docs/architecture/config.md\<close>, with their numbers. A port is written in decimal
  digits, with an optional plus sign. Rule 10 is about the ports that are set, and rule 13 holds for every 16-bit number. The health check
  listens on 127.0.0.1, which is the address that rule 14 speaks of.
\<close>

definition decimal :: "string \<Rightarrow> nat" where
  "decimal ds = foldl (\<lambda>n c. n * 10 + (of_char c - 48)) 0 ds"

definition port_text :: "string \<Rightarrow> bool" where
  "port_text p =
     (\<exists>ds. (p = ds \<or> p = ''+'' @ ds) \<and> ds \<noteq> [] \<and> list_all is_ascii_digit ds \<and>
        1 \<le> decimal ds \<and> decimal ds \<le> 65535)"

definition rule_17 :: "string \<Rightarrow> bool" where
  "rule_17 u =
     (\<exists>h p. u = h @ '':'' @ p \<and> port_text p \<and>
        (hostname_spec h \<or> (\<exists>a b c d. parse_ip_addr h = Some (V4 a b c d)) \<or>
         (\<exists>a. h = ''['' @ a @ '']'' \<and> parse_ipv6_addr a \<noteq> None)))"

definition bare_ipv6_upstream :: "string \<Rightarrow> bool" where
  "bare_ipv6_upstream u =
     (\<exists>h p a b c d e f g i. u = h @ '':'' @ p \<and> CHR '':'' \<notin> set p \<and>
        parse_ip_addr h = Some (V6 a b c d e f g i))"

text \<open>
  Rules 2, 4, 5, 11, 12 and 19 for a listener, and 6, 15, 16, 17 and 18 for a site.
\<close>

definition listener_rules :: "(string \<Rightarrow> bool) \<Rightarrow> bool \<Rightarrow> listener_config \<Rightarrow> bool" where
  "listener_rules exists allow l =
     ((bind_addr l = ''0.0.0.0'' \<longrightarrow> allow) \<and>
      (tls_mode (l_tls l) = ''acme'' \<longrightarrow> acme_domains (l_tls l) \<noteq> []) \<and>
      (tls_mode (l_tls l) = ''manual'' \<longrightarrow>
         cert_path (l_tls l) \<noteq> [] \<and> key_path (l_tls l) \<noteq> [] \<and>
         exists (cert_path (l_tls l)) \<and> exists (key_path (l_tls l))) \<and>
      http_port l \<noteq> https_port l \<and> https_port l \<noteq> 0 \<and>
      (tls_mode (l_tls l) = ''acme'' \<longrightarrow>
         (\<exists>email. acme_contact (l_tls l) = ''mailto:'' @ email \<and> email \<noteq> [] \<and> CHR ''@'' \<in> set email)))"

definition site_rules :: "site_config \<Rightarrow> bool" where
  "site_rules s =
     (s_host s \<noteq> [] \<and> s_upstream s \<noteq> [] \<and> CHR '':'' \<notin> set (s_host s) \<and> hostname_spec (s_host s) \<and>
      rule_17 (s_upstream s) \<and> s_upstream_scheme s \<in> {''http'', ''https''})"

text \<open>
  Rules 1, 3, 7 to 10, 14 and 20 to 23 for the whole configuration.
\<close>

definition reference_ok :: "(string \<Rightarrow> bool) \<Rightarrow> static_config \<Rightarrow> dynamic_config \<Rightarrow> bool \<Rightarrow> bool" where
  "reference_ok exists sc dc cli =
     (listeners sc \<noteq> [] \<and>
      list_all (listener_rules exists (allow_wildcard_bind sc \<or> cli)) (listeners sc) \<and>
      list_all site_rules (all_sites sc) \<and>
      distinct (map (\<lambda>l. (bind_addr l, https_port l)) (listeners sc)) \<and>
      distinct (map (\<lambda>s. to_lowercase (s_host s)) (all_sites sc)) \<and>
      requests_per_second (rate_limit dc) \<noteq> 0 \<and> limit_bytes (body dc) \<noteq> 0 \<and>
      distinct (map (\<lambda>l. (bind_addr l, http_port l)) (filter (\<lambda>l. http_port l \<noteq> 0) (listeners sc))) \<and>
      list_all (\<lambda>l. bind_addr l = ''127.0.0.1'' \<and> health_check_port sc \<noteq> 0 \<longrightarrow>
        health_check_port sc \<noteq> http_port l \<and> health_check_port sc \<noteq> https_port l) (listeners sc) \<and>
      (admin_key_path sc = [] \<or>
         (\<exists>r. admin_key_path sc = ''/'' @ r) \<and> (\<nexists>a b. admin_key_path sc = a @ ''..'' @ b)) \<and>
      connection_idle_timeout_secs sc \<noteq> 0 \<and> max_connections sc \<noteq> 0 \<and> tls_handshake_timeout_secs sc \<noteq> 0)"

text \<open>
  The code is stricter than rule 14: no listener on any address may use the port.
\<close>

definition health_port_unused :: "static_config \<Rightarrow> bool" where
  "health_port_unused sc =
     (health_check_port sc = 0 \<or>
      list_all (\<lambda>l. health_check_port sc \<noteq> http_port l \<and> health_check_port sc \<noteq> https_port l) (listeners sc))"

lemma to_digit_10: "to_digit 10 c = (if is_ascii_digit c then Some (of_char c - 48) else None)"
  by (auto simp: to_digit_def is_ascii_digit_def Let_def)

lemma parse_digits_decimal:
  "parse_digits 10 acc ds =
     (if list_all is_ascii_digit ds then Some (foldl (\<lambda>n c. n * 10 + (of_char c - 48)) acc ds) else None)"
  by (induction ds arbitrary: acc) (simp_all add: to_digit_10)

lemma from_str_uint_decimal:
  "from_str_uint bits p =
     (let ds = (if starts_with p ''+'' then drop 1 p else p)
      in if ds \<noteq> [] \<and> list_all is_ascii_digit ds \<and> decimal ds < 2 ^ bits then Some (decimal ds) else None)"
  by (cases p) (auto simp: from_str_uint_def Let_def parse_digits_decimal decimal_def simp del: foldl_Cons)

lemma port_text_alt:
  "port_text p =
     (let ds = (if starts_with p ''+'' then drop 1 p else p)
      in ds \<noteq> [] \<and> list_all is_ascii_digit ds \<and> 1 \<le> decimal ds \<and> decimal ds \<le> 65535)"
proof -
  have "is_ascii_digit CHR ''+'' = False" by (simp add: is_ascii_digit_def)
  then show ?thesis unfolding port_text_def Let_def by (cases p) auto
qed

lemma port_text_iff: "(\<exists>port. parse_u16 p = Some port \<and> port \<noteq> 0) \<longleftrightarrow> port_text p"
proof -
  have z: "(of_nat n :: u16) = 0 \<longleftrightarrow> n = 0" if "n < 65536" for n
  proof -
    have "unat (of_nat n :: u16) = n" using that by (simp add: unat_of_nat take_bit_nat_eq_self)
    then show ?thesis by (metis unat_eq_zero)
  qed
  define ds where "ds = (if starts_with p ''+'' then drop 1 p else p)"
  have "from_str_uint 16 p = (if ds \<noteq> [] \<and> list_all is_ascii_digit ds \<and> decimal ds < 65536 then Some (decimal ds) else None)"
    unfolding from_str_uint_decimal ds_def Let_def by simp
  moreover have "port_text p = (ds \<noteq> [] \<and> list_all is_ascii_digit ds \<and> 1 \<le> decimal ds \<and> decimal ds \<le> 65535)"
    unfolding port_text_alt ds_def Let_def ..
  ultimately show ?thesis using z [of "decimal ds"] unfolding parse_u16_def by auto
qed


lemma last_colon_unique:
  assumes "h @ '':'' @ p = h' @ '':'' @ p'" "CHR '':'' \<notin> set p" "CHR '':'' \<notin> set p'"
  shows "h = h' \<and> p = p'"
  using rfind_char_append [of "CHR '':''" p h] rfind_char_append [of "CHR '':''" p' h'] assms by auto

lemma port_text_chars: "port_text p \<Longrightarrow> CHR '':'' \<notin> set p"
  using parse_u16_chars [of p _ "CHR '':''"] by (auto simp: port_text_iff [symmetric] is_ascii_digit_def)

lemma upstream_rule_17: "is_valid_upstream u \<and> \<not> bare_ipv6_upstream u \<longleftrightarrow> rule_17 u"
proof
  assume v: "is_valid_upstream u \<and> \<not> bare_ipv6_upstream u"
  then obtain h p where u: "u = h @ '':'' @ p" "upstream_host h" "port_text p"
    unfolding is_valid_upstream_eq_spec upstream_spec_def port_text_iff [symmetric] by blast
  moreover have "parse_ip_addr h \<noteq> Some (V6 a b c d e f g i)" for a b c d e f g i
    using v u port_text_chars unfolding bare_ipv6_upstream_def by blast
  then have "parse_ip_addr h \<noteq> None \<Longrightarrow> \<exists>a b c d. parse_ip_addr h = Some (V4 a b c d)"
    by (metis ip_addr.exhaust not_None_eq)
  ultimately show "rule_17 u" unfolding rule_17_def upstream_host_def by blast
next
  assume "rule_17 u"
  then obtain h p where u: "u = h @ '':'' @ p" "port_text p"
    and h: "hostname_spec h \<or> (\<exists>a b c d. parse_ip_addr h = Some (V4 a b c d)) \<or>
      (\<exists>a. h = ''['' @ a @ '']'' \<and> parse_ipv6_addr a \<noteq> None)"
    unfolding rule_17_def by blast
  have "upstream_host h" using h unfolding upstream_host_def by (metis option.distinct(1))
  then have "is_valid_upstream u"
    using u unfolding is_valid_upstream_eq_spec upstream_spec_def port_text_iff [symmetric] by blast
  moreover have "parse_ip_addr (''['' @ a) = None" for a
    by (rule parse_ip_addr_bad) (simp_all add: to_digit_def)
  then have "parse_ip_addr h \<noteq> Some (V6 a b c d e f g i)" for a b c d e f g i
    using h by (auto simp: hostname_spec_def)
  then have "\<not> bare_ipv6_upstream u"
    using last_colon_unique [of h p] port_text_chars [OF u(2)] u(1) unfolding bare_ipv6_upstream_def by metis
  ultimately show "is_valid_upstream u \<and> \<not> bare_ipv6_upstream u" ..
qed

lemma upstream_not_url:
  "starts_with u ''http://'' \<or> starts_with u ''https://'' \<Longrightarrow> \<not> is_valid_upstream u"
  unfolding is_valid_upstream_def Let_def by (auto split: option.split)

lemma site_rules_iff: "site_rules s \<longleftrightarrow> site_ok s \<and> \<not> bare_ipv6_upstream (s_upstream s)"
proof -
  have "hostname_spec (s_host s) \<Longrightarrow> s_host s \<noteq> [] \<and> CHR '':'' \<notin> set (s_host s)"
    using valid_hostname_plain valid_hostname_nonempty unfolding is_valid_hostname_eq_spec by blast
  moreover have "rule_17 (s_upstream s) \<Longrightarrow> s_upstream s \<noteq> []" by (auto simp: rule_17_def)
  ultimately show ?thesis
    using upstream_rule_17 [of "s_upstream s"] unfolding site_rules_def site_ok_def is_valid_upstream_eq_spec
    by blast
qed

lemma listener_rules_iff: "listener_rules exists allow l = listener_ok exists allow l"
  by (auto simp: listener_rules_def listener_ok_def tls_ok_def)

lemma reference_ok_iff:
  "config_ok exists sc dc cli \<and> list_all (\<lambda>s. \<not> bare_ipv6_upstream (s_upstream s)) (all_sites sc) \<longleftrightarrow>
   reference_ok exists sc dc cli \<and> health_port_unused sc"
proof -
  have sites: "list_all site_rules ss \<longleftrightarrow>
      (\<forall>s\<in>set ss. site_ok s) \<and> list_all (\<lambda>s. \<not> bare_ipv6_upstream (s_upstream s)) ss" for ss
    unfolding list_all_iff site_rules_iff by blast
  have lists: "list_all (listener_rules exists allow) ls \<longleftrightarrow> (\<forall>l\<in>set ls. listener_ok exists allow l)" for allow ls
    unfolding list_all_iff listener_rules_iff ..
  have ports: "ports_ok sc \<longleftrightarrow>
      distinct (map (\<lambda>l. (bind_addr l, https_port l)) (listeners sc)) \<and>
      distinct (map (\<lambda>l. (bind_addr l, http_port l)) (filter (\<lambda>l. http_port l \<noteq> 0) (listeners sc))) \<and>
      health_port_unused sc"
    by (auto simp: ports_ok_def https_key_def [abs_def] http_key_def [abs_def] health_port_unused_def list_all_iff)
  have health: "health_port_unused sc \<Longrightarrow>
      list_all (\<lambda>l. bind_addr l = ''127.0.0.1'' \<and> health_check_port sc \<noteq> 0 \<longrightarrow>
        health_check_port sc \<noteq> http_port l \<and> health_check_port sc \<noteq> https_port l) (listeners sc)"
    by (auto simp: health_port_unused_def list_all_iff)
  then show ?thesis
    unfolding config_ok_def reference_ok_def admin_key_path_ok_def sites lists ports by blast
qed

section \<open>Configurations used as examples\<close>

text \<open>
  The configurations that the unit tests of \<^verbatim>\<open>validation.rs\<close> build.
\<close>

definition make_acme_tls :: tls_config where
  "make_acme_tls =
     \<lparr>tls_mode = ''acme'', acme_domains = [''test.local''], acme_cache_dir = ''/tmp/acme-cache'',
      acme_directory = ''production'', acme_contact = ''mailto:admin@example.com'',
      cert_path = '''', key_path = ''''\<rparr>"

definition make_manual_tls :: "string \<Rightarrow> string \<Rightarrow> tls_config" where
  "make_manual_tls cert key =
     \<lparr>tls_mode = ''manual'', acme_domains = [], acme_cache_dir = '''',
      acme_directory = ''production'', acme_contact = '''', cert_path = cert, key_path = key\<rparr>"

definition make_static_with_sites :: "site_config list \<Rightarrow> tls_config \<Rightarrow> static_config" where
  "make_static_with_sites ss t =
     \<lparr>listeners =
        [\<lparr>bind_addr = ''127.0.0.1'', http_port = 80, https_port = 443, l_tls = t, l_sites = ss\<rparr>],
      allow_wildcard_bind = False, health_check_port = 9900,
      admin_key_path = ''/etc/reverse-proxy/admin-key'', shutdown_timeout_secs = 30,
      connection_idle_timeout_secs = 60, tls_handshake_timeout_secs = 10, max_connections = 1024,
      logging = default_logging\<rparr>"

definition valid_static_config :: static_config where
  "valid_static_config = make_static_with_sites [] (make_manual_tls '''' '''')"

definition test_site :: site_config where
  "test_site =
     \<lparr>s_host = ''test.local'', s_upstream = ''127.0.0.1:8080'', s_upstream_scheme = ''http'',
      s_upstream_connect_timeout_secs = 5, s_upstream_request_timeout_secs = 60\<rparr>"

definition valid_dynamic_config :: dynamic_config where
  "valid_dynamic_config =
     from_sites [test_site] \<lparr>requests_per_second = 10, burst = 20\<rparr> \<lparr>limit_bytes = 104857600\<rparr>"

lemmas net_eval = parse_ip_addr_def parse_with_def read_ip_addr_def read_ipv4_def read_octet_def
  read_number_def is_digit_of_def to_digit_def read_char_def read_ipv6_addr_def read_ipv6_def
  read_sep_def ipv4_of_def parse_u16_def from_str_uint_def

lemmas name_eval = is_valid_hostname_def is_valid_upstream_def hostname_char_def char_class_defs
  contains_char_def ends_with_def rfind_char_def

lemma upstream_fixture: "is_valid_upstream ''127.0.0.1:8080''"
  by (simp add: name_eval net_eval)

lemma hostname_fixture: "is_valid_hostname ''test.local''"
  using parse_ip_addr_bad [of "''test.local''"] by (simp add: name_eval to_digit_def)

lemma config_fixture:
  "validate (\<lambda>p. True) (make_static_with_sites [test_site] make_acme_tls) valid_dynamic_config False = Ok ()"
  by (simp add: validate_def make_static_with_sites_def test_site_def make_acme_tls_def
      valid_dynamic_config_def from_sites_def validate_listener_def validate_site_def
      acme_errors_def scalar_errors_def admin_key_path_errors_def health_port_errors_def
      upstream_fixture hostname_fixture contains_char_def)

section \<open>Properties\<close>

text \<open>
  C1: Validation agrees with the rules 1 to 23 of the configuration reference
  (\<^verbatim>\<open>docs/architecture/config.md\<close>) but for two points. The configurations that are accepted and have
  no upstream with an IPv6 address without brackets are exactly those that meet the rules and whose
  health check port, when there is one, is not a port of any listener. So the code accepts upstreams
  that rule 17 forbids, and it asks of every address what rule 14 asks of the same bind address;
  the readable files of rule 5 are files that exist.
\<close>

theorem validate_correct:
  "validate exists sc dc cli = Ok () \<and> list_all (\<lambda>s. \<not> bare_ipv6_upstream (s_upstream s)) (all_sites sc) \<longleftrightarrow>
   reference_ok exists sc dc cli \<and> health_port_unused sc"
  by (simp only: validate_iff reference_ok_iff)

text \<open>
  C15: A host name is accepted exactly when every dot-separated label is non-empty, consists of
  letters, digits and hyphens and has no hyphen at either end, and the name is not an IP address.
  The code has a separate branch for names without a dot; both branches obey the one rule.
\<close>

theorem hostname_correct:
  "is_valid_hostname h \<longleftrightarrow>
     list_all label_ok (split_on CHR ''.'' h) \<and> parse_ip_addr h = None"
  by (simp add: is_valid_hostname_eq_spec hostname_spec_def)

text \<open>
  C16: Upstreams are host and port. The upstreams that are accepted, but for those with an IPv6
  address without brackets, are exactly the texts made of a host, a colon and a port: the host is a
  valid host name, an IPv4 address, or an IPv6 address in brackets, and the port is a decimal number
  between 1 and 65535, with or without a plus sign. Nothing that begins like a URL is accepted.
\<close>

theorem upstream_correct:
  "(is_valid_upstream u \<and> \<not> bare_ipv6_upstream u \<longleftrightarrow>
     (\<exists>h p. u = h @ '':'' @ p \<and> port_text p \<and>
        (is_valid_hostname h \<or> (\<exists>a b c d. parse_ip_addr h = Some (V4 a b c d)) \<or>
         (\<exists>a ip. h = ''['' @ a @ '']'' \<and> parse_ipv6_addr a = Some ip)))) \<and>
   \<not> is_valid_upstream (''http://'' @ u) \<and> \<not> is_valid_upstream (''https://'' @ u)"
proof -
  have "\<not> is_valid_upstream (''http://'' @ u)" "\<not> is_valid_upstream (''https://'' @ u)"
    using upstream_not_url by simp_all
  then show ?thesis using upstream_rule_17 [of u] unfolding rule_17_def is_valid_hostname_eq_spec not_None_eq by blast
qed

text \<open>
  Every IP address with a non-zero port is accepted as an upstream in the form in which the
  standard library prints the address, IPv6 addresses without brackets included; an IPv6 address
  is also accepted in brackets. The configuration reference asks for brackets around every IPv6
  address.
\<close>

theorem upstream_accepts_addresses:
  assumes "port \<noteq> 0"
  shows "is_valid_upstream (show_ip_addr ip @ '':'' @ show_word port) \<and>
         is_valid_upstream (''['' @ show_ip_addr (V6 a b c d e f g h) @ '']:'' @ show_word (port :: u16))"
proof -
  have "upstream_host (show_ip_addr ip)"
    by (simp add: upstream_host_def parse_show_ip_addr)
  moreover have "upstream_host (''['' @ show_ip_addr (V6 a b c d e f g h) @ '']'')"
    by (simp add: upstream_host_def parse_show_ipv6_addr del: show_ip_addr.simps)
  ultimately have "upstream_spec (show_ip_addr ip @ '':'' @ show_word port) \<and>
      upstream_spec ((''['' @ show_ip_addr (V6 a b c d e f g h) @ '']'') @ '':'' @ show_word port)"
    unfolding upstream_spec_def using assms parse_show_u16 by blast
  then show ?thesis by (simp add: is_valid_upstream_eq_spec del: show_ip_addr.simps)
qed

theorem upstream_accepts_addresses_witness:
  "is_valid_upstream (show_ip_addr (V6 0 0 0 0 0 0 0 1) @ '':'' @ show_word (3000 :: u16)) \<and>
   is_valid_upstream (''['' @ show_ip_addr (V6 0 0 0 0 0 0 0 1) @ '']:'' @ show_word (3000 :: u16))"
  by (rule upstream_accepts_addresses) simp

end
