(* ===== verification/Events.thy ===== *)
theory Events
  imports Rust_Net
begin

text \<open>
  What the program writes to its log. A call of a \<^verbatim>\<open>tracing\<close> macro is a \<open>log_line\<close>: its level, its
  fields in order and its message (empty when the call has none). Operations that log return the
  lines they emit. Errors of the operating system and of libraries appear as the text their
  \<^verbatim>\<open>Display\<close> implementation gives.
\<close>

datatype log_level = LError | LWarn | LInfo | LDebug

datatype log_line = Log log_level "(string \<times> string) list" string

type_synonym io_error = string

text \<open>
  \<^verbatim>\<open>Duration::from_secs\<close>, in nanoseconds.
\<close>

definition from_secs :: "u64 \<Rightarrow> duration" where
  "from_secs n = unat n * 10 ^ 9"

text \<open>
  An \<^verbatim>\<open>anyhow\<close> error is the chain of its messages, outermost first; \<open>with_context\<close> is
  \<^verbatim>\<open>Context::context\<close>, and the alternate format of an error joins the chain.
\<close>

type_synonym anyhow = "string list"

definition with_context :: "string \<Rightarrow> anyhow + 'a \<Rightarrow> anyhow + 'a" where
  "with_context m r = map_err (Cons m) r"

definition show_anyhow :: "anyhow \<Rightarrow> string" where
  "show_anyhow e = join_str '': '' e"

text \<open>
  The TCP listeners of the runtime, with an abstract type of sockets. Whether an address can be
  bound depends on the addresses the program has bound before.
\<close>

record 'l tcp =
  tcp_bind :: "socket_addr list \<Rightarrow> socket_addr \<Rightarrow> io_error + 'l"
  tcp_local_addr :: "'l \<Rightarrow> io_error + socket_addr"

end
