(* ===== verification/Fd_Budget.thy ===== *)
theory Fd_Budget
  imports Validation Events
begin

text \<open>
  The file descriptor budget, \<^verbatim>\<open>config/fd_budget.rs\<close>. The result of \<^verbatim>\<open>getrlimit\<close> is an argument:
  \<open>None\<close> when the call fails, otherwise the soft limit. The addition in \<^verbatim>\<open>check_fd_budget\<close> is one on
  64-bit words and wraps.
\<close>

definition RESERVED_FDS :: u64 where "RESERVED_FDS = 64"

definition DOCKER_DEFAULT_NOFILE :: u64 where "DOCKER_DEFAULT_NOFILE = 1024"

definition RLIM_INFINITY :: u64 where "RLIM_INFINITY = -1"

definition soft_nofile_limit :: "u64 option \<Rightarrow> u64 option" where
  "soft_nofile_limit getrlimit =
     (case getrlimit of
        Some rlim_cur \<Rightarrow> if rlim_cur = RLIM_INFINITY then None else Some rlim_cur
      | None \<Rightarrow> None)"

definition check_fd_budget :: "usize \<Rightarrow> u64 \<Rightarrow> string + unit" where
  "check_fd_budget mc soft_limit =
     (let required = mc + RESERVED_FDS in
      if required > soft_limit
      then Err (''max_connections ('' @ show_word mc @ '') + reserved FDs ('' @
                show_word RESERVED_FDS @ '') exceeds soft RLIMIT_NOFILE ('' @
                show_word soft_limit @ '')'')
      else Ok ())"

definition validate_nofile :: "u64 option \<Rightarrow> usize \<Rightarrow> validation_error list" where
  "validate_nofile getrlimit mc =
     (case soft_nofile_limit getrlimit of
        None \<Rightarrow> []
      | Some soft_limit \<Rightarrow>
          (case check_fd_budget mc soft_limit of
             Inr _ \<Rightarrow> []
           | Inl _ \<Rightarrow> [MaxConnectionsExceedsNofile mc soft_limit RESERVED_FDS]))"

definition warn_if_default_nofile :: "u64 option \<Rightarrow> usize \<Rightarrow> log_line list" where
  "warn_if_default_nofile getrlimit mc =
     (case soft_nofile_limit getrlimit of
        None \<Rightarrow> []
      | Some soft_limit \<Rightarrow>
          if soft_limit \<le> DOCKER_DEFAULT_NOFILE
          then [Log LWarn [(''soft_nofile'', show_word soft_limit),
                           (''max_connections'', show_word mc),
                           (''reserved_fds'', show_word RESERVED_FDS)]
                  (''RLIMIT_NOFILE is at or below the Docker default ('' @
                   show_word DOCKER_DEFAULT_NOFILE @
                   ''); the proxy needs headroom for connections plus listener sockets, log files, and ACME renewal. Raise it (e.g. docker-compose ulimits: nofile 8192, or systemd LimitNOFILE=8192) '' @
                   [CHR 0xE2, CHR 0x80, CHR 0x94] @ '' see review #010'')]
          else [])"

lemma check_fd_budget_iff:
  assumes "unat mc + 64 < 2 ^ 64"
  shows "check_fd_budget mc soft = Ok () \<longleftrightarrow> unat mc + 64 \<le> unat soft"
proof -
  have "unat (mc + RESERVED_FDS) = unat mc + 64"
    using assms by (simp add: RESERVED_FDS_def unat_word_ariths(1))
  then show ?thesis by (auto simp: check_fd_budget_def Let_def word_less_nat_alt)
qed

text \<open>
  As long as the sum fits into 64 bits, the descriptor check passes exactly when the limit is
  unknown or unlimited, or when the connections and the reserved descriptors together stay within
  the soft limit. Every number that a TOML integer can hold satisfies the bound.
\<close>

theorem validate_nofile_correct:
  assumes "unat mc < 2 ^ 63"
  shows "validate_nofile rl mc = [] \<longleftrightarrow>
           (case rl of None \<Rightarrow> True | Some l \<Rightarrow> l = RLIM_INFINITY \<or> unat mc + 64 \<le> unat l)"
proof -
  have "check_fd_budget mc l = Ok () \<longleftrightarrow> unat mc + 64 \<le> unat l" for l
    using assms by (intro check_fd_budget_iff) simp
  moreover have "(case check_fd_budget mc l of Inr _ \<Rightarrow> [] | Inl _ \<Rightarrow> [e]) = [] \<longleftrightarrow>
      check_fd_budget mc l = Ok ()" for l and e :: validation_error
    by (cases "check_fd_budget mc l") auto
  ultimately show ?thesis by (auto simp: validate_nofile_def soft_nofile_limit_def split: option.split)
qed

theorem validate_nofile_correct_witness:
  "unat (1024 :: usize) < 2 ^ 63 \<and>
   (validate_nofile (Some 1024) 1024 = [] \<longleftrightarrow>
      (case Some (1024 :: u64) of None \<Rightarrow> True
       | Some l \<Rightarrow> l = RLIM_INFINITY \<or> unat (1024 :: usize) + 64 \<le> unat l))"
  using validate_nofile_correct [of 1024 "Some 1024"] by simp

end
