(* ===== verification/Config_File.thy ===== *)
theory Config_File
  imports Fd_Budget
begin

text \<open>
  Reading a configuration file: \<^verbatim>\<open>config/mod.rs\<close> (\<^verbatim>\<open>FullConfig\<close>, its split into the static and the
  dynamic part, \<^verbatim>\<open>read_and_validate_config\<close>) and \<^verbatim>\<open>cli.rs\<close> (\<^verbatim>\<open>load_config\<close>, \<^verbatim>\<open>run_validate\<close>).
  The TOML reader is the parameter \<open>toml\<close>: it gives the keys that the text has, or the text of its
  error. A read of the file is the three answers of the file system, \<open>file_read\<close>: the modification
  time before (absent when the platform has none), the content, the modification time after.
\<close>

section \<open>Deserialisation of the whole file\<close>

record raw_full =
  rf_listeners :: "raw_listener list option"
  rf_allow_wildcard_bind :: "bool option"
  rf_health_check_port :: "u16 option"
  rf_admin_key_path :: "string option"
  rf_shutdown_timeout_secs :: "u64 option"
  rf_connection_idle_timeout_secs :: "u64 option"
  rf_tls_handshake_timeout_secs :: "u64 option"
  rf_max_connections :: "usize option"
  rf_logging :: "raw_logging option"
  rf_rate_limit :: rate_limit_config
  rf_body :: body_config

record full_config =
  fc_listeners :: "listener_config list"
  fc_allow_wildcard_bind :: bool
  fc_health_check_port :: u16
  fc_admin_key_path :: string
  fc_shutdown_timeout_secs :: u64
  fc_connection_idle_timeout_secs :: u64
  fc_tls_handshake_timeout_secs :: u64
  fc_max_connections :: usize
  fc_logging :: logging_config
  fc_rate_limit :: rate_limit_config
  fc_body :: body_config

definition de_full :: "raw_full \<Rightarrow> full_config" where
  "de_full r =
     \<lparr>fc_listeners = map de_listener (unwrap_or (rf_listeners r) []),
      fc_allow_wildcard_bind = unwrap_or (rf_allow_wildcard_bind r) False,
      fc_health_check_port = unwrap_or (rf_health_check_port r) default_health_check_port,
      fc_admin_key_path = unwrap_or (rf_admin_key_path r) default_admin_key_path,
      fc_shutdown_timeout_secs =
        unwrap_or (rf_shutdown_timeout_secs r) default_shutdown_timeout_secs,
      fc_connection_idle_timeout_secs =
        unwrap_or (rf_connection_idle_timeout_secs r) default_connection_idle_timeout_secs,
      fc_tls_handshake_timeout_secs =
        unwrap_or (rf_tls_handshake_timeout_secs r) default_tls_handshake_timeout_secs,
      fc_max_connections = unwrap_or (rf_max_connections r) default_max_connections,
      fc_logging = (case rf_logging r of Some g \<Rightarrow> de_logging g | None \<Rightarrow> default_logging),
      fc_rate_limit = rf_rate_limit r,
      fc_body = rf_body r\<rparr>"

type_synonym toml_reader = "string \<Rightarrow> string + raw_full"

definition full_config_parse :: "toml_reader \<Rightarrow> string \<Rightarrow> string + full_config" where
  "full_config_parse toml content = and_then (toml content) (\<lambda>r. Ok (de_full r))"

definition into_static_and_dynamic :: "full_config \<Rightarrow> static_config \<times> dynamic_config" where
  "into_static_and_dynamic fc =
     (let sc = \<lparr>listeners = fc_listeners fc,
                allow_wildcard_bind = fc_allow_wildcard_bind fc,
                health_check_port = fc_health_check_port fc,
                admin_key_path = fc_admin_key_path fc,
                shutdown_timeout_secs = fc_shutdown_timeout_secs fc,
                connection_idle_timeout_secs = fc_connection_idle_timeout_secs fc,
                tls_handshake_timeout_secs = fc_tls_handshake_timeout_secs fc,
                max_connections = fc_max_connections fc,
                logging = fc_logging fc\<rparr>
      in (sc, from_sites (concat (map l_sites (listeners sc))) (fc_rate_limit fc) (fc_body fc)))"

section \<open>Reading for a reload\<close>

datatype reload_error =
    Io io_error
  | Parse string
  | ReloadValidation string
  | FileChangedDuringRead

fun show_reload_error :: "reload_error \<Rightarrow> string" where
  "show_reload_error (Io e) = ''IO error reading config file: '' @ e"
| "show_reload_error (Parse e) = ''Failed to parse config file: '' @ e"
| "show_reload_error (ReloadValidation e) = ''Config validation failed: '' @ e"
| "show_reload_error FileChangedDuringRead = ''config file changed during read, please retry''"

definition reload_error_from_validation :: "validation_error list \<Rightarrow> reload_error" where
  "reload_error_from_validation errors =
     ReloadValidation (join_str ''; '' (map show_validation_error errors))"

record file_read =
  metadata_before :: "io_error + instant option"
  config_content :: "io_error + string"
  metadata_after :: "io_error + instant option"

definition read_and_validate_config ::
  "toml_reader \<Rightarrow> (string \<Rightarrow> bool) \<Rightarrow> file_read \<Rightarrow> string \<Rightarrow> bool \<Rightarrow>
   log_line list \<times> (reload_error + static_config \<times> dynamic_config)" where
  "read_and_validate_config toml exists fr config_path cli_allow_wildcard_bind =
     (case metadata_before fr of
        Inl e \<Rightarrow> ([], Err (Io e))
      | Inr before \<Rightarrow>
     (case config_content fr of
        Inl e \<Rightarrow> ([], Err (Io e))
      | Inr content \<Rightarrow>
     (case metadata_after fr of
        Inl e \<Rightarrow> ([], Err (Io e))
      | Inr after \<Rightarrow>
     (if before \<noteq> after
      then ([Log LWarn [(''event'', ''CONFIG_RELOAD''), (''status'', ''rejected''),
                        (''reason'', ''file_mtime_changed''), (''path'', config_path)] ''''],
            Err FileChangedDuringRead)
      else
     (case toml content of
        Inl e \<Rightarrow> ([], Err (Parse e))
      | Inr raw \<Rightarrow>
         (let (new_static, new_dynamic) = into_static_and_dynamic (de_full raw) in
          case validate exists new_static new_dynamic cli_allow_wildcard_bind of
            Inl errors \<Rightarrow> ([], Err (reload_error_from_validation errors))
          | Inr _ \<Rightarrow> ([], Ok (new_static, new_dynamic))))))))"

section \<open>Reading at start\<close>

definition DEFAULT_CONFIG_PATH :: string where
  "DEFAULT_CONFIG_PATH = ''/etc/reverse-proxy/config.toml''"

record cli =
  cli_config :: string
  cli_validate :: bool
  cli_allow_wildcard :: bool

record loaded_config =
  ld_static_config :: static_config
  ld_dynamic_config :: dynamic_config
  ld_allow_wildcard_bind :: bool

text \<open>
  The errors of \<^verbatim>\<open>load_config\<close> are \<^verbatim>\<open>anyhow\<close> errors: a message, and for the first two the text of
  the underlying error as the cause.
\<close>

datatype load_error = Context string string | Bail string

definition bullet_list :: "validation_error list \<Rightarrow> string" where
  "bullet_list es = join_str [CHR 0x0A] (map (\<lambda>e. ''  - '' @ show_validation_error e) es)"

definition load_config ::
  "toml_reader \<Rightarrow> (string \<Rightarrow> bool) \<Rightarrow> u64 option \<Rightarrow> (string \<Rightarrow> io_error + string) \<Rightarrow> cli \<Rightarrow>
   load_error + loaded_config" where
  "load_config toml exists getrlimit read_to_string c =
     and_then
       (map_err (Context (''failed to read config file: '' @ cli_config c))
          (read_to_string (cli_config c))) (\<lambda>content.
     and_then
       (map_err (Context (''failed to parse config file: '' @ cli_config c))
          (full_config_parse toml content)) (\<lambda>full.
     (let (sc, dc) = into_static_and_dynamic full;
          allow = (allow_wildcard_bind sc \<or> cli_allow_wildcard c)
      in and_then
           (map_err (\<lambda>es. Bail (''config validation failed:'' @ [CHR 0x0A] @ bullet_list es))
              (validate exists sc dc (cli_allow_wildcard c))) (\<lambda>_.
         (let fd_errors = validate_nofile getrlimit (max_connections sc) in
          if fd_errors \<noteq> []
          then Err (Bail (''FD budget validation failed:'' @ [CHR 0x0A] @ bullet_list fd_errors))
          else Ok \<lparr>ld_static_config = sc, ld_dynamic_config = dc,
                   ld_allow_wildcard_bind = allow\<rparr>)))))"

datatype console = Stdout string | Stderr string

fun show_load_error :: "load_error \<Rightarrow> string" where
  "show_load_error (Context m cause) = m"
| "show_load_error (Bail m) = m"

definition run_validate ::
  "toml_reader \<Rightarrow> (string \<Rightarrow> bool) \<Rightarrow> u64 option \<Rightarrow> (string \<Rightarrow> io_error + string) \<Rightarrow> cli \<Rightarrow>
   console \<times> (load_error + unit)" where
  "run_validate toml exists getrlimit read_to_string c =
     (case load_config toml exists getrlimit read_to_string c of
        Inr _ \<Rightarrow> (Stdout ''Configuration is valid.'', Ok ())
      | Inl e \<Rightarrow> (Stderr (show_load_error e), Err e))"

section \<open>Lemmas\<close>

lemma into_static_and_dynamic_sites:
  "into_static_and_dynamic fc = (sc, dc) \<Longrightarrow>
   dc = from_sites (all_sites sc) (rate_limit dc) (body dc)"
  by (auto simp: into_static_and_dynamic_def Let_def from_sites_def all_sites_def)

lemma read_and_validate_okD:
  assumes "snd (read_and_validate_config toml exists fr path cli) = Ok (sc, dc)"
  shows "config_ok exists sc dc cli"
    and "dc = from_sites (all_sites sc) (rate_limit dc) (body dc)"
    and "\<exists>m content raw. metadata_before fr = Ok m \<and> metadata_after fr = Ok m \<and>
           config_content fr = Ok content \<and> toml content = Ok raw \<and>
           into_static_and_dynamic (de_full raw) = (sc, dc)"
proof -
  obtain m content raw where r: "metadata_before fr = Ok m" "metadata_after fr = Ok m"
      "config_content fr = Ok content" "toml content = Ok raw"
      "into_static_and_dynamic (de_full raw) = (sc, dc)" "validate exists sc dc cli = Ok ()"
    using assms
    by (auto simp: read_and_validate_config_def split: sum.splits if_splits prod.splits)
  then show "config_ok exists sc dc cli" by (simp add: validate_iff)
  show "dc = from_sites (all_sites sc) (rate_limit dc) (body dc)"
    using r(5) by (rule into_static_and_dynamic_sites)
  show "\<exists>m content raw. metadata_before fr = Ok m \<and> metadata_after fr = Ok m \<and>
           config_content fr = Ok content \<and> toml content = Ok raw \<and>
           into_static_and_dynamic (de_full raw) = (sc, dc)"
    using r by blast
qed

text \<open>
  Every site of an accepted configuration is found under its host, in any casing and with any
  port.
\<close>

lemma config_ok_reachable:
  assumes ok: "config_ok exists sc dc cli"
    and dc: "dc = from_sites (all_sites sc) rl b"
    and s: "s \<in> set (all_sites sc)"
    and h: "to_lowercase h = to_lowercase (s_host s)"
  shows "lookup dc h = Some s" "CHR '':'' \<notin> set p \<Longrightarrow> lookup dc (h @ '':'' @ p) = Some s"
proof -
  have "plain_name (s_host s)"
    using ok s valid_hostname_plain
    by (auto simp: config_ok_def site_ok_def is_valid_hostname_eq_spec)
  then have "plain_name (to_lowercase h)" unfolding h by simp
  then have plain: "plain_name h" by simp
  have d: "distinct (map (\<lambda>s. to_lowercase (s_host s)) (all_sites sc))"
    using ok by (simp add: config_ok_def)
  show "lookup dc h = Some s"
    unfolding dc using d s normalize_host_plain [OF plain] h by (intro lookup_distinct) auto
  show "lookup dc (h @ '':'' @ p) = Some s" if "CHR '':'' \<notin> set p"
    unfolding dc using d s normalize_host_port [OF plain that] h by (intro lookup_distinct) auto
qed

section \<open>Properties\<close>

definition example_raw :: raw_full where
  "example_raw =
     \<lparr>rf_listeners = Some
        [\<lparr>rl_bind_addr = ''127.0.0.1'', rl_http_port = None, rl_https_port = None,
          rl_tls = \<lparr>rt_mode = ''acme'', rt_acme_domains = Some [''test.local''],
                    rt_acme_cache_dir = Some ''/tmp/acme-cache'', rt_acme_directory = None,
                    rt_acme_contact = Some ''mailto:admin@example.com'',
                    rt_cert_path = None, rt_key_path = None\<rparr>,
          rl_sites = Some
            [\<lparr>rs_host = ''test.local'', rs_upstream = ''127.0.0.1:8080'',
              rs_upstream_scheme = None, rs_upstream_connect_timeout_secs = None,
              rs_upstream_request_timeout_secs = None\<rparr>]\<rparr>],
      rf_allow_wildcard_bind = None, rf_health_check_port = None, rf_admin_key_path = None,
      rf_shutdown_timeout_secs = None, rf_connection_idle_timeout_secs = None,
      rf_tls_handshake_timeout_secs = None, rf_max_connections = None, rf_logging = None,
      rf_rate_limit = \<lparr>requests_per_second = 10, burst = 20\<rparr>,
      rf_body = \<lparr>limit_bytes = 104857600\<rparr>\<rparr>"

definition example_toml :: toml_reader where
  "example_toml content = (if content = ''example'' then Ok example_raw else Err ''bad toml'')"

text \<open>
  With every optional key absent, the file describes the configuration that the unit tests use.
\<close>

lemma example_full:
  "into_static_and_dynamic (de_full example_raw) =
     (make_static_with_sites [test_site] make_acme_tls, valid_dynamic_config)"
  by (simp add: into_static_and_dynamic_def de_full_def example_raw_def de_listener_def de_tls_def
      de_site_def make_static_with_sites_def test_site_def make_acme_tls_def
      valid_dynamic_config_def cfg_defs)

lemma example_all_sites: "all_sites (make_static_with_sites [test_site] t) = [test_site]"
  by (simp add: all_sites_def make_static_with_sites_def)

definition example_cli :: cli where
  "example_cli = \<lparr>cli_config = DEFAULT_CONFIG_PATH, cli_validate = False, cli_allow_wildcard = False\<rparr>"

definition example_loaded :: loaded_config where
  "example_loaded =
     \<lparr>ld_static_config = make_static_with_sites [test_site] make_acme_tls,
      ld_dynamic_config = valid_dynamic_config, ld_allow_wildcard_bind = False\<rparr>"

lemma example_load:
  "load_config example_toml (\<lambda>p. True) (Some 8192) (\<lambda>p. Ok ''example'') example_cli
     = Ok example_loaded"
  by (simp add: load_config_def full_config_parse_def example_toml_def example_full Let_def
      example_cli_def config_fixture example_loaded_def validate_nofile_def soft_nofile_limit_def
      check_fd_budget_def RLIM_INFINITY_def RESERVED_FDS_def)
    (simp add: make_static_with_sites_def)

lemma load_config_Ok_iff:
  "load_config toml exists rl rd c = Ok ld \<longleftrightarrow>
     (\<exists>content raw. rd (cli_config c) = Ok content \<and> toml content = Ok raw \<and>
        into_static_and_dynamic (de_full raw) = (ld_static_config ld, ld_dynamic_config ld) \<and>
        config_ok exists (ld_static_config ld) (ld_dynamic_config ld) (cli_allow_wildcard c) \<and>
        validate_nofile rl (max_connections (ld_static_config ld)) = [] \<and>
        ld_allow_wildcard_bind ld =
          (allow_wildcard_bind (ld_static_config ld) \<or> cli_allow_wildcard c))"
proof (cases "rd (cli_config c)")
  case (Inr content)
  show ?thesis
  proof (cases "toml content")
    case (Inr raw)
    obtain sc dc where sd: "into_static_and_dynamic (de_full raw) = (sc, dc)" by fastforce
    have "validate exists sc dc (cli_allow_wildcard c) = Ok () \<longleftrightarrow>
        config_ok exists sc dc (cli_allow_wildcard c)" by (rule validate_iff)
    then show ?thesis
      using \<open>rd (cli_config c) = Ok content\<close> Inr sd
      by (cases "validate exists sc dc (cli_allow_wildcard c)"; cases ld)
        (auto simp: load_config_def full_config_parse_def Let_def)
  qed (use Inr in \<open>simp add: load_config_def full_config_parse_def\<close>)
qed (simp add: load_config_def)

text \<open>
  Starting from a configuration file, every site of every listener can be reached: a request
  whose host is the site's name in any casing, with or without a port, is routed to that site and
  to no other one.
\<close>

theorem loaded_sites_reachable:
  assumes "load_config toml exists rl rd c = Ok ld"
    and "s \<in> set (all_sites (ld_static_config ld))"
    and "to_lowercase h = to_lowercase (s_host s)"
    and "CHR '':'' \<notin> set p"
  shows "lookup (ld_dynamic_config ld) h = Some s \<and>
         lookup (ld_dynamic_config ld) (h @ '':'' @ p) = Some s"
proof -
  obtain raw where "into_static_and_dynamic (de_full raw) = (ld_static_config ld, ld_dynamic_config ld)"
    and ok: "config_ok exists (ld_static_config ld) (ld_dynamic_config ld) (cli_allow_wildcard c)"
    using assms(1) by (auto simp: load_config_Ok_iff)
  then show ?thesis
    using config_ok_reachable [OF ok into_static_and_dynamic_sites assms(2,3)] assms(4) by blast
qed

theorem loaded_sites_reachable_witness:
  "lookup (ld_dynamic_config example_loaded) ''Test.LOCAL'' = Some test_site \<and>
   lookup (ld_dynamic_config example_loaded) (''Test.LOCAL'' @ '':'' @ ''8443'') = Some test_site"
proof (rule loaded_sites_reachable [OF example_load])
  show "test_site \<in> set (all_sites (ld_static_config example_loaded))"
    by (simp add: example_loaded_def example_all_sites)
  show "to_lowercase ''Test.LOCAL'' = to_lowercase (s_host test_site)"
    unfolding test_site_def by code_simp
qed simp

text \<open>
  A reload takes a file only when it was stable while it was read: the attempt is answered
  with the request to retry exactly when the three file system calls succeed with two different
  modification times, whatever the content; and it delivers a configuration exactly when the times
  agree, the content parses and the configuration it describes satisfies every rule.
\<close>

theorem read_and_validate_outcomes:
  "(snd (read_and_validate_config toml exists fr path cli) = Err FileChangedDuringRead \<longleftrightarrow>
      (\<exists>m m' content. metadata_before fr = Ok m \<and> config_content fr = Ok content \<and>
         metadata_after fr = Ok m' \<and> m \<noteq> m')) \<and>
   (snd (read_and_validate_config toml exists fr path cli) = Ok (sc, dc) \<longleftrightarrow>
      (\<exists>m content raw. metadata_before fr = Ok m \<and> config_content fr = Ok content \<and>
         metadata_after fr = Ok m \<and> toml content = Ok raw \<and>
         into_static_and_dynamic (de_full raw) = (sc, dc) \<and> config_ok exists sc dc cli))"
proof (intro conjI)
  show "snd (read_and_validate_config toml exists fr path cli) = Err FileChangedDuringRead \<longleftrightarrow>
      (\<exists>m m' content. metadata_before fr = Ok m \<and> config_content fr = Ok content \<and>
         metadata_after fr = Ok m' \<and> m \<noteq> m')"
    by (auto simp: read_and_validate_config_def reload_error_from_validation_def
        split: sum.splits prod.splits if_splits)
  show "snd (read_and_validate_config toml exists fr path cli) = Ok (sc, dc) \<longleftrightarrow>
      (\<exists>m content raw. metadata_before fr = Ok m \<and> config_content fr = Ok content \<and>
         metadata_after fr = Ok m \<and> toml content = Ok raw \<and>
         into_static_and_dynamic (de_full raw) = (sc, dc) \<and> config_ok exists sc dc cli)"
    (is "?l \<longleftrightarrow> ?r")
  proof
    assume ?r
    then show ?l by (auto simp: read_and_validate_config_def validate_iff [symmetric])
  next
    assume ?l
    then show ?r using read_and_validate_okD(1,3) [OF \<open>?l\<close>] by blast
  qed
qed

end
