(* ===== verification/Reload.thy ===== *)
theory Reload
  imports Config_File
begin

text \<open>
  Reloading the configuration: \<^verbatim>\<open>ConfigReloadHandle\<close> of \<^verbatim>\<open>config/dynamic_config.rs\<close> and the two
  ways to trigger it, the SIGHUP handler of \<^verbatim>\<open>shutdown.rs\<close> here and the admin endpoint in the
  theory of the admin interface. The handle holds the two swappable pointers as fields. The
  function \<open>reload\<close> is the whole critical section; the step relation \<open>reload_step\<close> splits it into
  what other tasks can observe between: reading the file, taking the mutex, the two stores.
\<close>

section \<open>The handle\<close>

record reload_handle =
  rh_config :: dynamic_config
  rh_static_config :: static_config
  rh_cli_allow_wildcard_bind :: bool

definition reload_handle_new :: "dynamic_config \<Rightarrow> static_config \<Rightarrow> bool \<Rightarrow> reload_handle" where
  "reload_handle_new dc sc cli =
     \<lparr>rh_config = dc, rh_static_config = sc, rh_cli_allow_wildcard_bind = cli\<rparr>"

definition load :: "reload_handle \<Rightarrow> dynamic_config" where
  "load h = rh_config h"

definition diff_static_config :: "static_config \<Rightarrow> static_config \<Rightarrow> string list" where
  "diff_static_config old new =
     (if listeners old \<noteq> listeners new then [''listeners''] else []) @
     (if allow_wildcard_bind old \<noteq> allow_wildcard_bind new then [''allow_wildcard_bind''] else []) @
     (if health_check_port old \<noteq> health_check_port new then [''health_check_port''] else []) @
     (if admin_key_path old \<noteq> admin_key_path new then [''admin_key_path''] else []) @
     (if shutdown_timeout_secs old \<noteq> shutdown_timeout_secs new
      then [''shutdown_timeout_secs''] else []) @
     (if connection_idle_timeout_secs old \<noteq> connection_idle_timeout_secs new
      then [''connection_idle_timeout_secs''] else []) @
     (if tls_handshake_timeout_secs old \<noteq> tls_handshake_timeout_secs new
      then [''tls_handshake_timeout_secs''] else []) @
     (if max_connections old \<noteq> max_connections new then [''max_connections''] else []) @
     (if logging old \<noteq> logging new then [''logging''] else [])"

text \<open>
  The two checks that \<^verbatim>\<open>reload\<close> makes while it holds the mutex; the error is the message of the
  \<^verbatim>\<open>anyhow\<close> error.
\<close>

definition reload_check ::
  "(string \<Rightarrow> bool) \<Rightarrow> u64 option \<Rightarrow> bool \<Rightarrow> static_config \<Rightarrow> dynamic_config \<Rightarrow> string + unit" where
  "reload_check exists getrlimit cli new_static new_dynamic =
     and_then
       (map_err (\<lambda>errors. join_str ''; '' (map show_validation_error errors))
          (validate exists new_static new_dynamic cli)) (\<lambda>_.
     (let fd_errors = validate_nofile getrlimit (max_connections new_static) in
      if fd_errors \<noteq> []
      then Err (''FD budget validation failed: '' @
                join_str ''; '' (map show_validation_error fd_errors))
      else Ok ()))"

definition reload ::
  "(string \<Rightarrow> bool) \<Rightarrow> u64 option \<Rightarrow> reload_handle \<Rightarrow> static_config \<Rightarrow> dynamic_config \<Rightarrow>
   reload_handle \<times> (string + string list)" where
  "reload exists getrlimit h new_static new_dynamic =
     (case reload_check exists getrlimit (rh_cli_allow_wildcard_bind h) new_static new_dynamic of
        Inl e \<Rightarrow> (h, Err e)
      | Inr _ \<Rightarrow>
          (let changed_fields = diff_static_config (rh_static_config h) new_static in
           (h\<lparr>rh_config := new_dynamic, rh_static_config := new_static\<rparr>, Ok changed_fields)))"

definition handle_sighup_reload ::
  "toml_reader \<Rightarrow> (string \<Rightarrow> bool) \<Rightarrow> u64 option \<Rightarrow> file_read \<Rightarrow> reload_handle \<Rightarrow> string \<Rightarrow>
   reload_handle \<times> log_line list" where
  "handle_sighup_reload toml exists getrlimit fr h config_path =
     (case read_and_validate_config toml exists fr config_path (rh_cli_allow_wildcard_bind h) of
        (logs, Inl e) \<Rightarrow>
          (h, logs @ [Log LError [(''event'', ''CONFIG_RELOAD''), (''status'', ''error''),
                                  (''error'', show_reload_error e)] ''''])
      | (logs, Inr (new_static, new_dynamic)) \<Rightarrow>
          (case reload exists getrlimit h new_static new_dynamic of
             (h', Inr changed_fields) \<Rightarrow>
               (h', logs @
                  (if changed_fields \<noteq> []
                   then [Log LWarn [(''event'', ''CONFIG_RELOAD''), (''status'', ''warning'')]
                           (''static config fields changed (restart required): '' @
                            join_str '', '' changed_fields)]
                   else []) @
                  [Log LInfo [(''event'', ''CONFIG_RELOAD''), (''status'', ''success'')] ''''])
           | (h', Inl e) \<Rightarrow>
               (h', logs @ [Log LError [(''event'', ''CONFIG_RELOAD''), (''status'', ''error''),
                                        (''error'', e)] ''''])))"

section \<open>Lemmas on one reload\<close>

lemma reload_check_Ok_iff:
  "reload_check exists rl cli sc dc = Ok () \<longleftrightarrow>
     config_ok exists sc dc cli \<and> validate_nofile rl (max_connections sc) = []"
  by (auto simp: reload_check_def Let_def and_then_Inr_iff map_err_Inr_iff validate_iff)

lemma reload_cases:
  "reload exists rl h sc dc = (h', r) \<Longrightarrow>
     (\<exists>e. r = Err e \<and> h' = h \<and>
        reload_check exists rl (rh_cli_allow_wildcard_bind h) sc dc = Err e) \<or>
     (r = Ok (diff_static_config (rh_static_config h) sc) \<and>
        h' = h\<lparr>rh_config := dc, rh_static_config := sc\<rparr> \<and>
        reload_check exists rl (rh_cli_allow_wildcard_bind h) sc dc = Ok ())"
  by (auto simp: reload_def Let_def split: sum.splits)

text \<open>
  A handle is good when its two parts come from one file and satisfy every rule.
\<close>

definition snapshot_ok :: "(string \<Rightarrow> bool) \<Rightarrow> bool \<Rightarrow> static_config \<Rightarrow> dynamic_config \<Rightarrow> bool" where
  "snapshot_ok exists cli sc dc =
     (config_ok exists sc dc cli \<and> dc = from_sites (all_sites sc) (rate_limit dc) (body dc))"

definition handle_ok :: "(string \<Rightarrow> bool) \<Rightarrow> reload_handle \<Rightarrow> bool" where
  "handle_ok exists h =
     snapshot_ok exists (rh_cli_allow_wildcard_bind h) (rh_static_config h) (rh_config h)"

lemma reload_handle_ok:
  assumes "handle_ok exists h" "dc = from_sites (all_sites sc) (rate_limit dc) (body dc)"
  shows "handle_ok exists (fst (reload exists rl h sc dc))"
proof -
  obtain h' r where r: "reload exists rl h sc dc = (h', r)" by fastforce
  show ?thesis using reload_cases [OF r] r assms
    by (auto simp: handle_ok_def snapshot_ok_def reload_check_Ok_iff)
qed

lemma sighup_reload_handle:
  "fst (handle_sighup_reload toml exists rl fr h path) =
     (case snd (read_and_validate_config toml exists fr path (rh_cli_allow_wildcard_bind h)) of
        Inl e \<Rightarrow> h
      | Inr (sc, dc) \<Rightarrow> fst (reload exists rl h sc dc))"
  by (auto simp: handle_sighup_reload_def split: prod.splits sum.splits)

lemma load_config_handle_ok:
  assumes "load_config toml exists rl rd c = Ok ld"
  shows "handle_ok exists (reload_handle_new (ld_dynamic_config ld) (ld_static_config ld) (cli_allow_wildcard c))"
  using assms
  by (auto simp: load_config_Ok_iff handle_ok_def snapshot_ok_def reload_handle_new_def
      dest: into_static_and_dynamic_sites)

text \<open>
  The handle that the program starts with carries the flag of the command line or the file; the
  rules give the same verdict with it.
\<close>

lemma config_ok_flag: "config_ok exists sc dc (allow_wildcard_bind sc \<or> cli) = config_ok exists sc dc cli"
  by (simp add: config_ok_def listener_ok_def)

lemma start_handle_ok:
  assumes "load_config toml exists rl rd c = Ok ld"
  shows "handle_ok exists (reload_handle_new (ld_dynamic_config ld) (ld_static_config ld) (ld_allow_wildcard_bind ld))"
proof -
  have "ld_allow_wildcard_bind ld = (allow_wildcard_bind (ld_static_config ld) \<or> cli_allow_wildcard c)"
    using assms unfolding load_config_Ok_iff by blast
  then show ?thesis
    using load_config_handle_ok [OF assms] by (simp add: handle_ok_def snapshot_ok_def reload_handle_new_def config_ok_flag)
qed

lemma sighup_handle_cases:
  "fst (handle_sighup_reload toml exists rl fr h path) = h \<or>
   handle_ok exists (fst (handle_sighup_reload toml exists rl fr h path))"
proof (cases "snd (read_and_validate_config toml exists fr path (rh_cli_allow_wildcard_bind h))")
  case (Inr p)
  obtain sc dc where p: "p = (sc, dc)" by fastforce
  obtain h' r where r: "reload exists rl h sc dc = (h', r)" by fastforce
  have "dc = from_sites (all_sites sc) (rate_limit dc) (body dc)"
    using Inr p read_and_validate_okD(2) by blast
  then show ?thesis using reload_cases [OF r] Inr p r
    by (auto simp: sighup_reload_handle handle_ok_def snapshot_ok_def reload_check_Ok_iff)
qed (simp add: sighup_reload_handle)

text \<open>
  A handle is consistent when it is good for some state of the file system. SIGHUP is a guarded
  update of it, whatever it finds in the file.
\<close>

abbreviation handle_consistent :: "reload_handle \<Rightarrow> bool" where
  "handle_consistent h \<equiv> \<exists>exists. handle_ok exists h"

interpretation sighup: guarded_update
  "\<lambda>(toml, exists, rl, fr, path) h. fst (handle_sighup_reload toml exists rl fr h path)"
  "\<lambda>h. h" handle_consistent
  by unfold_locales (use sighup_handle_cases in \<open>fastforce split: prod.split\<close>)

section \<open>Concurrent reloads\<close>

text \<open>
  Any number of tasks, each on its way through \<^verbatim>\<open>read_and_validate_config\<close> followed by
  \<^verbatim>\<open>reload\<close>, and an operator who edits the file. A phase is a point between two actions that
  other tasks can observe. Each check asks the operating system again: it finds one of the
  environments in \<open>E\<close>, the existing files and the descriptor limit.
\<close>

datatype phase =
    Idle
  | HasRead static_config dynamic_config
  | Locked static_config dynamic_config
  | DynStored static_config
  | Finished

record reload_system =
  sy_file :: raw_full
  sy_handle :: reload_handle
  sy_mutex :: "nat option"
  sy_phase :: "nat \<Rightarrow> phase"

type_synonym environment = "(string \<Rightarrow> bool) \<times> u64 option"

inductive reload_step :: "environment set \<Rightarrow> reload_system \<Rightarrow> reload_system \<Rightarrow> bool"
  for E where
  edit_file: "reload_step E s (s\<lparr>sy_file := f\<rparr>)"
| read_file:
    "sy_phase s i = Idle \<Longrightarrow>
     into_static_and_dynamic (de_full (sy_file s)) = (sc, dc) \<Longrightarrow>
     (exists, rl) \<in> E \<Longrightarrow>
     validate exists sc dc (rh_cli_allow_wildcard_bind (sy_handle s)) = Ok () \<Longrightarrow>
     reload_step E s (s\<lparr>sy_phase := (sy_phase s)(i := HasRead sc dc)\<rparr>)"
| take_mutex:
    "sy_phase s i = HasRead sc dc \<Longrightarrow> sy_mutex s = None \<Longrightarrow>
     reload_step E s
       (s\<lparr>sy_mutex := Some i, sy_phase := (sy_phase s)(i := Locked sc dc)\<rparr>)"
| reject:
    "sy_phase s i = Locked sc dc \<Longrightarrow> (exists, rl) \<in> E \<Longrightarrow>
     reload_check exists rl (rh_cli_allow_wildcard_bind (sy_handle s)) sc dc = Err e \<Longrightarrow>
     reload_step E s
       (s\<lparr>sy_mutex := None, sy_phase := (sy_phase s)(i := Finished)\<rparr>)"
| store_dynamic:
    "sy_phase s i = Locked sc dc \<Longrightarrow> (exists, rl) \<in> E \<Longrightarrow>
     reload_check exists rl (rh_cli_allow_wildcard_bind (sy_handle s)) sc dc = Ok () \<Longrightarrow>
     reload_step E s
       (s\<lparr>sy_handle := (sy_handle s)\<lparr>rh_config := dc\<rparr>,
          sy_phase := (sy_phase s)(i := DynStored sc)\<rparr>)"
| store_static:
    "sy_phase s i = DynStored sc \<Longrightarrow>
     reload_step E s
       (s\<lparr>sy_handle := (sy_handle s)\<lparr>rh_static_config := sc\<rparr>, sy_mutex := None,
          sy_phase := (sy_phase s)(i := Finished)\<rparr>)"

abbreviation reload_steps :: "environment set \<Rightarrow> reload_system \<Rightarrow> reload_system \<Rightarrow> bool" where
  "reload_steps E \<equiv> (reload_step E)\<^sup>*\<^sup>*"

text \<open>
  Snapshots and handles that are good in one of the environments.
\<close>

definition snapshot_in :: "environment set \<Rightarrow> bool \<Rightarrow> static_config \<Rightarrow> dynamic_config \<Rightarrow> bool" where
  "snapshot_in E cli sc dc = (\<exists>(exists, rl)\<in>E. snapshot_ok exists cli sc dc)"

definition handle_in :: "environment set \<Rightarrow> reload_handle \<Rightarrow> bool" where
  "handle_in E h = (\<exists>(exists, rl)\<in>E. handle_ok exists h)"

lemma handle_in_snapshot:
  "handle_in E h = snapshot_in E (rh_cli_allow_wildcard_bind h) (rh_static_config h) (rh_config h)"
  by (simp add: handle_in_def snapshot_in_def handle_ok_def)

definition reload_start :: "raw_full \<Rightarrow> reload_handle \<Rightarrow> reload_system" where
  "reload_start f h = \<lparr>sy_file = f, sy_handle = h, sy_mutex = None, sy_phase = (\<lambda>i. Idle)\<rparr>"

definition in_critical :: "phase \<Rightarrow> bool" where
  "in_critical p = (case p of Locked _ _ \<Rightarrow> True | DynStored _ \<Rightarrow> True | _ \<Rightarrow> False)"

lemma in_critical_simps [simp]:
  "\<not> in_critical Idle" "\<not> in_critical (HasRead sc dc)" "in_critical (Locked sc dc)"
  "in_critical (DynStored sc)" "\<not> in_critical Finished"
  by (simp_all add: in_critical_def)

text \<open>
  The invariant: the mutex names the one task in the critical section; what a task carries is a
  snapshot of a valid file; the pair of pointers is such a snapshot, except that between the two
  stores the dynamic pointer already belongs to the static part about to be stored.
\<close>

definition phase_ok :: "environment set \<Rightarrow> reload_handle \<Rightarrow> phase \<Rightarrow> bool" where
  "phase_ok E h p =
     (case p of
        HasRead sc dc \<Rightarrow> snapshot_in E (rh_cli_allow_wildcard_bind h) sc dc
      | Locked sc dc \<Rightarrow> snapshot_in E (rh_cli_allow_wildcard_bind h) sc dc \<and> handle_in E h
      | DynStored sc \<Rightarrow> snapshot_in E (rh_cli_allow_wildcard_bind h) sc (rh_config h)
      | _ \<Rightarrow> True)"

definition reload_inv :: "environment set \<Rightarrow> reload_system \<Rightarrow> bool" where
  "reload_inv E s =
     ((\<forall>i. in_critical (sy_phase s i) \<longleftrightarrow> sy_mutex s = Some i) \<and>
      (\<forall>i. phase_ok E (sy_handle s) (sy_phase s i)) \<and>
      (sy_mutex s = None \<longrightarrow> handle_in E (sy_handle s)))"

lemma phase_ok_simps [simp]:
  "phase_ok E h Idle" "phase_ok E h Finished"
  "phase_ok E h (HasRead sc dc) = snapshot_in E (rh_cli_allow_wildcard_bind h) sc dc"
  "phase_ok E h (Locked sc dc) =
     (snapshot_in E (rh_cli_allow_wildcard_bind h) sc dc \<and> handle_in E h)"
  "phase_ok E h (DynStored sc) =
     snapshot_in E (rh_cli_allow_wildcard_bind h) sc (rh_config h)"
  by (simp_all add: phase_ok_def)

lemma phase_ok_outside:
  "\<not> in_critical p \<Longrightarrow> rh_cli_allow_wildcard_bind h' = rh_cli_allow_wildcard_bind h \<Longrightarrow>
   phase_ok E h' p = phase_ok E h p"
  by (cases p) auto

lemma reload_inv_start: "handle_in E h \<Longrightarrow> reload_inv E (reload_start f h)"
  by (simp add: reload_inv_def reload_start_def)

lemma reload_inv_step:
  assumes "reload_step E s t" "reload_inv E s"
  shows "reload_inv E t"
  using assms
proof (cases rule: reload_step.cases)
  case (read_file i sc dc exists rl)
  then have "snapshot_in E (rh_cli_allow_wildcard_bind (sy_handle s)) sc dc"
    using into_static_and_dynamic_sites by (auto simp: snapshot_in_def snapshot_ok_def validate_iff)
  moreover have "sy_mutex s \<noteq> Some i"
    using read_file assms(2) by (metis reload_inv_def in_critical_simps(1))
  ultimately show ?thesis using read_file assms(2) by (auto simp: reload_inv_def)
next
  case (take_mutex i sc dc)
  then have "phase_ok E (sy_handle s) (HasRead sc dc)"
    using assms(2) by (metis reload_inv_def)
  then show ?thesis using take_mutex assms(2) by (auto simp: reload_inv_def)
next
  case (reject i sc dc exists rl e)
  then have "sy_mutex s = Some i" "handle_in E (sy_handle s)"
    using assms(2) by (metis reload_inv_def in_critical_simps(3), metis reload_inv_def phase_ok_simps(4))
  then show ?thesis using reject assms(2) by (auto simp: reload_inv_def)
next
  case (store_dynamic i sc dc exists rl)
  have m: "sy_mutex s = Some i" using store_dynamic assms(2) by (metis reload_inv_def in_critical_simps(3))
  have p: "phase_ok E (sy_handle s) (Locked sc dc)"
    using store_dynamic assms(2) by (metis reload_inv_def)
  have "phase_ok E ((sy_handle s)\<lparr>rh_config := dc\<rparr>) (sy_phase s j)" if "j \<noteq> i" for j
    using that m assms(2) phase_ok_outside [of "sy_phase s j" "(sy_handle s)\<lparr>rh_config := dc\<rparr>" "sy_handle s"]
    by (auto simp: reload_inv_def)
  then show ?thesis using store_dynamic m p assms(2) by (auto simp: reload_inv_def)
next
  case (store_static i sc)
  have m: "sy_mutex s = Some i" using store_static assms(2) by (metis reload_inv_def in_critical_simps(4))
  have p: "phase_ok E (sy_handle s) (DynStored sc)"
    using store_static assms(2) by (metis reload_inv_def)
  have "phase_ok E ((sy_handle s)\<lparr>rh_static_config := sc\<rparr>) (sy_phase s j)" if "j \<noteq> i" for j
    using that m assms(2)
      phase_ok_outside [of "sy_phase s j" "(sy_handle s)\<lparr>rh_static_config := sc\<rparr>" "sy_handle s"]
    by (auto simp: reload_inv_def)
  then show ?thesis using store_static m p assms(2) by (auto simp: reload_inv_def handle_in_snapshot)
qed (auto simp: reload_inv_def)

lemma reload_inv_steps:
  "reload_steps E s t \<Longrightarrow> reload_inv E s \<Longrightarrow> reload_inv E t"
  by (induction rule: rtranclp_induct) (auto intro: reload_inv_step)

lemma reload_inv_dynamic:
  assumes "reload_inv E s"
  shows "\<exists>sc. snapshot_in E (rh_cli_allow_wildcard_bind (sy_handle s)) sc (rh_config (sy_handle s))"
proof (cases "sy_mutex s")
  case None
  then show ?thesis using assms by (auto simp: reload_inv_def handle_in_snapshot)
next
  case (Some i)
  then have "in_critical (sy_phase s i)" "phase_ok E (sy_handle s) (sy_phase s i)"
    using assms by (auto simp: reload_inv_def)
  then show ?thesis by (cases "sy_phase s i") (auto simp: handle_in_snapshot)
qed

text \<open>
  A task that holds a configuration and finds the mutex free can run to its end in one go: the handle
  is then the one that \<open>reload\<close> computes.
\<close>

lemma reload_run:
  assumes "sy_phase s i = HasRead sc dc" and "sy_mutex s = None" and "(exists, rl) \<in> E"
  shows "reload_steps E s
           (s\<lparr>sy_handle := fst (reload exists rl (sy_handle s) sc dc),
              sy_phase := (sy_phase s)(i := Finished)\<rparr>)"
proof -
  let ?cli = "rh_cli_allow_wildcard_bind (sy_handle s)"
  let ?s1 = "s\<lparr>sy_mutex := Some i, sy_phase := (sy_phase s)(i := Locked sc dc)\<rparr>"
  have 1: "reload_step E s ?s1" using assms(1,2) by (rule take_mutex)
  show ?thesis
  proof (cases "reload_check exists rl ?cli sc dc")
    case (Inl e)
    have "reload_step E ?s1 (?s1\<lparr>sy_mutex := None, sy_phase := (sy_phase ?s1)(i := Finished)\<rparr>)"
      by (rule reject) (use Inl assms(3) in simp_all)
    with 1 have "reload_steps E s (?s1\<lparr>sy_mutex := None, sy_phase := (sy_phase ?s1)(i := Finished)\<rparr>)"
      by auto
    then show ?thesis using Inl assms(2) by (cases s) (simp add: reload_def)
  next
    case (Inr u)
    let ?s2 = "?s1\<lparr>sy_handle := (sy_handle s)\<lparr>rh_config := dc\<rparr>, sy_phase := (sy_phase ?s1)(i := DynStored sc)\<rparr>"
    let ?s3 = "?s2\<lparr>sy_handle := (sy_handle ?s2)\<lparr>rh_static_config := sc\<rparr>, sy_mutex := None,
                   sy_phase := (sy_phase ?s2)(i := Finished)\<rparr>"
    have 2: "reload_step E ?s1 ?s2"
      using store_dynamic [of ?s1 i sc dc exists rl E] Inr assms(3) by simp
    have 3: "reload_step E ?s2 ?s3" by (rule store_static) simp
    have "reload_steps E s ?s3" using 1 2 3 by (meson converse_rtranclp_into_rtranclp rtranclp.rtrancl_refl)
    then show ?thesis using Inr assms(2) by (cases s) (simp add: reload_def Let_def)
  qed
qed

section \<open>Properties\<close>

text \<open>
  C17: A reload is all or nothing. When the new configuration violates a rule or the descriptor
  budget, the handle is untouched and an error is returned; otherwise both pointers hold the new
  configuration and the fields whose change needs a restart are returned.
\<close>

theorem reload_all_or_nothing:
  "reload exists rl h sc dc =
     (if config_ok exists sc dc (rh_cli_allow_wildcard_bind h) \<and>
         validate_nofile rl (max_connections sc) = []
      then (h\<lparr>rh_config := dc, rh_static_config := sc\<rparr>,
            Ok (diff_static_config (rh_static_config h) sc))
      else (h, Err (projl (reload_check exists rl (rh_cli_allow_wildcard_bind h) sc dc))))"
  using reload_check_Ok_iff [of exists rl "rh_cli_allow_wildcard_bind h" sc dc]
  by (cases "reload_check exists rl (rh_cli_allow_wildcard_bind h) sc dc")
    (auto simp: reload_def Let_def)

text \<open>
  No change of the static configuration goes unreported: the list of changed fields is empty
  exactly when the two configurations are equal.
\<close>

theorem diff_static_config_complete:
  "diff_static_config old new = [] \<longleftrightarrow> old = new"
  by (cases old; cases new) (simp add: diff_static_config_def)

text \<open>
  A SIGHUP never damages a running proxy: starting from a handle whose two parts are a valid
  snapshot of one file, the handle after the signal is again such a snapshot, whatever the file
  contains, whether or not it can be read, and whatever the descriptor limit is.
\<close>

theorem sighup_keeps_handle_ok:
  assumes "handle_ok exists h"
  shows "handle_ok exists (fst (handle_sighup_reload toml exists rl fr h path))"
proof (cases "snd (read_and_validate_config toml exists fr path (rh_cli_allow_wildcard_bind h))")
  case (Inl e)
  then show ?thesis using assms by (simp add: sighup_reload_handle)
next
  case (Inr p)
  obtain sc dc where p: "p = (sc, dc)" by fastforce
  then have "dc = from_sites (all_sites sc) (rate_limit dc) (body dc)"
    using Inr read_and_validate_okD(2) by blast
  then show ?thesis using Inr p reload_handle_ok [OF assms] by (simp add: sighup_reload_handle)
qed

definition example_handle :: reload_handle where
  "example_handle =
     reload_handle_new valid_dynamic_config (make_static_with_sites [test_site] make_acme_tls) False"

lemma example_handle_ok: "handle_ok (\<lambda>p. True) example_handle"
  using load_config_handle_ok [OF example_load]
  by (simp add: example_handle_def example_loaded_def example_cli_def)

theorem sighup_keeps_handle_ok_witness:
  "handle_ok (\<lambda>p. True)
     (fst (handle_sighup_reload example_toml (\<lambda>p. True) (Some 8192)
       \<lparr>metadata_before = Ok (Some 5), config_content = Ok ''garbage'',
        metadata_after = Ok (Some 5)\<rparr> example_handle ''/etc/reverse-proxy/config.toml''))"
  by (rule sighup_keeps_handle_ok) (rule example_handle_ok)

text \<open>
  C5: With any number of concurrent reloads and edits of the file, while the files that exist and the
  descriptor limit change between any two checks, whenever the mutex is free the static and the
  dynamic part belong to one file that was valid in one of these environments, and at every moment,
  also between the two stores, the dynamic part that requests are routed by is the one of such a
  file.
\<close>

theorem concurrent_reload_consistent:
  assumes "handle_in E h" and "reload_steps E (reload_start f h) s"
  shows "(sy_mutex s = None \<longrightarrow> handle_in E (sy_handle s)) \<and>
         (\<exists>sc. snapshot_in E (rh_cli_allow_wildcard_bind (sy_handle s)) sc (rh_config (sy_handle s)))"
  using reload_inv_steps [OF assms(2) reload_inv_start [OF assms(1)]] reload_inv_dynamic
  by (auto simp: reload_inv_def)

text \<open>
  An environment in which every file exists and the descriptor limit is unknown.
\<close>

definition example_environments :: "environment set" where
  "example_environments = {(\<lambda>p. True, None)}"

definition example_waiting :: reload_system where
  "example_waiting =
     (reload_start example_raw example_handle)
       \<lparr>sy_phase := (\<lambda>i. if i = 0 then HasRead (make_static_with_sites [test_site] make_acme_tls)
                                            valid_dynamic_config else Idle)\<rparr>"

lemma example_waiting_reached:
  "reload_steps example_environments (reload_start example_raw example_handle) example_waiting"
proof -
  let ?s0 = "reload_start example_raw example_handle"
  have "reload_step example_environments ?s0 (?s0\<lparr>sy_phase := (sy_phase ?s0)(0 :=
      HasRead (make_static_with_sites [test_site] make_acme_tls) valid_dynamic_config)\<rparr>)"
    by (rule read_file [where exists = "\<lambda>p. True" and rl = None])
      (use example_full config_fixture in \<open>simp_all add: reload_start_def example_handle_def reload_handle_new_def
        example_environments_def\<close>)
  moreover have "?s0\<lparr>sy_phase := (sy_phase ?s0)(0 :=
      HasRead (make_static_with_sites [test_site] make_acme_tls) valid_dynamic_config)\<rparr> = example_waiting"
    by (auto simp: example_waiting_def reload_start_def)
  ultimately show ?thesis by (metis r_into_rtranclp)
qed

theorem concurrent_reload_consistent_witness:
  "handle_in example_environments (sy_handle example_waiting) \<and>
   (\<exists>sc. snapshot_in example_environments (rh_cli_allow_wildcard_bind (sy_handle example_waiting)) sc
           (rh_config (sy_handle example_waiting)))"
proof -
  have "handle_in example_environments example_handle"
    using example_handle_ok by (simp add: handle_in_def example_environments_def)
  then show ?thesis
    using concurrent_reload_consistent [OF _ example_waiting_reached]
    by (simp add: example_waiting_def reload_start_def)
qed

text \<open>
  The file after an edit that raises the rate limit, and the configuration it describes.
\<close>

definition edited_raw :: raw_full where
  "edited_raw = example_raw\<lparr>rf_rate_limit := \<lparr>requests_per_second = 50, burst = 100\<rparr>\<rparr>"

definition edited_dynamic_config :: dynamic_config where
  "edited_dynamic_config =
     valid_dynamic_config\<lparr>rate_limit := \<lparr>requests_per_second = 50, burst = 100\<rparr>\<rparr>"

lemma edited_full:
  "into_static_and_dynamic (de_full edited_raw) =
     (make_static_with_sites [test_site] make_acme_tls, edited_dynamic_config)"
  by (simp add: into_static_and_dynamic_def de_full_def edited_raw_def edited_dynamic_config_def
      example_raw_def de_listener_def de_tls_def de_site_def make_static_with_sites_def
      test_site_def make_acme_tls_def valid_dynamic_config_def from_sites_def cfg_defs)

lemma edited_config_ok:
  "config_ok (\<lambda>p. True) (make_static_with_sites [test_site] make_acme_tls) valid_dynamic_config False"
  "config_ok (\<lambda>p. True) (make_static_with_sites [test_site] make_acme_tls) edited_dynamic_config False"
  using config_fixture unfolding validate_iff
  by (simp_all add: config_ok_def edited_dynamic_config_def valid_dynamic_config_def from_sites_def)


end
