(* ===== verification/Rust_Async.thy ===== *)
theory Rust_Async
  imports Prelude
begin

text \<open>
  Futures seen from the outside: one that completes after a time with a value, or one that never
  completes. \<^verbatim>\<open>tokio::time::timeout\<close> polls the future before its timer, so a future that is ready
  at the deadline wins.
\<close>

datatype 'a future = Never | After duration 'a

datatype elapsed = Elapsed

fun map_future :: "('a \<Rightarrow> 'b) \<Rightarrow> 'a future \<Rightarrow> 'b future" where
  "map_future g Never = Never"
| "map_future g (After d x) = After d (g x)"

fun tokio_timeout :: "duration \<Rightarrow> 'a future \<Rightarrow> (elapsed + 'a) future" where
  "tokio_timeout t Never = After t (Err Elapsed)"
| "tokio_timeout t (After d x) = (if d \<le> t then After d (Ok x) else After t (Err Elapsed))"

lemma tokio_timeout_bounded: "\<exists>d x. tokio_timeout t f = After d x \<and> d \<le> t"
  by (cases f) auto

lemma tokio_timeout_Ok_iff:
  "tokio_timeout t f = After d (Ok x) \<longleftrightarrow> f = After d x \<and> d \<le> t"
  by (cases f) auto

lemma map_future_eq_After:
  "map_future g f = After d y \<longleftrightarrow> (\<exists>x. f = After d x \<and> y = g x)"
  by (cases f) auto

text \<open>
  Two timers around one future act as the shorter of the two; which of them has fired tells which
  is the shorter one, the inner one when they are equal.
\<close>

lemma nested_timeout:
  "tokio_timeout outer (tokio_timeout inner f) =
     (case f of
        After d x \<Rightarrow>
          if d \<le> min outer inner then After d (Ok (Ok x))
          else if inner \<le> outer then After inner (Ok (Err Elapsed))
          else After outer (Err Elapsed)
      | Never \<Rightarrow>
          if inner \<le> outer then After inner (Ok (Err Elapsed))
          else After outer (Err Elapsed))"
  by (cases f) auto

end
