(* ===== verification/Http_Model.thy ===== *)
theory Http_Model
  imports Rust_Async Events
begin

text \<open>
  The vocabulary of HTTP that the handlers use. The \<^verbatim>\<open>http\<close>, \<^verbatim>\<open>axum\<close> and \<^verbatim>\<open>hyper\<close> crates are not
  part of the sources: their header map, header values, URI parser, request builder and limited
  body are the operations of a record \<open>http_lib\<close>, over an arbitrary type of header maps and of
  bodies, and the locale \<open>http_laws\<close> states the documented behaviour that the handlers rely on.
  Header names are lower case, as the map stores them.
\<close>

section \<open>Messages\<close>

record authority =
  au_host :: string
  au_port :: "u16 option"

record uri =
  u_scheme :: "string option"
  u_authority :: "authority option"
  u_path :: string
  u_query :: "string option"

definition uri_host :: "uri \<Rightarrow> string option" where
  "uri_host u = map_option au_host (u_authority u)"

record ('h, 'b) request =
  rq_method :: string
  rq_uri :: uri
  rq_headers :: 'h
  rq_body :: 'b
  rq_connect_info :: "socket_addr option"

text \<open>
  A response is either built by the proxy, from a status, the headers it sets and a text, or
  passed on from the upstream.
\<close>

datatype ('h, 'b) response =
    Reply nat "(string \<times> string) list" string
  | FromParts nat 'h 'b

text \<open>
  What \<^verbatim>\<open>into_response\<close> of \<^verbatim>\<open>axum\<close> makes of a status and a text: a text body comes with its content
  type.
\<close>

abbreviation text_reply :: "nat \<Rightarrow> string \<Rightarrow> ('h, 'b) response" where
  "text_reply status body \<equiv> Reply status [(''content-type'', ''text/plain; charset=utf-8'')] body"

fun response_status :: "('h, 'b) response \<Rightarrow> nat" where
  "response_status (Reply s hs t) = s"
| "response_status (FromParts s h b) = s"

section \<open>The library\<close>

text \<open>
  \<open>hm_get\<close>, \<open>hm_insert\<close>, \<open>hm_remove\<close> and \<open>hm_iter\<close> are the methods of \<^verbatim>\<open>HeaderMap\<close>, \<open>hm_values\<close> is
  \<^verbatim>\<open>get_all\<close>; \<open>hm_append\<close> is what the request builder does with a header, which fails when the map
  is full. \<open>hv_to_str\<close> and \<open>hv_from_str\<close> are the conversions of \<^verbatim>\<open>HeaderValue\<close>, \<open>uri_parse\<close> is
  \<^verbatim>\<open>str::parse::<Uri>\<close>, \<open>limited\<close> is \<^verbatim>\<open>http_body_util::Limited\<close>.
\<close>

record ('h, 'b) http_lib =
  hm_empty :: 'h
  hm_get :: "'h \<Rightarrow> string \<Rightarrow> string option"
  hm_values :: "'h \<Rightarrow> string \<Rightarrow> string list"
  hm_insert :: "'h \<Rightarrow> string \<Rightarrow> string \<Rightarrow> 'h"
  hm_remove :: "'h \<Rightarrow> string \<Rightarrow> 'h"
  hm_append :: "'h \<Rightarrow> string \<Rightarrow> string \<Rightarrow> string + 'h"
  hm_iter :: "'h \<Rightarrow> (string \<times> string) list"
  hv_to_str :: "string \<Rightarrow> string option"
  hv_from_str :: "string \<Rightarrow> string + string"
  uri_parse :: "string \<Rightarrow> string + uri"
  limited :: "'b \<Rightarrow> usize \<Rightarrow> 'b"

definition visible_ascii :: "string \<Rightarrow> bool" where
  "visible_ascii s = list_all (\<lambda>c. 32 \<le> (of_char c :: nat) \<and> (of_char c :: nat) < 127) s"

locale http_laws =
  fixes L :: "('h, 'b) http_lib"
  assumes get_values: "hm_get L h n = (case hm_values L h n of [] \<Rightarrow> None | v # _ \<Rightarrow> Some v)"
    and values_empty: "hm_values L (hm_empty L) n = []"
    and values_insert: "hm_values L (hm_insert L h n v) k = (if k = n then [v] else hm_values L h k)"
    and values_remove: "hm_values L (hm_remove L h n) k = (if k = n then [] else hm_values L h k)"
    and values_append:
      "hm_append L h n v = Ok h' \<Longrightarrow>
       hm_values L h' k = (if k = n then hm_values L h k @ [v] else hm_values L h k)"
    and values_iter: "hm_values L h k = map snd (filter (\<lambda>nv. fst nv = k) (hm_iter L h))"
    and from_str_visible: "visible_ascii s \<Longrightarrow> hv_from_str L s = Ok s"
    and to_str_visible: "visible_ascii s \<Longrightarrow> hv_to_str L s = Some s"
begin

lemma get_insert: "hm_get L (hm_insert L h n v) k = (if k = n then Some v else hm_get L h k)"
  by (simp add: get_values values_insert)

lemma get_remove: "hm_get L (hm_remove L h n) k = (if k = n then None else hm_get L h k)"
  by (simp add: get_values values_remove)

lemma values_remove_all:
  "hm_values L (foldl (hm_remove L) h ns) k = (if k \<in> set ns then [] else hm_values L h k)"
  by (induction ns arbitrary: h) (auto simp: values_remove)

lemma values_appends:
  "foldl (\<lambda>b nv. and_then b (\<lambda>h. hm_append L h (fst nv) (snd nv))) (Ok h) nvs = Ok h' \<Longrightarrow>
   hm_values L h' k = hm_values L h k @ map snd (filter (\<lambda>nv. fst nv = k) nvs)"
proof (induction nvs arbitrary: h)
  case (Cons nv nvs)
  have err: "foldl (\<lambda>b nv. and_then b (\<lambda>h. hm_append L h (fst nv) (snd nv))) (Err e) xs = Err e"
    for e xs by (induction xs) simp_all
  obtain h1 where h1: "hm_append L h (fst nv) (snd nv) = Ok h1"
    using Cons.prems err by (cases "hm_append L h (fst nv) (snd nv)") auto
  then show ?case using Cons.IH [of h1] Cons.prems values_append [OF h1] by auto
qed simp

text \<open>
  Copying every header of a map into a fresh one gives a map with the same values.
\<close>

lemma values_copy:
  assumes "foldl (\<lambda>b nv. and_then b (\<lambda>h. hm_append L h (fst nv) (snd nv))) (Ok (hm_empty L)) (hm_iter L h) = Ok h'"
  shows "hm_values L h' k = hm_values L h k"
  using values_appends [OF assms] by (simp add: values_empty values_iter [symmetric])

end

section \<open>A header map as an association list\<close>

text \<open>
  An instance of the interface: a multimap kept as a list of pairs in the order of insertion.
\<close>

definition al_values :: "(string \<times> string) list \<Rightarrow> string \<Rightarrow> string list" where
  "al_values h n = map snd (filter (\<lambda>nv. fst nv = n) h)"

definition al_remove :: "(string \<times> string) list \<Rightarrow> string \<Rightarrow> (string \<times> string) list" where
  "al_remove h n = filter (\<lambda>nv. fst nv \<noteq> n) h"

definition alist_lib ::
  "(string \<Rightarrow> string + uri) \<Rightarrow> ('b \<Rightarrow> usize \<Rightarrow> 'b) \<Rightarrow> ((string \<times> string) list, 'b) http_lib" where
  "alist_lib parse cap =
     \<lparr>hm_empty = [],
      hm_get = (\<lambda>h n. map_of h n),
      hm_values = al_values,
      hm_insert = (\<lambda>h n v. al_remove h n @ [(n, v)]),
      hm_remove = al_remove,
      hm_append = (\<lambda>h n v. if length h < 32768 then Ok (h @ [(n, v)]) else Err ''max size reached''),
      hm_iter = (\<lambda>h. h),
      hv_to_str = (\<lambda>v. if visible_ascii v then Some v else None),
      hv_from_str = (\<lambda>v. if visible_ascii v then Ok v else Err ''failed to parse header value''),
      uri_parse = parse,
      limited = cap\<rparr>"

lemma map_of_al_values: "map_of h n = (case al_values h n of [] \<Rightarrow> None | v # _ \<Rightarrow> Some v)"
  by (induction h) (auto simp: al_values_def)

interpretation al: http_laws "alist_lib parse cap"
proof
  show "hm_values (alist_lib parse cap) (hm_remove (alist_lib parse cap) h n) k =
      (if k = n then [] else hm_values (alist_lib parse cap) h k)" for h n k
    by (induction h) (auto simp: alist_lib_def al_values_def al_remove_def)
  then show "hm_values (alist_lib parse cap) (hm_insert (alist_lib parse cap) h n v) k =
      (if k = n then [v] else hm_values (alist_lib parse cap) h k)" for h n v k
    by (simp add: alist_lib_def al_values_def)
qed (auto simp: alist_lib_def map_of_al_values al_values_def split: if_splits)

end
