(* ===== verification/Proxy_Parts.thy ===== *)
theory Proxy_Parts
  imports Http_Model
begin

text \<open>
  What the proxy handler is made of: the errors of \<^verbatim>\<open>proxy/error.rs\<close> and the responses they become,
  the header rules of \<^verbatim>\<open>proxy/headers.rs\<close>, and the two log macros of \<^verbatim>\<open>logging/format.rs\<close>.
\<close>

section \<open>Log macros\<close>

definition log_request ::
  "string \<Rightarrow> string \<Rightarrow> string \<Rightarrow> string \<Rightarrow> nat \<Rightarrow> string \<Rightarrow> u64 \<Rightarrow> log_line" where
  "log_request client_ip h method path status upstream duration_ms =
     Log LInfo
       [(''prefix'', ''REQUEST''), (''client_ip'', client_ip), (''host'', h), (''method'', method),
        (''path'', path), (''status'', show_nat status), (''upstream'', upstream),
        (''duration_ms'', show_word duration_ms)] ''''"

definition log_upstream_error :: "string \<Rightarrow> string \<Rightarrow> string \<Rightarrow> log_line" where
  "log_upstream_error h upstream err =
     Log LWarn
       [(''prefix'', ''UPSTREAM_ERROR''), (''host'', h), (''upstream'', upstream),
        (''error'', err)] ''''"

section \<open>Errors\<close>

datatype proxy_error =
    BadGateway string string
  | GatewayTimeout string string
  | TooManyRequests string string string
  | UpstreamConnection string
  | UpstreamTimeout
  | UnknownHost
  | MissingHost

fun show_proxy_error :: "proxy_error \<Rightarrow> string" where
  "show_proxy_error (BadGateway _ _) = ''Bad Gateway''"
| "show_proxy_error (GatewayTimeout _ _) = ''Gateway Timeout''"
| "show_proxy_error (TooManyRequests _ _ _) = ''Too Many Requests''"
| "show_proxy_error (UpstreamConnection _) = ''upstream connection failed''"
| "show_proxy_error UpstreamTimeout = ''upstream timeout''"
| "show_proxy_error UnknownHost = ''no matching site for host''"
| "show_proxy_error MissingHost = ''missing host header''"

fun proxy_error_status_code :: "proxy_error \<Rightarrow> nat" where
  "proxy_error_status_code (BadGateway _ _) = 502"
| "proxy_error_status_code (GatewayTimeout _ _) = 504"
| "proxy_error_status_code (TooManyRequests _ _ _) = 429"
| "proxy_error_status_code (UpstreamConnection _) = 502"
| "proxy_error_status_code UpstreamTimeout = 504"
| "proxy_error_status_code UnknownHost = 404"
| "proxy_error_status_code MissingHost = 400"

fun proxy_error_body :: "proxy_error \<Rightarrow> string" where
  "proxy_error_body (BadGateway _ _) = ''Bad Gateway''"
| "proxy_error_body (GatewayTimeout _ _) = ''Gateway Timeout''"
| "proxy_error_body (TooManyRequests _ _ _) = ''Too Many Requests''"
| "proxy_error_body (UpstreamConnection _) = ''Bad Gateway''"
| "proxy_error_body UpstreamTimeout = ''Gateway Timeout''"
| "proxy_error_body UnknownHost = ''Not Found''"
| "proxy_error_body MissingHost = ''Bad Request''"

fun proxy_error_log :: "proxy_error \<Rightarrow> log_line list" where
  "proxy_error_log (BadGateway h u) =
     [Log LWarn [(''host'', h), (''upstream'', u), (''status'', ''502'')] ''Bad Gateway'']"
| "proxy_error_log (GatewayTimeout h u) =
     [Log LWarn [(''host'', h), (''upstream'', u), (''status'', ''504'')] ''Gateway Timeout'']"
| "proxy_error_log (TooManyRequests ip h p) =
     [Log LInfo [] (''RATE_LIMIT client_ip='' @ ip @ '' host='' @ h @ '' path='' @ p @ '' status=429'')]"
| "proxy_error_log (UpstreamConnection e) =
     [Log LWarn [(''error'', e), (''status'', ''502'')] ''upstream connection failed'']"
| "proxy_error_log UpstreamTimeout = [Log LWarn [(''status'', ''504'')] ''upstream timeout'']"
| "proxy_error_log UnknownHost = []"
| "proxy_error_log MissingHost = []"

definition proxy_error_into_response :: "proxy_error \<Rightarrow> log_line list \<times> ('h, 'b) response" where
  "proxy_error_into_response e =
     (proxy_error_log e,
      Reply (proxy_error_status_code e) [(''content-type'', ''text/plain; charset=utf-8'')]
        (proxy_error_body e))"

section \<open>Headers\<close>

definition HOP_BY_HOP :: "string list" where
  "HOP_BY_HOP =
     [''connection'', ''keep-alive'', ''proxy-authorization'', ''proxy-authenticate'', ''te'',
      ''trailers'', ''transfer-encoding'', ''upgrade'']"

definition remove_hop_by_hop :: "('h, 'b) http_lib \<Rightarrow> 'h \<Rightarrow> 'h" where
  "remove_hop_by_hop L h = foldl (hm_remove L) h HOP_BY_HOP"

definition inject_proxy_headers :: "('h, 'b) http_lib \<Rightarrow> 'h \<Rightarrow> socket_addr \<Rightarrow> 'h" where
  "inject_proxy_headers L h remote_addr =
     (let ip_str = show_ip_addr (sa_ip remote_addr);
          ip_value = (case hv_from_str L ip_str of Inr v \<Rightarrow> v | Inl _ \<Rightarrow> ''0.0.0.0'');
          h1 = hm_insert L h ''x-real-ip'' ip_value;
          h2 = hm_insert L h1 ''x-forwarded-for'' ip_value
      in hm_insert L h2 ''x-forwarded-proto'' ''https'')"

section \<open>Lemmas\<close>

text \<open>
  A printed address consists of visible characters, so it is a header value.
\<close>

lemma digit_char_visible: "d < 36 \<Longrightarrow> visible_ascii [digit_char d]"
  by (simp add: visible_ascii_def digit_char_def)

lemma visible_append [simp]: "visible_ascii (a @ b) = (visible_ascii a \<and> visible_ascii b)"
  by (simp add: visible_ascii_def)

lemma visible_punct [simp]:
  "visible_ascii []" "visible_ascii (CHR ''.'' # s) = visible_ascii s"
  "visible_ascii (CHR '':'' # s) = visible_ascii s"
  by (simp_all add: visible_ascii_def)

lemma visible_iff: "visible_ascii s \<longleftrightarrow> (\<forall>c\<in>set s. visible_ascii [c])"
  by (simp add: visible_ascii_def list_all_iff)

lemma visible_show_radix:
  assumes "2 \<le> r" "r \<le> 36" shows "visible_ascii (show_radix r n)"
proof (subst visible_iff, rule ballI)
  fix c assume "c \<in> set (show_radix r n)"
  then obtain d where "d < r" "c = digit_char d" using show_radix_digits [OF assms] by blast
  then show "visible_ascii [c]" using digit_char_visible assms(2) by simp
qed

lemma visible_join: "(\<And>p. p \<in> set ps \<Longrightarrow> visible_ascii p) \<Longrightarrow> visible_ascii (join_str '':'' ps)"
  by (induction "'':''" ps rule: join_str.induct) auto

lemma visible_show_quad: "visible_ascii (show_quad a b c d)"
  by (simp add: show_quad_def show_nat_def visible_show_radix)

lemma visible_fmt_subslice: "visible_ascii (fmt_subslice xs)"
  unfolding fmt_subslice_def by (rule visible_join) (auto simp: show_hex_def visible_show_radix)

lemma visible_show_ip_addr: "visible_ascii (show_ip_addr ip)"
proof (cases ip)
  case (V6 a b c d e f g h)
  have "visible_ascii (show_ipv6 xs)" for xs
    by (auto simp: show_ipv6_def visible_fmt_subslice split: prod.splits)
  moreover have "visible_ascii ''::ffff:''" by (simp add: visible_ascii_def)
  ultimately show ?thesis using V6 visible_show_quad by (simp del: append.simps)
qed (simp add: visible_show_quad)

context http_laws
begin

lemma values_remove_hop_by_hop:
  "hm_values L (remove_hop_by_hop L h) k = (if k \<in> set HOP_BY_HOP then [] else hm_values L h k)"
  by (simp add: remove_hop_by_hop_def values_remove_all)

lemma values_inject:
  "hm_values L (inject_proxy_headers L h remote) k =
     (if k \<in> {''x-real-ip'', ''x-forwarded-for''} then [show_ip_addr (sa_ip remote)]
      else if k = ''x-forwarded-proto'' then [''https'']
      else hm_values L h k)"
  by (simp add: inject_proxy_headers_def Let_def values_insert from_str_visible visible_show_ip_addr)

end

end
