(* ===== verification/Proxy_Handler.thy ===== *)
theory Proxy_Handler
  imports Proxy_Parts Config_File
begin

text \<open>
  The proxy handler, \<^verbatim>\<open>proxy/handler.rs\<close>. The upstream clients are the parameter \<open>client\<close>: for the
  scheme and the request, the future of the upstream's answer. The handler's own work takes no
  time in the model; the future it returns carries the lines it logs and the response. The
  elapsed milliseconds that it logs are the argument \<open>duration_ms\<close>.
\<close>

section \<open>Requests to the upstream\<close>

datatype ('h, 'b) upstream_result =
    UpstreamResponse nat 'h 'b
  | UpstreamError bool string

text \<open>
  \<open>UpstreamError is_connect text\<close>: an error of the client library, with the answer of its
  \<^verbatim>\<open>is_connect\<close>.
\<close>

definition build_upstream_uri ::
  "('h, 'b) http_lib \<Rightarrow> string \<Rightarrow> string \<Rightarrow> uri \<Rightarrow> log_line list \<times> (unit + uri)" where
  "build_upstream_uri L scheme upstream original_uri =
     (let path = u_path original_uri;
          query = (case u_query original_uri of Some q \<Rightarrow> ''?'' @ q | None \<Rightarrow> '''');
          uri_string = scheme @ ''://'' @ upstream @ path @ query
      in case uri_parse L uri_string of
           Inr u \<Rightarrow> ([], Ok u)
         | Inl e \<Rightarrow>
             ([Log LWarn [(''error'', e), (''uri'', uri_string)] ''failed to parse upstream URI''],
              Err ()))"

definition authority_host_value :: "authority \<Rightarrow> string" where
  "authority_host_value a =
     (case au_port a of
        Some port \<Rightarrow> au_host a @ '':'' @ show_word port
      | None \<Rightarrow> au_host a)"

definition build_upstream_request ::
  "('h, 'b) http_lib \<Rightarrow> ('h, 'b) request \<Rightarrow> uri \<Rightarrow> string + ('h, 'b) request" where
  "build_upstream_request L req upstream_uri =
     and_then
       (case u_authority (rq_uri req) of
          Some a \<Rightarrow>
            (let value = authority_host_value a in
             case hv_from_str L value of
               Inr v \<Rightarrow> Ok (Some v)
             | Inl e \<Rightarrow> Err (''client authority '' @ debug_str value @
                             '' is not a valid Host header: '' @ e))
        | None \<Rightarrow> Ok (hm_get L (rq_headers req) ''host''))
       (\<lambda>host_header.
     (let headers = hm_remove L (rq_headers req) ''host'';
          builder = foldl (\<lambda>b nv. and_then b (\<lambda>h. hm_append L h (fst nv) (snd nv)))
                      (Ok (hm_empty L)) (hm_iter L headers);
          builder' = (case host_header of
                        Some v \<Rightarrow> and_then builder (\<lambda>h. hm_append L h ''host'' v)
                      | None \<Rightarrow> builder)
      in and_then builder' (\<lambda>h.
           Ok \<lparr>rq_method = rq_method req, rq_uri = upstream_uri, rq_headers = h,
               rq_body = rq_body req, rq_connect_info = None\<rparr>)))"

section \<open>The handler\<close>

text \<open>
  The host by which a request is routed: the \<^verbatim>\<open>Host\<close> header when it can be read, else the host of
  the request URI, else nothing.
\<close>

definition request_host :: "('h, 'b) http_lib \<Rightarrow> ('h, 'b) request \<Rightarrow> string" where
  "request_host L req =
     unwrap_or
       (case Option.bind (hm_get L (rq_headers req) ''host'') (hv_to_str L) of
          Some v \<Rightarrow> Some v
        | None \<Rightarrow> uri_host (rq_uri req)) ''''"

text \<open>
  The last \<^verbatim>\<open>match\<close> of the handler: from what the two timers and the client deliver to the log lines
  and the response.
\<close>

definition finish_upstream ::
  "('h, 'b) http_lib \<Rightarrow> string \<Rightarrow> string \<Rightarrow> string \<Rightarrow> string \<Rightarrow> string \<Rightarrow> string \<Rightarrow> u64 \<Rightarrow>
   elapsed + (elapsed + ('h, 'b) upstream_result) \<Rightarrow> log_line list \<times> ('h, 'b) response" where
  "finish_upstream L client_ip h method path upstream upstream_addr duration_ms result =
     (case result of
        Inr (Inr (UpstreamResponse status headers bdy)) \<Rightarrow>
          ([log_request client_ip h method path status upstream duration_ms],
           FromParts status (hm_remove L (remove_hop_by_hop L headers) ''server'') bdy)
      | Inr (Inr (UpstreamError is_connect e)) \<Rightarrow>
          if is_connect then
            (let (logs, resp) = proxy_error_into_response (UpstreamConnection e) in
             ([log_upstream_error h upstream_addr e] @ logs @
              [log_request client_ip h method path 502 upstream duration_ms], resp))
          else
            (let (logs, resp) = proxy_error_into_response (BadGateway h upstream_addr) in
             ([log_upstream_error h upstream_addr ''bad gateway''] @ logs @
              [log_request client_ip h method path 502 upstream duration_ms], resp))
      | Inr (Inl _) \<Rightarrow>
          (let (logs, resp) = proxy_error_into_response UpstreamTimeout in
           ([log_upstream_error h upstream_addr ''upstream connect timeout''] @ logs @
            [log_request client_ip h method path 504 upstream duration_ms], resp))
      | Inl _ \<Rightarrow>
          (let (logs, resp) = proxy_error_into_response UpstreamTimeout in
           ([log_upstream_error h upstream_addr ''upstream timeout''] @ logs @
            [log_request client_ip h method path 504 upstream duration_ms], resp)))"

text \<open>
  The first part of the handler, up to the call of the client: an early answer, or the site, the
  host and the request for the upstream.
\<close>

definition prepare_upstream ::
  "('h, 'b) http_lib \<Rightarrow> dynamic_config \<Rightarrow> u64 \<Rightarrow> socket_addr \<Rightarrow> ('h, 'b) request \<Rightarrow>
   (log_line list \<times> ('h, 'b) response) + (site_config \<times> string \<times> ('h, 'b) request)" where
  "prepare_upstream L config duration_ms remote_addr req =
     (let client_ip = show_ip_addr (sa_ip remote_addr);
          method = rq_method req;
          path = u_path (rq_uri req);
          host = request_host L req
      in if host = [] then Err (proxy_error_into_response MissingHost)
      else case lookup config host of
        None \<Rightarrow> Err (proxy_error_into_response UnknownHost)
      | Some site \<Rightarrow>
        (let req1 = req\<lparr>rq_headers := remove_hop_by_hop L
                          (inject_proxy_headers L (rq_headers req) remote_addr)\<rparr>;
             upstream_scheme = s_upstream_scheme site;
             upstream = s_upstream site;
             upstream_addr = upstream_scheme @ ''://'' @ upstream
         in case build_upstream_uri L upstream_scheme upstream (rq_uri req1) of
              (logs, Inl _) \<Rightarrow>
                Err (logs @
                  [log_upstream_error host upstream_addr ''malformed upstream URI'',
                   log_request client_ip host method path 502 upstream duration_ms],
                  Reply 502 [] '''')
            | (_, Inr upstream_uri) \<Rightarrow>
         (case build_upstream_request L req1 upstream_uri of
              Inl e \<Rightarrow>
                Err ([Log LWarn [(''error'', e)] ''failed to build upstream request'',
                   log_upstream_error host upstream_addr e,
                   log_request client_ip host method path 502 upstream duration_ms],
                  Reply 502 [] '''')
            | Inr upstream_req \<Rightarrow> Ok (site, host, upstream_req))))"

definition proxy_handler ::
  "('h, 'b) http_lib \<Rightarrow> (bool \<Rightarrow> ('h, 'b) request \<Rightarrow> ('h, 'b) upstream_result future) \<Rightarrow>
   dynamic_config \<Rightarrow> u64 \<Rightarrow> socket_addr \<Rightarrow> ('h, 'b) request \<Rightarrow>
   (log_line list \<times> ('h, 'b) response) future" where
  "proxy_handler L client config duration_ms remote_addr req =
     (case prepare_upstream L config duration_ms remote_addr req of
        Inl answer \<Rightarrow> After 0 answer
      | Inr (site, host, upstream_req) \<Rightarrow>
          (let upstream_scheme = s_upstream_scheme site;
               upstream = s_upstream site;
               connect_timeout = from_secs (s_upstream_connect_timeout_secs site);
               request_timeout = from_secs (s_upstream_request_timeout_secs site);
               result = tokio_timeout request_timeout
                          (tokio_timeout connect_timeout
                             (client (upstream_scheme = ''https'') upstream_req))
           in map_future
                (finish_upstream L (show_ip_addr (sa_ip remote_addr)) host (rq_method req)
                   (u_path (rq_uri req)) upstream (upstream_scheme @ ''://'' @ upstream)
                   duration_ms) result))"

section \<open>Lemmas\<close>

context http_laws
begin

lemma build_upstream_request_Ok:
  assumes "build_upstream_request L req u = Ok up"
  shows "rq_method up = rq_method req" "rq_uri up = u" "rq_body up = rq_body req"
    and "k \<noteq> ''host'' \<Longrightarrow> hm_values L (rq_headers up) k = hm_values L (rq_headers req) k"
    and "hm_values L (rq_headers up) ''host'' =
      (case u_authority (rq_uri req) of
         Some a \<Rightarrow> [case hv_from_str L (authority_host_value a) of Inr v \<Rightarrow> v | Inl e \<Rightarrow> e]
       | None \<Rightarrow> (case hm_get L (rq_headers req) ''host'' of Some v \<Rightarrow> [v] | None \<Rightarrow> []))"
proof -
  let ?copy = "foldl (\<lambda>b nv. and_then b (\<lambda>h. hm_append L h (fst nv) (snd nv)))
      (Ok (hm_empty L)) (hm_iter L (hm_remove L (rq_headers req) ''host''))"
  obtain hh where hh: "(case u_authority (rq_uri req) of
          Some a \<Rightarrow>
            (let value = authority_host_value a in
             case hv_from_str L value of
               Inr v \<Rightarrow> Ok (Some v)
             | Inl e \<Rightarrow> Err (''client authority '' @ debug_str value @ '' is not a valid Host header: '' @ e))
        | None \<Rightarrow> Ok (hm_get L (rq_headers req) ''host'')) = Ok hh"
    using assms by (auto simp only: build_upstream_request_def and_then_Inr_iff)
  obtain h where h: "(case hh of Some v \<Rightarrow> and_then ?copy (\<lambda>h. hm_append L h ''host'' v) | None \<Rightarrow> ?copy) = Ok h"
    and up: "up = \<lparr>rq_method = rq_method req, rq_uri = u, rq_headers = h, rq_body = rq_body req,
                   rq_connect_info = None\<rparr>"
    using assms hh by (auto simp: build_upstream_request_def Let_def and_then_Inr_iff)
  show "rq_method up = rq_method req" "rq_uri up = u" "rq_body up = rq_body req"
    by (simp_all add: up)
  obtain c where c: "?copy = Ok c" using h by (cases ?copy) (auto split: option.splits)
  have v: "hm_values L c k = (if k = ''host'' then [] else hm_values L (rq_headers req) k)" for k
    using values_copy [OF c] by (simp add: values_remove)
  have all: "hm_values L h k = (if k = ''host'' then (case hh of Some v \<Rightarrow> [v] | None \<Rightarrow> [])
      else hm_values L (rq_headers req) k)" for k
    using h c v by (cases hh) (auto simp: values_append)
  show "k \<noteq> ''host'' \<Longrightarrow> hm_values L (rq_headers up) k = hm_values L (rq_headers req) k"
    using all by (simp add: up)
  show "hm_values L (rq_headers up) ''host'' =
      (case u_authority (rq_uri req) of
         Some a \<Rightarrow> [case hv_from_str L (authority_host_value a) of Inr v \<Rightarrow> v | Inl e \<Rightarrow> e]
       | None \<Rightarrow> (case hm_get L (rq_headers req) ''host'' of Some v \<Rightarrow> [v] | None \<Rightarrow> []))"
    using all hh by (auto simp: up Let_def split: option.splits sum.splits)
qed

end

lemma prepare_upstream_Ok:
  assumes "prepare_upstream L config ms remote req = Ok (site, h, up)"
  shows "h = request_host L req" "h \<noteq> []" "lookup config h = Some site"
    and "\<exists>u. snd (build_upstream_uri L (s_upstream_scheme site) (s_upstream site) (rq_uri req)) = Ok u \<and>
           build_upstream_request L (req\<lparr>rq_headers := remove_hop_by_hop L
             (inject_proxy_headers L (rq_headers req) remote)\<rparr>) u = Ok up"
  using assms
  by (auto simp: prepare_upstream_def Let_def split: if_splits option.splits prod.splits sum.splits)

lemma prepare_upstream_early:
  assumes "prepare_upstream L config ms remote req = Err (logs, resp)"
  shows "request_host L req = [] \<and> resp = Reply 400 [(''content-type'', ''text/plain; charset=utf-8'')] ''Bad Request'' \<and> logs = []
    \<or> request_host L req \<noteq> [] \<and> lookup config (request_host L req) = None \<and>
      resp = Reply 404 [(''content-type'', ''text/plain; charset=utf-8'')] ''Not Found'' \<and> logs = []
    \<or> request_host L req \<noteq> [] \<and> resp = Reply 502 [] '''' \<and>
      (\<exists>site logs'. lookup config (request_host L req) = Some site \<and> logs = logs' @
         [log_request (show_ip_addr (sa_ip remote)) (request_host L req) (rq_method req)
            (u_path (rq_uri req)) 502 (s_upstream site) ms])"
  using assms
  by (auto simp: prepare_upstream_def Let_def proxy_error_into_response_def
      split: if_splits option.splits prod.splits sum.splits)

lemma proxy_handler_prepared:
  assumes "prepare_upstream L config ms remote req = Ok (site, h, up)"
  shows "proxy_handler L client config ms remote req =
    map_future (finish_upstream L (show_ip_addr (sa_ip remote)) h (rq_method req) (u_path (rq_uri req))
        (s_upstream site) (s_upstream_scheme site @ ''://'' @ s_upstream site) ms)
      (tokio_timeout (from_secs (s_upstream_request_timeout_secs site))
        (tokio_timeout (from_secs (s_upstream_connect_timeout_secs site))
          (client (s_upstream_scheme site = ''https'') up)))"
  using assms by (simp add: proxy_handler_def Let_def)

lemma proxy_handler_early:
  "prepare_upstream L config ms remote req = Err a \<Longrightarrow>
   proxy_handler L client config ms remote req = After 0 a"
  by (simp add: proxy_handler_def)

text \<open>
  The status of the answer as a function of what the upstream does.
\<close>

fun upstream_status :: "duration \<Rightarrow> ('h, 'b) upstream_result future \<Rightarrow> nat" where
  "upstream_status limit Never = 504"
| "upstream_status limit (After d r) =
     (if d \<le> limit
      then (case r of UpstreamResponse s _ _ \<Rightarrow> s | UpstreamError _ _ \<Rightarrow> 502) else 504)"

definition site_time_limit :: "site_config \<Rightarrow> duration" where
  "site_time_limit s =
     min (from_secs (s_upstream_connect_timeout_secs s)) (from_secs (s_upstream_request_timeout_secs s))"

lemma finish_upstream_status:
  "response_status (snd (finish_upstream L ip h m p u ua ms r)) =
     (case r of Inr (Inr (UpstreamResponse s _ _)) \<Rightarrow> s | Inr (Inr (UpstreamError _ _)) \<Rightarrow> 502
      | _ \<Rightarrow> 504)"
  by (auto simp: finish_upstream_def proxy_error_into_response_def
      split: sum.splits upstream_result.splits)

lemma finish_upstream_logs:
  "\<exists>logs. fst (finish_upstream L ip h m p u ua ms r) = logs @
     [log_request ip h m p (response_status (snd (finish_upstream L ip h m p u ua ms r))) u ms]"
  by (auto simp: finish_upstream_def proxy_error_into_response_def
      split: sum.splits upstream_result.splits)

lemma proxy_handler_status:
  assumes "prepare_upstream L config ms remote req = Ok (site, h, up)"
  shows "\<exists>d logs resp. proxy_handler L client config ms remote req = After d (logs, resp) \<and>
      d \<le> site_time_limit site \<and>
      response_status resp =
        upstream_status (site_time_limit site) (client (s_upstream_scheme site = ''https'') up)"
proof -
  let ?f = "client (s_upstream_scheme site = ''https'') up"
  show ?thesis
  proof (cases ?f)
    case Never
    then show ?thesis
      unfolding proxy_handler_prepared [OF assms] nested_timeout Never
      by (auto simp: site_time_limit_def map_future_eq_After finish_upstream_status prod_eq_iff
          split: if_splits intro!: exI [of _ "fst (finish_upstream _ _ _ _ _ _ _ _ _)"]
            exI [of _ "snd (finish_upstream _ _ _ _ _ _ _ _ _)"])
  next
    case (After d r)
    then show ?thesis
      unfolding proxy_handler_prepared [OF assms] nested_timeout After
      by (auto simp: site_time_limit_def map_future_eq_After finish_upstream_status prod_eq_iff
          split: if_splits upstream_result.splits)
  qed
qed

text \<open>
  Every request that is routed to a site is answered within the site's time limits and logged: the
  last line that the handler logs is the request line with the client's address, the host, the
  method, the path, the upstream, and the status that the client receives.
\<close>

lemma routed_request_answered:
  assumes "request_host L req \<noteq> []" and "lookup config (request_host L req) = Some site"
  shows "\<exists>d logs resp. proxy_handler L client config ms remote req =
      After d (logs @ [log_request (show_ip_addr (sa_ip remote)) (request_host L req) (rq_method req)
        (u_path (rq_uri req)) (response_status resp) (s_upstream site) ms], resp) \<and>
    d \<le> site_time_limit site"
proof (cases "prepare_upstream L config ms remote req")
  case (Inl a)
  obtain logs resp where a: "a = (logs, resp)" by fastforce
  then show ?thesis
    using prepare_upstream_early [OF Inl [unfolded a]] assms proxy_handler_early [OF Inl, of client] by auto
next
  case (Inr b)
  obtain site' h up where b: "b = (site', h, up)" by (cases b)
  note p = Inr [unfolded b]
  have s: "site' = site" "h = request_host L req" using prepare_upstream_Ok [OF p] assms by auto
  obtain d logs resp where r: "proxy_handler L client config ms remote req = After d (logs, resp)"
    "d \<le> site_time_limit site" using proxy_handler_status [OF p, of client] s(1) by blast
  then obtain x where "finish_upstream L (show_ip_addr (sa_ip remote)) (request_host L req) (rq_method req)
      (u_path (rq_uri req)) (s_upstream site) (s_upstream_scheme site @ ''://'' @ s_upstream site) ms x = (logs, resp)"
    unfolding proxy_handler_prepared [OF p] s map_future_eq_After by metis
  then show ?thesis
    using r finish_upstream_logs [of L "show_ip_addr (sa_ip remote)" "request_host L req" "rq_method req"
        "u_path (rq_uri req)" "s_upstream site" "s_upstream_scheme site @ ''://'' @ s_upstream site" ms x]
    by (metis fst_conv snd_conv)
qed

section \<open>Properties\<close>

text \<open>
  An example: the association-list library with a URI parser that keeps the whole text as the
  path, and a request to the example site.
\<close>

definition example_uri_parse :: "string \<Rightarrow> string + uri" where
  "example_uri_parse s = Ok \<lparr>u_scheme = None, u_authority = None, u_path = s, u_query = None\<rparr>"

definition example_lib :: "((string \<times> string) list, string) http_lib" where
  "example_lib = alist_lib example_uri_parse (\<lambda>b n. take (unat n) b)"

definition example_remote :: socket_addr where
  "example_remote = \<lparr>sa_ip = V6 0x2001 0xdb8 0 0 0 0 0 7, sa_port = 50000, sa_scope = 0\<rparr>"

definition example_request :: "((string \<times> string) list, string) request" where
  "example_request =
     \<lparr>rq_method = ''GET'',
      rq_uri = \<lparr>u_scheme = None, u_authority = None, u_path = ''/repo'', u_query = Some ''page=2''\<rparr>,
      rq_headers = [(''host'', ''test.local''), (''connection'', ''close''), (''x-forwarded-for'', ''10.0.0.1'')],
      rq_body = '''', rq_connect_info = Some example_remote\<rparr>"

definition example_forwarded :: "((string \<times> string) list, string) request" where
  "example_forwarded =
     \<lparr>rq_method = ''GET'',
      rq_uri = \<lparr>u_scheme = None, u_authority = None, u_path = ''http://127.0.0.1:8080/repo?page=2'',
                u_query = None\<rparr>,
      rq_headers = [(''x-real-ip'', show_ip_addr (sa_ip example_remote)),
                    (''x-forwarded-for'', show_ip_addr (sa_ip example_remote)),
                    (''x-forwarded-proto'', ''https''), (''host'', ''test.local'')],
      rq_body = '''', rq_connect_info = None\<rparr>"

lemma example_lib_laws: "http_laws example_lib"
  unfolding example_lib_def by (rule al.http_laws_axioms)

lemma example_lookup: "lookup valid_dynamic_config ''test.local'' = Some test_site"
proof (rule config_ok_reachable(1))
  show "config_ok (\<lambda>p. True) (make_static_with_sites [test_site] make_acme_tls) valid_dynamic_config False"
    using config_fixture by (simp add: validate_iff)
  show "valid_dynamic_config = from_sites (all_sites (make_static_with_sites [test_site] make_acme_tls))
      \<lparr>requests_per_second = 10, burst = 20\<rparr> \<lparr>limit_bytes = 104857600\<rparr>"
    by (simp add: valid_dynamic_config_def example_all_sites)
  show "to_lowercase ''test.local'' = to_lowercase (s_host test_site)" by (simp add: test_site_def)
qed (simp add: example_all_sites)

lemma example_prepare:
  "prepare_upstream example_lib valid_dynamic_config 3 example_remote example_request
     = Ok (test_site, ''test.local'', example_forwarded)"
proof -
  have h: "request_host example_lib example_request = ''test.local''"
    by (simp add: request_host_def example_request_def example_lib_def alist_lib_def visible_ascii_def)
  have v: "visible_ascii (show_ip_addr (sa_ip example_remote))" by (rule visible_show_ip_addr)
  show ?thesis
    unfolding prepare_upstream_def h example_lookup
    using v by (simp add: example_lookup build_upstream_uri_def build_upstream_request_def
        example_lib_def alist_lib_def example_uri_parse_def example_request_def example_forwarded_def
        remove_hop_by_hop_def inject_proxy_headers_def HOP_BY_HOP_def al_remove_def test_site_def Let_def
        del: show_ip_addr.simps)
qed

text \<open>
  C3: What the upstream receives. Method and body are the client's; the client address is stated in
  the two address headers, replacing whatever the client sent there, in a form that parses back to
  the address; the protocol header says https; no hop-by-hop header passes; the host header is the
  authority of the request URI, or else the client's host header; and every other header arrives
  with all its values in order.
\<close>

theorem forwarded_request_headers:
  assumes laws: "http_laws L"
    and p: "prepare_upstream L config ms remote req = Ok (site, h, up)"
  shows "rq_method up = rq_method req \<and> rq_body up = rq_body req \<and>
    (\<forall>k. hm_values L (rq_headers up) k =
      (if k = ''host'' then
         (case u_authority (rq_uri req) of
            Some a \<Rightarrow> [case hv_from_str L (authority_host_value a) of Inr v \<Rightarrow> v | Inl e \<Rightarrow> e]
          | None \<Rightarrow> (case hm_get L (rq_headers req) ''host'' of Some v \<Rightarrow> [v] | None \<Rightarrow> []))
       else if k \<in> set HOP_BY_HOP then []
       else if k = ''x-real-ip'' \<or> k = ''x-forwarded-for'' then [show_ip_addr (sa_ip remote)]
       else if k = ''x-forwarded-proto'' then [''https'']
       else hm_values L (rq_headers req) k)) \<and>
    parse_ip_addr (show_ip_addr (sa_ip remote)) = Some (sa_ip remote)"
proof -
  let ?r = "req\<lparr>rq_headers := remove_hop_by_hop L (inject_proxy_headers L (rq_headers req) remote)\<rparr>"
  obtain u where u: "build_upstream_request L ?r u = Ok up" using prepare_upstream_Ok(4) [OF p] by blast
  note b = http_laws.build_upstream_request_Ok [OF laws u]
  note v = http_laws.values_remove_hop_by_hop [OF laws] http_laws.values_inject [OF laws]
  have g: "hm_get L (rq_headers ?r) ''host'' = hm_get L (rq_headers req) ''host''"
    by (simp add: http_laws.get_values [OF laws] v HOP_BY_HOP_def)
  show ?thesis using b(1,3,4) b(5) unfolding g by (auto simp: v parse_show_ip_addr)
qed

theorem forwarded_request_headers_witness:
  "rq_method example_forwarded = rq_method example_request \<and> rq_body example_forwarded = rq_body example_request \<and>
    (\<forall>k. hm_values example_lib (rq_headers example_forwarded) k =
      (if k = ''host'' then
         (case u_authority (rq_uri example_request) of
            Some a \<Rightarrow> [case hv_from_str example_lib (authority_host_value a) of Inr v \<Rightarrow> v | Inl e \<Rightarrow> e]
          | None \<Rightarrow> (case hm_get example_lib (rq_headers example_request) ''host'' of Some v \<Rightarrow> [v] | None \<Rightarrow> []))
       else if k \<in> set HOP_BY_HOP then []
       else if k = ''x-real-ip'' \<or> k = ''x-forwarded-for'' then [show_ip_addr (sa_ip example_remote)]
       else if k = ''x-forwarded-proto'' then [''https'']
       else hm_values example_lib (rq_headers example_request) k)) \<and>
    parse_ip_addr (show_ip_addr (sa_ip example_remote)) = Some (sa_ip example_remote)"
  by (rule forwarded_request_headers [OF example_lib_laws example_prepare])

text \<open>
  C18: What the client receives. A response that is passed on is the upstream's response, with its
  status and body, without hop-by-hop headers and without the server header, and with every other
  header unchanged; it is passed on only when the upstream answered within both time limits.
\<close>

theorem passed_on_response:
  assumes laws: "http_laws L"
    and p: "prepare_upstream L config ms remote req = Ok (site, h, up)"
    and r: "proxy_handler L client config ms remote req = After d (logs, FromParts st hs bdy)"
  shows "\<exists>hs0. client (s_upstream_scheme site = ''https'') up = After d (UpstreamResponse st hs0 bdy) \<and>
    d \<le> site_time_limit site \<and>
    (\<forall>k. hm_values L hs k = (if k \<in> set HOP_BY_HOP \<or> k = ''server'' then [] else hm_values L hs0 k))"
proof -
  let ?f = "client (s_upstream_scheme site = ''https'') up"
  obtain x where x: "tokio_timeout (from_secs (s_upstream_request_timeout_secs site))
        (tokio_timeout (from_secs (s_upstream_connect_timeout_secs site)) ?f) = After d x"
    and f: "finish_upstream L (show_ip_addr (sa_ip remote)) h (rq_method req) (u_path (rq_uri req))
        (s_upstream site) (s_upstream_scheme site @ ''://'' @ s_upstream site) ms x = (logs, FromParts st hs bdy)"
    using r unfolding proxy_handler_prepared [OF p] map_future_eq_After by metis
  obtain hs0 where hs0: "x = Ok (Ok (UpstreamResponse st hs0 bdy))"
    and hs: "hs = hm_remove L (remove_hop_by_hop L hs0) ''server''"
    using f by (auto simp: finish_upstream_def proxy_error_into_response_def
        split: sum.splits upstream_result.splits if_splits)
  have "?f = After d (UpstreamResponse st hs0 bdy) \<and> d \<le> site_time_limit site"
    using x by (auto simp: hs0 tokio_timeout_Ok_iff site_time_limit_def)
  then show ?thesis
    by (auto simp: hs http_laws.values_remove [OF laws] http_laws.values_remove_hop_by_hop [OF laws])
qed

definition example_client ::
  "bool \<Rightarrow> ((string \<times> string) list, string) request \<Rightarrow> ((string \<times> string) list, string) upstream_result future" where
  "example_client https r = After 1000 (UpstreamResponse 200 [(''server'', ''gitea''), (''etag'', ''x'')] ''hello'')"

lemma example_handled:
  "proxy_handler example_lib example_client valid_dynamic_config 3 example_remote example_request =
     After 1000 ([log_request (show_ip_addr (sa_ip example_remote)) ''test.local'' ''GET'' ''/repo'' 200 ''127.0.0.1:8080'' 3],
       FromParts 200 [(''etag'', ''x'')] ''hello'')"
  unfolding proxy_handler_prepared [OF example_prepare]
  by (simp add: example_client_def finish_upstream_def from_secs_def test_site_def example_request_def
      example_lib_def alist_lib_def al_remove_def remove_hop_by_hop_def HOP_BY_HOP_def
      del: show_ip_addr.simps)

theorem passed_on_response_witness:
  "\<exists>hs0. example_client (s_upstream_scheme test_site = ''https'') example_forwarded =
       After 1000 (UpstreamResponse 200 hs0 ''hello'') \<and>
     1000 \<le> site_time_limit test_site \<and>
     (\<forall>k. hm_values example_lib [(''etag'', ''x'')] k =
        (if k \<in> set HOP_BY_HOP \<or> k = ''server'' then [] else hm_values example_lib hs0 k))"
  by (rule passed_on_response [OF example_lib_laws example_prepare example_handled])

text \<open>
  C8: A request for a configured site is answered within the site's request timeout, whatever the
  upstream does, also when it never answers. When the upstream's exchange ends within both of the
  site's limits, the answer comes at that moment and has the upstream's own status, or 502 when the
  exchange failed; when nothing has come by the request timeout, the status is 504.
\<close>

theorem handler_answers_in_time:
  assumes "prepare_upstream L config ms remote req = Ok (site, h, up)"
  shows "\<exists>d logs resp. proxy_handler L client config ms remote req = After d (logs, resp) \<and>
      d \<le> from_secs (s_upstream_request_timeout_secs site) \<and>
      (case client (s_upstream_scheme site = ''https'') up of
         Never \<Rightarrow> response_status resp = 504
       | After t r \<Rightarrow>
           if from_secs (s_upstream_request_timeout_secs site) < t then response_status resp = 504
           else if t \<le> from_secs (s_upstream_connect_timeout_secs site)
           then d = t \<and> response_status resp =
             (case r of UpstreamResponse status headers bdy \<Rightarrow> status | UpstreamError is_connect e \<Rightarrow> 502)
           else True)"
proof (cases "client (s_upstream_scheme site = ''https'') up")
  case Never
  then show ?thesis
    using proxy_handler_status [OF assms, of client] by (auto simp: site_time_limit_def)
next
  case (After t r)
  obtain d logs resp where a: "proxy_handler L client config ms remote req = After d (logs, resp)"
      "d \<le> site_time_limit site" "response_status resp = upstream_status (site_time_limit site) (After t r)"
    using proxy_handler_status [OF assms, of client] After by auto
  moreover have "d = t" if "t \<le> site_time_limit site"
    using a(1) that unfolding proxy_handler_prepared [OF assms] nested_timeout After
    by (auto simp: site_time_limit_def map_future_eq_After split: if_splits)
  ultimately show ?thesis using After by (auto simp: site_time_limit_def split: upstream_result.split)
qed

theorem handler_answers_in_time_witness:
  "\<exists>d logs resp. proxy_handler example_lib (\<lambda>s r. Never) valid_dynamic_config 3 example_remote
        example_request = After d (logs, resp) \<and>
      d \<le> from_secs (s_upstream_request_timeout_secs test_site) \<and> response_status resp = 504"
  using handler_answers_in_time [OF example_prepare, of "\<lambda>s r. Never"] by simp

text \<open>
  C37: The limit for the connection also ends slow answers: when the upstream needs longer than the
  connect timeout to deliver the head of its response, the client receives 504 at the connect
  timeout, although the request timeout is not reached and the connection may have been
  established at once. The documentation makes the one a TCP connect timeout and gives the full
  request the other.
\<close>

theorem connect_timeout_cuts_slow_response:
  assumes "prepare_upstream L config ms remote req = Ok (site, h, up)"
    and "client (s_upstream_scheme site = ''https'') up = After d (UpstreamResponse st hs bdy)"
    and "from_secs (s_upstream_connect_timeout_secs site) < d"
    and "d \<le> from_secs (s_upstream_request_timeout_secs site)"
  shows "\<exists>logs. proxy_handler L client config ms remote req =
    After (from_secs (s_upstream_connect_timeout_secs site)) (logs, text_reply 504 ''Gateway Timeout'')"
  unfolding proxy_handler_prepared [OF assms(1)] nested_timeout assms(2)
  using assms(3,4) by (simp add: finish_upstream_def proxy_error_into_response_def)

theorem connect_timeout_cuts_slow_response_witness:
  "\<exists>logs. proxy_handler example_lib (\<lambda>s r. After (6 * 10 ^ 9) (UpstreamResponse 200 [] ''report''))
      valid_dynamic_config 3 example_remote example_request =
    After (from_secs (s_upstream_connect_timeout_secs test_site)) (logs, text_reply 504 ''Gateway Timeout'')"
  by (rule connect_timeout_cuts_slow_response [OF example_prepare refl])
    (simp_all add: from_secs_def test_site_def)

text \<open>
  C36: A request that carries both a host header and an authority in its URI is routed by the one
  and forwarded with the other: the site is looked up by the header, the upstream is told the
  authority. The comment in the code claims that the routed host cannot be overridden.
\<close>

theorem routed_and_forwarded_host_differ:
  assumes laws: "http_laws L"
    and p: "prepare_upstream L config ms remote req = Ok (site, h, up)"
    and hd: "hm_get L (rq_headers req) ''host'' = Some v" "visible_ascii v"
    and au: "u_authority (rq_uri req) = Some a" "visible_ascii (authority_host_value a)"
  shows "lookup config v = Some site \<and> hm_values L (rq_headers up) ''host'' = [authority_host_value a]"
proof -
  have "h = v" using prepare_upstream_Ok(1) [OF p] hd
    by (simp add: request_host_def http_laws.to_str_visible [OF laws])
  obtain u where u: "build_upstream_request L (req\<lparr>rq_headers := remove_hop_by_hop L
      (inject_proxy_headers L (rq_headers req) remote)\<rparr>) u = Ok up"
    using prepare_upstream_Ok(4) [OF p] by blast
  show ?thesis using prepare_upstream_Ok(3) [OF p] \<open>h = v\<close>
      http_laws.build_upstream_request_Ok(5) [OF laws u] au
    by (simp add: http_laws.from_str_visible [OF laws])
qed

definition example_h2_request :: "((string \<times> string) list, string) request" where
  "example_h2_request = example_request\<lparr>rq_uri :=
     \<lparr>u_scheme = Some ''https'', u_authority = Some \<lparr>au_host = ''other.example'', au_port = None\<rparr>,
      u_path = ''/repo'', u_query = Some ''page=2''\<rparr>\<rparr>"

definition example_h2_forwarded :: "((string \<times> string) list, string) request" where
  "example_h2_forwarded = example_forwarded\<lparr>rq_headers :=
     [(''x-real-ip'', show_ip_addr (sa_ip example_remote)),
      (''x-forwarded-for'', show_ip_addr (sa_ip example_remote)),
      (''x-forwarded-proto'', ''https''), (''host'', ''other.example'')]\<rparr>"

lemma example_h2_prepare:
  "prepare_upstream example_lib valid_dynamic_config 3 example_remote example_h2_request
     = Ok (test_site, ''test.local'', example_h2_forwarded)"
proof -
  have h: "request_host example_lib example_h2_request = ''test.local''"
    by (simp add: request_host_def example_request_def example_h2_request_def example_lib_def
        alist_lib_def visible_ascii_def)
  have v: "visible_ascii (show_ip_addr (sa_ip example_remote))" "visible_ascii ''other.example''"
    by (rule visible_show_ip_addr) (simp add: visible_ascii_def)
  show ?thesis
    unfolding prepare_upstream_def h example_lookup
    using v by (simp add: example_lookup build_upstream_uri_def build_upstream_request_def
        example_lib_def alist_lib_def example_uri_parse_def example_request_def example_forwarded_def
        example_h2_request_def example_h2_forwarded_def authority_host_value_def
        remove_hop_by_hop_def inject_proxy_headers_def HOP_BY_HOP_def al_remove_def test_site_def Let_def
        del: show_ip_addr.simps)
qed

theorem routed_and_forwarded_host_differ_witness:
  "lookup valid_dynamic_config ''test.local'' = Some test_site \<and>
   hm_values example_lib (rq_headers example_h2_forwarded) ''host'' =
     [authority_host_value \<lparr>au_host = ''other.example'', au_port = None\<rparr>]"
  by (rule routed_and_forwarded_host_differ [OF example_lib_laws example_h2_prepare])
    (simp_all add: example_h2_request_def example_request_def example_lib_def alist_lib_def
      visible_ascii_def authority_host_value_def)

end
