(* ===== verification/Admin.thy ===== *)
theory Admin
  imports Reload Proxy_Handler
begin

text \<open>
  The admin interface: \<^verbatim>\<open>admin/auth.rs\<close> (loading the key, the bearer token check),
  \<^verbatim>\<open>admin/handler.rs\<close> (reload, status, key rotation) and \<^verbatim>\<open>health.rs\<close> (the routers and the listener
  on the loopback address). The stored key hash is a cell that the middleware and the handlers
  share: \<open>admin_world\<close> maps addresses to the hashes stored there. SHA-256, the hexadecimal encoding
  and the routing of \<^verbatim>\<open>axum\<close> are parameters. A JSON response is the value that is serialised.
\<close>

section \<open>Authentication\<close>

record crypto =
  sha256 :: "string \<Rightarrow> string"
  hex_encode :: "string \<Rightarrow> string"

datatype admin_key_error = NotReadable string | EmptyFile

fun show_admin_key_error :: "admin_key_error \<Rightarrow> string" where
  "show_admin_key_error (NotReadable e) = ''admin key file is not readable: '' @ e"
| "show_admin_key_error EmptyFile = ''admin key file is empty''"

definition load_admin_key ::
  "crypto \<Rightarrow> (string \<Rightarrow> io_error + string) \<Rightarrow> string \<Rightarrow>
   log_line list \<times> (admin_key_error + string option)" where
  "load_admin_key C read_to_string path =
     (if path = [] then ([], Ok None)
      else (case read_to_string path of
              Inl e \<Rightarrow>
                ([Log LWarn [] (''admin key file '' @ [CHR 0x27] @ path @ [CHR 0x27] @
                    '' not readable, disabling admin endpoints: '' @ e)], Ok None)
            | Inr key_content \<Rightarrow>
                (let key_trimmed = trim key_content in
                 if key_trimmed = [] then ([], Err EmptyFile)
                 else ([], Ok (Some (sha256 C key_trimmed))))))"

record admin_world =
  aw_handle :: reload_handle
  aw_hashes :: "nat \<Rightarrow> string"

datatype admin_json =
    ReloadResponse string "string option"
  | StatusResponse string nat nat
  | RotateKeyResponse string string

datatype admin_response = Bare nat | Json nat admin_json

definition admin_auth_middleware ::
  "('h, 'b) http_lib \<Rightarrow> crypto \<Rightarrow> nat \<Rightarrow> admin_world \<Rightarrow> ('h, 'b) request \<Rightarrow>
   (admin_world \<Rightarrow> admin_world \<times> log_line list \<times> admin_response) \<Rightarrow>
   admin_world \<times> log_line list \<times> admin_response" where
  "admin_auth_middleware L C key_hash w req next =
     (case Option.bind (hm_get L (rq_headers req) ''authorization'') (hv_to_str L) of
        Some h \<Rightarrow>
          if starts_with h ''Bearer '' then
            (let token = drop 7 h;
                 provided_hash = sha256 C token
             in if aw_hashes w key_hash = provided_hash then next w else (w, [], Bare 401))
          else (w, [], Bare 401)
      | None \<Rightarrow> (w, [], Bare 401))"

section \<open>Handlers\<close>

record admin_state =
  ad_config_path :: string
  ad_start_time :: instant
  ad_key_hash :: nat

text \<open>
  What a handler gets from outside: the TOML reader, the file system, the descriptor limit, the
  answers to the reads of the configuration file, the clock and the random bytes.
\<close>

record admin_env =
  en_toml :: toml_reader
  en_exists :: "string \<Rightarrow> bool"
  en_getrlimit :: "u64 option"
  en_file :: file_read
  en_now :: instant
  en_random :: string

definition reload_handler ::
  "admin_env \<Rightarrow> admin_state \<Rightarrow> admin_world \<Rightarrow> admin_world \<times> log_line list \<times> admin_response" where
  "reload_handler en st w =
     (case read_and_validate_config (en_toml en) (en_exists en) (en_file en) (ad_config_path st)
             (rh_cli_allow_wildcard_bind (aw_handle w)) of
        (logs, Inl FileChangedDuringRead) \<Rightarrow>
          (w, logs @ [Log LWarn [] ''admin reload: config file changed during read''],
           Json 409 (ReloadResponse ''error'' (Some ''config file changed during read, please retry'')))
      | (logs, Inl e) \<Rightarrow>
          (w, logs @ [Log LError [] (''admin reload: config read/validate failed: '' @ show_reload_error e)],
           Json 500 (ReloadResponse ''error'' (Some ''reload failed'')))
      | (logs, Inr (new_static, new_dynamic)) \<Rightarrow>
          (case reload (en_exists en) (en_getrlimit en) (aw_handle w) new_static new_dynamic of
             (h, Inr changed_fields) \<Rightarrow>
               (w\<lparr>aw_handle := h\<rparr>,
                logs @
                (if changed_fields \<noteq> []
                 then [Log LWarn [] (''static config fields changed (restart required): '' @
                                     join_str '', '' changed_fields)]
                 else []) @
                [Log LInfo [(''event'', ''CONFIG_RELOAD''), (''status'', ''success''),
                            (''source'', ''admin'')] ''''],
                Json 200 (ReloadResponse ''ok'' None))
           | (h, Inl e) \<Rightarrow>
               (w\<lparr>aw_handle := h\<rparr>,
                logs @ [Log LError [] (''admin reload: config reload failed: '' @ e)],
                Json 500 (ReloadResponse ''error'' (Some ''reload failed'')))))"

definition status_handler ::
  "admin_env \<Rightarrow> admin_state \<Rightarrow> admin_world \<Rightarrow> admin_world \<times> log_line list \<times> admin_response" where
  "status_handler en st w =
     (let config = load (aw_handle w);
          uptime_secs = nat (en_now en - ad_start_time st) div 10 ^ 9
      in (w, [], Json 200 (StatusResponse ''ok'' uptime_secs (length (sites config)))))"

definition rotate_key_handler ::
  "crypto \<Rightarrow> admin_env \<Rightarrow> admin_state \<Rightarrow> admin_world \<Rightarrow>
   admin_world \<times> log_line list \<times> admin_response" where
  "rotate_key_handler C en st w =
     (let new_key_hex = hex_encode C (en_random en);
          new_hash = sha256 C new_key_hex
      in (w\<lparr>aw_hashes := (aw_hashes w)(ad_key_hash st := new_hash)\<rparr>,
          [Log LInfo [(''event'', ''ADMIN_KEY_ROTATION''), (''status'', ''success'')] ''''],
          Json 200 (RotateKeyResponse ''ok'' new_key_hex)))"

section \<open>Routers\<close>

text \<open>
  \<open>ax_get\<close> and \<open>ax_post\<close> are the methods that a route made with \<^verbatim>\<open>get\<close> or \<^verbatim>\<open>post\<close> serves,
  \<open>ax_method_not_allowed\<close> the answer of the library on a route that does not serve the method, and
  \<open>ax_not_found\<close> its answer to a request that no route matches. \<^verbatim>\<open>Router::layer\<close> wraps the routes, their
  method fallbacks and the fallback of the router, and \<^verbatim>\<open>merge\<close> keeps that fallback: the middleware
  stands before everything but \<^verbatim>\<open>/health\<close>.
\<close>

record ('h, 'b) axum =
  ax_get :: "string \<Rightarrow> bool"
  ax_post :: "string \<Rightarrow> bool"
  ax_method_not_allowed :: "('h, 'b) request \<Rightarrow> admin_response"
  ax_not_found :: "('h, 'b) request \<Rightarrow> admin_response"

definition health_handler :: admin_response where
  "health_handler = Bare 200"

definition health_router :: "('h, 'b) axum \<Rightarrow> ('h, 'b) request \<Rightarrow> admin_response" where
  "health_router A req =
     (if u_path (rq_uri req) = ''/health''
      then if ax_get A (rq_method req) then health_handler else ax_method_not_allowed A req
      else ax_not_found A req)"

definition admin_routes ::
  "('h, 'b) axum \<Rightarrow> crypto \<Rightarrow> admin_env \<Rightarrow> admin_state \<Rightarrow> ('h, 'b) request \<Rightarrow> admin_world \<Rightarrow>
   admin_world \<times> log_line list \<times> admin_response" where
  "admin_routes A C en st req w =
     (if u_path (rq_uri req) = ''/admin/reload''
      then if ax_post A (rq_method req) then reload_handler en st w else (w, [], ax_method_not_allowed A req)
      else if u_path (rq_uri req) = ''/admin/status''
      then if ax_get A (rq_method req) then status_handler en st w else (w, [], ax_method_not_allowed A req)
      else if u_path (rq_uri req) = ''/admin/rotate-key''
      then if ax_post A (rq_method req) then rotate_key_handler C en st w else (w, [], ax_method_not_allowed A req)
      else (w, [], ax_not_found A req))"

definition admin_router ::
  "('h, 'b) http_lib \<Rightarrow> ('h, 'b) axum \<Rightarrow> crypto \<Rightarrow> admin_env \<Rightarrow> admin_state \<Rightarrow> nat \<Rightarrow> admin_world \<Rightarrow>
   ('h, 'b) request \<Rightarrow> admin_world \<times> log_line list \<times> admin_response" where
  "admin_router L A C en st key_hash w req =
     (if u_path (rq_uri req) = ''/health'' then (w, [], health_router A req)
      else admin_auth_middleware L C key_hash w req (admin_routes A C en st req))"

text \<open>
  The listener: bound to the loopback address; the result says whether the admin routes are
  served.
\<close>

definition start_health_check_listener ::
  "'l tcp \<Rightarrow> socket_addr list \<Rightarrow> u16 \<Rightarrow> admin_state option \<Rightarrow> nat option \<Rightarrow>
   log_line list \<times> (anyhow + socket_addr \<times> 'l \<times> (admin_state \<times> nat) option)" where
  "start_health_check_listener net bound port st key_hash =
     (let addr = \<lparr>sa_ip = V4 127 0 0 1, sa_port = port, sa_scope = 0\<rparr> in
      case tcp_bind net bound addr of
        Inl e \<Rightarrow> ([], Err [e])
      | Inr listener \<Rightarrow>
          (case tcp_local_addr net listener of
             Inl e \<Rightarrow> ([], Err [e])
           | Inr local_addr \<Rightarrow>
               (case (st, key_hash) of
                  (Some s, Some k) \<Rightarrow>
                    ([Log LInfo [(''addr'', show_socket_addr local_addr)]
                        ''Health check + admin listener bound''],
                     Ok (local_addr, listener, Some (s, k)))
                | _ \<Rightarrow>
                    ([Log LInfo [(''addr'', show_socket_addr local_addr)]
                        ''Health check listener bound (admin disabled)''],
                     Ok (local_addr, listener, None)))))"

section \<open>Lemmas\<close>

text \<open>
  A request presents the key with a given hash when its authorization header is readable and
  carries a bearer token of that hash.
\<close>

definition presents_key :: "('h, 'b) http_lib \<Rightarrow> crypto \<Rightarrow> string \<Rightarrow> ('h, 'b) request \<Rightarrow> bool" where
  "presents_key L C hash req =
     (\<exists>token. Option.bind (hm_get L (rq_headers req) ''authorization'') (hv_to_str L) =
        Some (''Bearer '' @ token) \<and> sha256 C token = hash)"

lemma presents_key_bearer:
  "Option.bind (hm_get L (rq_headers req) ''authorization'') (hv_to_str L) = Some (''Bearer '' @ token) \<Longrightarrow>
   presents_key L C hash req \<longleftrightarrow> sha256 C token = hash"
  by (auto simp: presents_key_def)

lemma admin_auth_middleware_eq:
  "admin_auth_middleware L C k w req next =
     (if presents_key L C (aw_hashes w k) req then next w else (w, [], Bare 401))"
proof (cases "Option.bind (hm_get L (rq_headers req) ''authorization'') (hv_to_str L)")
  case (Some h)
  show ?thesis
  proof (cases "starts_with h ''Bearer ''")
    case True
    then obtain token where h: "h = ''Bearer '' @ token" by (auto simp: starts_with_iff)
    then show ?thesis using Some presents_key_bearer [of L req token C "aw_hashes w k"]
      by (auto simp: admin_auth_middleware_def Let_def)
  next
    case False
    then have "\<not> presents_key L C (aw_hashes w k) req"
      using Some by (auto simp: presents_key_def starts_with_iff)
    then show ?thesis using Some False by (simp add: admin_auth_middleware_def)
  qed
qed (simp add: admin_auth_middleware_def presents_key_def)

lemma bearer_readable:
  assumes "http_laws L" "hm_get L (rq_headers req) ''authorization'' = Some (''Bearer '' @ token)"
    "visible_ascii token"
  shows "Option.bind (hm_get L (rq_headers req) ''authorization'') (hv_to_str L) = Some (''Bearer '' @ token)"
proof -
  have "visible_ascii (''Bearer '' @ token)" using assms(3) by (simp add: visible_ascii_def)
  then show ?thesis using assms(2) http_laws.to_str_visible [OF assms(1)] by simp
qed

lemma reload_handler_world:
  "fst (reload_handler en st w) =
     w\<lparr>aw_handle := fst (handle_sighup_reload (en_toml en) (en_exists en) (en_getrlimit en) (en_file en)
                           (aw_handle w) (ad_config_path st))\<rparr>"
  by (auto simp: reload_handler_def handle_sighup_reload_def
      split: prod.splits sum.splits reload_error.splits)

lemma admin_router_handle:
  "aw_handle (fst (admin_router L A C en st k w req)) \<in>
     {aw_handle w, fst (handle_sighup_reload (en_toml en) (en_exists en) (en_getrlimit en) (en_file en)
        (aw_handle w) (ad_config_path st))}"
  by (auto simp: admin_router_def admin_routes_def admin_auth_middleware_eq reload_handler_world
      status_handler_def rotate_key_handler_def Let_def)

text \<open>
  Like SIGHUP, a call of the admin interface is a guarded update of the reload handle.
\<close>

interpretation admin_call: guarded_update
  "\<lambda>(en, req) w. fst (admin_router L A C en st k w req)" aw_handle handle_consistent for L A C st k
proof
  fix e :: "admin_env \<times> ('a, 'b) request" and w
  obtain en req where e: "e = (en, req)" by fastforce
  show "aw_handle ((case e of (en, req) \<Rightarrow> \<lambda>w. fst (admin_router L A C en st k w req)) w) = aw_handle w \<or>
    handle_consistent (aw_handle ((case e of (en, req) \<Rightarrow> \<lambda>w. fst (admin_router L A C en st k w req)) w))"
    using admin_router_handle [of L A C en st k w req]
      sighup.guarded [of "(en_toml en, en_exists en, en_getrlimit en, en_file en, ad_config_path st)" "aw_handle w"] e
    by auto
qed

section \<open>Properties\<close>

text \<open>
  C10: Nothing on the admin listener happens without the key. A request that does not present the
  stored key is answered with 401 on every path and for every method, unknown paths included; the
  one exception is the path \<^verbatim>\<open>/health\<close>, where the health check answers 200 to the methods of a GET
  route and the library answers the other methods. The configuration, the key and the log are
  untouched.
\<close>

theorem admin_requires_key:
  assumes "\<not> presents_key L C (aw_hashes w k) req"
  shows "admin_router L A C en st k w req =
    (w, [], if u_path (rq_uri req) \<noteq> ''/health'' then Bare 401
            else if ax_get A (rq_method req) then Bare 200 else ax_method_not_allowed A req)"
  using assms by (simp add: admin_router_def admin_auth_middleware_eq health_router_def health_handler_def)

definition example_crypto :: crypto where
  "example_crypto = \<lparr>sha256 = (\<lambda>m. ''digest:'' @ m), hex_encode = map (\<lambda>c. CHR ''a'')\<rparr>"

definition example_axum :: "((string \<times> string) list, string) axum" where
  "example_axum = \<lparr>ax_get = (\<lambda>m. m = ''GET''), ax_post = (\<lambda>m. m = ''POST''), ax_method_not_allowed = (\<lambda>r. Bare 405),
     ax_not_found = (\<lambda>r. Bare 404)\<rparr>"

definition example_env :: admin_env where
  "example_env =
     \<lparr>en_toml = example_toml, en_exists = (\<lambda>p. True), en_getrlimit = None,
      en_file = \<lparr>metadata_before = Ok (Some 5), config_content = Ok '''', metadata_after = Ok (Some 5)\<rparr>,
      en_now = 0, en_random = ''xyz''\<rparr>"

definition example_admin :: admin_state where
  "example_admin = \<lparr>ad_config_path = DEFAULT_CONFIG_PATH, ad_start_time = 0, ad_key_hash = 0\<rparr>"

definition example_world :: admin_world where
  "example_world = \<lparr>aw_handle = example_handle, aw_hashes = (\<lambda>a. ''digest:secret'')\<rparr>"

definition rotate_request :: "string \<Rightarrow> ((string \<times> string) list, string) request" where
  "rotate_request token =
     \<lparr>rq_method = ''POST'',
      rq_uri = \<lparr>u_scheme = None, u_authority = None, u_path = ''/admin/rotate-key'', u_query = None\<rparr>,
      rq_headers = [(''authorization'', ''Bearer '' @ token)], rq_body = '''', rq_connect_info = None\<rparr>"

lemma rotate_request_presents:
  "visible_ascii token \<Longrightarrow>
   presents_key example_lib C hash (rotate_request token) \<longleftrightarrow> sha256 C token = hash"
  by (rule presents_key_bearer, rule bearer_readable [OF example_lib_laws])
    (simp_all add: rotate_request_def example_lib_def alist_lib_def)

theorem admin_requires_key_witness:
  "admin_router example_lib example_axum example_crypto example_env example_admin 0 example_world
     (rotate_request ''guess'') = (example_world, [], Bare 401)"
proof -
  have "\<not> presents_key example_lib example_crypto (aw_hashes example_world 0) (rotate_request ''guess'')"
    by (subst rotate_request_presents) (simp_all add: visible_ascii_def example_crypto_def example_world_def)
  then show ?thesis
    using admin_requires_key [of example_lib example_crypto example_world 0 "rotate_request ''guess''"
        example_axum example_env example_admin]
    by (simp add: rotate_request_def)
qed

text \<open>
  C24: Key rotation works when the middleware and the handlers share the cell of the hash. A request
  with the current key to the rotation route gets a new key, and the configuration is untouched.
  Any later request outside \<^verbatim>\<open>/health\<close> with a bearer token reaches the admin routes when the digest
  of its token is that of the new key, and is answered with 401 when it is another one, such as that
  of the old key.
\<close>

theorem rotated_key_replaces_old:
  assumes "http_laws L" and "presents_key L C (aw_hashes w (ad_key_hash st)) req"
    and "u_path (rq_uri req) = ''/admin/rotate-key''" and "ax_post A (rq_method req)"
    and "hm_get L (rq_headers req') ''authorization'' = Some (''Bearer '' @ token)" and "visible_ascii token"
    and "u_path (rq_uri req') \<noteq> ''/health''"
  shows "\<exists>w' logs. admin_router L A C en st (ad_key_hash st) w req =
      (w', logs, Json 200 (RotateKeyResponse ''ok'' (hex_encode C (en_random en)))) \<and>
    aw_handle w' = aw_handle w \<and>
    admin_router L A C en' st (ad_key_hash st) w' req' =
      (if sha256 C token = sha256 C (hex_encode C (en_random en)) then admin_routes A C en' st req' w'
       else (w', [], Bare 401))"
proof -
  have "admin_router L A C en st (ad_key_hash st) w req = rotate_key_handler C en st w"
    using assms(2-4) by (simp add: admin_router_def admin_routes_def admin_auth_middleware_eq)
  then show ?thesis
    using presents_key_bearer [OF bearer_readable [OF assms(1,5,6)]] assms(7)
    by (auto simp: rotate_key_handler_def Let_def admin_router_def admin_auth_middleware_eq)
qed

definition status_request :: "string \<Rightarrow> ((string \<times> string) list, string) request" where
  "status_request token = (rotate_request token)
     \<lparr>rq_method := ''GET'',
      rq_uri := \<lparr>u_scheme = None, u_authority = None, u_path = ''/admin/status'', u_query = None\<rparr>\<rparr>"

theorem rotated_key_replaces_old_witness:
  "\<exists>w' logs. admin_router example_lib example_axum example_crypto example_env example_admin 0 example_world
      (rotate_request ''secret'') = (w', logs, Json 200 (RotateKeyResponse ''ok'' ''aaa'')) \<and>
    aw_handle w' = aw_handle example_world \<and>
    admin_router example_lib example_axum example_crypto example_env example_admin 0 w' (status_request ''secret'') =
      (w', [], Bare 401)"
proof -
  have "presents_key example_lib example_crypto (aw_hashes example_world (ad_key_hash example_admin))
      (rotate_request ''secret'')"
    by (subst rotate_request_presents) (simp_all add: visible_ascii_def example_crypto_def example_world_def)
  then show ?thesis
    using rotated_key_replaces_old [OF example_lib_laws, of example_crypto example_world example_admin
        "rotate_request ''secret''" example_axum "status_request ''secret''" "''secret''" example_env example_env]
    by (simp add: rotate_request_def status_request_def example_axum_def visible_ascii_def example_lib_def
        alist_lib_def example_admin_def example_crypto_def example_env_def)
qed

text \<open>
  C25: A reload through the admin interface does to the configuration what SIGHUP does with the same
  file. The answer tells the outcome without details: 200 when the file was read, accepted and
  stored, otherwise 409 or 500 with a fixed text, and then nothing has changed.
\<close>

theorem admin_reload_like_sighup:
  "case reload_handler en st w of (w', logs, resp) \<Rightarrow>
     w' = w\<lparr>aw_handle := fst (handle_sighup_reload (en_toml en) (en_exists en) (en_getrlimit en) (en_file en)
                                (aw_handle w) (ad_config_path st))\<rparr> \<and>
     (resp = Json 200 (ReloadResponse ''ok'' None) \<and>
        (\<exists>sc dc. snd (read_and_validate_config (en_toml en) (en_exists en) (en_file en) (ad_config_path st)
                        (rh_cli_allow_wildcard_bind (aw_handle w))) = Ok (sc, dc) \<and>
           aw_handle w' = (aw_handle w)\<lparr>rh_config := dc, rh_static_config := sc\<rparr>) \<or>
      w' = w \<and>
        resp \<in> {Json 409 (ReloadResponse ''error'' (Some ''config file changed during read, please retry'')),
                Json 500 (ReloadResponse ''error'' (Some ''reload failed''))})"
proof -
  obtain w' logs resp where r: "reload_handler en st w = (w', logs, resp)" by (metis prod_cases3)
  obtain l rv where v: "read_and_validate_config (en_toml en) (en_exists en) (en_file en) (ad_config_path st)
      (rh_cli_allow_wildcard_bind (aw_handle w)) = (l, rv)" by fastforce
  have world: "w' = w\<lparr>aw_handle := fst (handle_sighup_reload (en_toml en) (en_exists en) (en_getrlimit en)
      (en_file en) (aw_handle w) (ad_config_path st))\<rparr>"
    using reload_handler_world [of en st w] r by simp
  show ?thesis
  proof (cases rv)
    case (Inl e)
    then show ?thesis using r v world by (cases e) (auto simp: reload_handler_def)
  next
    case (Inr p)
    obtain sc dc where p: "p = (sc, dc)" by fastforce
    obtain h rr where h: "reload (en_exists en) (en_getrlimit en) (aw_handle w) sc dc = (h, rr)" by fastforce
    show ?thesis
    proof (cases rr)
      case (Inl e)
      then have "h = aw_handle w" using reload_cases [OF h] by auto
      then have "w' = w \<and> resp = Json 500 (ReloadResponse ''error'' (Some ''reload failed''))"
        using r v Inr p h \<open>rr = Inl e\<close> by (auto simp: reload_handler_def)
      then show ?thesis using r world by auto
    next
      case changed: (Inr changed)
      then have "h = (aw_handle w)\<lparr>rh_config := dc, rh_static_config := sc\<rparr>"
        using reload_cases [OF h] by auto
      then have "aw_handle w' = (aw_handle w)\<lparr>rh_config := dc, rh_static_config := sc\<rparr> \<and>
          resp = Json 200 (ReloadResponse ''ok'' None)"
        using r v Inr p h changed by (auto simp: reload_handler_def)
      then show ?thesis using r v Inr p world by simp
    qed
  qed
qed

end
