(* ===== verification/Log_Files.thy ===== *)
theory Log_Files
  imports Events Config_Data
begin

text \<open>
  Logging to a file, \<^verbatim>\<open>logging/mod.rs\<close> and \<^verbatim>\<open>logging/reopen.rs\<close>. The writers share the open file
  through a swappable cell, and log rotation depends on which file an open descriptor refers to, so
  the model has the store explicitly: names refer to inodes, descriptors to an inode with a
  position, cells to a descriptor. The \<^verbatim>\<open>tracing\<close> crates are parameters; the layers that are
  installed are the data handed to them.
\<close>

section \<open>Files\<close>

record log_store =
  ls_dir :: "string \<rightharpoonup> nat"
  ls_data :: "nat \<Rightarrow> string"
  ls_next_inode :: nat
  ls_fds :: "nat \<Rightarrow> nat \<times> nat"
  ls_next_fd :: nat
  ls_cells :: "nat \<Rightarrow> nat"
  ls_next_cell :: nat

text \<open>
  Opening for writing with create and truncate, which is also \<^verbatim>\<open>File::create\<close>: an existing file is
  emptied, a missing one is made; the descriptor starts at position 0. \<open>refuse\<close> says for which
  paths the operating system refuses.
\<close>

definition open_truncate ::
  "(string \<Rightarrow> io_error option) \<Rightarrow> string \<Rightarrow> log_store \<Rightarrow> log_store \<times> (io_error + nat)" where
  "open_truncate refuse path s =
     (case refuse path of
        Some e \<Rightarrow> (s, Err e)
      | None \<Rightarrow>
          (case ls_dir s path of
             Some i \<Rightarrow>
               (s\<lparr>ls_data := (ls_data s)(i := []), ls_fds := (ls_fds s)(ls_next_fd s := (i, 0)),
                  ls_next_fd := ls_next_fd s + 1\<rparr>, Ok (ls_next_fd s))
           | None \<Rightarrow>
               (s\<lparr>ls_dir := (ls_dir s)(path \<mapsto> ls_next_inode s),
                  ls_data := (ls_data s)(ls_next_inode s := []),
                  ls_next_inode := ls_next_inode s + 1,
                  ls_fds := (ls_fds s)(ls_next_fd s := (ls_next_inode s, 0)),
                  ls_next_fd := ls_next_fd s + 1\<rparr>, Ok (ls_next_fd s))))"

text \<open>
  A write at the position of the descriptor; a position beyond the end leaves a hole of zeros.
\<close>

definition write_at :: "string \<Rightarrow> nat \<Rightarrow> string \<Rightarrow> string" where
  "write_at d pos buf =
     take pos d @ replicate (pos - length d) (CHR 0x00) @ buf @ drop (pos + length buf) d"

definition file_content :: "log_store \<Rightarrow> string \<Rightarrow> string option" where
  "file_content s path = map_option (ls_data s) (ls_dir s path)"

definition rename :: "string \<Rightarrow> string \<Rightarrow> log_store \<Rightarrow> log_store" where
  "rename old new s = s\<lparr>ls_dir := ((ls_dir s)(new := ls_dir s old))(old := None)\<rparr>"

text \<open>
  The parent of a path, up to the repeated separators and dots that \<^verbatim>\<open>Path::components\<close> skips.
\<close>

definition path_parent :: "string \<Rightarrow> string option" where
  "path_parent p =
     (let root = starts_with p ''/'';
          pieces = split_on CHR ''/'' p;
          comps = filter (\<lambda>c. c \<noteq> []) (take 1 pieces @ filter (\<lambda>c. c \<noteq> ''.'') (drop 1 pieces))
      in if comps = [] then None
         else Some ((if root then ''/'' else []) @ join_str ''/'' (butlast comps)))"

section \<open>The reopenable writer\<close>

record log_reopen_handle =
  lr_file :: nat
  lr_path :: string

definition reopenable_new ::
  "(string \<Rightarrow> io_error option) \<Rightarrow> (string \<Rightarrow> io_error option) \<Rightarrow> string \<Rightarrow> log_store \<Rightarrow>
   log_store \<times> (io_error + nat)" where
  "reopenable_new refuse mkdir path s =
     (case (case path_parent path of
              Some parent \<Rightarrow> if parent \<noteq> [] then mkdir parent else None
            | None \<Rightarrow> None) of
        Some e \<Rightarrow> (s, Err e)
      | None \<Rightarrow>
          (case open_truncate refuse path s of
             (s', Inl e) \<Rightarrow> (s', Err e)
           | (s', Inr fd) \<Rightarrow>
               (s'\<lparr>ls_cells := (ls_cells s')(ls_next_cell s' := fd), ls_next_cell := ls_next_cell s' + 1\<rparr>,
                Ok (ls_next_cell s'))))"

definition writer_handle :: "nat \<Rightarrow> log_reopen_handle" where
  "writer_handle cell = \<lparr>lr_file = cell, lr_path = []\<rparr>"

definition handle_with_path :: "nat \<Rightarrow> string \<Rightarrow> log_reopen_handle" where
  "handle_with_path cell path = \<lparr>lr_file = cell, lr_path = path\<rparr>"

definition make_writer :: "nat \<Rightarrow> log_store \<Rightarrow> nat" where
  "make_writer cell s = ls_cells s cell"

definition file_write :: "nat \<Rightarrow> string \<Rightarrow> log_store \<Rightarrow> log_store" where
  "file_write fd buf s =
     (case ls_fds s fd of (i, pos) \<Rightarrow>
        s\<lparr>ls_data := (ls_data s)(i := write_at (ls_data s i) pos buf),
          ls_fds := (ls_fds s)(fd := (i, pos + length buf))\<rparr>)"

definition reopen ::
  "(string \<Rightarrow> io_error option) \<Rightarrow> log_reopen_handle \<Rightarrow> log_store \<Rightarrow> log_store \<times> (io_error + unit)" where
  "reopen refuse h s =
     (if lr_path h = [] then (s, Err ''log reopen path not configured'')
      else (case open_truncate refuse (lr_path h) s of
              (s', Inl e) \<Rightarrow> (s', Err e)
            | (s', Inr new_file) \<Rightarrow>
                (s'\<lparr>ls_cells := (ls_cells s')(lr_file h := new_file)\<rparr>, Ok ())))"

section \<open>Initialisation\<close>

text \<open>
  A layer: JSON or text, colours, its filter, and where it writes (the cell of the file writer, or
  the standard output).
\<close>

record 'f layer =
  la_json :: bool
  la_ansi :: bool
  la_filter :: 'f
  la_writer :: "nat option"

record ('v, 'f) tracing =
  tr_parse_level :: "string \<Rightarrow> 'v option"
  tr_info :: 'v
  tr_env_filter :: "'v \<Rightarrow> 'f"
  tr_try_init :: "'f layer list \<Rightarrow> io_error option"

definition make_env_filter :: "('v, 'f) tracing \<Rightarrow> 'v \<Rightarrow> 'f" where
  "make_env_filter T level = tr_env_filter T level"

definition init_json ::
  "('v, 'f) tracing \<Rightarrow> (string \<Rightarrow> io_error option) \<Rightarrow> (string \<Rightarrow> io_error option) \<Rightarrow> 'f \<Rightarrow>
   string option \<Rightarrow> 'v \<Rightarrow> log_store \<Rightarrow> log_store \<times> (anyhow + log_reopen_handle option)" where
  "init_json T refuse mkdir env_filter log_path level s =
     (case log_path of
        Some path \<Rightarrow>
          (case reopenable_new refuse mkdir path s of
             (s', Inl e) \<Rightarrow> (s', Err [e])
           | (s', Inr cell) \<Rightarrow>
               (case tr_try_init T
                       [\<lparr>la_json = True, la_ansi = False, la_filter = env_filter, la_writer = None\<rparr>,
                        \<lparr>la_json = True, la_ansi = False, la_filter = make_env_filter T level,
                         la_writer = Some cell\<rparr>] of
                  Some e \<Rightarrow> (s', Err [e])
                | None \<Rightarrow> (s', Ok (Some (handle_with_path cell path)))))
      | None \<Rightarrow>
          (case tr_try_init T
                  [\<lparr>la_json = True, la_ansi = False, la_filter = env_filter, la_writer = None\<rparr>] of
             Some e \<Rightarrow> (s, Err [e])
           | None \<Rightarrow> (s, Ok None)))"

definition init_text ::
  "('v, 'f) tracing \<Rightarrow> (string \<Rightarrow> io_error option) \<Rightarrow> (string \<Rightarrow> io_error option) \<Rightarrow> 'f \<Rightarrow>
   string option \<Rightarrow> 'v \<Rightarrow> log_store \<Rightarrow> log_store \<times> (anyhow + log_reopen_handle option)" where
  "init_text T refuse mkdir env_filter log_path level s =
     (case log_path of
        Some path \<Rightarrow>
          (case reopenable_new refuse mkdir path s of
             (s', Inl e) \<Rightarrow> (s', Err [e])
           | (s', Inr cell) \<Rightarrow>
               (case tr_try_init T
                       [\<lparr>la_json = False, la_ansi = False, la_filter = env_filter, la_writer = None\<rparr>,
                        \<lparr>la_json = False, la_ansi = False, la_filter = make_env_filter T level,
                         la_writer = Some cell\<rparr>] of
                  Some e \<Rightarrow> (s', Err [e])
                | None \<Rightarrow> (s', Ok (Some (handle_with_path cell path)))))
      | None \<Rightarrow>
          (case tr_try_init T
                  [\<lparr>la_json = False, la_ansi = False, la_filter = env_filter, la_writer = None\<rparr>] of
             Some e \<Rightarrow> (s, Err [e])
           | None \<Rightarrow> (s, Ok None)))"

definition init ::
  "('v, 'f) tracing \<Rightarrow> (string \<Rightarrow> io_error option) \<Rightarrow> (string \<Rightarrow> io_error option) \<Rightarrow>
   logging_config \<Rightarrow> log_store \<Rightarrow> log_store \<times> (anyhow + log_reopen_handle option)" where
  "init T refuse mkdir config s =
     (let level = unwrap_or (tr_parse_level T (log_level config)) (tr_info T);
          env_filter = make_env_filter T level
      in if log_format config = ''json''
         then init_json T refuse mkdir env_filter (log_file_path config) level s
         else init_text T refuse mkdir env_filter (log_file_path config) level s)"

section \<open>Lemmas\<close>

text \<open>
  A store is consistent when names and descriptors refer to existing files and cells to open
  descriptors.
\<close>

definition store_ok :: "log_store \<Rightarrow> bool" where
  "store_ok s =
     ((\<forall>p i. ls_dir s p = Some i \<longrightarrow> i < ls_next_inode s) \<and>
      (\<forall>fd < ls_next_fd s. fst (ls_fds s fd) < ls_next_inode s) \<and>
      (\<forall>c < ls_next_cell s. ls_cells s c < ls_next_fd s))"

lemma open_truncate_ok:
  assumes "store_ok s" "open_truncate refuse path s = (s', r)"
  shows "store_ok s' \<and> (\<forall>fd. r = Ok fd \<longrightarrow> fd < ls_next_fd s')"
  using assms by (auto simp: open_truncate_def store_ok_def less_Suc_eq split: option.splits if_splits)

lemma reopen_ok:
  assumes "store_ok s" shows "store_ok (fst (reopen refuse h s))"
proof -
  obtain s' r where o: "open_truncate refuse (lr_path h) s = (s', r)" by fastforce
  show ?thesis using open_truncate_ok [OF assms o] assms o
    by (cases r) (auto simp: reopen_def store_ok_def)
qed

lemma reopenable_new_ok:
  assumes "store_ok s" shows "store_ok (fst (reopenable_new refuse mkdir path s))"
proof -
  obtain s' r where o: "open_truncate refuse path s = (s', r)" by fastforce
  then show ?thesis using open_truncate_ok [OF assms o] assms
    by (cases r) (auto simp: reopenable_new_def store_ok_def less_Suc_eq split: option.split)
qed

lemma init_ok: "store_ok s \<Longrightarrow> store_ok (fst (init T refuse mkdir config s))"
proof (cases "log_file_path config")
  case (Some path)
  obtain s' r where n: "reopenable_new refuse mkdir path s = (s', r)" by fastforce
  assume "store_ok s"
  then have "store_ok s'" using n reopenable_new_ok [of s refuse mkdir path] by simp
  then show ?thesis using Some n
    by (cases r) (simp_all add: init_def Let_def init_json_def init_text_def split: option.split)
qed (simp add: init_def Let_def init_json_def init_text_def split: option.split)

lemma write_ok: "store_ok s \<Longrightarrow> fd < ls_next_fd s \<Longrightarrow> store_ok (file_write fd buf s)"
  by (auto simp: file_write_def store_ok_def split: prod.splits)

lemma write_at_end [simp]: "write_at d (length d) buf = d @ buf"
  by (simp add: write_at_def)

lemma write_at_empty [simp]: "write_at [] 0 buf = buf"
  by (simp add: write_at_def)

lemma reopen_missing:
  assumes "lr_path h \<noteq> []" "refuse (lr_path h) = None" "ls_dir s (lr_path h) = None"
  shows "reopen refuse h s =
    (s\<lparr>ls_dir := (ls_dir s)(lr_path h \<mapsto> ls_next_inode s),
       ls_data := (ls_data s)(ls_next_inode s := []), ls_next_inode := ls_next_inode s + 1,
       ls_fds := (ls_fds s)(ls_next_fd s := (ls_next_inode s, 0)), ls_next_fd := ls_next_fd s + 1,
       ls_cells := (ls_cells s)(lr_file h := ls_next_fd s)\<rparr>, Ok ())"
  using assms by (simp add: reopen_def open_truncate_def)

text \<open>
  Reopening a file that is still in place empties it.
\<close>

lemma reopen_truncates:
  assumes "lr_path h \<noteq> []" "refuse (lr_path h) = None" "ls_dir s (lr_path h) = Some i"
  shows "file_content (fst (reopen refuse h s)) (lr_path h) = Some []"
  using assms by (simp add: reopen_def open_truncate_def file_content_def)

section \<open>Properties\<close>

text \<open>
  C28: Rotation by renaming and reopening loses nothing. After the log file was renamed and the
  handle reopened, the renamed file has exactly the lines logged so far, what is logged next is the
  whole content of a new file under the old name, and a writer that was taken before the swap still
  appends to the renamed file.
\<close>

theorem rotation_keeps_old_log:
  assumes "store_ok s" and "ls_dir s (lr_path h) = Some i" and "lr_path h \<noteq> []"
    and "old_log \<noteq> lr_path h" and "refuse (lr_path h) = None"
    and "fd < ls_next_fd s" and "ls_fds s fd = (i, length (ls_data s i))"
  shows "\<exists>s'. reopen refuse h (rename (lr_path h) old_log s) = (s', Ok ()) \<and> store_ok s' \<and>
    file_content s' old_log = file_content s (lr_path h) \<and>
    file_content (file_write (make_writer (lr_file h) s') buf s') (lr_path h) = Some buf \<and>
    file_content (file_write (make_writer (lr_file h) s') buf s') old_log = file_content s (lr_path h) \<and>
    file_content (file_write fd buf s') old_log = Some (ls_data s i @ buf) \<and>
    file_content (file_write fd buf s') (lr_path h) = Some []"
proof -
  let ?s = "rename (lr_path h) old_log s"
  let ?s' = "fst (reopen refuse h ?s)"
  have "store_ok ?s" using assms(1) by (auto simp: store_ok_def rename_def split: if_splits)
  then have ok: "store_ok ?s'" by (rule reopen_ok)
  have i: "i < ls_next_inode s" "fd \<noteq> ls_next_fd s" using assms(1,2,6) by (auto simp: store_ok_def)
  have r: "reopen refuse h ?s =
      (?s\<lparr>ls_dir := (ls_dir ?s)(lr_path h \<mapsto> ls_next_inode s),
         ls_data := (ls_data s)(ls_next_inode s := []), ls_next_inode := ls_next_inode s + 1,
         ls_fds := (ls_fds s)(ls_next_fd s := (ls_next_inode s, 0)), ls_next_fd := ls_next_fd s + 1,
         ls_cells := (ls_cells s)(lr_file h := ls_next_fd s)\<rparr>, Ok ())"
    using reopen_missing [of h refuse ?s] assms(3,5) by (simp add: rename_def)
  have dir: "ls_dir ?s' old_log = Some i" "ls_dir ?s' (lr_path h) = Some (ls_next_inode s)"
    unfolding r using assms(2,4) by (simp_all add: rename_def)
  have new: "make_writer (lr_file h) ?s' = ls_next_fd s" "ls_fds ?s' (ls_next_fd s) = (ls_next_inode s, 0)"
    "ls_fds ?s' fd = (i, length (ls_data s i))" "ls_data ?s' = (ls_data s)(ls_next_inode s := [])"
    unfolding r make_writer_def using i(2) assms(7) by (simp_all add: rename_def)
  have "file_content ?s' old_log = file_content s (lr_path h)"
    "file_content (file_write (make_writer (lr_file h) ?s') buf ?s') (lr_path h) = Some buf"
    "file_content (file_write (make_writer (lr_file h) ?s') buf ?s') old_log = file_content s (lr_path h)"
    "file_content (file_write fd buf ?s') old_log = Some (ls_data s i @ buf)"
    "file_content (file_write fd buf ?s') (lr_path h) = Some []"
    using assms(2) i(1) dir new by (simp_all add: file_content_def file_write_def)
  then show ?thesis using ok r by (intro exI [of _ ?s']) simp
qed

definition example_store :: log_store where
  "example_store =
     \<lparr>ls_dir = [''/var/log/access.log'' \<mapsto> 0], ls_data = (\<lambda>i. ''started''), ls_next_inode = 1,
      ls_fds = (\<lambda>fd. (0, 7)), ls_next_fd = 1, ls_cells = (\<lambda>c. 0), ls_next_cell = 1\<rparr>"

definition example_log_handle :: log_reopen_handle where
  "example_log_handle = handle_with_path 0 ''/var/log/access.log''"

theorem rotation_keeps_old_log_witness:
  "\<exists>s'. reopen (\<lambda>p. None) example_log_handle
        (rename (lr_path example_log_handle) ''/var/log/access.log.1'' example_store) = (s', Ok ()) \<and>
    store_ok s' \<and>
    file_content s' ''/var/log/access.log.1'' = file_content example_store (lr_path example_log_handle) \<and>
    file_content (file_write (make_writer (lr_file example_log_handle) s') ''next'' s')
      (lr_path example_log_handle) = Some ''next'' \<and>
    file_content (file_write (make_writer (lr_file example_log_handle) s') ''next'' s') ''/var/log/access.log.1'' =
      file_content example_store (lr_path example_log_handle) \<and>
    file_content (file_write 0 ''next'' s') ''/var/log/access.log.1'' = Some (ls_data example_store 0 @ ''next'') \<and>
    file_content (file_write 0 ''next'' s') (lr_path example_log_handle) = Some []"
  by (rule rotation_keeps_old_log)
    (simp_all add: example_store_def example_log_handle_def handle_with_path_def store_ok_def)

end
