(* ===== verification/Signals.thy ===== *)
theory Signals
  imports Reload Log_Files
begin

text \<open>
  Signals, \<^verbatim>\<open>shutdown.rs\<close>: the shutdown state that the tasks subscribe to, the loop that handles
  SIGTERM, SIGINT, SIGHUP and SIGUSR1 in the order of their arrival, and the reopening of the log
  file. The watch channel is represented by the number of values sent: a receiver made by
  \<^verbatim>\<open>subscribe\<close> has seen none of them. What a signal finds outside (the configuration file, the file
  system, the descriptor limit) comes with it.
\<close>

section \<open>Shutdown state\<close>

record graceful_shutdown =
  gs_shutdown_timeout :: duration
  gs_sent :: nat
  gs_shutdown_requested :: bool

definition graceful_shutdown_new :: "u64 \<Rightarrow> graceful_shutdown" where
  "graceful_shutdown_new secs =
     \<lparr>gs_shutdown_timeout = from_secs secs, gs_sent = 0, gs_shutdown_requested = False\<rparr>"

definition is_shutdown_requested :: "graceful_shutdown \<Rightarrow> bool" where
  "is_shutdown_requested g = gs_shutdown_requested g"

definition subscribe :: "graceful_shutdown \<Rightarrow> nat" where
  "subscribe g = 0"

definition receiver_changed :: "nat \<Rightarrow> graceful_shutdown \<Rightarrow> bool" where
  "receiver_changed seen g = (seen < gs_sent g)"

definition trigger_shutdown :: "graceful_shutdown \<Rightarrow> graceful_shutdown" where
  "trigger_shutdown g = g\<lparr>gs_shutdown_requested := True, gs_sent := gs_sent g + 1\<rparr>"

section \<open>The loop\<close>

definition SIGHUP :: int where "SIGHUP = 1"
definition SIGINT :: int where "SIGINT = 2"
definition SIGUSR1 :: int where "SIGUSR1 = 10"
definition SIGTERM :: int where "SIGTERM = 15"

record signal_env =
  se_toml :: toml_reader
  se_exists :: "string \<Rightarrow> bool"
  se_getrlimit :: "u64 option"
  se_file :: file_read
  se_refuse :: "string \<Rightarrow> io_error option"

record signal_world =
  sw_shutdown :: graceful_shutdown
  sw_handle :: reload_handle
  sw_store :: log_store

definition handle_sigusr1_log_reopen ::
  "(string \<Rightarrow> io_error option) \<Rightarrow> log_reopen_handle option \<Rightarrow> log_store \<Rightarrow> log_store \<times> log_line list" where
  "handle_sigusr1_log_reopen refuse reopen_handle s =
     (case reopen_handle of
        Some h \<Rightarrow>
          (case reopen refuse h s of
             (s', Inr _) \<Rightarrow> (s', [Log LInfo [(''event'', ''LOG_REOPEN''), (''status'', ''success'')] ''''])
           | (s', Inl e) \<Rightarrow>
               (s', [Log LError [(''event'', ''LOG_REOPEN''), (''status'', ''error''), (''error'', e)] '''']))
      | None \<Rightarrow>
          (s, [Log LWarn [(''event'', ''LOG_REOPEN''), (''status'', ''skipped''),
                          (''reason'', ''no_log_file'')] '''']))"

definition show_int :: "int \<Rightarrow> string" where
  "show_int n = (if n < 0 then ''-'' @ show_nat (nat (- n)) else show_nat (nat n))"

text \<open>
  One signal: the new state, what is logged, and whether the loop goes on.
\<close>

definition handle_signal ::
  "string \<Rightarrow> log_reopen_handle option \<Rightarrow> int \<Rightarrow> signal_env \<Rightarrow> signal_world \<Rightarrow>
   signal_world \<times> log_line list \<times> bool" where
  "handle_signal config_path reopen_handle sig en w =
     (if sig = SIGTERM \<or> sig = SIGINT then
        (w\<lparr>sw_shutdown := trigger_shutdown (sw_shutdown w)\<rparr>,
         [Log LInfo [(''event'', ''SIGNAL''), (''signal'', show_int sig)] ''''], False)
      else if sig = SIGHUP then
        (case handle_sighup_reload (se_toml en) (se_exists en) (se_getrlimit en) (se_file en)
                (sw_handle w) config_path of
           (h, logs) \<Rightarrow>
             (w\<lparr>sw_handle := h\<rparr>,
              [Log LInfo [(''event'', ''SIGNAL''), (''signal'', ''SIGHUP'')] ''''] @ logs, True))
      else if sig = SIGUSR1 then
        (case handle_sigusr1_log_reopen (se_refuse en) reopen_handle (sw_store w) of
           (s, logs) \<Rightarrow>
             (w\<lparr>sw_store := s\<rparr>,
              [Log LInfo [(''event'', ''SIGNAL''), (''signal'', ''SIGUSR1'')] ''''] @ logs, True))
      else
        (w, [Log LDebug [(''event'', ''SIGNAL''), (''signal'', show_int sig)] ''''], True))"

fun signal_loop ::
  "string \<Rightarrow> log_reopen_handle option \<Rightarrow> (int \<times> signal_env) list \<Rightarrow> signal_world \<Rightarrow>
   signal_world \<times> log_line list" where
  "signal_loop path rh [] w = (w, [])"
| "signal_loop path rh ((sig, en) # sigs) w =
     (case handle_signal path rh sig en w of
        (w', logs, continue) \<Rightarrow>
          if continue
          then (case signal_loop path rh sigs w' of (w'', logs') \<Rightarrow> (w'', logs @ logs'))
          else (w', logs))"

section \<open>Lemmas\<close>

definition is_stop :: "int \<Rightarrow> bool" where
  "is_stop sig = (sig = SIGTERM \<or> sig = SIGINT)"

lemmas signal_numbers = SIGHUP_def SIGINT_def SIGUSR1_def SIGTERM_def

lemma handle_signal_stop:
  "snd (snd (handle_signal path rh sig en w)) \<longleftrightarrow> \<not> is_stop sig"
  by (auto simp: handle_signal_def is_stop_def split: prod.split)

lemma handle_signal_shutdown:
  "sw_shutdown (fst (handle_signal path rh sig en w)) =
     (if is_stop sig then trigger_shutdown (sw_shutdown w) else sw_shutdown w)"
  by (auto simp: handle_signal_def is_stop_def split: prod.split)

lemma handle_signal_handle:
  "sw_handle (fst (handle_signal path rh sig en w)) \<in>
     {sw_handle w, fst (handle_sighup_reload (se_toml en) (se_exists en) (se_getrlimit en) (se_file en)
        (sw_handle w) path)}"
  by (auto simp: handle_signal_def split: prod.split)

lemma sigusr1_store_ok:
  "store_ok s \<Longrightarrow> store_ok (fst (handle_sigusr1_log_reopen refuse rh s))"
proof (cases rh)
  case (Some h)
  assume "store_ok s"
  then have "store_ok (fst (reopen refuse h s))" by (rule reopen_ok)
  then show ?thesis using Some
    by (cases "reopen refuse h s"; cases "snd (reopen refuse h s)")
      (simp_all add: handle_sigusr1_log_reopen_def)
qed (simp add: handle_sigusr1_log_reopen_def)

lemma handle_signal_store_ok:
  "store_ok (sw_store w) \<Longrightarrow> store_ok (sw_store (fst (handle_signal path rh sig en w)))"
  using sigusr1_store_ok [of "sw_store w" "se_refuse en" rh]
  by (auto simp: handle_signal_def split: prod.split)

lemma signal_loop_shutdown:
  "sw_shutdown (fst (signal_loop path rh sigs w)) =
     (if \<exists>(sig, en) \<in> set sigs. is_stop sig then trigger_shutdown (sw_shutdown w) else sw_shutdown w)"
proof (induction path rh sigs w rule: signal_loop.induct)
  case (2 path rh sig en sigs w)
  obtain w' logs c where h: "handle_signal path rh sig en w = (w', logs, c)" by (metis prod_cases3)
  show ?case
    using 2 [OF h [symmetric]] h handle_signal_stop [of path rh sig en w]
      handle_signal_shutdown [of path rh sig en w]
    by (auto split: prod.split)
qed simp

lemma signal_loop_after_stop:
  "is_stop sig \<Longrightarrow>
   signal_loop path rh (sigs @ (sig, en) # later) w = signal_loop path rh (sigs @ [(sig, en)]) w"
proof (induction sigs arbitrary: w)
  case Nil
  then show ?case using handle_signal_stop [of path rh sig en w] by (auto split: prod.split)
qed (auto split: prod.split)

lemma signal_loop_store_ok:
  "store_ok (sw_store w) \<Longrightarrow> store_ok (sw_store (fst (signal_loop path rh sigs w)))"
proof (induction path rh sigs w rule: signal_loop.induct)
  case (2 path rh sig en sigs w)
  obtain w' logs c where h: "handle_signal path rh sig en w = (w', logs, c)" by (metis prod_cases3)
  then have "store_ok (sw_store w')" using handle_signal_store_ok [OF 2(2), of path rh sig en] by simp
  then show ?case using 2(1) [OF h [symmetric]] h
    by (cases "signal_loop path rh sigs w'") simp
qed simp

section \<open>Properties\<close>

text \<open>
  C29: Shutdown is requested exactly when a SIGTERM or a SIGINT has arrived, once: every task that
  subscribes, before or after the signal, sees the change, and no signal after it has any effect.
  SIGHUP and SIGUSR1 never start a shutdown, and the log store stays consistent.
\<close>

theorem signals_request_shutdown_once:
  assumes "sw_shutdown w = graceful_shutdown_new secs" and "store_ok (sw_store w)" and "is_stop stop"
    and "sw_shutdown (fst (signal_loop path rh sigs w)) = g"
  shows "(is_shutdown_requested g \<longleftrightarrow> (\<exists>(sig, en) \<in> set sigs. is_stop sig)) \<and>
    (receiver_changed (subscribe g) g \<longleftrightarrow> is_shutdown_requested g) \<and>
    store_ok (sw_store (fst (signal_loop path rh sigs w))) \<and>
    signal_loop path rh (sigs @ (stop, en) # later) w = signal_loop path rh (sigs @ [(stop, en)]) w"
proof -
  have "g = (if \<exists>(sig, en) \<in> set sigs. is_stop sig then trigger_shutdown (sw_shutdown w) else sw_shutdown w)"
    using assms(4) signal_loop_shutdown [of path rh sigs w] by simp
  then have "is_shutdown_requested g \<longleftrightarrow> (\<exists>(sig, en) \<in> set sigs. is_stop sig)"
    "receiver_changed (subscribe g) g \<longleftrightarrow> is_shutdown_requested g"
    unfolding assms(1) by (simp_all add: is_shutdown_requested_def receiver_changed_def subscribe_def
        trigger_shutdown_def graceful_shutdown_new_def split: if_split)
  then show ?thesis
    using signal_loop_store_ok [OF assms(2)] signal_loop_after_stop [OF assms(3)] by blast
qed

definition example_signal_env :: signal_env where
  "example_signal_env =
     \<lparr>se_toml = example_toml, se_exists = (\<lambda>p. True), se_getrlimit = None,
      se_file = \<lparr>metadata_before = Err ''gone'', config_content = Err ''gone'', metadata_after = Err ''gone''\<rparr>,
      se_refuse = (\<lambda>p. None)\<rparr>"

definition example_signal_world :: signal_world where
  "example_signal_world =
     \<lparr>sw_shutdown = graceful_shutdown_new 30, sw_handle = example_handle, sw_store = example_store\<rparr>"

theorem signals_request_shutdown_once_witness:
  "\<exists>g. sw_shutdown (fst (signal_loop DEFAULT_CONFIG_PATH (Some example_log_handle)
        [(SIGUSR1, example_signal_env), (SIGTERM, example_signal_env)] example_signal_world)) = g \<and>
    is_shutdown_requested g \<and> receiver_changed (subscribe g) g \<and>
    store_ok (sw_store (fst (signal_loop DEFAULT_CONFIG_PATH (Some example_log_handle)
        [(SIGUSR1, example_signal_env), (SIGTERM, example_signal_env)] example_signal_world)))"
  using signals_request_shutdown_once [of example_signal_world 30 SIGTERM, OF _ _ _ refl,
      of DEFAULT_CONFIG_PATH "Some example_log_handle"
      "[(SIGUSR1, example_signal_env), (SIGTERM, example_signal_env)]"]
  by (simp add: example_signal_world_def is_stop_def example_store_def store_ok_def del: signal_loop.simps)

end
