(* ===== verification/Redirect.thy ===== *)
theory Redirect
  imports Proxy_Handler
begin

text \<open>
  The plain HTTP listener, \<^verbatim>\<open>tls/redirect.rs\<close>: the redirect URL, the handler that answers every
  request on that port, and the start of the listener, whose result is the bound address and the
  HTTPS port that the spawned service redirects to.
\<close>

section \<open>Definitions\<close>

definition ACME_CHALLENGE_PREFIX :: string where
  "ACME_CHALLENGE_PREFIX = ''/.well-known/acme-challenge/''"

definition build_redirect_url :: "string \<Rightarrow> u16 \<Rightarrow> string \<Rightarrow> string \<Rightarrow> string" where
  "build_redirect_url host port path query =
     (let hostname = strip_port_from_host host;
          port_suffix = (if port = 443 then [] else '':'' @ show_word port);
          path_part = (if path = [] \<or> \<not> starts_with path ''/'' then ''/'' @ path else path)
      in if query = [] then ''https://'' @ hostname @ port_suffix @ path_part
         else ''https://'' @ hostname @ port_suffix @ path_part @ ''?'' @ query)"

definition redirect_handler :: "('h, 'b) http_lib \<Rightarrow> u16 \<Rightarrow> ('h, 'b) request \<Rightarrow> ('h, 'b) response" where
  "redirect_handler L port req =
     (case Option.bind (Option.bind (hm_get L (rq_headers req) ''host'') (hv_to_str L))
             (\<lambda>s. if s \<noteq> [] then Some s else None) of
        None \<Rightarrow> text_reply 400 ''Bad Request''
      | Some host \<Rightarrow>
          (let path = u_path (rq_uri req);
               query = unwrap_or (u_query (rq_uri req)) []
           in if starts_with path ACME_CHALLENGE_PREFIX
              then text_reply 404 ''Not Found''
              else (case hv_from_str L (build_redirect_url host port path query) of
                      Inr location_value \<Rightarrow>
                        Reply 301 [(''content-type'', ''text/plain; charset=utf-8''), (''location'', location_value)]
                          ''301 Moved Permanently''
                    | Inl _ \<Rightarrow> text_reply 500 ''Internal Server Error'')))"

definition redirect_router :: "('h, 'b) http_lib \<Rightarrow> u16 \<Rightarrow> ('h, 'b) request \<Rightarrow> ('h, 'b) response" where
  "redirect_router L port req = redirect_handler L port req"

definition start_http_redirect_listener ::
  "'l tcp \<Rightarrow> socket_addr list \<Rightarrow> listener_config \<Rightarrow>
   log_line list \<times> (anyhow + socket_addr \<times> 'l \<times> u16)" where
  "start_http_redirect_listener net bound lc =
     (let text = bind_addr lc @ '':'' @ show_word (http_port lc) in
      case parse_socket_addr text of
        None \<Rightarrow> ([], Err [''invalid bind address '' @ text @
                          '' for HTTP redirect: invalid socket address syntax''])
      | Some addr \<Rightarrow>
          (case tcp_bind net bound addr of
             Inl e \<Rightarrow> ([], Err [e])
           | Inr tcp_listener \<Rightarrow>
               (case tcp_local_addr net tcp_listener of
                  Inl e \<Rightarrow> ([], Err [e])
                | Inr local_addr \<Rightarrow>
                    ([Log LInfo [(''addr'', show_socket_addr local_addr),
                                 (''https_port'', show_word (https_port lc))]
                        ''HTTP redirect listener bound''],
                     Ok (local_addr, tcp_listener, https_port lc)))))"

section \<open>Lemmas\<close>

text \<open>
  The authority of the redirect URL for a host name: the name, with the port when it is not the
  default one. As a Host header it is routed like the name itself.
\<close>

definition https_authority :: "string \<Rightarrow> u16 \<Rightarrow> string" where
  "https_authority name port = name @ (if port = 443 then [] else '':'' @ show_word port)"

lemma colon_not_in_show_word: "CHR '':'' \<notin> set (show_word w)"
  using show_nat_digits [of "CHR '':''"] by (auto simp: show_word_def is_ascii_digit_def)

lemma strip_port_plain:
  assumes "plain_name n" "n \<noteq> []"
  shows "strip_port_from_host n = n" "CHR '':'' \<notin> set p \<Longrightarrow> strip_port_from_host (n @ '':'' @ p) = n"
proof -
  show "strip_port_from_host n = n"
    using assms(1) plain_name_brackets [OF assms(1)]
    by (simp add: strip_port_from_host_def rfind_char_None_iff [THEN iffD2])
  have "hd n \<noteq> CHR ''[''" using assms by (metis hd_in_set)
  then show "CHR '':'' \<notin> set p \<Longrightarrow> strip_port_from_host (n @ '':'' @ p) = n"
    using strip_port_port [OF assms(2)] by simp
qed

lemma normalize_https_authority:
  "plain_name n \<Longrightarrow> normalize_host (https_authority n port) = to_lowercase n"
  using normalize_host_port [of n "show_word port"]
  by (simp add: https_authority_def normalize_host_plain colon_not_in_show_word)

lemma visible_show_word: "visible_ascii (show_word w)"
  by (simp add: show_word_def show_nat_def visible_show_radix)

section \<open>Properties\<close>

text \<open>
  C23: Following a redirect leads to the same site. Take a request on the plain port whose Host header
  is a plain host name, with or without a port, and whose path begins with a slash, is not one of an
  ACME challenge and is, like the query, visible ASCII. It is answered with 301 and the HTTPS URL of
  the same name, path and query, on the HTTPS port of the listener; the authority of that URL is
  routed to the site that the original Host header is routed to.
\<close>

theorem redirect_keeps_site:
  assumes "http_laws L" and "hm_get L (rq_headers req) ''host'' = Some hv" and "visible_ascii hv"
    and "hv = n \<or> (\<exists>p. CHR '':'' \<notin> set p \<and> hv = n @ '':'' @ p)" and "plain_name n" and "n \<noteq> []"
    and "starts_with (u_path (rq_uri req)) ''/''" and "visible_ascii (u_path (rq_uri req))"
    and "visible_ascii (unwrap_or (u_query (rq_uri req)) [])"
    and "\<not> starts_with (u_path (rq_uri req)) ''/.well-known/acme-challenge/''"
  shows "redirect_router L port req =
      Reply 301
        [(''content-type'', ''text/plain; charset=utf-8''),
         (''location'', ''https://'' @ https_authority n port @ u_path (rq_uri req) @
            (if unwrap_or (u_query (rq_uri req)) [] = [] then []
             else ''?'' @ unwrap_or (u_query (rq_uri req)) []))] ''301 Moved Permanently'' \<and>
    lookup dc (https_authority n port) = lookup dc hv"
proof
  have strip: "strip_port_from_host hv = n" and norm: "normalize_host hv = to_lowercase n"
    using assms(4) strip_port_plain [OF assms(5,6)] normalize_host_plain [OF assms(5)]
      normalize_host_port [OF assms(5)] by auto
  show "lookup dc (https_authority n port) = lookup dc hv"
    using norm normalize_https_authority [OF assms(5)] by (simp add: lookup_def)
  have n: "visible_ascii n" "hv \<noteq> []" using assms(3,4,6) by auto
  have url: "build_redirect_url hv port (u_path (rq_uri req)) q =
      ''https://'' @ https_authority n port @ u_path (rq_uri req) @ (if q = [] then [] else ''?'' @ q)" for q
    using assms(7) strip by (auto simp: build_redirect_url_def https_authority_def)
  have "visible_ascii ''https://''" "visible_ascii ''?''" by (simp_all add: visible_ascii_def)
  then have "visible_ascii (build_redirect_url hv port (u_path (rq_uri req)) (unwrap_or (u_query (rq_uri req)) []))"
    unfolding url using assms(8,9) n
    by (simp add: https_authority_def visible_show_word del: append.simps)
  then show "redirect_router L port req =
      Reply 301
        [(''content-type'', ''text/plain; charset=utf-8''),
         (''location'', ''https://'' @ https_authority n port @ u_path (rq_uri req) @
            (if unwrap_or (u_query (rq_uri req)) [] = [] then []
             else ''?'' @ unwrap_or (u_query (rq_uri req)) []))] ''301 Moved Permanently''"
    using assms(2,10) n http_laws.to_str_visible [OF assms(1,3)] http_laws.from_str_visible [OF assms(1)] url
    by (simp add: redirect_router_def redirect_handler_def ACME_CHALLENGE_PREFIX_def Let_def del: append.simps)
qed

theorem redirect_keeps_site_witness:
  "redirect_router example_lib 8443 (example_request\<lparr>rq_headers := [(''host'', ''test.local:80'')]\<rparr>) =
      Reply 301 [(''content-type'', ''text/plain; charset=utf-8''),
                 (''location'', ''https://test.local:8443/repo?page=2'')] ''301 Moved Permanently'' \<and>
   lookup valid_dynamic_config ''test.local:8443'' = lookup valid_dynamic_config ''test.local:80''"
proof -
  have e: "https_authority ''test.local'' 8443 = ''test.local:8443''"
    by (simp add: https_authority_def show_word_def show_nat_def show_radix.simps digit_char_def char_of_def bit_0)
  show ?thesis
    using redirect_keeps_site [OF example_lib_laws, of "example_request\<lparr>rq_headers := [(''host'', ''test.local:80'')]\<rparr>"
        "''test.local:80''" "''test.local''" 8443 valid_dynamic_config] e
    by (simp add: example_request_def example_lib_def alist_lib_def visible_ascii_def)
qed

end
