(* ===== verification/Tls_Setup.thy ===== *)
theory Tls_Setup
  imports Events Config_Data
begin

text \<open>
  TLS of a listener: \<^verbatim>\<open>tls/config.rs\<close> (cipher suites, manual certificates), \<^verbatim>\<open>tls/acme.rs\<close> (the ACME
  configuration and the task that follows its events) and \<^verbatim>\<open>tls/acceptor.rs\<close> (\<^verbatim>\<open>setup_tls\<close>). The
  \<^verbatim>\<open>rustls\<close> crates are parameters: reading and decoding PEM files, and whether they accept the
  protocol versions and a certificate with its key. A server configuration is the data that is
  handed to them. The state of an ACME client and its certificate resolver are identified by the
  configuration they were made from.
\<close>

section \<open>Manual certificates\<close>

datatype cipher_suite =
    TLS_ECDHE_ECDSA_WITH_AES_128_GCM_SHA256
  | TLS_ECDHE_RSA_WITH_AES_128_GCM_SHA256
  | TLS_ECDHE_ECDSA_WITH_AES_256_GCM_SHA384
  | TLS_ECDHE_RSA_WITH_AES_256_GCM_SHA384
  | TLS_ECDHE_ECDSA_WITH_CHACHA20_POLY1305_SHA256
  | TLS_ECDHE_RSA_WITH_CHACHA20_POLY1305_SHA256
  | TLS13_AES_128_GCM_SHA256
  | TLS13_AES_256_GCM_SHA384
  | TLS13_CHACHA20_POLY1305_SHA256

datatype kx_group = X25519 | SECP256R1 | SECP384R1

datatype tls_version = TLS12 | TLS13

definition RESTRICTED_CIPHER_SUITES :: "cipher_suite list" where
  "RESTRICTED_CIPHER_SUITES =
     [TLS_ECDHE_ECDSA_WITH_AES_128_GCM_SHA256, TLS_ECDHE_RSA_WITH_AES_128_GCM_SHA256,
      TLS_ECDHE_ECDSA_WITH_AES_256_GCM_SHA384, TLS_ECDHE_RSA_WITH_AES_256_GCM_SHA384,
      TLS13_AES_128_GCM_SHA256, TLS13_AES_256_GCM_SHA384, TLS13_CHACHA20_POLY1305_SHA256]"

record tls_provider =
  cp_cipher_suites :: "cipher_suite list"
  cp_kx_groups :: "kx_group list"

definition crypto_provider :: tls_provider where
  "crypto_provider =
     \<lparr>cp_cipher_suites = RESTRICTED_CIPHER_SUITES, cp_kx_groups = [X25519, SECP256R1, SECP384R1]\<rparr>"

record acme_config =
  ac_domains :: "string list"
  ac_cache_dir :: string
  ac_directory_url :: string
  ac_contact :: "string list"

datatype cert_source = SingleCert "string list" string | AcmeResolver acme_config

record server_config =
  sc_provider :: tls_provider
  sc_versions :: "tls_version list"
  sc_client_auth :: bool
  sc_certs :: cert_source
  sc_alpn_protocols :: "string list"

record rustls =
  rl_open :: "string \<Rightarrow> io_error + string"
  rl_pem_certs :: "string \<Rightarrow> (io_error + string) list"
  rl_pem_private_key :: "string \<Rightarrow> io_error + string option"
  rl_refuse_versions :: "tls_provider \<Rightarrow> tls_version list \<Rightarrow> string option"
  rl_refuse_pair :: "string list \<Rightarrow> string \<Rightarrow> string option"

fun collect_results :: "('e + 'a) list \<Rightarrow> 'e + 'a list" where
  "collect_results [] = Ok []"
| "collect_results (Inl e # rs) = Err e"
| "collect_results (Inr x # rs) = and_then (collect_results rs) (\<lambda>xs. Ok (x # xs))"

definition load_certs :: "rustls \<Rightarrow> string \<Rightarrow> anyhow + string list" where
  "load_certs R path =
     and_then (map_err (\<lambda>e. [''failed to open certificate file: '' @ path, e]) (rl_open R path)) (\<lambda>file.
     and_then (map_err (\<lambda>e. [''failed to parse certificate file: '' @ path, e])
                (collect_results (rl_pem_certs R file))) (\<lambda>certs.
     if certs = [] then Err [''no certificates found in '' @ path] else Ok certs))"

definition load_private_key :: "rustls \<Rightarrow> string \<Rightarrow> anyhow + string" where
  "load_private_key R path =
     and_then (map_err (\<lambda>e. [''failed to open private key file: '' @ path, e]) (rl_open R path)) (\<lambda>file.
     and_then (map_err (\<lambda>e. [''failed to parse private key file: '' @ path, e])
                (rl_pem_private_key R file)) (\<lambda>key.
     (case key of Some k \<Rightarrow> Ok k | None \<Rightarrow> Err [''no private key found in '' @ path])))"

definition build_server_config :: "rustls \<Rightarrow> string list \<Rightarrow> string \<Rightarrow> anyhow + server_config" where
  "build_server_config R certs key =
     (let provider = crypto_provider in
      case rl_refuse_versions R provider [TLS12, TLS13] of
        Some e \<Rightarrow> Err [''failed to set protocol versions'', e]
      | None \<Rightarrow>
          (case rl_refuse_pair R certs key of
             Some e \<Rightarrow> Err [''failed to configure certificate/key pair'', e]
           | None \<Rightarrow>
               Ok \<lparr>sc_provider = provider, sc_versions = [TLS12, TLS13], sc_client_auth = False,
                   sc_certs = SingleCert certs key, sc_alpn_protocols = [''h2'', ''http/1.1'']\<rparr>))"

definition build_manual_server_config_from_certs ::
  "rustls \<Rightarrow> string list \<Rightarrow> string \<Rightarrow> anyhow + server_config" where
  "build_manual_server_config_from_certs R certs key = build_server_config R certs key"

definition build_manual_server_config :: "rustls \<Rightarrow> string \<Rightarrow> string \<Rightarrow> anyhow + server_config" where
  "build_manual_server_config R cert_file key_file =
     and_then (load_certs R cert_file) (\<lambda>certs.
     and_then (load_private_key R key_file) (\<lambda>key.
     build_server_config R certs key))"

section \<open>ACME\<close>

definition LETS_ENCRYPT_PRODUCTION_DIRECTORY :: string where
  "LETS_ENCRYPT_PRODUCTION_DIRECTORY = ''https://acme-v02.api.letsencrypt.org/directory''"

definition LETS_ENCRYPT_STAGING_DIRECTORY :: string where
  "LETS_ENCRYPT_STAGING_DIRECTORY = ''https://acme-staging-v02.api.letsencrypt.org/directory''"

record acme_tls_config =
  at_domains :: "string list"
  at_cache_dir :: string
  at_directory :: string
  at_contact :: "string list"

definition directory_url :: "acme_tls_config \<Rightarrow> string" where
  "directory_url c =
     (if at_directory c = ''production'' then LETS_ENCRYPT_PRODUCTION_DIRECTORY
      else if at_directory c = ''staging'' then LETS_ENCRYPT_STAGING_DIRECTORY
      else at_directory c)"

definition acme_setup :: "acme_tls_config \<Rightarrow> log_line list \<times> acme_config" where
  "acme_setup c =
     ([Log LInfo [(''domains'', debug_strs (at_domains c)), (''cache_dir'', at_cache_dir c),
                  (''directory'', directory_url c)] ''ACME state machine created''],
      \<lparr>ac_domains = at_domains c, ac_cache_dir = at_cache_dir c, ac_directory_url = directory_url c,
       ac_contact = at_contact c\<rparr>)"

datatype acme_event_ok = DeployedCachedCert | DeployedNewCert | CertCacheStore | AccountCacheStore

datatype acme_event_error =
    CertCacheLoadError string
  | AccountCacheLoadError string
  | CertCacheStoreError string
  | AccountCacheStoreError string
  | CachedCertParseError string
  | OrderError string
  | NewCertParseError string

fun acme_ok_message :: "acme_event_ok \<Rightarrow> string" where
  "acme_ok_message DeployedCachedCert = ''ACME: deployed cached certificate''"
| "acme_ok_message DeployedNewCert = ''ACME: deployed new certificate''"
| "acme_ok_message CertCacheStore = ''ACME: certificate stored to cache''"
| "acme_ok_message AccountCacheStore = ''ACME: account stored to cache''"

fun acme_error_report :: "acme_event_error \<Rightarrow> log_level \<times> string \<times> string" where
  "acme_error_report (CertCacheLoadError e) = (LError, e, ''ACME: certificate cache load failed'')"
| "acme_error_report (AccountCacheLoadError e) = (LError, e, ''ACME: account cache load failed'')"
| "acme_error_report (CertCacheStoreError e) = (LWarn, e, ''ACME: certificate cache store failed'')"
| "acme_error_report (AccountCacheStoreError e) = (LWarn, e, ''ACME: account cache store failed'')"
| "acme_error_report (CachedCertParseError e) = (LError, e, ''ACME: cached certificate parse failed'')"
| "acme_error_report (OrderError e) = (LWarn, e, ''ACME: certificate order failed, will retry'')"
| "acme_error_report (NewCertParseError e) = (LError, e, ''ACME: new certificate parse failed'')"

text \<open>
  What the task of \<^verbatim>\<open>spawn_acme_state\<close> can be woken by, and what it logs until it stops.
\<close>

datatype acme_wakeup =
    AcmeEvent "acme_event_error + acme_event_ok"
  | AcmeStreamEnd
  | AcmeShutdown

fun acme_task :: "string list \<Rightarrow> acme_wakeup list \<Rightarrow> log_line list" where
  "acme_task domains [] = []"
| "acme_task domains (AcmeEvent (Inr ok) # es) =
     Log LInfo [(''domains'', debug_strs domains)] (acme_ok_message ok) # acme_task domains es"
| "acme_task domains (AcmeEvent (Inl err) # es) =
     (case acme_error_report err of
        (level, e, msg) \<Rightarrow>
          Log level [(''domains'', debug_strs domains), (''error'', e)] msg # acme_task domains es)"
| "acme_task domains (AcmeStreamEnd # es) =
     [Log LInfo [(''domains'', debug_strs domains)] ''ACME: state machine ended'']"
| "acme_task domains (AcmeShutdown # es) =
     [Log LInfo [(''domains'', debug_strs domains)] ''ACME: state machine shutting down'']"

section \<open>Setup\<close>

definition ACME_TLS_ALPN_01 :: string where "ACME_TLS_ALPN_01 = ''acme-tls/1''"

definition build_acme_server_config :: "rustls \<Rightarrow> acme_config \<Rightarrow> anyhow + server_config" where
  "build_acme_server_config R resolver =
     (let provider = crypto_provider in
      case rl_refuse_versions R provider [TLS12, TLS13] of
        Some e \<Rightarrow> Err [''failed to set TLS protocol versions'', e]
      | None \<Rightarrow>
          Ok \<lparr>sc_provider = provider, sc_versions = [TLS12, TLS13], sc_client_auth = False,
              sc_certs = AcmeResolver resolver,
              sc_alpn_protocols = [''h2'', ''http/1.1'', ACME_TLS_ALPN_01]\<rparr>)"

datatype tls_mode = Manual server_config | Acme server_config acme_config

fun mode_config :: "tls_mode \<Rightarrow> server_config" where
  "mode_config (Manual c) = c"
| "mode_config (Acme c r) = c"

text \<open>
  The result of \<^verbatim>\<open>setup_tls\<close>: log lines, the ACME tasks it has spawned (configuration and domains)
  and the mode.
\<close>

definition setup_tls ::
  "rustls \<Rightarrow> tls_config \<Rightarrow>
   log_line list \<times> (acme_config \<times> string list) list \<times> (anyhow + tls_mode)" where
  "setup_tls R t =
     (if tls_mode t = ''manual'' then
        if cert_path t = [] then ([], [], Err [''manual TLS mode requires cert_path''])
        else if key_path t = [] then ([], [], Err [''manual TLS mode requires key_path''])
        else ([], [], and_then (build_manual_server_config R (cert_path t) (key_path t)) (\<lambda>c. Ok (Manual c)))
      else if tls_mode t = ''acme'' then
        if acme_domains t = []
        then ([], [], Err [''ACME TLS mode requires at least one domain in acme_domains''])
        else if acme_cache_dir t = [] then ([], [], Err [''ACME TLS mode requires acme_cache_dir''])
        else
          (case acme_setup \<lparr>at_domains = acme_domains t, at_cache_dir = acme_cache_dir t,
                            at_directory = acme_directory t, at_contact = [acme_contact t]\<rparr> of
             (logs, state) \<Rightarrow>
               (case build_acme_server_config R state of
                  Inl e \<Rightarrow> (logs, [], Err e)
                | Inr default_config \<Rightarrow>
                    (logs @ [Log LInfo [(''domains'', debug_strs (acme_domains t))]
                               ''ACME TLS mode initialized''],
                     [(state, acme_domains t)], Ok (Acme default_config state))))
      else ([], [], Err [''unknown TLS mode: '' @ [CHR 0x27] @ tls_mode t @ [CHR 0x27] @
                         '', expected '' @ [CHR 0x27] @ ''manual'' @ [CHR 0x27] @ '' or '' @ [CHR 0x27] @
                         ''acme'' @ [CHR 0x27]]))"

section \<open>Specification and lemmas\<close>

text \<open>
  When a listener's TLS comes up in manual mode: both files open and decode, the certificate file
  has at least one certificate, the key file has a key, and the library accepts the pair and the
  protocol versions. What ACME mode asks for: a domain, a cache directory, and the versions. The
  suites and protocols that a listener may offer are those of \<^verbatim>\<open>docs/architecture/tls.md\<close>.
\<close>

definition certs_in :: "rustls \<Rightarrow> string \<Rightarrow> string list \<Rightarrow> bool" where
  "certs_in R path certs =
     (certs \<noteq> [] \<and> (\<exists>file. rl_open R path = Ok file \<and> rl_pem_certs R file = map Inr certs))"

definition key_in :: "rustls \<Rightarrow> string \<Rightarrow> string \<Rightarrow> bool" where
  "key_in R path key = (\<exists>file. rl_open R path = Ok file \<and> rl_pem_private_key R file = Ok (Some key))"

definition manual_comes_up :: "rustls \<Rightarrow> tls_config \<Rightarrow> string list \<Rightarrow> string \<Rightarrow> bool" where
  "manual_comes_up R t certs key =
     (tls_mode t = ''manual'' \<and> cert_path t \<noteq> [] \<and> key_path t \<noteq> [] \<and>
      certs_in R (cert_path t) certs \<and> key_in R (key_path t) key \<and>
      rl_refuse_versions R crypto_provider [TLS12, TLS13] = None \<and> rl_refuse_pair R certs key = None)"

definition acme_settings_complete :: "rustls \<Rightarrow> tls_config \<Rightarrow> bool" where
  "acme_settings_complete R t =
     (tls_mode t = ''acme'' \<and> acme_domains t \<noteq> [] \<and> acme_cache_dir t \<noteq> [] \<and>
      rl_refuse_versions R crypto_provider [TLS12, TLS13] = None)"

definition hardened :: "server_config \<Rightarrow> bool" where
  "hardened c =
     (sc_versions c = [TLS12, TLS13] \<and>
      set (cp_cipher_suites (sc_provider c)) =
        {TLS_ECDHE_ECDSA_WITH_AES_128_GCM_SHA256, TLS_ECDHE_RSA_WITH_AES_128_GCM_SHA256,
         TLS_ECDHE_ECDSA_WITH_AES_256_GCM_SHA384, TLS_ECDHE_RSA_WITH_AES_256_GCM_SHA384,
         TLS13_AES_128_GCM_SHA256, TLS13_AES_256_GCM_SHA384, TLS13_CHACHA20_POLY1305_SHA256} \<and>
      sc_alpn_protocols c =
        [''h2'', ''http/1.1''] @ (case sc_certs c of SingleCert _ _ \<Rightarrow> [] | AcmeResolver _ \<Rightarrow> [''acme-tls/1'']))"

lemma collect_results_Ok_iff: "collect_results rs = Ok xs \<longleftrightarrow> rs = map Inr xs"
proof (induction rs arbitrary: xs rule: collect_results.induct)
  case (3 x rs)
  then show ?case by (cases xs) (auto simp: and_then_Inr_iff)
qed auto

lemma load_certs_Ok_iff: "load_certs R path = Ok certs \<longleftrightarrow> certs_in R path certs"
  by (auto simp: load_certs_def certs_in_def and_then_Inr_iff map_err_Inr_iff collect_results_Ok_iff)

lemma load_private_key_Ok_iff: "load_private_key R path = Ok key \<longleftrightarrow> key_in R path key"
  by (auto simp: load_private_key_def key_in_def and_then_Inr_iff map_err_Inr_iff split: option.splits)

lemma setup_tls_manual:
  "tls_mode t = ''manual'' \<Longrightarrow>
   snd (snd (setup_tls R t)) = Ok m \<longleftrightarrow>
     (\<exists>certs key. manual_comes_up R t certs key \<and>
        m = Manual \<lparr>sc_provider = crypto_provider, sc_versions = [TLS12, TLS13], sc_client_auth = False,
                    sc_certs = SingleCert certs key, sc_alpn_protocols = [''h2'', ''http/1.1'']\<rparr>)"
  by (auto simp: setup_tls_def build_manual_server_config_def build_server_config_def Let_def
      manual_comes_up_def and_then_Inr_iff load_certs_Ok_iff load_private_key_Ok_iff
      split: option.splits if_splits)

lemma setup_tls_acme:
  "tls_mode t = ''acme'' \<Longrightarrow> snd (snd (setup_tls R t)) = Ok m \<Longrightarrow>
   acme_settings_complete R t \<and>
   (\<exists>a. sc_certs (mode_config m) = AcmeResolver a \<and> ac_domains a = acme_domains t \<and>
      ac_cache_dir a = acme_cache_dir t)"
  by (auto simp: setup_tls_def acme_setup_def build_acme_server_config_def Let_def acme_settings_complete_def
      split: option.splits if_splits)

lemma setup_tls_mode:
  "snd (snd (setup_tls R t)) = Ok m \<Longrightarrow> tls_mode t = ''manual'' \<or> tls_mode t = ''acme''"
  by (auto simp: setup_tls_def split: if_splits)

lemma setup_tls_hardened:
  assumes "snd (snd (setup_tls R t)) = Ok m" shows "hardened (mode_config m)"
  using assms
  by (auto simp: setup_tls_def acme_setup_def build_acme_server_config_def build_manual_server_config_def
      build_server_config_def Let_def hardened_def crypto_provider_def RESTRICTED_CIPHER_SUITES_def
      ACME_TLS_ALPN_01_def and_then_Inr_iff split: option.splits if_splits sum.splits)

section \<open>Properties\<close>


end
