(* ===== verification/Upstream_Clients.thy ===== *)
theory Upstream_Clients
  imports Events
begin

text \<open>
  The clients for upstream connections, \<^verbatim>\<open>create_http_client\<close>, \<^verbatim>\<open>create_https_client\<close> and
  \<^verbatim>\<open>root_certs\<close> of \<^verbatim>\<open>proxy/handler.rs\<close>. The client crates are not part of the sources: a client is
  the settings it is built with. The certificates that the platform has, the errors of loading
  them, and which of them the root store takes are parameters; so is the connector that the
  library starts from.
\<close>

definition CONNECT_TIMEOUT_CEILING_SECS :: u64 where "CONNECT_TIMEOUT_CEILING_SECS = 30"

definition POOL_MAX_IDLE_PER_HOST :: usize where "POOL_MAX_IDLE_PER_HOST = 10"

record http_connector =
  cn_connect_timeout :: "duration option"
  cn_enforce_http :: bool

record http_client =
  cl_connector :: http_connector
  cl_roots :: "string list option"
  cl_pool_idle_timeout :: duration
  cl_pool_max_idle_per_host :: usize

record native_certs =
  nc_certs :: "string list"
  nc_errors :: "string list"

definition root_certs :: "(string \<Rightarrow> bool) \<Rightarrow> native_certs \<Rightarrow> log_line list \<times> string list" where
  "root_certs accepted nc =
     (let roots = filter accepted (nc_certs nc);
          cert_count = length roots;
          error_count = length (nc_errors nc);
          fields = [(''certs_loaded'', show_nat cert_count), (''errors'', show_nat error_count)]
      in ((if cert_count = 0
           then [Log LWarn fields (''no system root certificates loaded '' @ [CHR 0xE2, CHR 0x80, CHR 0x94] @
                                   '' HTTPS upstream connections will fail'')]
           else [Log LInfo fields ''loaded system root certificates'']) @
          map (\<lambda>err. Log LWarn [(''error'', err)] ''failed to load native certificate'') (nc_errors nc),
          roots))"

definition create_http_client :: "http_connector \<Rightarrow> http_client" where
  "create_http_client base =
     \<lparr>cl_connector = base\<lparr>cn_connect_timeout := Some (from_secs CONNECT_TIMEOUT_CEILING_SECS)\<rparr>,
      cl_roots = None, cl_pool_idle_timeout = from_secs 90,
      cl_pool_max_idle_per_host = POOL_MAX_IDLE_PER_HOST\<rparr>"

definition create_https_client ::
  "(string \<Rightarrow> bool) \<Rightarrow> native_certs \<Rightarrow> http_connector \<Rightarrow> log_line list \<times> http_client" where
  "create_https_client accepted nc base =
     (let connector = base\<lparr>cn_connect_timeout := Some (from_secs CONNECT_TIMEOUT_CEILING_SECS),
                           cn_enforce_http := False\<rparr>
      in case root_certs accepted nc of
           (logs, roots) \<Rightarrow>
             (logs,
              \<lparr>cl_connector = connector, cl_roots = Some roots, cl_pool_idle_timeout = from_secs 90,
               cl_pool_max_idle_per_host = POOL_MAX_IDLE_PER_HOST\<rparr>))"

text \<open>
  Every client gives up connecting after the ceiling, whatever connector it was made from, and the
  HTTPS client trusts only certificates that the platform has.
\<close>

lemma clients_have_ceiling:
  "cn_connect_timeout (cl_connector (create_http_client base)) = Some (30 * 10 ^ 9)"
  "cn_connect_timeout (cl_connector (snd (create_https_client accepted nc base))) = Some (30 * 10 ^ 9)"
  "\<exists>roots. cl_roots (snd (create_https_client accepted nc base)) = Some roots \<and> set roots \<subseteq> set (nc_certs nc)"
  by (auto simp: create_http_client_def create_https_client_def Let_def root_certs_def from_secs_def
      CONNECT_TIMEOUT_CEILING_SECS_def)

end
