(* ===== verification/Accept_Errors.thy ===== *)
theory Accept_Errors
  imports Rust_Async Events Machines
begin

text \<open>
  Errors of \<^verbatim>\<open>accept\<close> in \<^verbatim>\<open>server.rs\<close>: their classification, the reporter that logs each kind of
  error at most once per ten seconds and counts what it leaves out, and the pause after an error.
  The numbers of the operating system errors are those of Linux. The two clock readings of a
  report are arguments.
\<close>

section \<open>Definitions\<close>

datatype error_kind = WouldBlock | Interrupted | ConnectionAborted | OtherKind

record accept_error =
  ae_kind :: error_kind
  ae_os :: "int option"
  ae_text :: string

definition ENOMEM :: int where "ENOMEM = 12"
definition ENFILE :: int where "ENFILE = 23"
definition EMFILE :: int where "EMFILE = 24"
definition ENOBUFS :: int where "ENOBUFS = 105"

definition ACCEPT_BACKOFF_RESOURCE :: duration where "ACCEPT_BACKOFF_RESOURCE = 10 ^ 9"

definition ACCEPT_BACKOFF_OTHER :: duration where "ACCEPT_BACKOFF_OTHER = 100 * 10 ^ 6"

definition ACCEPT_ERROR_SUPPRESS :: duration where "ACCEPT_ERROR_SUPPRESS = 10 * 10 ^ 9"

definition is_transient_accept_error :: "accept_error \<Rightarrow> bool" where
  "is_transient_accept_error e = (ae_kind e = WouldBlock \<or> ae_kind e = Interrupted)"

definition is_resource_accept_error :: "accept_error \<Rightarrow> bool" where
  "is_resource_accept_error e =
     (ae_kind e = ConnectionAborted \<or> ae_os e = Some EMFILE \<or> ae_os e = Some ENFILE \<or>
      ae_os e = Some ENOBUFS \<or> ae_os e = Some ENOMEM)"

record accept_error_report =
  last_log :: "instant option"
  suppressed :: usize

definition accept_error_report_new :: accept_error_report where
  "accept_error_report_new = \<lparr>last_log = None, suppressed = 0\<rparr>"

definition report_log ::
  "instant \<Rightarrow> instant \<Rightarrow> accept_error \<Rightarrow> accept_error_report \<Rightarrow> accept_error_report \<times> log_line list" where
  "report_log now1 now2 e r =
     (let n = suppressed r + 1;
          should_emit = (case last_log r of
                           None \<Rightarrow> True
                         | Some t \<Rightarrow> nat (now1 - t) \<ge> ACCEPT_ERROR_SUPPRESS)
      in if should_emit then
           (\<lparr>last_log = Some now2, suppressed = 0\<rparr>,
            [if last_log r \<noteq> None
             then Log LError [(''error'', ae_text e), (''suppressed'', show_word (n - 1)),
                              (''backoff_ms'', show_nat (ACCEPT_BACKOFF_RESOURCE div 10 ^ 6))]
                    ''failed to accept TCP connection; backing off''
             else Log LError [(''error'', ae_text e)]
                    ''failed to accept TCP connection; backing off''])
         else (r\<lparr>suppressed := n\<rparr>, []))"

type_synonym accept_error_reporter = "string \<rightharpoonup> accept_error_report"

definition reporter_report ::
  "instant \<Rightarrow> instant \<Rightarrow> accept_error \<Rightarrow> accept_error_reporter \<Rightarrow>
   accept_error_reporter \<times> log_line list" where
  "reporter_report now1 now2 e reports =
     (let key = ae_text e;
          entry = (case reports key of Some r \<Rightarrow> r | None \<Rightarrow> accept_error_report_new)
      in case report_log now1 now2 e entry of (r, logs) \<Rightarrow> (reports(key \<mapsto> r), logs))"

text \<open>
  What the accept loop does with an error: the reporter's new state, the lines logged, and how
  long the loop sleeps.
\<close>

definition handle_accept_error ::
  "instant \<Rightarrow> instant \<Rightarrow> accept_error \<Rightarrow> accept_error_reporter \<Rightarrow>
   accept_error_reporter \<times> log_line list \<times> duration" where
  "handle_accept_error now1 now2 e reports =
     (if is_transient_accept_error e then (reports, [], 0)
      else case reporter_report now1 now2 e reports of
             (reports', logs) \<Rightarrow>
               (reports', logs,
                if is_resource_accept_error e then ACCEPT_BACKOFF_RESOURCE
                else ACCEPT_BACKOFF_OTHER))"

section \<open>Runs of errors\<close>

text \<open>
  A report is an error with its two clock readings. A run gives for every report when it was made
  and the lines that were logged for it; \<open>entry_run\<close> is the same for the reports of one text. Errors
  that count as transient are not reported.
\<close>

record error_report =
  er_error :: accept_error
  er_now1 :: instant
  er_now2 :: instant

type_synonym logged = "instant \<times> log_line list"

definition entry_serve ::
  "error_report \<Rightarrow> accept_error_report option \<Rightarrow> accept_error_report option \<times> logged" where
  "entry_serve q entry =
     (case report_log (er_now1 q) (er_now2 q) (er_error q) (unwrap_or entry accept_error_report_new) of
        (r, logs) \<Rightarrow> (Some r, (er_now2 q, logs)))"

definition reporter_serve :: "error_report \<Rightarrow> accept_error_reporter \<Rightarrow> accept_error_reporter \<times> logged" where
  "reporter_serve q reports =
     (case reporter_report (er_now1 q) (er_now2 q) (er_error q) reports of
        (reports', logs) \<Rightarrow> (reports', (er_now2 q, logs)))"

fun reporter_run :: "error_report list \<Rightarrow> accept_error_reporter \<Rightarrow> accept_error_reporter \<times> logged list" where
  "reporter_run [] m = (m, [])"
| "reporter_run (q # qs) m =
     (case reporter_serve q m of (m1, r) \<Rightarrow> case reporter_run qs m1 of (m2, rs) \<Rightarrow> (m2, r # rs))"

fun entry_run ::
  "error_report list \<Rightarrow> accept_error_report option \<Rightarrow> accept_error_report option \<times> logged list" where
  "entry_run [] v = (v, [])"
| "entry_run (q # qs) v =
     (case entry_serve q v of (v1, r) \<Rightarrow> case entry_run qs v1 of (v2, rs) \<Rightarrow> (v2, r # rs))"

interpretation reports: keyed_service reporter_serve reporter_run "\<lambda>q. ae_text (er_error q)" entry_serve entry_run
  by unfold_locales
    (auto simp: reporter_serve_def reporter_report_def entry_serve_def Let_def unwrap_or_def
      split: prod.splits option.splits)

text \<open>
  The lines of a run with their times, and the number of left-out reports that a line states: the
  number in its field \<^verbatim>\<open>suppressed\<close>, none when the line has no such field.
\<close>

definition emitted :: "logged list \<Rightarrow> (instant \<times> log_line) list" where
  "emitted ls = concat (map (\<lambda>(t, logs). map (Pair t) logs) ls)"

lemma emitted_simps [simp]:
  "emitted [] = []" "emitted ((t, logs) # ls) = map (Pair t) logs @ emitted ls"
  by (simp_all add: emitted_def)

fun stated :: "log_line \<Rightarrow> nat" where
  "stated (Log l fs msg) =
     (case map_of fs ''suppressed'' of Some s \<Rightarrow> unwrap_or (map_option unat (parse_u64 s)) 0 | None \<Rightarrow> 0)"

text \<open>
  One report: it is logged unless the last line is less than ten seconds old; a report that is not
  logged is counted, and a line states the count.
\<close>

definition entry_ok :: "accept_error_report option \<Rightarrow> bool" where
  "entry_ok v = (case v of Some b \<Rightarrow> last_log b = None \<longrightarrow> suppressed b = 0 | None \<Rightarrow> True)"

abbreviation pending :: "accept_error_report option \<Rightarrow> nat" where
  "pending v \<equiv> unat (suppressed (unwrap_or v accept_error_report_new))"

lemma entry_serve_cases:
  assumes "entry_serve q v = (v1, r)" "entry_ok v"
  obtains (quiet) l b where "r = (er_now2 q, [])" "v = Some b" "last_log b = Some l"
      "v1 = Some (b\<lparr>suppressed := suppressed b + 1\<rparr>)"
  | (logged) line where "r = (er_now2 q, [line])" "stated line = pending v"
      "v1 = Some \<lparr>last_log = Some (er_now2 q), suppressed = 0\<rparr>"
      "\<forall>b l. v = Some b \<longrightarrow> last_log b = Some l \<longrightarrow> l + int ACCEPT_ERROR_SUPPRESS \<le> er_now1 q"
proof -
  have "0 < ACCEPT_ERROR_SUPPRESS" by (simp add: ACCEPT_ERROR_SUPPRESS_def)
  then have "ACCEPT_ERROR_SUPPRESS \<le> nat (er_now1 q - l) \<Longrightarrow> l + int ACCEPT_ERROR_SUPPRESS \<le> er_now1 q" for l
    by linarith
  then show thesis using assms that
    by (cases v; cases "last_log (unwrap_or v accept_error_report_new)")
      (auto simp: entry_serve_def report_log_def entry_ok_def Let_def accept_error_report_new_def split: if_splits)
qed

lemma entry_serve_ok: "entry_serve q v = (v1, r) \<Longrightarrow> entry_ok v1"
  by (auto simp: entry_serve_def report_log_def entry_ok_def Let_def split: if_splits)

lemma entry_run_count:
  "entry_run qs v = (v', rs) \<Longrightarrow> entry_ok v \<Longrightarrow> pending v + length qs < 2 ^ 64 \<Longrightarrow>
   pending v + length qs = length (emitted rs) + sum_list (map (stated \<circ> snd) (emitted rs)) + pending v'"
proof (induction qs arbitrary: v v' rs)
  case (Cons q qs)
  obtain v1 r where 1: "entry_serve q v = (v1, r)" by (rule prod.exhaust)
  obtain rs2 where 2: "entry_run qs v1 = (v', rs2)" "rs = r # rs2"
    using Cons.prems 1 by (auto split: prod.splits)
  show ?case using 1 Cons.prems(2)
  proof (cases rule: entry_serve_cases)
    case (quiet l b)
    then have "pending v1 = pending v + 1"
      using Cons.prems(3) by (simp add: unat_word_ariths)
    then show ?thesis
      using Cons.IH [OF 2(1) entry_serve_ok [OF 1]] Cons.prems(3) 2(2) quiet by simp
  next
    case (logged line)
    then show ?thesis using Cons.IH [OF 2(1) entry_serve_ok [OF 1]] Cons.prems(3) 2(2) by simp
  qed
qed auto

lemma entry_run_first:
  "entry_run qs (Some b) = (v', rs) \<Longrightarrow> last_log b = Some l \<Longrightarrow> list_all (\<lambda>q. er_now1 q \<le> er_now2 q) qs \<Longrightarrow>
   emitted rs \<noteq> [] \<Longrightarrow> l + int ACCEPT_ERROR_SUPPRESS \<le> fst (hd (emitted rs))"
proof (induction qs arbitrary: b v' rs)
  case (Cons q qs)
  obtain v1 r where 1: "entry_serve q (Some b) = (v1, r)" by (rule prod.exhaust)
  obtain rs2 where 2: "entry_run qs v1 = (v', rs2)" "rs = r # rs2"
    using Cons.prems(1) 1 by (auto split: prod.splits)
  have "entry_ok (Some b)" using Cons.prems(2) by (simp add: entry_ok_def)
  with 1 show ?case
  proof (cases rule: entry_serve_cases)
    case (quiet l' b')
    then show ?thesis using Cons.IH [of "b\<lparr>suppressed := suppressed b + 1\<rparr>" v' rs2] Cons.prems 2 by simp
  next
    case (logged line)
    then show ?thesis using Cons.prems 2(2) by fastforce
  qed
qed simp

lemma entry_run_spaced:
  "entry_run qs v = (v', rs) \<Longrightarrow> entry_ok v \<Longrightarrow> list_all (\<lambda>q. er_now1 q \<le> er_now2 q) qs \<Longrightarrow>
   sorted_wrt (\<lambda>a b. fst a + int ACCEPT_ERROR_SUPPRESS \<le> fst b) (emitted rs)"
proof (induction qs arbitrary: v v' rs)
  case (Cons q qs)
  obtain v1 r where 1: "entry_serve q v = (v1, r)" by (rule prod.exhaust)
  obtain rs2 where 2: "entry_run qs v1 = (v', rs2)" "rs = r # rs2"
    using Cons.prems(1) 1 by (auto split: prod.splits)
  have s2: "sorted_wrt (\<lambda>a b. fst a + int ACCEPT_ERROR_SUPPRESS \<le> fst b) (emitted rs2)"
    using Cons.IH [OF 2(1) entry_serve_ok [OF 1]] Cons.prems(3) by simp
  show ?case using 1 Cons.prems(2)
  proof (cases rule: entry_serve_cases)
    case (logged line)
    have f: "emitted rs2 \<noteq> [] \<Longrightarrow> er_now2 q + int ACCEPT_ERROR_SUPPRESS \<le> fst (hd (emitted rs2))"
      using entry_run_first [of qs _ v' rs2 "er_now2 q"] 2(1) logged(3) Cons.prems(3) by simp
    have "er_now2 q + int ACCEPT_ERROR_SUPPRESS \<le> fst x" if "x \<in> set (emitted rs2)" for x
      using that s2 f by (cases "emitted rs2") fastforce+
    then show ?thesis using s2 2(2) logged(1) by simp
  qed (use s2 2(2) in simp)
qed simp

section \<open>Properties\<close>

text \<open>
  C33: A storm of accept errors cannot flood the log and loses no count. Over any sequence of reports
  of any errors, for every error text, the lines logged for it are at least ten seconds apart.
  While the reports are fewer than \<open>2 ^ 64\<close>, the lines, the numbers of left-out reports that the
  lines state, and the count still pending add up to the number of its reports; reports of other
  errors make no difference.
\<close>

theorem accept_errors_throttled:
  assumes "reporter_run qs Map.empty = (m, rs)" and "list_all (\<lambda>q. er_now1 q \<le> er_now2 q) qs"
    and "length qs < 2 ^ 64"
  shows "let mine = filter (\<lambda>(q, r). ae_text (er_error q) = k) (zip qs rs);
             lines = emitted (map snd mine)
         in sorted_wrt (\<lambda>a b. fst a + int ACCEPT_ERROR_SUPPRESS \<le> fst b) lines \<and>
            length mine = length lines + sum_list (map (stated \<circ> snd) lines) + pending (m k)"
proof -
  let ?mine = "filter (\<lambda>(q, r). ae_text (er_error q) = k) (zip qs rs)"
  have r: "entry_run (filter (\<lambda>q. ae_text (er_error q) = k) qs) None = (m k, map snd ?mine)"
    using reports.run_key [OF assms(1), of k] by simp
  have "length qs = length rs" using reports.run_length [of qs Map.empty] assms(1) by simp
  then have "map fst ?mine = filter (\<lambda>q. ae_text (er_error q) = k) qs"
    by (induction qs rs rule: list_induct2) auto
  then have l: "length ?mine = length (filter (\<lambda>q. ae_text (er_error q) = k) qs)"
    by (metis length_map)
  moreover have "length ?mine < 2 ^ 64"
    using l assms(3) length_filter_le [of "\<lambda>q. ae_text (er_error q) = k" qs] by linarith
  moreover have "list_all (\<lambda>q. er_now1 q \<le> er_now2 q) (filter (\<lambda>q. ae_text (er_error q) = k) qs)"
    using assms(2) by (simp add: list_all_iff)
  ultimately show ?thesis
    using entry_run_count [OF r] entry_run_spaced [OF r]
    by (simp add: Let_def accept_error_report_new_def entry_ok_def)
qed

definition example_reports :: "error_report list" where
  "example_reports =
     map (\<lambda>(t, s). \<lparr>er_error = \<lparr>ae_kind = OtherKind, ae_os = Some EMFILE, ae_text = s\<rparr>, er_now1 = t, er_now2 = t\<rparr>)
       [(0, ''EMFILE''), (1, ''EMFILE''), (2, ''ENFILE''), (10000000000, ''EMFILE'')]"

theorem accept_errors_throttled_witness:
  "let mine = filter (\<lambda>(q, r). ae_text (er_error q) = ''EMFILE'')
         (zip example_reports (snd (reporter_run example_reports Map.empty)));
       lines = emitted (map snd mine)
   in sorted_wrt (\<lambda>a b. fst a + int ACCEPT_ERROR_SUPPRESS \<le> fst b) lines \<and>
      length mine = length lines + sum_list (map (stated \<circ> snd) lines) +
        pending (fst (reporter_run example_reports Map.empty) ''EMFILE'')"
  by (rule accept_errors_throttled [OF prod.collapse [symmetric]]) (simp_all add: example_reports_def)

end
