(* ===== verification/Idle_Tracking.thy ===== *)
theory Idle_Tracking
  imports Rust_Async Events Machines
begin

text \<open>
  Idle connections, \<^verbatim>\<open>server.rs\<close>: \<^verbatim>\<open>IdleState\<close>, the service and the body wrappers that count the
  requests in flight on a connection, and the watchdog that ends a connection without activity.
  The counter is an atomic 64-bit word, whose subtraction wraps. Each clock reading is an
  argument. A connection is a list of requests, each in one of the phases that the wrappers
  distinguish; one phase stands for a request whose service future was dropped before it
  completed, as a server does when a client resets the stream.
\<close>

section \<open>Counting requests\<close>

record idle_state =
  last_activity :: instant
  idle_in_flight :: usize

definition idle_state_new :: "instant \<Rightarrow> idle_state" where
  "idle_state_new now = \<lparr>last_activity = now, idle_in_flight = 0\<rparr>"

definition touch :: "instant \<Rightarrow> idle_state \<Rightarrow> idle_state" where
  "touch now s = s\<lparr>last_activity := now\<rparr>"

definition idle_for :: "instant \<Rightarrow> idle_state \<Rightarrow> duration" where
  "idle_for now s = nat (now - last_activity s)"

text \<open>
  The body wrapper; \<open>tb_inner\<close> says whether it holds a body.
\<close>

record tracking_body =
  tb_inner :: bool
  tb_decremented :: bool

definition tracking_body_new :: tracking_body where
  "tracking_body_new = \<lparr>tb_inner = True, tb_decremented = False\<rparr>"

definition release :: "instant \<Rightarrow> idle_state \<times> tracking_body \<Rightarrow> idle_state \<times> tracking_body" where
  "release now sb =
     (case sb of (s, b) \<Rightarrow>
        if \<not> tb_decremented b
        then (touch now (s\<lparr>idle_in_flight := idle_in_flight s - 1\<rparr>), b\<lparr>tb_decremented := True\<rparr>)
        else (s, b))"

datatype frame_poll = ReadyNone | ReadyErr | ReadyFrame | Pending

definition poll_frame ::
  "instant \<Rightarrow> frame_poll \<Rightarrow> idle_state \<times> tracking_body \<Rightarrow>
   (idle_state \<times> tracking_body) \<times> frame_poll" where
  "poll_frame now p sb =
     (case sb of (s, b) \<Rightarrow>
        if \<not> tb_inner b then (sb, ReadyNone)
        else (case p of
                ReadyNone \<Rightarrow> (release now sb, ReadyNone)
              | ReadyErr \<Rightarrow> (release now sb, ReadyErr)
              | ReadyFrame \<Rightarrow> ((touch now s, b), ReadyFrame)
              | Pending \<Rightarrow> (sb, Pending)))"

text \<open>
  The other two questions about a body are passed on to the wrapped one.
\<close>

record size_hint =
  sh_lower :: u64
  sh_upper :: "u64 option"

definition size_hint_default :: size_hint where
  "size_hint_default = \<lparr>sh_lower = 0, sh_upper = None\<rparr>"

definition tracked_is_end_stream :: "bool \<Rightarrow> tracking_body \<Rightarrow> bool" where
  "tracked_is_end_stream inner b = unwrap_or (if tb_inner b then Some inner else None) True"

definition tracked_size_hint :: "size_hint \<Rightarrow> tracking_body \<Rightarrow> size_hint" where
  "tracked_size_hint inner b = unwrap_or (if tb_inner b then Some inner else None) size_hint_default"

definition service_call :: "instant \<Rightarrow> idle_state \<Rightarrow> idle_state" where
  "service_call now s = (touch now s)\<lparr>idle_in_flight := idle_in_flight s + 1\<rparr>"

definition service_done ::
  "instant \<Rightarrow> bool \<Rightarrow> idle_state \<Rightarrow> idle_state \<times> tracking_body option" where
  "service_done now ok s =
     (if ok then (s, Some tracking_body_new)
      else (touch now (s\<lparr>idle_in_flight := idle_in_flight s - 1\<rparr>), None))"

section \<open>A connection\<close>

datatype req_phase = Calling | Streaming tracking_body | Ended | Cancelled

record conn_state =
  cs_idle :: idle_state
  cs_reqs :: "req_phase list"

datatype conn_event =
    NewRequest
  | ServiceDone nat bool
  | PollBody nat frame_poll
  | DropBody nat
  | CancelFuture nat

definition conn_step :: "instant \<Rightarrow> conn_event \<Rightarrow> conn_state \<Rightarrow> conn_state option" where
  "conn_step now e c =
     (case e of
        NewRequest \<Rightarrow>
          Some (c\<lparr>cs_idle := service_call now (cs_idle c), cs_reqs := cs_reqs c @ [Calling]\<rparr>)
      | ServiceDone i ok \<Rightarrow>
          if i < length (cs_reqs c) \<and> cs_reqs c ! i = Calling then
            (case service_done now ok (cs_idle c) of
               (s, Some b) \<Rightarrow> Some (c\<lparr>cs_idle := s, cs_reqs := (cs_reqs c)[i := Streaming b]\<rparr>)
             | (s, None) \<Rightarrow> Some (c\<lparr>cs_idle := s, cs_reqs := (cs_reqs c)[i := Ended]\<rparr>))
          else None
      | PollBody i p \<Rightarrow>
          if i < length (cs_reqs c) then
            (case cs_reqs c ! i of
               Streaming b \<Rightarrow>
                 (case poll_frame now p (cs_idle c, b) of
                    ((s, b'), _) \<Rightarrow>
                      Some (c\<lparr>cs_idle := s, cs_reqs := (cs_reqs c)[i := Streaming b']\<rparr>))
             | _ \<Rightarrow> None)
          else None
      | DropBody i \<Rightarrow>
          if i < length (cs_reqs c) then
            (case cs_reqs c ! i of
               Streaming b \<Rightarrow>
                 (case release now (cs_idle c, b) of
                    (s, _) \<Rightarrow> Some (c\<lparr>cs_idle := s, cs_reqs := (cs_reqs c)[i := Ended]\<rparr>))
             | _ \<Rightarrow> None)
          else None
      | CancelFuture i \<Rightarrow>
          if i < length (cs_reqs c) \<and> cs_reqs c ! i = Calling
          then Some (c\<lparr>cs_reqs := (cs_reqs c)[i := Cancelled]\<rparr>) else None)"

fun conn_run :: "(instant \<times> conn_event) list \<Rightarrow> conn_state \<Rightarrow> conn_state option" where
  "conn_run [] c = Some c"
| "conn_run ((now, e) # es) c = Option.bind (conn_step now e c) (conn_run es)"

definition conn_new :: "instant \<Rightarrow> conn_state" where
  "conn_new now = \<lparr>cs_idle = idle_state_new now, cs_reqs = []\<rparr>"

text \<open>
  The requests that the counter still counts: those in the service, those whose body has not
  been released, and those that were cancelled in the service.
\<close>

fun counted :: "req_phase \<Rightarrow> bool" where
  "counted Calling = True"
| "counted (Streaming b) = (\<not> tb_decremented b)"
| "counted Ended = False"
| "counted Cancelled = True"

lemma counted_update:
  assumes "i < length xs"
  shows "(of_nat (length (filter counted (xs[i := x]))) :: usize) =
    of_nat (length (filter counted xs)) + of_bool (counted x) - of_bool (counted (xs ! i))"
proof -
  have "(of_nat (length (filter counted (xs[i := x])) + of_bool (counted (xs ! i))) :: usize) =
      of_nat (length (filter counted xs) + of_bool (counted x))"
    using length_filter_update [OF assms, of counted x] by simp
  then show ?thesis by (simp add: algebra_simps)
qed

definition conn_inv :: "conn_state \<Rightarrow> bool" where
  "conn_inv c = (idle_in_flight (cs_idle c) = of_nat (length (filter counted (cs_reqs c))))"

lemma conn_inv_new: "conn_inv (conn_new now)"
  by (simp add: conn_inv_def conn_new_def idle_state_new_def)

lemmas idle_defs = touch_def service_call_def service_done_def release_def poll_frame_def
  tracking_body_new_def

lemma conn_inv_step: "conn_step now e c = Some c' \<Longrightarrow> conn_inv c \<Longrightarrow> conn_inv c'"
  by (cases e)
    (auto simp: conn_step_def conn_inv_def counted_update idle_defs
      split: if_splits req_phase.splits frame_poll.splits prod.splits option.splits)

interpretation conn: invariant_machine "\<lambda>(now, e). conn_step now e" conn_run conn_inv
  by unfold_locales (auto dest: conn_inv_step)

text \<open>
  The wrapper is invisible to the client: whatever was polled before, it answers every question
  about the body as the wrapped body does.
\<close>

lemma tracking_transparent:
  assumes "tb_inner b"
  shows "snd (poll_frame now p (s, b)) = p" "tb_inner (snd (fst (poll_frame now p (s, b))))"
    "tracked_is_end_stream e b = e" "tracked_size_hint h b = h"
  using assms
  by (cases p; auto simp: poll_frame_def release_def tracked_is_end_stream_def tracked_size_hint_def)+

section \<open>The watchdog\<close>

text \<open>
  The watchdog of a connection whose state over time is \<open>st\<close>: the time at which it gives up on
  the connection, or \<^const>\<open>None\<close> when it never does.
\<close>

partial_function (option) idle_watchdog ::
  "(instant \<Rightarrow> idle_state) \<Rightarrow> duration \<Rightarrow> instant \<Rightarrow> instant option" where
  "idle_watchdog st timeout now =
     (let remaining = timeout - idle_for now (st now);
          sleep_dur = (if idle_in_flight (st now) > 0 then timeout else remaining);
          later = now + int sleep_dur
      in if \<not> idle_in_flight (st now) > 0 \<and> remaining = 0 then Some now
         else if idle_in_flight (st later) = 0 \<and> idle_for later (st later) \<ge> timeout
         then Some later
         else idle_watchdog st timeout later)"

lemma idle_watchdog_Some:
  assumes "idle_watchdog st timeout now = Some t"
  shows "now \<le> t \<and> idle_in_flight (st t) = 0 \<and> timeout \<le> idle_for t (st t)"
proof (rule idle_watchdog.raw_induct
    [of "\<lambda>st timeout now t. now \<le> t \<and> idle_in_flight (st t) = 0 \<and> timeout \<le> idle_for t (st t)",
      OF _ assms])
  fix w st timeout now t
  assume IH: "\<And>st timeout now t. w st timeout now = Some t \<Longrightarrow>
      now \<le> t \<and> idle_in_flight (st t) = (0 :: usize) \<and> timeout \<le> idle_for t (st t)"
    and body: "(let remaining = timeout - idle_for now (st now);
          sleep_dur = (if idle_in_flight (st now) > 0 then timeout else remaining);
          later = now + int sleep_dur
      in if \<not> idle_in_flight (st now) > 0 \<and> remaining = 0 then Some now
         else if idle_in_flight (st later) = 0 \<and> idle_for later (st later) \<ge> timeout
         then Some later
         else w st timeout later) = Some t"
  define later where "later = now + int (if idle_in_flight (st now) > 0 then timeout
      else timeout - idle_for now (st now))"
  have "now \<le> later" by (simp add: later_def)
  moreover have "(if \<not> idle_in_flight (st now) > 0 \<and> timeout - idle_for now (st now) = 0 then Some now
         else if idle_in_flight (st later) = 0 \<and> idle_for later (st later) \<ge> timeout
         then Some later
         else w st timeout later) = Some t"
    using body unfolding Let_def later_def .
  ultimately show "now \<le> t \<and> idle_in_flight (st t) = 0 \<and> timeout \<le> idle_for t (st t)"
    using IH [of st timeout later t] by (auto simp: word_gt_0 split: if_splits)
qed

lemma idle_watchdog_after_quiet:
  assumes quiet: "\<And>t. q \<le> t \<Longrightarrow> idle_in_flight (st t) = 0 \<and> last_activity (st t) = q" and "q \<le> now"
  shows "idle_watchdog st timeout now = Some (max now (q + int timeout))"
proof -
  have f: "idle_for t (st t) = nat (t - q)" if "q \<le> t" for t
    using quiet [OF that] by (simp add: idle_for_def)
  have z: "idle_in_flight (st now) = 0" using quiet assms(2) by blast
  show ?thesis
  proof (cases "q + int timeout \<le> now")
    case True
    then show ?thesis using z f [OF assms(2)] by (subst idle_watchdog.simps) (simp add: max_def)
  next
    case False
    have later: "now + int (timeout - idle_for now (st now)) = q + int timeout"
      using False f [OF assms(2)] assms(2) by simp
    have "timeout - idle_for now (st now) \<noteq> 0" using False f [OF assms(2)] assms(2) by simp
    then have "idle_watchdog st timeout now =
      (if idle_in_flight (st (q + int timeout)) = 0 \<and>
          timeout \<le> idle_for (q + int timeout) (st (q + int timeout))
       then Some (q + int timeout) else idle_watchdog st timeout (q + int timeout))"
      unfolding later [symmetric] using z by (subst idle_watchdog.simps) (simp only: Let_def, simp)
    then show ?thesis
      using False f [of "q + int timeout"] quiet [of "q + int timeout"] by (simp add: max_def)
  qed
qed

lemma idle_watchdog_returns:
  assumes quiet: "\<And>t. q \<le> t \<Longrightarrow> idle_in_flight (st t) = 0 \<and> last_activity (st t) = q" and T: "0 < timeout"
  shows "\<exists>t. idle_watchdog st timeout now = Some t \<and> t \<le> max now (q + int timeout)"
proof (induction "nat (q - now)" arbitrary: now rule: less_induct)
  case less
  show ?case
  proof (cases "q \<le> now")
    case True
    then show ?thesis using idle_watchdog_after_quiet [OF quiet] by auto
  next
    case False
    define d where "d = (if idle_in_flight (st now) > 0 then timeout else timeout - idle_for now (st now))"
    have eq: "idle_watchdog st timeout now =
      (if \<not> idle_in_flight (st now) > 0 \<and> timeout - idle_for now (st now) = 0 then Some now
       else if idle_in_flight (st (now + int d)) = 0 \<and> idle_for (now + int d) (st (now + int d)) \<ge> timeout
       then Some (now + int d) else idle_watchdog st timeout (now + int d))"
      by (subst idle_watchdog.simps) (simp add: Let_def d_def)
    have d: "d \<le> timeout" by (simp add: d_def)
    show ?thesis
    proof (cases "\<not> idle_in_flight (st now) > 0 \<and> timeout - idle_for now (st now) = 0")
      case F: False
      then have "0 < d" using T by (auto simp: d_def)
      then have "\<exists>t. idle_watchdog st timeout (now + int d) = Some t \<and> t \<le> max (now + int d) (q + int timeout)"
        using False by (intro less) simp
      then show ?thesis using eq F False d by auto
    qed (use eq in auto)
  qed
qed

section \<open>Properties\<close>

text \<open>
  C20: The count of requests in flight on a connection is exact: as long as no service future is
  dropped half-way, it is the number of requests that are in the service or whose response body
  has not ended, for every order of calls, polls, errors and drops, and a body that has ended and
  is dropped later is counted off once.
\<close>

theorem idle_counter_exact:
  assumes "conn_run es (conn_new now) = Some c" and "Cancelled \<notin> set (cs_reqs c)"
  shows "idle_in_flight (cs_idle c) =
    of_nat (length (filter (\<lambda>p. p = Calling \<or> (\<exists>b. p = Streaming b \<and> \<not> tb_decremented b)) (cs_reqs c)))"
proof -
  have "filter counted (cs_reqs c) =
      filter (\<lambda>p. p = Calling \<or> (\<exists>b. p = Streaming b \<and> \<not> tb_decremented b)) (cs_reqs c)"
  proof (rule filter_cong [OF refl])
    fix p assume "p \<in> set (cs_reqs c)"
    then have "p \<noteq> Cancelled" using assms(2) by auto
    then show "counted p = (p = Calling \<or> (\<exists>b. p = Streaming b \<and> \<not> tb_decremented b))" by (cases p) auto
  qed
  then show ?thesis using conn.inv_run [OF assms(1) conn_inv_new] by (simp add: conn_inv_def)
qed

definition example_exchange :: conn_state where
  "example_exchange =
     \<lparr>cs_idle = \<lparr>last_activity = 4, idle_in_flight = 0\<rparr>,
      cs_reqs = [Streaming \<lparr>tb_inner = True, tb_decremented = True\<rparr>]\<rparr>"

lemma example_exchange_run:
  "conn_run [(1, NewRequest), (2, ServiceDone 0 True), (3, PollBody 0 ReadyFrame),
             (4, PollBody 0 ReadyNone)] (conn_new 0) = Some example_exchange"
  by (simp add: conn_new_def conn_step_def idle_defs idle_state_new_def example_exchange_def)

theorem idle_counter_exact_witness:
  "idle_in_flight (cs_idle example_exchange) =
    of_nat (length (filter (\<lambda>p. p = Calling \<or> (\<exists>b. p = Streaming b \<and> \<not> tb_decremented b))
      (cs_reqs example_exchange)))"
  by (rule idle_counter_exact [OF example_exchange_run]) (simp add: example_exchange_def)

text \<open>
  C11: The watchdog closes a connection only when nothing is in flight on it and it has been idle for
  the whole timeout, whatever happens on the connection. With a timeout above zero it does close a
  connection that falls silent for good, no later than one timeout after the last activity, or at
  once if it starts looking later than that.
\<close>

theorem watchdog_sound_and_live:
  "(case idle_watchdog st timeout now of
      Some t \<Rightarrow> now \<le> t \<and> idle_in_flight (st t) = 0 \<and> timeout \<le> idle_for t (st t)
    | None \<Rightarrow> True) \<and>
   (0 < timeout \<and> (\<forall>t. q \<le> t \<longrightarrow> idle_in_flight (st t) = 0 \<and> last_activity (st t) = q) \<longrightarrow>
      (\<exists>t. idle_watchdog st timeout now = Some t \<and> t \<le> max now (q + int timeout)))"
  using idle_watchdog_returns [of q st timeout now] idle_watchdog_Some [of st timeout now]
  by (auto split: option.split)

definition example_silence :: "instant \<Rightarrow> idle_state" where
  "example_silence t = \<lparr>last_activity = min t 7, idle_in_flight = of_bool (t < 7)\<rparr>"

theorem watchdog_sound_and_live_witness:
  "\<exists>t. idle_watchdog example_silence 60 0 = Some t \<and> 0 \<le> t \<and> t \<le> 67 \<and>
     idle_in_flight (example_silence t) = 0 \<and> 60 \<le> idle_for t (example_silence t)"
proof -
  note w = watchdog_sound_and_live [where st = example_silence and timeout = 60 and now = 0 and q = 7]
  have "\<forall>t. 7 \<le> t \<longrightarrow> idle_in_flight (example_silence t) = 0 \<and> last_activity (example_silence t) = 7"
    by (simp add: example_silence_def)
  then obtain t where t: "idle_watchdog example_silence 60 0 = Some t" "t \<le> 67" using w by auto
  then show ?thesis using w by simp
qed

text \<open>
  C38: A request that is cancelled while the service works on it is never counted off: from then on
  the count of the connection stays above zero, and the watchdog never closes the connection,
  however long it is idle.
\<close>

theorem cancelled_request_pins_connection:
  assumes "\<And>t. now \<le> t \<Longrightarrow> \<exists>es c. conn_run es (conn_new t0) = Some c \<and> st t = cs_idle c \<and>
      Cancelled \<in> set (cs_reqs c) \<and> length (cs_reqs c) < 2 ^ 64"
  shows "idle_watchdog st timeout now = None"
proof (rule ccontr)
  assume "idle_watchdog st timeout now \<noteq> None"
  then obtain t where t: "now \<le> t" "idle_in_flight (st t) = 0" using idle_watchdog_Some by blast
  obtain es c where c: "conn_run es (conn_new t0) = Some c" "st t = cs_idle c"
    "Cancelled \<in> set (cs_reqs c)" "length (cs_reqs c) < 2 ^ 64" using assms [OF t(1)] by blast
  let ?n = "length (filter counted (cs_reqs c))"
  have "Cancelled \<in> set (filter counted (cs_reqs c))" using c(3) by simp
  then have "0 < ?n" by (rule length_pos_if_in_set)
  moreover have "?n < 2 ^ 64" using c(4) length_filter_le [of counted "cs_reqs c"] by linarith
  moreover have "(of_nat ?n :: usize) = 0"
    using conn.inv_run [OF c(1) conn_inv_new] t(2) c(2) by (simp add: conn_inv_def)
  ultimately show False by (simp add: of_nat_eq_0_iff word_of_nat_eq_0_iff nat_dvd_not_less)
qed

definition example_cancelled :: conn_state where
  "example_cancelled =
     \<lparr>cs_idle = \<lparr>last_activity = 1, idle_in_flight = 1\<rparr>, cs_reqs = [Cancelled]\<rparr>"

lemma example_cancelled_run:
  "conn_run [(1, NewRequest), (2, CancelFuture 0)] (conn_new 0) = Some example_cancelled"
  by (simp add: conn_new_def conn_step_def idle_defs idle_state_new_def example_cancelled_def)

theorem cancelled_request_pins_connection_witness:
  "idle_watchdog (\<lambda>t. cs_idle example_cancelled) (60 * 10 ^ 9) 0 = None"
proof (rule cancelled_request_pins_connection)
  show "\<exists>es c. conn_run es (conn_new 0) = Some c \<and> cs_idle example_cancelled = cs_idle c \<and>
      Cancelled \<in> set (cs_reqs c) \<and> length (cs_reqs c) < 2 ^ 64" for t :: instant
    by (intro exI [of _ "[(1, NewRequest), (2, CancelFuture 0)]"] exI [of _ example_cancelled])
      (use example_cancelled_run in \<open>simp add: example_cancelled_def\<close>)
qed

end
