(* ===== verification/Server.thy ===== *)
theory Server
  imports Accept_Errors Idle_Tracking Http_Model
begin

text \<open>
  The HTTPS server, \<^verbatim>\<open>server.rs\<close>: the in-flight counter and its guard, the connection semaphore
  shared by all listeners, the TLS handshake with its timeout, the task of one connection, the
  accept loops, and the drain at shutdown. The accept loops and the connection tasks are one state
  machine: a \<open>server_event\<close> is a point at which a task is resumed, and \<open>server_step\<close> is what the code
  does until the next await. Values owned by a task are dropped in reverse order of declaration, so
  its permit is returned before its guard counts it off.
\<close>

section \<open>Counter, semaphore, handshake\<close>

definition in_flight_new :: usize where
  "in_flight_new = 0"

definition in_flight_increment :: "usize \<Rightarrow> usize" where
  "in_flight_increment n = n + 1"

definition in_flight_decrement :: "usize \<Rightarrow> usize" where
  "in_flight_decrement n = n - 1"

definition in_flight_is_zero :: "usize \<Rightarrow> bool" where
  "in_flight_is_zero n = (n = 0)"

text \<open>
  The guard of a connection task counts on creation and on drop.
\<close>

definition in_flight_guard_new :: "usize \<Rightarrow> usize" where
  "in_flight_guard_new counter = in_flight_increment counter"

definition in_flight_guard_drop :: "usize \<Rightarrow> usize" where
  "in_flight_guard_drop counter = in_flight_decrement counter"

record conn_semaphore =
  sem_permits :: nat
  sem_max_connections :: usize

text \<open>
  A semaphore of \<^verbatim>\<open>tokio\<close> has at most \<open>2 ^ 61 - 1\<close> permits, and making a larger one panics; the model is
  of a maximum up to that. \<open>validate_nofile\<close> keeps the maximum below the descriptor limit when
  there is one.
\<close>

definition conn_semaphore_new :: "usize \<Rightarrow> conn_semaphore" where
  "conn_semaphore_new n = \<lparr>sem_permits = unat n, sem_max_connections = n\<rparr>"

definition acquire_owned :: "conn_semaphore \<Rightarrow> conn_semaphore option" where
  "acquire_owned s =
     (case sem_permits s of 0 \<Rightarrow> None | Suc n \<Rightarrow> Some (s\<lparr>sem_permits := n\<rparr>))"

definition release_permit :: "conn_semaphore \<Rightarrow> conn_semaphore" where
  "release_permit s = s\<lparr>sem_permits := sem_permits s + 1\<rparr>"

datatype accept_tls_error = Handshake io_error | HandshakeTimeout

definition accept_tls_with_timeout ::
  "duration \<Rightarrow> (io_error + 's) future \<Rightarrow> (accept_tls_error + 's) future" where
  "accept_tls_with_timeout timeout accept =
     map_future (\<lambda>r. case r of
         Inr (Inr stream) \<Rightarrow> Ok stream
       | Inr (Inl e) \<Rightarrow> Err (Handshake e)
       | Inl _ \<Rightarrow> Err HandshakeTimeout) (tokio_timeout timeout accept)"

section \<open>One connection\<close>

datatype serve_result = ServeOk | ServeError bool string

text \<open>
  \<open>ServeError is_incomplete text\<close>: the error of the connection, with whether it is a
  \<^verbatim>\<open>hyper::Error\<close> for an incomplete message. \<open>select2\<close> is \<^verbatim>\<open>tokio::select!\<close> on two futures; the choice
  between two that are ready at once is the argument \<open>tie\<close>.
\<close>

fun select2 :: "bool \<Rightarrow> 'a future \<Rightarrow> 'b future \<Rightarrow> ('a + 'b) future" where
  "select2 tie Never Never = Never"
| "select2 tie (After d x) Never = After d (Inl x)"
| "select2 tie Never (After e y) = After e (Inr y)"
| "select2 tie (After d x) (After e y) =
     (if d < e \<or> d = e \<and> tie then After d (Inl x) else After e (Inr y))"

text \<open>
  The settings of the connection that are handed to the HTTP library: HTTP/2 when ALPN chose it,
  otherwise a connection that detects the version.
\<close>

definition HTTP2_KEEP_ALIVE_INTERVAL_SECS :: u64 where
  "HTTP2_KEEP_ALIVE_INTERVAL_SECS = 15"

record http2_settings =
  h2_keep_alive_interval :: "duration option"
  h2_keep_alive_timeout :: duration
  h2_connect_protocol :: bool

datatype conn_builder = Http2Builder http2_settings | AutoBuilder "duration option" http2_settings

definition http2_conn :: "duration \<Rightarrow> http2_settings" where
  "http2_conn idle_timeout =
     \<lparr>h2_keep_alive_interval = Some (from_secs HTTP2_KEEP_ALIVE_INTERVAL_SECS),
      h2_keep_alive_timeout = idle_timeout, h2_connect_protocol = True\<rparr>"

definition conn_builder_for :: "bool \<Rightarrow> duration \<Rightarrow> conn_builder" where
  "conn_builder_for is_h2 idle_timeout =
     (if is_h2 then Http2Builder (http2_conn idle_timeout)
      else AutoBuilder (Some idle_timeout) (http2_conn idle_timeout))"

definition as_secs :: "duration \<Rightarrow> nat" where
  "as_secs d = d div 10 ^ 9"

text \<open>
  The task of a connection after its permit was acquired: the handshake, then the connection
  against the watchdog. The stream of the handshake is the protocol that ALPN chose; \<open>serve\<close> is
  the connection of the HTTP library for a builder, \<open>watchdog\<close> the idle watchdog; the result is when the task ends and what it has logged.
\<close>

definition connection_task ::
  "duration \<Rightarrow> duration \<Rightarrow> string \<Rightarrow> (io_error + string option) future \<Rightarrow>
   (conn_builder \<Rightarrow> serve_result future) \<Rightarrow> unit future \<Rightarrow> bool \<Rightarrow> log_line list future" where
  "connection_task handshake_timeout idle_timeout remote_addr handshake serve watchdog tie =
     (case accept_tls_with_timeout handshake_timeout handshake of
        After d (Inl HandshakeTimeout) \<Rightarrow>
          After d [Log LWarn [(''remote_addr'', remote_addr),
                              (''timeout_secs'', show_nat (as_secs handshake_timeout))]
                     ''TLS handshake timeout; closing stalled handshake'']
      | After d (Inl (Handshake e)) \<Rightarrow>
          After d [Log LWarn [(''error'', e)] ''TLS handshake failed'']
      | After d (Inr alpn) \<Rightarrow>
          (let is_h2 = (alpn = Some ''h2'') in
           case select2 tie (serve (conn_builder_for is_h2 idle_timeout)) watchdog of
             Never \<Rightarrow> Never
           | After e (Inl ServeOk) \<Rightarrow> After (d + e) []
           | After e (Inl (ServeError incomplete t)) \<Rightarrow>
               After (d + e)
                 (if is_h2 then [Log LError [(''error'', t)] ''HTTPS/2 connection error'']
                  else if incomplete then []
                  else [Log LError [(''error'', t)] ''HTTPS connection error''])
           | After e (Inr _) \<Rightarrow>
               After (d + e)
                 [Log LDebug [(''remote_addr'', remote_addr),
                              (''idle_timeout_secs'', show_nat (as_secs idle_timeout))]
                    (if is_h2 then ''closing idle HTTP/2 connection (no real request activity)''
                     else ''closing idle connection (no real request activity)'')])
      | Never \<Rightarrow> Never)"

definition connect_info_call :: "socket_addr \<Rightarrow> ('h, 'b) request \<Rightarrow> ('h, 'b) request" where
  "connect_info_call remote req = req\<lparr>rq_connect_info := Some remote\<rparr>"

section \<open>Accept loops and tasks\<close>

datatype listener_phase = Accepting | WaitingPermit | BackingOff | Stopped

datatype task_phase = Spawned | InHandshake | Serving | Closing | Gone

record server =
  sv_listeners :: "listener_phase list"
  sv_reporters :: "accept_error_reporter list"
  sv_tasks :: "task_phase list"
  sv_semaphore :: conn_semaphore
  sv_in_flight :: usize
  sv_shutdown :: bool
  sv_log :: "log_line list"

datatype server_event =
    Accepted nat
  | AcceptFailed nat accept_error instant instant
  | BackoffOver nat
  | GotPermit nat
  | SemaphoreClosed nat string
  | ShutdownSeen nat "string option"
  | TriggerShutdown
  | TaskStarts nat
  | HandshakeDone nat bool
  | ConnectionEnds nat
  | GuardDropped nat

definition server_start :: "nat \<Rightarrow> usize \<Rightarrow> server" where
  "server_start n mx =
     \<lparr>sv_listeners = replicate n Accepting, sv_reporters = replicate n Map.empty, sv_tasks = [],
      sv_semaphore = conn_semaphore_new mx, sv_in_flight = in_flight_new, sv_shutdown = False, sv_log = []\<rparr>"

definition listener_in :: "nat \<Rightarrow> listener_phase \<Rightarrow> server \<Rightarrow> bool" where
  "listener_in l p s = (l < length (sv_listeners s) \<and> sv_listeners s ! l = p)"

definition task_in :: "nat \<Rightarrow> task_phase \<Rightarrow> server \<Rightarrow> bool" where
  "task_in i p s = (i < length (sv_tasks s) \<and> sv_tasks s ! i = p)"

definition set_listener :: "nat \<Rightarrow> listener_phase \<Rightarrow> server \<Rightarrow> server" where
  "set_listener l p s = s\<lparr>sv_listeners := (sv_listeners s)[l := p]\<rparr>"

definition set_task :: "nat \<Rightarrow> task_phase \<Rightarrow> server \<Rightarrow> server" where
  "set_task i p s = s\<lparr>sv_tasks := (sv_tasks s)[i := p]\<rparr>"

text \<open>
  The accept loop, \<^verbatim>\<open>serve_https_listener\<close>: the branches of its \<^verbatim>\<open>select!\<close> are taken only while it
  waits there; the pause after an error and the wait for a permit are awaits inside the branch, in
  which the loop does not look at the shutdown channel.
\<close>

definition listener_step :: "server_event \<Rightarrow> server \<Rightarrow> server option" where
  "listener_step ev s =
     (case ev of
        Accepted l \<Rightarrow>
          if listener_in l Accepting s then Some (set_listener l WaitingPermit s) else None
      | AcceptFailed l e now1 now2 \<Rightarrow>
          if listener_in l Accepting s \<and> l < length (sv_reporters s) then
            (case handle_accept_error now1 now2 e (sv_reporters s ! l) of
               (r, logs, pause) \<Rightarrow>
                 Some ((set_listener l (if pause = 0 then Accepting else BackingOff) s)
                         \<lparr>sv_reporters := (sv_reporters s)[l := r], sv_log := sv_log s @ logs\<rparr>))
          else None
      | BackoffOver l \<Rightarrow>
          if listener_in l BackingOff s then Some (set_listener l Accepting s) else None
      | GotPermit l \<Rightarrow>
          if listener_in l WaitingPermit s then
            (case acquire_owned (sv_semaphore s) of
               None \<Rightarrow> None
             | Some sem \<Rightarrow>
                 Some ((set_listener l Accepting s)
                         \<lparr>sv_semaphore := sem, sv_tasks := sv_tasks s @ [Spawned]\<rparr>))
          else None
      | SemaphoreClosed l e \<Rightarrow>
          if listener_in l WaitingPermit s
          then Some ((set_listener l BackingOff s)
                 \<lparr>sv_log := sv_log s @ [Log LError [(''error'', e)] ''connection semaphore closed'']\<rparr>)
          else None
      | ShutdownSeen l local_addr \<Rightarrow>
          if listener_in l Accepting s \<and> sv_shutdown s
          then Some ((set_listener l Stopped s)
                 \<lparr>sv_log := sv_log s @
                    (case local_addr of
                       Some addr \<Rightarrow> [Log LInfo [(''addr'', addr)] ''HTTPS listener shutting down'']
                     | None \<Rightarrow> [])\<rparr>)
          else None
      | _ \<Rightarrow> None)"

definition task_step :: "server_event \<Rightarrow> server \<Rightarrow> server option" where
  "task_step ev s =
     (case ev of
        TaskStarts i \<Rightarrow>
          if task_in i Spawned s
          then Some ((set_task i InHandshake s)\<lparr>sv_in_flight := in_flight_guard_new (sv_in_flight s)\<rparr>)
          else None
      | HandshakeDone i ok \<Rightarrow>
          if task_in i InHandshake s then
            Some (if ok then set_task i Serving s
                  else (set_task i Closing s)\<lparr>sv_semaphore := release_permit (sv_semaphore s)\<rparr>)
          else None
      | ConnectionEnds i \<Rightarrow>
          if task_in i Serving s
          then Some ((set_task i Closing s)\<lparr>sv_semaphore := release_permit (sv_semaphore s)\<rparr>)
          else None
      | GuardDropped i \<Rightarrow>
          if task_in i Closing s
          then Some ((set_task i Gone s)\<lparr>sv_in_flight := in_flight_guard_drop (sv_in_flight s)\<rparr>)
          else None
      | _ \<Rightarrow> None)"

definition server_step :: "server_event \<Rightarrow> server \<Rightarrow> server option" where
  "server_step ev s =
     (case ev of
        TriggerShutdown \<Rightarrow> Some (s\<lparr>sv_shutdown := True\<rparr>)
      | _ \<Rightarrow> (case listener_step ev s of Some s' \<Rightarrow> Some s' | None \<Rightarrow> task_step ev s))"

fun server_run :: "server_event list \<Rightarrow> server \<Rightarrow> server option" where
  "server_run [] s = Some s"
| "server_run (e # es) s = Option.bind (server_step e s) (server_run es)"

section \<open>Draining\<close>

text \<open>
  The drain loop of a counter whose value over time is \<open>count\<close>: polls every 100 ms until the
  counter is zero or the timeout has passed since \<open>start\<close>.
\<close>

function drain_in_flight :: "(instant \<Rightarrow> usize) \<Rightarrow> duration \<Rightarrow> instant \<Rightarrow> instant \<Rightarrow> usize \<times> instant" where
  "drain_in_flight count timeout start now =
     (if in_flight_is_zero (count now) then (0, now)
      else if nat (now - start) \<ge> timeout then (count now, now)
      else drain_in_flight count timeout start (now + 100 * 10 ^ 6))"
  by pat_completeness auto
termination
  by (relation "measure (\<lambda>(count, timeout, start, now). nat (start + int timeout - now))")
    (auto simp: in_flight_is_zero_def)

declare drain_in_flight.simps [simp del]

lemmas counter_defs [srv_defs] = in_flight_new_def in_flight_increment_def in_flight_decrement_def
  in_flight_is_zero_def in_flight_guard_new_def in_flight_guard_drop_def

section \<open>Invariant\<close>

definition holds_permit :: "task_phase \<Rightarrow> bool" where
  "holds_permit p = (p \<in> {Spawned, InHandshake, Serving})"

definition holds_guard :: "task_phase \<Rightarrow> bool" where
  "holds_guard p = (p \<in> {InHandshake, Serving, Closing})"

definition server_inv :: "usize \<Rightarrow> server \<Rightarrow> bool" where
  "server_inv mx s =
     (sem_max_connections (sv_semaphore s) = mx \<and>
      sem_permits (sv_semaphore s) + length (filter holds_permit (sv_tasks s)) = unat mx \<and>
      sv_in_flight s = of_nat (length (filter holds_guard (sv_tasks s))))"

lemma set_task_fields [simp]:
  "sv_semaphore (set_task i p s) = sv_semaphore s" "sv_in_flight (set_task i p s) = sv_in_flight s"
  "sv_listeners (set_task i p s) = sv_listeners s" "length (sv_tasks (set_task i p s)) = length (sv_tasks s)"
  by (simp_all add: set_task_def)

lemma count_set_task:
  assumes "task_in i p s"
  shows "length (filter P (sv_tasks (set_task i q s))) + of_bool (P p) =
    length (filter P (sv_tasks s)) + of_bool (P q)"
  using assms length_filter_update [of i "sv_tasks s" P q] by (auto simp: task_in_def set_task_def)

lemma server_inv_start: "server_inv mx (server_start n mx)"
  by (simp add: server_inv_def server_start_def conn_semaphore_new_def counter_defs)

text \<open>
  The semaphore is a pool of permits.
\<close>

interpretation sem: permit_pool sem_permits "\<lambda>s. unat (sem_max_connections s)" acquire_owned release_permit
  by unfold_locales (auto simp: acquire_owned_def release_permit_def split: nat.splits)

lemma acquire_owned_max: "acquire_owned p = Some p' \<Longrightarrow> sem_max_connections p' = sem_max_connections p"
  by (auto simp: acquire_owned_def split: nat.splits)

lemma release_permit_max [simp]: "sem_max_connections (release_permit p) = sem_max_connections p"
  by (simp add: release_permit_def)

lemmas phase_defs = holds_permit_def holds_guard_def set_listener_def counter_defs

lemma server_inv_listener:
  "listener_step ev s = Some s' \<Longrightarrow> server_inv mx s \<Longrightarrow> server_inv mx s'"
  by (cases ev)
    (auto simp: listener_step_def server_inv_def phase_defs acquire_owned_max
      split: if_splits prod.splits option.splits dest: sem.acquire_Some)

lemma server_inv_task:
  assumes "task_step ev s = Some s'" "server_inv mx s"
  shows "server_inv mx s'"
proof -
  have upd: "server_inv mx (set_task i q s\<lparr>sv_semaphore := sem, sv_in_flight := n\<rparr>)"
    if t: "task_in i p s" and sem: "sem_max_connections sem = mx"
      "sem_permits sem + of_bool (holds_permit q) = sem_permits (sv_semaphore s) + of_bool (holds_permit p)"
      and n: "n + of_bool (holds_guard p) = sv_in_flight s + of_bool (holds_guard q)" for i p q sem n
  proof -
    have g: "(of_nat (length (filter holds_guard (sv_tasks (set_task i q s)))) :: usize) + of_bool (holds_guard p) =
        of_nat (length (filter holds_guard (sv_tasks s))) + of_bool (holds_guard q)"
      using count_set_task [OF t, of holds_guard q] by (metis of_nat_add of_nat_of_bool)
    show ?thesis using count_set_task [OF t, of holds_permit q] g n assms(2) sem
      by (auto simp: server_inv_def) (metis add_right_cancel)
  qed
  show ?thesis
  proof (cases ev)
    case (TaskStarts i)
    then show ?thesis using assms upd [of i Spawned "sv_semaphore s" InHandshake "sv_in_flight s + 1"]
      by (auto simp: task_step_def phase_defs server_inv_def sem.give_back split: if_splits)
  next
    case (HandshakeDone i ok)
    then show ?thesis
      using assms upd [of i InHandshake "sv_semaphore s" Serving "sv_in_flight s"]
        upd [of i InHandshake "release_permit (sv_semaphore s)" Closing "sv_in_flight s"]
      by (auto simp: task_step_def phase_defs server_inv_def sem.give_back split: if_splits)
  next
    case (ConnectionEnds i)
    then show ?thesis
      using assms upd [of i Serving "release_permit (sv_semaphore s)" Closing "sv_in_flight s"]
      by (auto simp: task_step_def phase_defs server_inv_def sem.give_back split: if_splits)
  next
    case (GuardDropped i)
    then show ?thesis using assms upd [of i Closing "sv_semaphore s" Gone "sv_in_flight s - 1"]
      by (auto simp: task_step_def phase_defs server_inv_def sem.give_back split: if_splits)
  qed (use assms in \<open>auto simp: task_step_def\<close>)
qed

lemma server_inv_step: "server_step ev s = Some s' \<Longrightarrow> server_inv mx s \<Longrightarrow> server_inv mx s'"
  using server_inv_listener server_inv_task
  by (cases ev) (auto simp: server_step_def server_inv_def split: option.splits)

interpretation srv: invariant_machine server_step server_run "server_inv mx" for mx
  by unfold_locales (auto intro: server_inv_step)

section \<open>The abstract admission control\<close>

text \<open>
  What the listeners and the semaphore promise together: a single counter of open connections that
  opens below the maximum and closes above zero, whichever listener asks.
\<close>

datatype admission = Open | Close

fun admission_step :: "nat \<Rightarrow> admission \<Rightarrow> nat \<Rightarrow> nat option" where
  "admission_step mx Open n = (if n < mx then Some (n + 1) else None)"
| "admission_step mx Close n = (if 0 < n then Some (n - 1) else None)"

fun admission_run :: "nat \<Rightarrow> admission list \<Rightarrow> nat \<Rightarrow> nat option" where
  "admission_run mx [] n = Some n"
| "admission_run mx (a # as) n = Option.bind (admission_step mx a n) (admission_run mx as)"

fun admission_of :: "server_event \<Rightarrow> admission option" where
  "admission_of (GotPermit l) = Some Open"
| "admission_of (HandshakeDone i ok) = (if ok then None else Some Close)"
| "admission_of (ConnectionEnds i) = Some Close"
| "admission_of _ = None"

abbreviation open_connections :: "server \<Rightarrow> nat" where
  "open_connections s \<equiv> length (filter holds_permit (sv_tasks s))"

lemma open_connections_set_task:
  "task_in i p s \<Longrightarrow>
   open_connections (set_task i q s) + of_bool (holds_permit p) = open_connections s + of_bool (holds_permit q)"
  by (rule count_set_task)

lemma task_step_admission:
  assumes "task_step e s = Some t"
  shows "case admission_of e of None \<Rightarrow> open_connections t = open_connections s
    | Some a \<Rightarrow> admission_step mx a (open_connections s) = Some (open_connections t)"
proof (cases e)
  case (TaskStarts i)
  then show ?thesis using assms open_connections_set_task [of i Spawned s InHandshake]
    by (auto simp: task_step_def holds_permit_def split: if_splits)
next
  case (HandshakeDone i ok)
  then show ?thesis
    using assms open_connections_set_task [of i InHandshake s Serving] open_connections_set_task [of i InHandshake s Closing]
    by (cases ok) (auto simp: task_step_def holds_permit_def split: if_splits)
next
  case (ConnectionEnds i)
  then show ?thesis using assms open_connections_set_task [of i Serving s Closing]
    by (auto simp: task_step_def holds_permit_def split: if_splits)
next
  case (GuardDropped i)
  then show ?thesis using assms open_connections_set_task [of i Closing s Gone]
    by (auto simp: task_step_def holds_permit_def split: if_splits)
qed (use assms in \<open>auto simp: task_step_def\<close>)

lemma listener_step_admission:
  assumes "listener_step e s = Some t" "server_inv mx s"
  shows "case admission_of e of None \<Rightarrow> open_connections t = open_connections s
    | Some a \<Rightarrow> admission_step (unat mx) a (open_connections s) = Some (open_connections t)"
  using assms
  by (cases e)
    (auto simp: listener_step_def server_inv_def phase_defs split: if_splits prod.splits option.splits
      dest: sem.acquire_Some)

lemma server_step_admission:
  assumes "server_step e s = Some t" "server_inv mx s"
  shows "case admission_of e of None \<Rightarrow> open_connections t = open_connections s
    | Some a \<Rightarrow> admission_step (unat mx) a (open_connections s) = Some (open_connections t)"
proof (cases "e = TriggerShutdown")
  case False
  then have "listener_step e s = Some t \<or> task_step e s = Some t"
    using assms(1) by (cases e) (auto simp: server_step_def split: option.splits)
  then show ?thesis using listener_step_admission assms(2) task_step_admission by blast
qed (use assms in \<open>auto simp: server_step_def\<close>)

interpretation adm: machine_refinement server_step server_run "server_inv mx"
  "admission_step (unat mx)" "admission_run (unat mx)" open_connections admission_of for mx
  by unfold_locales (simp_all add: server_step_admission)

lemma permit_available_iff:
  assumes "server_inv mx s"
  shows "(\<exists>t. server_step (GotPermit l) s = Some t) \<longleftrightarrow>
    listener_in l WaitingPermit s \<and> open_connections s < unat mx"
proof -
  have "(\<exists>sem. acquire_owned (sv_semaphore s) = Some sem) \<longleftrightarrow> open_connections s < unat mx"
    using sem.acquire_None_iff [of "sv_semaphore s"] assms by (auto simp: server_inv_def)
  then show ?thesis
    by (auto simp: server_step_def listener_step_def task_step_def split: option.splits)
qed

text \<open>
  The listener whose accept loop an event is a step of.
\<close>

fun listener_of :: "server_event \<Rightarrow> nat option" where
  "listener_of (Accepted l) = Some l"
| "listener_of (AcceptFailed l e now1 now2) = Some l"
| "listener_of (BackoffOver l) = Some l"
| "listener_of (GotPermit l) = Some l"
| "listener_of (SemaphoreClosed l e) = Some l"
| "listener_of (ShutdownSeen l addr) = Some l"
| "listener_of _ = None"

lemma stopped_step:
  assumes "server_step ev s = Some s'" "listener_in l Stopped s"
  shows "listener_in l Stopped s' \<and> listener_of ev \<noteq> Some l"
  using assms
  by (cases ev)
    (auto simp: server_step_def listener_step_def task_step_def listener_in_def set_listener_def set_task_def
      nth_list_update split: if_splits option.splits prod.splits)

lemma stopped_run:
  "server_run es s = Some s' \<Longrightarrow> listener_in l Stopped s \<Longrightarrow> list_all (\<lambda>ev. listener_of ev \<noteq> Some l) es"
proof (induction es arbitrary: s)
  case (Cons ev es)
  then show ?case using stopped_step by (fastforce simp: bind_eq_Some_conv)
qed simp

lemma shutdown_triggered:
  "server_run es s = Some s' \<Longrightarrow> sv_shutdown s' \<Longrightarrow> sv_shutdown s \<or> TriggerShutdown \<in> set es"
proof (induction es arbitrary: s)
  case (Cons ev es)
  then obtain t where t: "server_step ev s = Some t" "server_run es t = Some s'"
    by (auto simp: bind_eq_Some_conv)
  have "ev = TriggerShutdown \<or> sv_shutdown t = sv_shutdown s"
    using t(1) by (cases ev) (auto simp: server_step_def listener_step_def task_step_def set_listener_def
        set_task_def split: if_splits option.splits prod.splits)
  then show ?case using Cons.IH [OF t(2) Cons.prems(2)] by auto
qed simp

lemma accept_tls_bounded:
  "\<exists>d r. accept_tls_with_timeout timeout f = After d r \<and> d \<le> timeout"
  using tokio_timeout_bounded [of timeout f] by (auto simp: accept_tls_with_timeout_def)

lemma drain_result:
  "drain_in_flight count timeout start now = (n, t) \<Longrightarrow> start \<le> now \<Longrightarrow>
   n = count t \<and> now \<le> t \<and> (n \<noteq> 0 \<longrightarrow> start + int timeout \<le> t) \<and>
   t \<le> max now (start + int timeout + 100 * 10 ^ 6)"
proof (induction count timeout start now rule: drain_in_flight.induct)
  case (1 count timeout start now)
  show ?case
  proof (cases "count now = 0 \<or> timeout \<le> nat (now - start)")
    case True
    then show ?thesis using 1(2,3) by (subst (asm) drain_in_flight.simps) (auto simp: counter_defs split: if_splits)
  next
    case False
    then have "drain_in_flight count timeout start (now + 100 * 10 ^ 6) = (n, t)"
      using 1(2) by (subst (asm) drain_in_flight.simps) (auto simp: counter_defs)
    then show ?thesis using 1(1) False 1(3) by (auto simp: counter_defs)
  qed
qed

lemma select2_bounded: "\<exists>e x. select2 tie f (After w y) = After e x \<and> e \<le> w"
  by (cases f) auto

section \<open>Properties\<close>

text \<open>
  C4: The limit on connections holds across all listeners: in every state that any interleaving of
  accepts, errors, handshakes, ends and shutdowns can reach, the connections that own a permit are
  at most the configured maximum, and the in-flight counter is exactly the number of connection
  tasks that have started and not finished.
\<close>

theorem connection_limit_holds:
  assumes "server_run es (server_start n mx) = Some s"
  shows "length (filter holds_permit (sv_tasks s)) \<le> unat mx \<and>
    sv_in_flight s = of_nat (length (filter holds_guard (sv_tasks s)))"
  using srv.inv_run [OF assms server_inv_start] by (simp add: server_inv_def)

definition example_server :: server where
  "example_server = (server_start 1 1)
     \<lparr>sv_listeners := [WaitingPermit], sv_tasks := [InHandshake],
      sv_semaphore := \<lparr>sem_permits = 0, sem_max_connections = 1\<rparr>, sv_in_flight := 1\<rparr>"

lemmas server_eval = server_start_def server_step_def listener_step_def task_step_def listener_in_def
  task_in_def set_listener_def set_task_def conn_semaphore_new_def acquire_owned_def
  release_permit_def counter_defs

lemma example_server_run:
  "server_run [Accepted 0, GotPermit 0, TaskStarts 0, Accepted 0] (server_start 1 1) = Some example_server"
  by (simp add: server_eval example_server_def)

theorem connection_limit_holds_witness:
  "length (filter holds_permit (sv_tasks example_server)) \<le> unat (1 :: usize) \<and>
    sv_in_flight example_server = of_nat (length (filter holds_guard (sv_tasks example_server)))"
  by (rule connection_limit_holds [OF example_server_run])

text \<open>
  C12: The listeners together behave as one admission counter. Every run, with whatever interleaving of
  the listeners and the connection tasks, is a run of the abstract counter that opens only below
  the maximum; and no permit is ever lost, since a listener that waits for one can take it exactly
  when fewer connections than the maximum are open.
\<close>

theorem server_refines_admission:
  assumes "server_run es (server_start n mx) = Some s"
  shows "admission_run (unat mx) (List.map_filter admission_of es) 0 = Some (open_connections s) \<and>
    ((\<exists>t. server_step (GotPermit l) s = Some t) \<longleftrightarrow>
       listener_in l WaitingPermit s \<and> open_connections s < unat mx)"
  using adm.run_refines [OF assms server_inv_start] permit_available_iff [OF srv.inv_run [OF assms server_inv_start]]
  by (simp add: server_start_def)

theorem server_refines_admission_witness:
  "admission_run (unat (1 :: usize))
     (List.map_filter admission_of [Accepted 0, GotPermit 0, TaskStarts 0, Accepted 0]) 0 =
     Some (open_connections example_server) \<and>
   ((\<exists>t. server_step (GotPermit 0) example_server = Some t) \<longleftrightarrow>
      listener_in 0 WaitingPermit example_server \<and> open_connections example_server < unat (1 :: usize))"
  by (rule server_refines_admission [OF example_server_run])

text \<open>
  C22: A listener that has seen the shutdown is done. In every execution of the server, the accept
  loop of a listener sees the shutdown only after it was triggered, and from then on no event is
  one of that loop: it accepts no connection, acquires no permit for one, reports no error and does
  not see the shutdown again.
\<close>

theorem no_connection_after_stop:
  assumes "server_run (before @ ShutdownSeen l addr # after) (server_start n mx) = Some s"
  shows "TriggerShutdown \<in> set before \<and> list_all (\<lambda>ev. listener_of ev \<noteq> Some l) after"
proof -
  obtain t u where t: "server_run before (server_start n mx) = Some t"
      "server_step (ShutdownSeen l addr) t = Some u" "server_run after u = Some s"
    using assms by (auto simp: srv.run_append bind_eq_Some_conv)
  have "sv_shutdown t" "listener_in l Stopped u"
    using t(2) by (auto simp: server_step_def listener_step_def task_step_def listener_in_def set_listener_def
        split: if_splits)
  then show ?thesis using shutdown_triggered [OF t(1)] stopped_run [OF t(3)] by (simp add: server_start_def)
qed

definition example_stopped :: server where
  "example_stopped = (server_start 1 1)
     \<lparr>sv_listeners := [Stopped], sv_shutdown := True, sv_tasks := [Spawned],
      sv_semaphore := \<lparr>sem_permits = 0, sem_max_connections = 1\<rparr>,
      sv_log := [Log LInfo [(''addr'', ''127.0.0.1:443'')] ''HTTPS listener shutting down'']\<rparr>"

definition example_stopped_serving :: server where
  "example_stopped_serving = example_stopped\<lparr>sv_tasks := [Serving], sv_in_flight := 1\<rparr>"

lemma example_stopped_run:
  "server_run [TaskStarts 0, HandshakeDone 0 True] example_stopped = Some example_stopped_serving"
  by (simp add: server_eval example_stopped_def example_stopped_serving_def)

theorem no_connection_after_stop_witness:
  "TriggerShutdown \<in> set [Accepted 0, GotPermit 0, TriggerShutdown] \<and>
   list_all (\<lambda>ev. listener_of ev \<noteq> Some 0) [TaskStarts 0, HandshakeDone 0 True]"
proof (rule no_connection_after_stop)
  show "server_run ([Accepted 0, GotPermit 0, TriggerShutdown] @ ShutdownSeen 0 (Some ''127.0.0.1:443'') #
      [TaskStarts 0, HandshakeDone 0 True]) (server_start 1 1) = Some example_stopped_serving"
    by (simp add: server_eval example_stopped_def example_stopped_serving_def)
qed

text \<open>
  C19: No connection task hangs in the handshake, and a connection that the watchdog ends is over:
  the task ends within the handshake timeout plus the time of the watchdog, for every behaviour of
  the client and of the HTTP library.
\<close>

theorem connection_task_ends:
  "\<exists>d logs. connection_task handshake_timeout idle_timeout remote handshake serve (After w ()) tie =
     After d logs \<and> d \<le> handshake_timeout + w"
proof -
  obtain d r where r: "accept_tls_with_timeout handshake_timeout handshake = After d r" "d \<le> handshake_timeout"
    using accept_tls_bounded by blast
  show ?thesis
  proof (cases r)
    case (Inl e)
    then show ?thesis using r by (cases e) (auto simp: connection_task_def)
  next
    case (Inr alpn)
    obtain e x where "select2 tie (serve (conn_builder_for (alpn = Some ''h2'') idle_timeout)) (After w ()) = After e x"
      "e \<le> w" using select2_bounded [of tie _ w "()"] by metis
    then show ?thesis using r Inr
      by (cases x) (auto simp: connection_task_def Let_def split: serve_result.splits)
  qed
qed

text \<open>
  C21: Draining ends: the loop returns at the latest one poll after the timeout; it returns the
  value of the counter at that moment, and a value other than zero only when the timeout has
  passed.
\<close>

theorem drain_terminates_in_time:
  "case drain_in_flight count timeout start start of
     (n, t) \<Rightarrow> n = count t \<and> start \<le> t \<and> t \<le> start + int timeout + 100 * 10 ^ 6 \<and>
       (n \<noteq> 0 \<longrightarrow> start + int timeout \<le> t)"
  using drain_result [of count timeout start start] by (auto split: prod.splits)

theorem drain_terminates_in_time_witness:
  "case drain_in_flight (\<lambda>t. if t < 5 then 1 else 0) 30 0 0 of
     (n, t) \<Rightarrow> n = (if t < 5 then 1 else 0) \<and> 0 \<le> t \<and> t \<le> 0 + int 30 + 100 * 10 ^ 6 \<and>
       (n \<noteq> 0 \<longrightarrow> 0 + int 30 \<le> t)"
  by (rule drain_terminates_in_time)

text \<open>
  C34: Draining can miss a connection. The counter is incremented by the connection task itself and
  not before it is spawned, so there is an execution in which a connection was accepted, the
  listener has stopped, draining returns zero at once, and the connection is then served.
\<close>

theorem drain_misses_spawned_connection:
  "server_run [Accepted 0, GotPermit 0, TriggerShutdown, ShutdownSeen 0 (Some ''127.0.0.1:443'')] (server_start 1 1)
     = Some example_stopped \<and>
   drain_in_flight (\<lambda>t. sv_in_flight example_stopped) timeout start start = (0, start) \<and>
   server_run [TaskStarts 0, HandshakeDone 0 True] example_stopped = Some example_stopped_serving \<and>
   sv_tasks example_stopped_serving = [Serving]"
proof (intro conjI)
  show "server_run [Accepted 0, GotPermit 0, TriggerShutdown, ShutdownSeen 0 (Some ''127.0.0.1:443'')] (server_start 1 1)
     = Some example_stopped"
    by (simp add: server_eval example_stopped_def)
  show "drain_in_flight (\<lambda>t. sv_in_flight example_stopped) timeout start start = (0, start)"
    by (subst drain_in_flight.simps) (simp add: example_stopped_def server_start_def counter_defs)
  show "sv_tasks example_stopped_serving = [Serving]" by (simp add: example_stopped_serving_def)
qed (rule example_stopped_run)

end
