(* ===== verification/Startup.thy ===== *)
theory Startup
  imports Admin Signals Redirect Tls_Setup Upstream_Clients Server
begin

text \<open>
  The program, \<^verbatim>\<open>main.rs\<close>: what \<^verbatim>\<open>run_server\<close> does until the server is ready, in order, then what it
  does on shutdown, and the exit codes of \<^verbatim>\<open>main\<close>. The start is a sequence of stages, each with the
  actions it has taken and a result or an error; an error ends the start. Everything the program
  gets from the operating system and the libraries is in \<open>platform\<close>.
\<close>

section \<open>Actions and stages\<close>

datatype 'l action =
    Logged log_line
  | RegisterSignals string "log_reopen_handle option"
  | ServeHealth socket_addr "(admin_state \<times> nat) option"
  | ServeRedirect socket_addr u16
  | SpawnAcme acme_config "string list"
  | SpawnEviction duration duration
  | ServeHttps listener_config 'l server_config duration duration
  | NotifyReady

type_synonym ('l, 'a) stage = "'l action list \<times> (anyhow + 'a)"

definition then_stage :: "('l, 'a) stage \<Rightarrow> ('a \<Rightarrow> ('l, 'b) stage) \<Rightarrow> ('l, 'b) stage" where
  "then_stage m f =
     (case m of
        (acts, Inl e) \<Rightarrow> (acts, Inl e)
      | (acts, Inr x) \<Rightarrow> (case f x of (acts', r) \<Rightarrow> (acts @ acts', r)))"

definition logged :: "log_line list \<Rightarrow> 'l action list" where
  "logged ls = map Logged ls"

record ('l, 'v, 'f) platform =
  pf_net :: "'l tcp"
  pf_rustls :: rustls
  pf_crypto :: crypto
  pf_tracing :: "('v, 'f) tracing"
  pf_refuse :: "string \<Rightarrow> io_error option"
  pf_mkdir :: "string \<Rightarrow> io_error option"
  pf_read_to_string :: "string \<Rightarrow> io_error + string"
  pf_getrlimit :: "u64 option"
  pf_accepted_root :: "string \<Rightarrow> bool"
  pf_native_certs :: native_certs
  pf_connector :: http_connector
  pf_refuse_signals :: "io_error option"
  pf_now :: instant
  pf_notify_socket :: bool
  pf_notify_error :: "string option"

section \<open>Stages of the start\<close>

text \<open>
  The admin key: its hash, when there is one, is stored in the cell 0 that the middleware and the
  handlers share.
\<close>

definition load_admin_auth :: "('l, 'v, 'f) platform \<Rightarrow> string \<Rightarrow> log_line list \<times> string option" where
  "load_admin_auth P path =
     (if path \<noteq> [] then
        (case load_admin_key (pf_crypto P) (pf_read_to_string P) path of
           (logs, Inr (Some hash)) \<Rightarrow> (logs, Some hash)
         | (logs, Inr None) \<Rightarrow>
             (logs @ [Log LWarn [] ''admin key file not found or empty, disabling admin endpoints''], None)
         | (logs, Inl e) \<Rightarrow>
             (logs @ [Log LWarn [] (''admin key load failed, disabling admin endpoints: '' @
                                    show_admin_key_error e)], None))
      else ([], None))"

definition start_health ::
  "('l, 'v, 'f) platform \<Rightarrow> u16 \<Rightarrow> (admin_state \<times> nat) option \<Rightarrow> ('l, socket_addr list) stage" where
  "start_health P port admin =
     (if port > 0 then
        (case start_health_check_listener (pf_net P) [] port (map_option fst admin) (map_option snd admin) of
           (logs, Inl e) \<Rightarrow> (logged logs, with_context ''failed to bind health check port'' (Err e))
         | (logs, Inr (health_addr, listener, served)) \<Rightarrow>
             (logged logs @ [ServeHealth health_addr served,
                Logged (Log LInfo [(''addr'', show_socket_addr health_addr)] ''Health check listener bound'')],
              Ok [health_addr]))
      else ([], Ok []))"

definition bind_http ::
  "('l, 'v, 'f) platform \<Rightarrow> socket_addr list \<Rightarrow> listener_config \<Rightarrow> ('l, socket_addr list) stage" where
  "bind_http P bound lc =
     (if http_port lc > 0 then
        (case start_http_redirect_listener (pf_net P) bound lc of
           (logs, Inl e) \<Rightarrow>
             (logged logs,
              with_context (''failed to bind HTTP redirect listener on '' @ bind_addr lc @ '':'' @
                            show_word (http_port lc)) (Err e))
         | (logs, Inr (http_addr, listener, port)) \<Rightarrow>
             (logged logs @ [ServeRedirect http_addr port,
                Logged (Log LInfo [(''addr'', show_socket_addr http_addr)] ''HTTP redirect listener bound'')],
              Ok (bound @ [http_addr])))
      else ([], Ok bound))"

definition bind_https ::
  "('l, 'v, 'f) platform \<Rightarrow> socket_addr list \<Rightarrow> listener_config \<Rightarrow>
   ('l, socket_addr list \<times> 'l) stage" where
  "bind_https P bound lc =
     (let text = bind_addr lc @ '':'' @ show_word (https_port lc) in
      case parse_socket_addr text of
        None \<Rightarrow> ([], Err [''invalid HTTPS bind address '' @ text, ''invalid socket address syntax''])
      | Some https_addr \<Rightarrow>
          (case tcp_bind (pf_net P) bound https_addr of
             Inl e \<Rightarrow> ([], Err [''failed to bind HTTPS listener on '' @ text, e])
           | Inr https_tcp \<Rightarrow>
               (case tcp_local_addr (pf_net P) https_tcp of
                  Inl e \<Rightarrow> ([], Err [e])
                | Inr local_addr \<Rightarrow>
                    ([Logged (Log LInfo [(''addr'', show_socket_addr local_addr)] ''HTTPS listener bound'')],
                     Ok (bound @ [local_addr], https_tcp)))))"

fun bind_listeners ::
  "('l, 'v, 'f) platform \<Rightarrow> socket_addr list \<Rightarrow> listener_config list \<Rightarrow>
   ('l, (listener_config \<times> 'l) list) stage" where
  "bind_listeners P bound [] = ([], Ok [])"
| "bind_listeners P bound (lc # lcs) =
     then_stage (bind_http P bound lc) (\<lambda>bound1.
     then_stage (bind_https P bound1 lc) (\<lambda>(bound2, sock).
     then_stage (bind_listeners P bound2 lcs) (\<lambda>rest.
     ([], Ok ((lc, sock) # rest)))))"

definition setup_acceptor :: "('l, 'v, 'f) platform \<Rightarrow> listener_config \<Rightarrow> ('l, server_config) stage" where
  "setup_acceptor P lc =
     (case setup_tls (pf_rustls P) (l_tls lc) of
        (logs, spawned, Inl e) \<Rightarrow>
          (logged logs @ map (\<lambda>(st, ds). SpawnAcme st ds) spawned,
           with_context (''failed to setup TLS for listener '' @ bind_addr lc) (Err e))
      | (logs, spawned, Inr mode) \<Rightarrow>
          (logged logs @ map (\<lambda>(st, ds). SpawnAcme st ds) spawned @
           [Logged (Log LInfo [(''addr'', bind_addr lc)]
              (case mode of Manual _ \<Rightarrow> ''Manual TLS configured'' | Acme _ _ \<Rightarrow> ''ACME TLS configured''))],
           Ok (mode_config mode)))"

fun setup_acceptors ::
  "('l, 'v, 'f) platform \<Rightarrow> (listener_config \<times> 'l) list \<Rightarrow> ('l, server_config list) stage" where
  "setup_acceptors P [] = ([], Ok [])"
| "setup_acceptors P ((lc, sock) # rest) =
     then_stage (setup_acceptor P lc) (\<lambda>acceptor.
     then_stage (setup_acceptors P rest) (\<lambda>acceptors.
     ([], Ok (acceptor # acceptors))))"

definition notify_systemd_ready :: "('l, 'v, 'f) platform \<Rightarrow> 'l action list" where
  "notify_systemd_ready P =
     (if pf_notify_socket P then
        (case pf_notify_error P of
           None \<Rightarrow> [NotifyReady, Logged (Log LInfo [] ''sd_notify: READY=1 sent'')]
         | Some e \<Rightarrow> [Logged (Log LWarn [] (''sd_notify: failed to notify systemd: '' @ e))])
      else [])"

definition serve_listeners ::
  "static_config \<Rightarrow> (listener_config \<times> 'l) list \<Rightarrow> server_config list \<Rightarrow> 'l action list" where
  "serve_listeners sc bound_listeners acceptors =
     concat (map (\<lambda>((lc, sock), acceptor).
       [ServeHttps lc sock acceptor (from_secs (connection_idle_timeout_secs sc))
          (from_secs (tls_handshake_timeout_secs sc)),
        Logged (Log LInfo [(''bind_addr'', bind_addr lc), (''https_port'', show_word (https_port lc))]
                  ''HTTPS listener accepting connections'')]) (zip bound_listeners acceptors))"

section \<open>The whole start\<close>

text \<open>
  What the running program consists of once the start has succeeded.
\<close>

record 'l started =
  sd_handle :: reload_handle
  sd_shutdown :: graceful_shutdown
  sd_admin :: "(admin_state \<times> nat) option"
  sd_hashes :: "nat \<Rightarrow> string"
  sd_reopen_handle :: "log_reopen_handle option"
  sd_server :: server
  sd_https :: "((listener_config \<times> 'l) \<times> server_config) list"

definition start_listeners ::
  "('l, 'v, 'f) platform \<Rightarrow> static_config \<Rightarrow> (admin_state \<times> nat) option \<Rightarrow>
   ('l, ((listener_config \<times> 'l) \<times> server_config) list) stage" where
  "start_listeners P sc admin =
     then_stage (start_health P (health_check_port sc) admin) (\<lambda>bound.
     then_stage (bind_listeners P bound (listeners sc)) (\<lambda>bound_listeners.
     then_stage (setup_acceptors P bound_listeners) (\<lambda>acceptors.
     if length bound_listeners \<noteq> length acceptors
     then ([], Err [''listener/acceptor count mismatch: '' @ show_nat (length bound_listeners) @
                    '' listeners, '' @ show_nat (length acceptors) @ '' acceptors''])
     else
       ([SpawnEviction (from_secs 60) (from_secs 300),
         Logged (Log LInfo [(''max_connections'', show_word (max_connections sc))]
                   ''global connection semaphore created (shared across all listeners)'')] @
        serve_listeners sc bound_listeners acceptors @
        [Logged (Log LInfo [] ''all listeners started'')] @
        notify_systemd_ready P,
        Ok (zip bound_listeners acceptors)))))"

definition start_services ::
  "('l, 'v, 'f) platform \<Rightarrow> loaded_config \<Rightarrow> string \<Rightarrow> log_reopen_handle option \<Rightarrow> ('l, 'l started) stage" where
  "start_services P ld config_path reopen_handle =
     (let sc = ld_static_config ld;
          handle = reload_handle_new (ld_dynamic_config ld) sc (ld_allow_wildcard_bind ld);
          (client_logs, https_client) =
            create_https_client (pf_accepted_root P) (pf_native_certs P)
              (pf_connector P)
      in then_stage
           (logged ([Log LInfo [] ''reverse-proxy starting''] @
                    warn_if_default_nofile (pf_getrlimit P) (max_connections sc) @ client_logs),
            case pf_refuse_signals P of Some e \<Rightarrow> Err [e] | None \<Rightarrow> Ok ()) (\<lambda>_.
         then_stage ([RegisterSignals config_path reopen_handle], Ok ()) (\<lambda>_.
         (case load_admin_auth P (admin_key_path sc) of
            (admin_logs, hash) \<Rightarrow>
              (let admin = map_option (\<lambda>_. (\<lparr>ad_config_path = config_path, ad_start_time = pf_now P,
                                             ad_key_hash = 0\<rparr>, 0)) hash
               in then_stage (logged admin_logs, Ok ()) (\<lambda>_.
                  then_stage (start_listeners P sc admin) (\<lambda>https.
                  ([], Ok \<lparr>sd_handle = handle,
                           sd_shutdown = graceful_shutdown_new (shutdown_timeout_secs sc),
                           sd_admin = admin, sd_hashes = (\<lambda>_. unwrap_or hash []),
                           sd_reopen_handle = reopen_handle,
                           sd_server = server_start (length https) (max_connections sc),
                           sd_https = https\<rparr>))))))))"

definition run_server_start ::
  "('l, 'v, 'f) platform \<Rightarrow> loaded_config \<Rightarrow> string \<Rightarrow> log_store \<Rightarrow> log_store \<times> ('l, 'l started) stage" where
  "run_server_start P ld config_path s =
     (case init (pf_tracing P) (pf_refuse P) (pf_mkdir P) (logging (ld_static_config ld)) s of
        (s', Inl e) \<Rightarrow> (s', [], with_context ''failed to initialize logging'' (Err e))
      | (s', Inr reopen_handle) \<Rightarrow> (s', start_services P ld config_path reopen_handle))"

section \<open>Shutdown\<close>

text \<open>
  A listener task that is joined is the time at which it ends, or none when it does not. The
  listeners are joined one after the other, each with the whole timeout.
\<close>

fun join_listeners :: "duration \<Rightarrow> instant option list \<Rightarrow> instant \<Rightarrow> log_line list \<times> instant" where
  "join_listeners timeout [] now = ([], now)"
| "join_listeners timeout (h # hs) now =
     (case tokio_timeout timeout (case h of None \<Rightarrow> Never | Some t \<Rightarrow> After (nat (t - now)) ()) of
        After d (Inr _) \<Rightarrow> join_listeners timeout hs (now + int d)
      | After d (Inl _) \<Rightarrow>
          (case join_listeners timeout hs (now + int d) of
             (logs, t) \<Rightarrow> (Log LWarn [] ''shutdown timeout expired, aborting listener task'' # logs, t))
      | Never \<Rightarrow> ([], now))"

definition run_server_shutdown ::
  "graceful_shutdown \<Rightarrow> instant option list \<Rightarrow> (instant \<Rightarrow> usize) \<Rightarrow> instant \<Rightarrow> log_line list \<times> instant" where
  "run_server_shutdown g handles in_flight now =
     (case join_listeners (gs_shutdown_timeout g) handles now of
        (logs, t) \<Rightarrow>
          (case drain_in_flight in_flight (gs_shutdown_timeout g) t t of
             (remaining, t') \<Rightarrow>
               ([Log LInfo [] ''shutdown signal received, starting graceful shutdown''] @ logs @
                (if remaining > 0
                 then [Log LWarn [(''remaining'', show_word remaining)] ''shutdown timeout expired, forcing exit'']
                 else [Log LInfo [] ''all in-flight requests completed'']),
                t')))"

section \<open>Exit codes\<close>

text \<open>
  \<^verbatim>\<open>main\<close>: what is printed and the exit code; \<open>served\<close> is the result of \<^verbatim>\<open>run_server\<close>, which is
  reached only when the configuration was loaded.
\<close>

definition main_proxy ::
  "toml_reader \<Rightarrow> (string \<Rightarrow> bool) \<Rightarrow> u64 option \<Rightarrow> (string \<Rightarrow> io_error + string) \<Rightarrow>
   (loaded_config \<Rightarrow> string \<Rightarrow> anyhow + unit) \<Rightarrow> cli \<Rightarrow> console list \<times> log_line list \<times> nat" where
  "main_proxy toml exists getrlimit read_to_string served args =
     (if cli_validate args then
        (case run_validate toml exists getrlimit read_to_string args of
           (out, Inr _) \<Rightarrow> ([out], [], 0)
         | (out, Inl _) \<Rightarrow> ([out], [], 1))
      else
        (case load_config toml exists getrlimit read_to_string args of
           Inl (Context m cause) \<Rightarrow> ([Stderr (''error: '' @ show_anyhow [m, cause])], [], 1)
         | Inl (Bail m) \<Rightarrow> ([Stderr (''error: '' @ show_anyhow [m])], [], 1)
         | Inr ld \<Rightarrow>
             (case served ld (cli_config args) of
                Inl e \<Rightarrow> ([], [Log LError [] (''fatal error: '' @ show_anyhow e)], 1)
              | Inr _ \<Rightarrow> ([], [], 0))))"

section \<open>Lemmas on the start\<close>

text \<open>
  The HTTPS listeners that a sequence of actions has put into service, and the actions before any
  listener is in service.
\<close>

fun https_of :: "'l action \<Rightarrow> (listener_config \<times> server_config) list" where
  "https_of (ServeHttps lc sock c idle handshake) = [(lc, c)]"
| "https_of _ = []"

definition https_served :: "'l action list \<Rightarrow> (listener_config \<times> server_config) list" where
  "https_served acts = concat (map https_of acts)"

definition quiet :: "'l action list \<Rightarrow> bool" where
  "quiet acts = (https_served acts = [] \<and> NotifyReady \<notin> set acts)"

lemma https_served_simps [simp]:
  "https_served [] = []" "https_served (a # acts) = https_of a @ https_served acts"
  "https_served (acts @ acts') = https_served acts @ https_served acts'"
  "https_served (logged ls) = []"
  by (auto simp: https_served_def logged_def)

lemma quiet_simps [simp]:
  "quiet []" "quiet (acts @ acts') = (quiet acts \<and> quiet acts')" "quiet (logged ls)"
  "quiet (a # acts) = (https_of a = [] \<and> a \<noteq> NotifyReady \<and> quiet acts)"
  by (auto simp: quiet_def) (auto simp: logged_def)

lemma quiet_spawned [simp]: "quiet (map (\<lambda>(st, ds). SpawnAcme st ds) spawned)"
  by (induction spawned) auto

lemma then_stage_Ok_iff:
  "then_stage m f = (acts, Inr y) \<longleftrightarrow>
     (\<exists>acts1 x acts2. m = (acts1, Inr x) \<and> f x = (acts2, Inr y) \<and> acts = acts1 @ acts2)"
  by (auto simp: then_stage_def split: prod.splits sum.splits)

lemma quiet_then_stage:
  "quiet (fst m) \<Longrightarrow> (\<And>x. snd m = Inr x \<Longrightarrow> quiet (fst (f x))) \<Longrightarrow> quiet (fst (then_stage m f))"
  by (auto simp: then_stage_def split: prod.splits sum.splits)

lemma quiet_bind_http: "quiet (fst (bind_http P bound lc))"
  by (auto simp: bind_http_def split: prod.split sum.split)

lemma quiet_bind_https: "quiet (fst (bind_https P bound lc))"
  by (auto simp: bind_https_def Let_def split: option.split sum.split)

lemma quiet_bind_listeners: "quiet (fst (bind_listeners P bound lcs))"
  by (induction P bound lcs rule: bind_listeners.induct)
    (auto intro!: quiet_then_stage quiet_bind_http quiet_bind_https split: prod.split)

lemma quiet_setup_acceptor: "quiet (fst (setup_acceptor P lc))"
  by (auto simp: setup_acceptor_def split: prod.split sum.split)

lemma quiet_setup_acceptors: "quiet (fst (setup_acceptors P bl))"
  by (induction P bl rule: setup_acceptors.induct) (auto intro!: quiet_then_stage quiet_setup_acceptor)

lemma quiet_start_health: "quiet (fst (start_health P port admin))"
  by (auto simp: start_health_def split: prod.split sum.split)

lemma bind_listeners_same:
  "bind_listeners P bound lcs = (acts, Inr bl) \<Longrightarrow> map fst bl = lcs"
  by (induction P bound lcs arbitrary: acts bl rule: bind_listeners.induct)
    (auto simp: then_stage_Ok_iff split: prod.splits)

lemma setup_acceptors_modes:
  "setup_acceptors P bl = (acts, Inr cs) \<Longrightarrow>
   list_all2 (\<lambda>b c. \<exists>m. snd (snd (setup_tls (pf_rustls P) (l_tls (fst b)))) = Ok m \<and> c = mode_config m) bl cs"
proof (induction P bl arbitrary: acts cs rule: setup_acceptors.induct)
  case (2 P lc sock rest)
  from 2(2) obtain a1 c a2 cs' where s: "setup_acceptor P lc = (a1, Inr c)"
      "setup_acceptors P rest = (a2, Inr cs')" "cs = c # cs'"
    by (auto simp: then_stage_Ok_iff)
  from s(1) have "\<exists>m. snd (snd (setup_tls (pf_rustls P) (l_tls lc))) = Ok m \<and> c = mode_config m"
    by (auto simp: setup_acceptor_def with_context_def split: prod.splits sum.splits)
  then show ?case using 2(1) [OF s(2)] s by simp
qed simp

lemma serve_listeners_served:
  "https_served (serve_listeners sc bl cs) = map (\<lambda>(b, c). (fst b, c)) (zip bl cs)"
  "NotifyReady \<notin> set (serve_listeners sc bl cs)"
proof -
  have "https_served (concat (map (\<lambda>((lc, sock), c). [ServeHttps lc sock c i h, Logged (g lc)]) zs)) =
      map (\<lambda>(b, c). (fst b, c)) zs" for zs :: "((listener_config \<times> 'l) \<times> server_config) list" and i h g
    by (induction zs) auto
  then show "https_served (serve_listeners sc bl cs) = map (\<lambda>(b, c). (fst b, c)) (zip bl cs)"
    unfolding serve_listeners_def .
  show "NotifyReady \<notin> set (serve_listeners sc bl cs)" by (auto simp: serve_listeners_def)
qed

lemma notify_systemd_ready_set [simp]:
  "NotifyReady \<in> set (notify_systemd_ready P) \<longleftrightarrow> pf_notify_socket P \<and> pf_notify_error P = None"
  "https_served (notify_systemd_ready P) = []"
  by (auto simp: notify_systemd_ready_def split: option.split)

text \<open>
  What the last stage guarantees, of failing and of succeeding.
\<close>

definition start_ok ::
  "('l, 'v, 'f) platform \<Rightarrow> listener_config list \<Rightarrow> 'l action list \<Rightarrow> bool" where
  "start_ok P lcs acts =
     (map fst (https_served acts) = lcs \<and>
      list_all (\<lambda>(lc, c). \<exists>m. snd (snd (setup_tls (pf_rustls P) (l_tls lc))) = Ok m \<and> c = mode_config m)
        (https_served acts) \<and>
      (NotifyReady \<in> set acts \<longleftrightarrow> pf_notify_socket P \<and> pf_notify_error P = None) \<and>
      https_served (dropWhile (\<lambda>a. a \<noteq> NotifyReady) acts) = [])"

lemma start_ok_quiet: "quiet acts \<Longrightarrow> start_ok P lcs (acts @ acts') = start_ok P lcs acts'"
proof -
  assume q: "quiet acts"
  then have "dropWhile (\<lambda>a. a \<noteq> NotifyReady) (acts @ acts') = dropWhile (\<lambda>a. a \<noteq> NotifyReady) acts'"
    by (intro dropWhile_append2) (auto simp: quiet_def)
  then show ?thesis using q by (simp add: start_ok_def quiet_def)
qed

definition stage_ok :: "('l, 'v, 'f) platform \<Rightarrow> listener_config list \<Rightarrow> ('l, 'a) stage \<Rightarrow> bool" where
  "stage_ok P lcs m = (case snd m of Inl e \<Rightarrow> quiet (fst m) | Inr x \<Rightarrow> start_ok P lcs (fst m))"

lemma stage_ok_then:
  assumes "quiet (fst m)" "\<And>x. snd m = Inr x \<Longrightarrow> stage_ok P lcs (f x)"
  shows "stage_ok P lcs (then_stage m f)"
proof (cases m)
  case (Pair acts r)
  show ?thesis
  proof (cases r)
    case (Inl e)
    then show ?thesis using Pair assms(1) by (simp add: stage_ok_def then_stage_def)
  next
    case (Inr x)
    then have "stage_ok P lcs (f x)" using Pair assms(2) by simp
    then show ?thesis using Pair Inr assms(1)
      by (cases "f x"; cases "snd (f x)") (auto simp: stage_ok_def then_stage_def start_ok_quiet)
  qed
qed

lemma stage_ok_map: "stage_ok P lcs (then_stage m (\<lambda>x. ([], Ok (g x)))) = stage_ok P lcs m"
  by (cases m; cases "snd m") (auto simp: stage_ok_def then_stage_def)

lemma list_all_zip_modes:
  assumes "list_all2 (\<lambda>b c. Q (fst b) c) bl cs"
  shows "list_all (\<lambda>(lc, c). Q lc c) (map (\<lambda>(b, c). (fst b, c)) (zip bl cs))"
    "map fst (map (\<lambda>(b, c). (fst b, c)) (zip bl cs)) = map fst bl" "length bl = length cs"
  using assms by (induction rule: list_all2_induct) auto

lemma stage_ok_listeners: "stage_ok P (listeners sc) (start_listeners P sc admin)"
  unfolding start_listeners_def
proof (rule stage_ok_then [OF quiet_start_health], rule stage_ok_then [OF quiet_bind_listeners],
    rule stage_ok_then [OF quiet_setup_acceptors])
  fix bound bl cs
  assume "snd (bind_listeners P bound (listeners sc)) = Inr bl" "snd (setup_acceptors P bl) = Inr cs"
  then have bl: "map fst bl = listeners sc" and modes: "list_all2 (\<lambda>b c.
      \<exists>m. snd (snd (setup_tls (pf_rustls P) (l_tls (fst b)))) = Ok m \<and> c = mode_config m) bl cs"
    using bind_listeners_same [of P bound "listeners sc" _ bl] setup_acceptors_modes [of P bl _ cs]
    by (metis prod.collapse)+
  note z = list_all_zip_modes [OF modes]
  let ?serve = "serve_listeners sc bl cs @ [Logged (Log LInfo [] ''all listeners started'')] @ notify_systemd_ready P"
  have "NotifyReady \<notin> set (serve_listeners sc bl cs @ [Logged (Log LInfo [] ''all listeners started'')])"
    using serve_listeners_served(2) [of sc bl cs] by auto
  then have "dropWhile (\<lambda>a. a \<noteq> NotifyReady)
      ((serve_listeners sc bl cs @ [Logged (Log LInfo [] ''all listeners started'')]) @ notify_systemd_ready P) =
      dropWhile (\<lambda>a. a \<noteq> NotifyReady) (notify_systemd_ready P)"
    by (intro dropWhile_append2) blast
  then have "dropWhile (\<lambda>a. a \<noteq> NotifyReady) ?serve = dropWhile (\<lambda>a. a \<noteq> NotifyReady) (notify_systemd_ready P)"
    by (simp only: append_assoc)
  moreover have "https_served (dropWhile (\<lambda>a. a \<noteq> NotifyReady) (notify_systemd_ready P)) = []"
    by (auto simp: notify_systemd_ready_def split: option.split)
  ultimately have "start_ok P (listeners sc) ?serve"
    using z(1,2) bl serve_listeners_served [of sc bl cs]
    by (auto simp: start_ok_def)
  then show "stage_ok P (listeners sc)
      (if length bl \<noteq> length cs
       then ([], Err [''listener/acceptor count mismatch: '' @ show_nat (length bl) @
                      '' listeners, '' @ show_nat (length cs) @ '' acceptors''])
       else ([SpawnEviction (from_secs 60) (from_secs 300),
              Logged (Log LInfo [(''max_connections'', show_word (max_connections sc))]
                        ''global connection semaphore created (shared across all listeners)'')] @
             serve_listeners sc bl cs @ [Logged (Log LInfo [] ''all listeners started'')] @
             notify_systemd_ready P, Ok (zip bl cs)))"
    using z(3) start_ok_quiet [of "[SpawnEviction (from_secs 60) (from_secs 300),
              Logged (Log LInfo [(''max_connections'', show_word (max_connections sc))]
                        ''global connection semaphore created (shared across all listeners)'')]" P "listeners sc" ?serve]
    by (simp add: stage_ok_def)
qed

lemma stage_ok_start:
  "stage_ok P (listeners (ld_static_config ld)) (snd (run_server_start P ld path s))"
proof -
  have "stage_ok P (listeners (ld_static_config ld)) (start_services P ld path rh)" for rh
  proof -
    obtain client_logs client where c: "create_https_client (pf_accepted_root P) (pf_native_certs P)
        (pf_connector P) = (client_logs, client)" by fastforce
    obtain admin_logs hash where a: "load_admin_auth P (admin_key_path (ld_static_config ld)) =
        (admin_logs, hash)" by fastforce
    show ?thesis unfolding start_services_def Let_def c a prod.case
      by (rule stage_ok_then, simp, rule stage_ok_then, simp, rule stage_ok_then, simp,
          subst stage_ok_map, rule stage_ok_listeners)
  qed
  then show ?thesis
    by (cases "init (pf_tracing P) (pf_refuse P) (pf_mkdir P) (logging (ld_static_config ld)) s";
        cases "snd (init (pf_tracing P) (pf_refuse P) (pf_mkdir P) (logging (ld_static_config ld)) s)")
      (simp_all add: run_server_start_def with_context_def stage_ok_def)
qed

section \<open>When the start succeeds\<close>

text \<open>
  The addresses that a configuration asks for, in the order in which they are bound: the health
  check, then for every listener the redirect and the HTTPS socket; one that does not parse is
  \<^const>\<open>None\<close>. The start is possible when logging can be set up, signals can be registered, the
  addresses can be bound one after the other, and TLS comes up for every listener.
\<close>

definition listener_sockets :: "listener_config \<Rightarrow> socket_addr option list" where
  "listener_sockets lc =
     (if http_port lc = 0 then [] else [parse_socket_addr (bind_addr lc @ '':'' @ show_word (http_port lc))]) @
     [parse_socket_addr (bind_addr lc @ '':'' @ show_word (https_port lc))]"

definition wanted_sockets :: "static_config \<Rightarrow> socket_addr option list" where
  "wanted_sockets sc =
     (if health_check_port sc = 0 then []
      else [Some \<lparr>sa_ip = V4 127 0 0 1, sa_port = health_check_port sc, sa_scope = 0\<rparr>]) @
     concat (map listener_sockets (listeners sc))"

fun can_bind :: "'l tcp \<Rightarrow> socket_addr list \<Rightarrow> socket_addr option list \<Rightarrow> bool" where
  "can_bind net bound [] = True"
| "can_bind net bound (None # addrs) = False"
| "can_bind net bound (Some a # addrs) =
     (\<exists>l la. tcp_bind net bound a = Ok l \<and> tcp_local_addr net l = Ok la \<and> can_bind net (bound @ [la]) addrs)"

definition start_possible :: "('l, 'v, 'f) platform \<Rightarrow> static_config \<Rightarrow> log_store \<Rightarrow> bool" where
  "start_possible P sc s =
     ((\<exists>h. snd (init (pf_tracing P) (pf_refuse P) (pf_mkdir P) (logging sc) s) = Ok h) \<and>
      pf_refuse_signals P = None \<and> can_bind (pf_net P) [] (wanted_sockets sc) \<and>
      list_all (\<lambda>lc. \<exists>m. snd (snd (setup_tls (pf_rustls P) (l_tls lc))) = Ok m) (listeners sc))"

lemma then_stage_Ok:
  "(\<exists>y. snd (then_stage m f) = Inr y) \<longleftrightarrow> (\<exists>x. snd m = Inr x \<and> (\<exists>y. snd (f x) = Inr y))"
  by (cases m; cases "snd m") (auto simp: then_stage_def split: prod.split)

lemma bind_http_Ok:
  "snd (bind_http P bound lc) = Inr b \<longleftrightarrow>
     (if http_port lc = 0 then b = bound
      else \<exists>a l la. parse_socket_addr (bind_addr lc @ '':'' @ show_word (http_port lc)) = Some a \<and>
        tcp_bind (pf_net P) bound a = Ok l \<and> tcp_local_addr (pf_net P) l = Ok la \<and> b = bound @ [la])"
  by (auto simp: bind_http_def start_http_redirect_listener_def with_context_def Let_def word_gt_0
      split: option.splits sum.splits)

lemma bind_https_Ok:
  "snd (bind_https P bound lc) = Inr (b, l) \<longleftrightarrow>
     (\<exists>a la. parse_socket_addr (bind_addr lc @ '':'' @ show_word (https_port lc)) = Some a \<and>
        tcp_bind (pf_net P) bound a = Ok l \<and> tcp_local_addr (pf_net P) l = Ok la \<and> b = bound @ [la])"
  by (auto simp: bind_https_def Let_def split: option.splits sum.splits)

lemma can_bind_Cons:
  "can_bind net bound (x # addrs) \<longleftrightarrow>
     (\<exists>a l la. x = Some a \<and> tcp_bind net bound a = Ok l \<and> tcp_local_addr net l = Ok la \<and>
        can_bind net (bound @ [la]) addrs)"
  by (cases x) auto

lemma bind_listeners_Ok:
  "(\<exists>bl. snd (bind_listeners P bound lcs) = Inr bl) \<longleftrightarrow>
     can_bind (pf_net P) bound (concat (map listener_sockets lcs))"
proof (induction lcs arbitrary: bound)
  case (Cons lc lcs)
  have "(\<exists>bl. snd (bind_listeners P bound (lc # lcs)) = Inr bl) \<longleftrightarrow>
      (\<exists>b. snd (bind_http P bound lc) = Inr b \<and>
         (\<exists>b' l. snd (bind_https P b lc) = Inr (b', l) \<and>
            can_bind (pf_net P) b' (concat (map listener_sockets lcs))))"
    by (simp add: then_stage_Ok Cons.IH)
  also have "\<dots> \<longleftrightarrow> can_bind (pf_net P) bound (listener_sockets lc @ concat (map listener_sockets lcs))"
    by (cases "http_port lc = 0") (auto simp: bind_http_Ok bind_https_Ok listener_sockets_def [of lc] can_bind_Cons)
  finally show ?case by simp
qed simp

lemma setup_acceptors_Ok:
  "(\<exists>cs. snd (setup_acceptors P bl) = Inr cs) \<longleftrightarrow>
     list_all (\<lambda>lc. \<exists>m. snd (snd (setup_tls (pf_rustls P) (l_tls lc))) = Ok m) (map fst bl)"
proof (induction bl)
  case (Cons b bl)
  obtain lc sock where b: "b = (lc, sock)" by fastforce
  have "(\<exists>c. snd (setup_acceptor P lc) = Inr c) \<longleftrightarrow> (\<exists>m. snd (snd (setup_tls (pf_rustls P) (l_tls lc))) = Ok m)"
    by (auto simp: setup_acceptor_def with_context_def split: prod.split sum.split)
  then show ?case using Cons.IH b by (simp add: then_stage_Ok)
qed simp

lemma start_health_Ok:
  "snd (start_health P port admin) = Inr b \<longleftrightarrow>
     (if port = 0 then b = []
      else \<exists>l la. tcp_bind (pf_net P) [] \<lparr>sa_ip = V4 127 0 0 1, sa_port = port, sa_scope = 0\<rparr> = Ok l \<and>
        tcp_local_addr (pf_net P) l = Ok la \<and> b = [la])"
  by (auto simp: start_health_def start_health_check_listener_def with_context_def Let_def word_gt_0
      split: option.splits sum.splits prod.splits)

lemma start_listeners_Ok:
  "(\<exists>https. snd (start_listeners P sc admin) = Inr https) \<longleftrightarrow>
     can_bind (pf_net P) [] (wanted_sockets sc) \<and>
     list_all (\<lambda>lc. \<exists>m. snd (snd (setup_tls (pf_rustls P) (l_tls lc))) = Ok m) (listeners sc)"
  (is "_ \<longleftrightarrow> _ \<and> ?tls")
proof -
  have len: "length bl = length cs" if "snd (setup_acceptors P bl) = Inr cs" for bl cs
    using that by (cases "setup_acceptors P bl") (auto dest!: setup_acceptors_modes list_all2_lengthD)
  have same: "list_all Q (map fst bl) = list_all Q (listeners sc)"
    if "snd (bind_listeners P b (listeners sc)) = Inr bl" for Q b bl
    using that by (cases "bind_listeners P b (listeners sc)") (auto dest: bind_listeners_same)
  have last: "(\<exists>y. snd (if length bl \<noteq> length cs then ([], Err e) else (acts, Ok z)) = Inr y) \<longleftrightarrow> length bl = length cs"
    for bl :: "(listener_config \<times> 'a) list" and cs :: "server_config list" and e acts
      and z :: "((listener_config \<times> 'a) \<times> server_config) list"
    by simp
  have "(\<exists>https. snd (start_listeners P sc admin) = Inr https) \<longleftrightarrow>
      (\<exists>b. snd (start_health P (health_check_port sc) admin) = Inr b \<and>
         (\<exists>bl. snd (bind_listeners P b (listeners sc)) = Inr bl \<and> (\<exists>cs. snd (setup_acceptors P bl) = Inr cs)))"
    unfolding start_listeners_def then_stage_Ok last using len by blast
  also have "\<dots> \<longleftrightarrow> (\<exists>b. snd (start_health P (health_check_port sc) admin) = Inr b \<and>
         (\<exists>bl. snd (bind_listeners P b (listeners sc)) = Inr bl)) \<and> ?tls"
    unfolding setup_acceptors_Ok using same by blast
  also have "\<dots> \<longleftrightarrow> can_bind (pf_net P) [] (wanted_sockets sc) \<and> ?tls"
    unfolding bind_listeners_Ok
    by (cases "health_check_port sc = 0") (auto simp: start_health_Ok wanted_sockets_def)
  finally show ?thesis .
qed

lemma run_server_start_Ok:
  "(\<exists>st. snd (snd (run_server_start P ld path s)) = Inr st) \<longleftrightarrow> start_possible P (ld_static_config ld) s"
proof -
  have "(\<exists>st. snd (start_services P ld path h) = Inr st) \<longleftrightarrow>
      pf_refuse_signals P = None \<and> can_bind (pf_net P) [] (wanted_sockets (ld_static_config ld)) \<and>
      list_all (\<lambda>lc. \<exists>m. snd (snd (setup_tls (pf_rustls P) (l_tls lc))) = Ok m) (listeners (ld_static_config ld))"
    for h
    by (simp add: start_services_def Let_def then_stage_Ok start_listeners_Ok split: prod.split option.split)
  then show ?thesis
    by (cases "init (pf_tracing P) (pf_refuse P) (pf_mkdir P) (logging (ld_static_config ld)) s";
        cases "snd (init (pf_tracing P) (pf_refuse P) (pf_mkdir P) (logging (ld_static_config ld)) s)")
      (simp_all add: run_server_start_def with_context_def start_possible_def)
qed

section \<open>Lemmas on shutdown\<close>

lemma join_listeners_time:
  "join_listeners timeout hs now = (logs, t) \<Longrightarrow>
   now \<le> t \<and> t \<le> now + int (length hs) * int timeout"
proof (induction timeout hs now arbitrary: logs t rule: join_listeners.induct)
  case (2 timeout h hs now)
  obtain d r where f: "tokio_timeout timeout (case h of None \<Rightarrow> Never | Some t \<Rightarrow> After (nat (t - now)) ()) =
      After d r" "d \<le> timeout" using tokio_timeout_bounded by blast
  obtain logs' where j: "join_listeners timeout hs (now + int d) = (logs', t)"
    using 2(3) f(1) by (cases r) (auto split: prod.splits)
  have "now + int d \<le> t \<and> t \<le> now + int d + int (length hs) * int timeout"
    using 2(1,2) [OF f(1)] j by (cases r) auto
  then show ?case using f(2) by (simp add: algebra_simps)
qed simp

lemma run_server_shutdown_time:
  "now \<le> snd (run_server_shutdown g hs count now) \<and>
   snd (run_server_shutdown g hs count now) \<le>
     now + (int (length hs) + 1) * int (gs_shutdown_timeout g) + 100 * 10 ^ 6"
proof -
  obtain logs t where j: "join_listeners (gs_shutdown_timeout g) hs now = (logs, t)" by fastforce
  obtain n t' where d: "drain_in_flight count (gs_shutdown_timeout g) t t = (n, t')" by fastforce
  show ?thesis
    using join_listeners_time [OF j] drain_result [OF d] j d
    by (auto simp: run_server_shutdown_def algebra_simps)
qed

section \<open>Properties\<close>

text \<open>
  C9: The start is all or nothing for the HTTPS listeners, and it fails only for a reason outside the
  program. It succeeds exactly when logging can be set up, signals can be registered, every address
  that the configuration asks for can be parsed and bound, and \<^verbatim>\<open>setup_tls\<close> succeeds for every listener
  (which for ACME does not wait for a certificate). When
  it fails, no HTTPS listener has been put into service and readiness was not announced. When it
  succeeds, exactly the configured listeners are in service, in their order, each with the TLS
  configuration that was set up for it, which is a hardened one; readiness is announced when the
  notification is available, and only after all of them.
\<close>

theorem startup_all_or_nothing:
  "case snd (run_server_start P ld path s) of
     (acts, Inl e) \<Rightarrow>
       \<not> start_possible P (ld_static_config ld) s \<and> https_served acts = [] \<and> NotifyReady \<notin> set acts
   | (acts, Inr st) \<Rightarrow>
       start_possible P (ld_static_config ld) s \<and>
       map fst (https_served acts) = listeners (ld_static_config ld) \<and>
       list_all (\<lambda>(lc, c). hardened c \<and>
         (\<exists>m. snd (snd (setup_tls (pf_rustls P) (l_tls lc))) = Ok m \<and> c = mode_config m)) (https_served acts) \<and>
       (NotifyReady \<in> set acts \<longleftrightarrow> pf_notify_socket P \<and> pf_notify_error P = None) \<and>
       https_served (dropWhile (\<lambda>a. a \<noteq> NotifyReady) acts) = []"
proof -
  obtain acts r where r: "snd (run_server_start P ld path s) = (acts, r)" by fastforce
  show ?thesis
  proof (cases r)
    case (Inl e)
    then show ?thesis using stage_ok_start [of P ld path s] run_server_start_Ok [of P ld path s] r
      by (simp add: stage_ok_def quiet_def)
  next
    case (Inr st)
    then have ok: "start_ok P (listeners (ld_static_config ld)) acts"
      using stage_ok_start [of P ld path s] r by (simp add: stage_ok_def)
    moreover have "list_all (\<lambda>(lc, c). hardened c \<and>
        (\<exists>m. snd (snd (setup_tls (pf_rustls P) (l_tls lc))) = Ok m \<and> c = mode_config m)) (https_served acts)"
      using ok setup_tls_hardened by (fastforce simp: start_ok_def list_all_iff)
    ultimately show ?thesis using r Inr run_server_start_Ok [of P ld path s] by (simp add: start_ok_def)
  qed
qed

definition unknown_mode_config :: static_config where
  "unknown_mode_config = make_static_with_sites [test_site] (make_acme_tls\<lparr>tls_mode := ''none''\<rparr>)"

text \<open>
  C40: A configuration that passes validation may never start. The rules do not look at the name of
  the TLS mode, so a file with an unknown mode is accepted at start and on reload; whatever the
  platform, starting with it fails.
\<close>

theorem accepted_config_cannot_start:
  "validate (\<lambda>p. True) unknown_mode_config valid_dynamic_config False = Ok () \<and>
   (\<forall>P path s allow. \<exists>acts e.
      snd (run_server_start P \<lparr>ld_static_config = unknown_mode_config, ld_dynamic_config = valid_dynamic_config,
                               ld_allow_wildcard_bind = allow\<rparr> path s) = (acts, Inl e))"
proof (intro conjI allI)
  have "config_ok (\<lambda>p. True) (make_static_with_sites [test_site] make_acme_tls) valid_dynamic_config False"
    using config_fixture by (simp add: validate_iff)
  then show "validate (\<lambda>p. True) unknown_mode_config valid_dynamic_config False = Ok ()"
    by (simp add: validate_iff config_ok_def unknown_mode_config_def make_static_with_sites_def listener_ok_def
        tls_ok_def all_sites_def ports_ok_def https_key_def http_key_def)
next
  fix P :: "('l, 'v, 'f) platform" and path s allow
  let ?ld = "\<lparr>ld_static_config = unknown_mode_config, ld_dynamic_config = valid_dynamic_config,
              ld_allow_wildcard_bind = allow\<rparr>"
  obtain acts r where r: "snd (run_server_start P ?ld path s) = (acts, r)" by fastforce
  have "r \<noteq> Inr st" for st
  proof
    assume "r = Inr st"
    then have ok: "start_ok P (listeners unknown_mode_config) acts"
      using stage_ok_start [of P ?ld path s] r by (simp add: stage_ok_def)
    have all: "listeners unknown_mode_config = map fst (https_served acts)" using ok by (simp add: start_ok_def)
    have "listeners unknown_mode_config \<noteq> []" "list_all (\<lambda>lc. tls_mode (l_tls lc) = ''none'') (listeners unknown_mode_config)"
      by (simp_all add: unknown_mode_config_def make_static_with_sites_def)
    then have "https_served acts \<noteq> []" "list_all (\<lambda>p. tls_mode (l_tls (fst p)) = ''none'') (https_served acts)"
      unfolding all by (simp_all add: list.pred_map comp_def)
    then obtain lc c where "(lc, c) \<in> set (https_served acts)" "tls_mode (l_tls lc) = ''none''"
      unfolding list_all_iff by (metis hd_in_set prod.collapse)
    then show False using ok by (auto simp: start_ok_def list_all_iff setup_tls_def)
  qed
  then show "\<exists>acts e. snd (run_server_start P ?ld path s) = (acts, Inl e)"
    using r by (cases r) auto
qed

text \<open>
  C30: Shutdown ends: joining the listeners and draining together take at most the timeout once for
  every listener and once for the drain, and one poll.
\<close>

theorem shutdown_ends_in_time:
  "now \<le> snd (run_server_shutdown g hs count now) \<and>
   snd (run_server_shutdown g hs count now) \<le>
     now + (int (length hs) + 1) * int (gs_shutdown_timeout g) + 100 * 10 ^ 6"
  by (rule run_server_shutdown_time)

text \<open>
  C39: The configured shutdown timeout does not bound the shutdown. With every permit taken, a
  listener that has accepted a connection waits for a permit and does not see the shutdown until a
  connection ends; two such listeners and a connection in flight delay the exit for at least three
  times the timeout.
\<close>

theorem full_server_shuts_down_late:
  "(\<exists>s. server_run [Accepted 0, GotPermit 0, TaskStarts 0, HandshakeDone 0 True, Accepted 0, Accepted 1,
          TriggerShutdown] (server_start 2 1) = Some s \<and>
     sv_shutdown s \<and> sv_listeners s = [WaitingPermit, WaitingPermit] \<and> sv_in_flight s = 1 \<and>
     server_step (ShutdownSeen 0 addr) s = None \<and> server_step (ShutdownSeen 1 addr) s = None \<and>
     server_step (GotPermit 0) s = None \<and> server_step (GotPermit 1) s = None) \<and>
   3 * int (gs_shutdown_timeout (graceful_shutdown_new 30)) \<le>
     snd (run_server_shutdown (graceful_shutdown_new 30) [None, None] (\<lambda>t. 1) 0)"
proof
  show "\<exists>s. server_run [Accepted 0, GotPermit 0, TaskStarts 0, HandshakeDone 0 True, Accepted 0, Accepted 1,
          TriggerShutdown] (server_start 2 1) = Some s \<and>
     sv_shutdown s \<and> sv_listeners s = [WaitingPermit, WaitingPermit] \<and> sv_in_flight s = 1 \<and>
     server_step (ShutdownSeen 0 addr) s = None \<and> server_step (ShutdownSeen 1 addr) s = None \<and>
     server_step (GotPermit 0) s = None \<and> server_step (GotPermit 1) s = None"
    by (simp add: server_eval numeral_2_eq_2)
  let ?T = "gs_shutdown_timeout (graceful_shutdown_new 30)"
  obtain n t where d: "drain_in_flight (\<lambda>t. 1) ?T (2 * int ?T) (2 * int ?T) = (n, t)" by fastforce
  have "join_listeners ?T [None, None] 0 =
      ([Log LWarn [] ''shutdown timeout expired, aborting listener task'',
        Log LWarn [] ''shutdown timeout expired, aborting listener task''], 2 * int ?T)"
    by simp
  then show "3 * int ?T \<le> snd (run_server_shutdown (graceful_shutdown_new 30) [None, None] (\<lambda>t. 1) 0)"
    using drain_result [OF d] d by (simp add: run_server_shutdown_def del: join_listeners.simps)
qed

text \<open>
  The validation mode tells the truth about the configuration: with a server that runs to its
  end, the exit code with and without \<^verbatim>\<open>--validate\<close> is the same, and it is 0 exactly when the
  configuration loads.
\<close>

theorem validate_mode_agrees:
  "snd (snd (main_proxy toml exists rl rd (\<lambda>ld path. Ok ()) (args\<lparr>cli_validate := b\<rparr>))) =
     (if \<exists>ld. load_config toml exists rl rd args = Ok ld then 0 else 1)"
proof -
  have "load_config toml exists rl rd (args\<lparr>cli_validate := b\<rparr>) = load_config toml exists rl rd args"
    by (simp add: load_config_def)
  then show ?thesis
    by (cases "load_config toml exists rl rd args")
      (auto simp: main_proxy_def run_validate_def split: load_error.split)
qed

text \<open>
  A platform on which everything works except that port 443 is taken.
\<close>

definition example_platform :: "(socket_addr, unit, unit) platform" where
  "example_platform =
     \<lparr>pf_net = \<lparr>tcp_bind = (\<lambda>bound a. if sa_port a = 443 then Err ''Address already in use'' else Ok a),
                tcp_local_addr = (\<lambda>a. Ok a)\<rparr>,
      pf_rustls = \<lparr>rl_open = (\<lambda>p. Err ''not found''), rl_pem_certs = (\<lambda>f. []), rl_pem_private_key = (\<lambda>f. Ok None),
                   rl_refuse_versions = (\<lambda>p v. None), rl_refuse_pair = (\<lambda>c k. None)\<rparr>,
      pf_crypto = example_crypto,
      pf_tracing = \<lparr>tr_parse_level = (\<lambda>l. None), tr_info = (), tr_env_filter = (\<lambda>l. ()), tr_try_init = (\<lambda>ls. None)\<rparr>,
      pf_refuse = (\<lambda>p. None), pf_mkdir = (\<lambda>p. None), pf_read_to_string = (\<lambda>p. Err ''not found''),
      pf_getrlimit = None, pf_accepted_root = (\<lambda>c. True), pf_native_certs = \<lparr>nc_certs = [], nc_errors = []\<rparr>,
      pf_connector = \<lparr>cn_connect_timeout = None, cn_enforce_http = True\<rparr>, pf_refuse_signals = None,
      pf_now = 0, pf_notify_socket = True, pf_notify_error = None\<rparr>"

definition loopback :: "u16 \<Rightarrow> socket_addr" where
  "loopback port = \<lparr>sa_ip = V4 127 0 0 1, sa_port = port, sa_scope = 0\<rparr>"

lemma parse_loopback: "parse_socket_addr (''127.0.0.1'' @ '':'' @ show_word port) = Some (loopback port)"
proof -
  have "show_ip_addr (V4 127 0 0 1) = ''127.0.0.1''"
    by (simp add: show_quad_def show_nat_def show_radix.simps digit_char_def char_of_def bit_0)
  then show ?thesis using parse_socket_addr_v4 [of 127 0 0 1 port] by (simp add: loopback_def)
qed

text \<open>
  A start that fails may already have answered requests. The health check and the redirect
  listeners are in service as soon as they are bound, before the other ports are: with port 443
  taken the start fails, and by then plain HTTP requests on port 80 were being redirected.
\<close>

theorem failed_start_has_served_redirects:
  "\<exists>acts e. snd (run_server_start example_platform example_loaded DEFAULT_CONFIG_PATH example_store) = (acts, Inl e) \<and>
     ServeRedirect (loopback 80) 443 \<in> set acts"
proof -
  let ?sc = "make_static_with_sites [test_site] make_acme_tls"
  have http: "parse_socket_addr (''127.0.0.1:'' @ show_word (80 :: u16)) = Some (loopback 80)"
    "parse_socket_addr (''127.0.0.1:'' @ show_word (443 :: u16)) = Some (loopback 443)"
    using parse_loopback [of 80] parse_loopback [of 443] by simp_all
  have b: "\<exists>acts e. bind_listeners example_platform bound (listeners ?sc) = (acts, Inl e) \<and>
      ServeRedirect (loopback 80) 443 \<in> set acts" for bound
    using http
    by (simp add: make_static_with_sites_def bind_http_def bind_https_def start_http_redirect_listener_def Let_def
        then_stage_def example_platform_def loopback_def)
  have h: "\<exists>acts bound. start_health example_platform (health_check_port ?sc) admin = (acts, Ok bound)" for admin
    by (simp add: start_health_def start_health_check_listener_def Let_def make_static_with_sites_def
        example_platform_def split: option.split prod.split)
  have l: "\<exists>acts e. start_listeners example_platform ?sc admin = (acts, Inl e) \<and>
      ServeRedirect (loopback 80) 443 \<in> set acts" for admin
  proof -
    obtain acts bound where a: "start_health example_platform (health_check_port ?sc) admin = (acts, Ok bound)"
      using h by blast
    obtain acts' e where "bind_listeners example_platform bound (listeners ?sc) = (acts', Inl e)"
      "ServeRedirect (loopback 80) 443 \<in> set acts'" using b by blast
    then show ?thesis using a by (simp add: start_listeners_def then_stage_def)
  qed
  have i: "\<exists>s'. init (pf_tracing example_platform) (pf_refuse example_platform) (pf_mkdir example_platform)
      (logging ?sc) example_store = (s', Ok None)"
    by (simp add: init_def Let_def init_text_def make_static_with_sites_def example_platform_def default_logging_def
        default_log_format_def)
  obtain admin_logs hash where "load_admin_auth example_platform (admin_key_path ?sc) = (admin_logs, hash)"
    by fastforce
  then show ?thesis
    using i l [of "map_option (\<lambda>_. (\<lparr>ad_config_path = DEFAULT_CONFIG_PATH, ad_start_time = pf_now example_platform,
        ad_key_hash = 0\<rparr>, 0)) hash"]
    by (auto simp: run_server_start_def example_loaded_def start_services_def Let_def then_stage_def
        example_platform_def create_https_client_def split: prod.split)
qed

end
