(* ===== verification/Rust_F64.thy ===== *)
theory Rust_F64
  imports Prelude "HOL-Library.Log_Nat"
begin

text \<open>
  Arithmetic on \<^verbatim>\<open>f64\<close>. The only floating point numbers of the sources are the token counts of the
  rate limiter: they are finite, between zero and \<^verbatim>\<open>u32::MAX\<close>, or products that stay far from the
  largest and the smallest exponent. A value is the rational number it stands for, and each
  operation is the exact one followed by rounding to 53 significant bits, ties to even. The
  locale \<open>rounding\<close> lists what the rate limiter relies on; it is interpreted on \<open>fl64\<close>.
\<close>

section \<open>Rounding to 53 bits\<close>

definition rat_exp :: "rat \<Rightarrow> int" where
  "rat_exp x =
     (case quotient_of x of (n, d) \<Rightarrow>
        let e = int (floorlog 2 (nat n)) - int (floorlog 2 (nat d)) in
        if 2 powi e \<le> x then e else e - 1)"

definition round_even :: "rat \<Rightarrow> int" where
  "round_even q =
     (let f = \<lfloor>q\<rfloor>; r = q - of_int f in
      if r < 1 / 2 then f else if 1 / 2 < r then f + 1 else if even f then f else f + 1)"

definition fl64 :: "rat \<Rightarrow> rat" where
  "fl64 x =
     (if x = 0 then 0
      else (let u = 2 powi (rat_exp \<bar>x\<bar> - 52) in of_int (round_even (x / u)) * u))"

section \<open>The laws of rounding\<close>

text \<open>
  Half the distance between 1 and the next larger number: the largest relative error of one
  operation.
\<close>

definition eps :: rat where "eps = 1 / 2 ^ 53"

lemma eps_pos: "0 < eps" "eps < 1"
  by (simp_all add: eps_def)

locale rounding =
  fixes fl :: "rat \<Rightarrow> rat"
  assumes fl_mono: "0 \<le> x \<Longrightarrow> x \<le> y \<Longrightarrow> fl x \<le> fl y"
    and fl_int: "\<bar>n\<bar> \<le> 2 ^ 53 \<Longrightarrow> fl (of_int n) = of_int n"
    and fl_err: "\<bar>fl x - x\<bar> \<le> eps * \<bar>x\<bar>"
begin

lemma fl_0: "fl 0 = 0"
  using fl_int [of 0] by simp

lemma fl_1: "fl 1 = 1"
  using fl_int [of 1] by simp

lemma fl_nonneg: "0 \<le> x \<Longrightarrow> 0 \<le> fl x"
  using fl_mono [of 0 x] fl_0 by simp

lemma fl_upper: "0 \<le> x \<Longrightarrow> fl x \<le> x * (1 + eps)"
  using fl_err [of x] by (simp add: abs_le_iff algebra_simps)

lemma fl_lower: "0 \<le> x \<Longrightarrow> x * (1 - eps) \<le> fl x"
  using fl_err [of x] by (simp add: abs_le_iff algebra_simps)

lemma fl_nat: "n \<le> 2 ^ 53 \<Longrightarrow> fl (of_nat n) = of_nat n"
  using fl_int [of "int n"] by simp

lemma fl_ge_nat: "n \<le> 2 ^ 53 \<Longrightarrow> of_nat n \<le> x \<Longrightarrow> of_nat n \<le> fl x"
  using fl_mono [of "of_nat n" x] fl_nat [of n] by simp

end

section \<open>The laws hold\<close>

lemma floorlog_rat_bounds:
  assumes "0 < n"
  shows "2 powi (int (floorlog 2 n) - 1) \<le> (of_nat n :: rat)" "(of_nat n :: rat) < 2 powi int (floorlog 2 n)"
proof -
  have k: "0 < floorlog 2 n" using assms by (simp add: floorlog_def)
  have b: "2 ^ (floorlog 2 n - 1) \<le> n \<and> n < 2 ^ floorlog 2 n"
    using floorlog_bounds [of n 2] assms by simp
  have "2 powi (int (floorlog 2 n) - 1) = (2 :: rat) ^ (floorlog 2 n - 1)"
    using k by (simp add: power_int_def nat_diff_distrib')
  moreover have "(2 :: rat) ^ (floorlog 2 n - 1) \<le> of_nat n"
    using b by (metis of_nat_le_iff of_nat_numeral of_nat_power)
  ultimately show "2 powi (int (floorlog 2 n) - 1) \<le> (of_nat n :: rat)" by simp
  have "(of_nat n :: rat) < of_nat (2 ^ floorlog 2 n)" using b by (simp only: of_nat_less_iff)
  then show "(of_nat n :: rat) < 2 powi int (floorlog 2 n)" by simp
qed

lemma rat_exp_bounds:
  assumes "0 < x"
  shows "2 powi (rat_exp x) \<le> x" "x < 2 powi (rat_exp x + 1)"
proof -
  obtain n d where q: "quotient_of x = (n, d)" by fastforce
  have d: "0 < d" and x: "x = of_int n / of_int d"
    using quotient_of_denom_pos [OF q] quotient_of_div [OF q] by auto
  have n: "0 < n" using assms d x by (simp add: zero_less_divide_iff)
  define a b where "a = int (floorlog 2 (nat n))" and "b = int (floorlog 2 (nat d))"
  have N: "2 powi (a - 1) \<le> (of_int n :: rat)" "(of_int n :: rat) < 2 powi a"
    using floorlog_rat_bounds [of "nat n"] n by (simp_all add: a_def)
  have D: "2 powi (b - 1) \<le> (of_int d :: rat)" "(of_int d :: rat) < 2 powi b"
    using floorlog_rat_bounds [of "nat d"] d by (simp_all add: b_def)
  have up: "x < 2 powi (a - b + 1)"
  proof -
    have "(of_int n :: rat) < 2 powi (a - b + 1) * 2 powi (b - 1)"
      using N(2) by (simp add: power_int_add [symmetric])
    also have "\<dots> \<le> 2 powi (a - b + 1) * (of_int d :: rat)"
      using D(1) by (intro mult_left_mono) simp_all
    finally show ?thesis using d by (simp add: x divide_less_eq)
  qed
  have low: "2 powi (a - b - 1) \<le> x"
  proof -
    have "2 powi (a - b - 1) * (of_int d :: rat) \<le> 2 powi (a - b - 1) * 2 powi b"
      using D(2) by (intro mult_left_mono) simp_all
    also have "\<dots> \<le> of_int n" using N(1) by (simp add: power_int_add [symmetric])
    finally show ?thesis using d by (simp add: x le_divide_eq)
  qed
  have e: "rat_exp x = (if 2 powi (a - b) \<le> x then a - b else a - b - 1)"
    by (simp add: rat_exp_def q a_def b_def Let_def)
  show "2 powi (rat_exp x) \<le> x" "x < 2 powi (rat_exp x + 1)"
    using up low by (auto simp: e split: if_splits)
qed


lemma round_even_int [simp]: "round_even (of_int n) = n"
  by (simp add: round_even_def)

lemma round_even_err: "\<bar>of_int (round_even q) - q\<bar> \<le> 1 / 2"
proof -
  define f r where "f = \<lfloor>q\<rfloor>" and "r = q - of_int \<lfloor>q\<rfloor>"
  have q: "q = of_int f + r" "0 \<le> r" "r < 1"
    using floor_correct [of q] by (auto simp: f_def r_def)
  have "round_even q = f \<and> r \<le> 1 / 2 \<or> round_even q = f + 1 \<and> 1 / 2 \<le> r"
    by (auto simp: round_even_def Let_def f_def r_def)
  then show ?thesis using q by auto
qed

lemma round_even_floor: "\<lfloor>q\<rfloor> \<le> round_even q" "round_even q \<le> \<lfloor>q\<rfloor> + 1"
  by (simp_all add: round_even_def Let_def)

lemma round_even_mono: assumes "p \<le> q" shows "round_even p \<le> round_even q"
proof (cases "\<lfloor>p\<rfloor> = \<lfloor>q\<rfloor>")
  case True
  then show ?thesis using assms by (auto simp: round_even_def Let_def)
next
  case False
  then have "\<lfloor>p\<rfloor> + 1 \<le> \<lfloor>q\<rfloor>" using floor_mono [OF assms] by simp
  then show ?thesis using round_even_floor(2) [of p] round_even_floor(1) [of q] by linarith
qed

lemma fl64_err: "\<bar>fl64 x - x\<bar> \<le> eps * \<bar>x\<bar>"
proof (cases "x = 0")
  case False
  define e where "e = rat_exp \<bar>x\<bar>"
  define u where "u = (2 :: rat) powi (e - 52)"
  have u: "0 < u" "u = 2 * eps * 2 powi e"
    by (simp_all add: u_def eps_def power_int_diff)
  have "fl64 x - x = (of_int (round_even (x / u)) - x / u) * u"
    using False u(1) by (simp add: fl64_def u_def e_def Let_def algebra_simps)
  then have "\<bar>fl64 x - x\<bar> = \<bar>of_int (round_even (x / u)) - x / u\<bar> * u"
    using u(1) by (simp add: abs_mult)
  also have "\<dots> \<le> 1 / 2 * u" using round_even_err u(1) by (intro mult_right_mono) auto
  also have "\<dots> = eps * 2 powi e" using u(2) by simp
  also have "\<dots> \<le> eps * \<bar>x\<bar>"
    using rat_exp_bounds(1) [of "\<bar>x\<bar>"] False eps_pos by (intro mult_left_mono) (auto simp: e_def)
  finally show ?thesis .
qed (simp add: fl64_def)

lemma fl64_exact:
  assumes "x = of_int k * 2 powi (rat_exp \<bar>x\<bar> - 52)"
  shows "fl64 x = x"
proof (cases "x = 0")
  case False
  then have "x / 2 powi (rat_exp \<bar>x\<bar> - 52) = of_int k"
    using assms by (simp add: divide_eq_eq)
  then show ?thesis using False assms by (simp add: fl64_def Let_def)
qed (simp add: fl64_def)

lemma fl64_int:
  assumes "\<bar>n\<bar> \<le> 2 ^ 53" shows "fl64 (of_int n) = of_int n"
proof (cases "n = 0")
  case False
  define e where "e = rat_exp \<bar>of_int n\<bar>"
  have e: "2 powi e \<le> (of_int \<bar>n\<bar> :: rat)" "of_int \<bar>n\<bar> < (2 :: rat) powi (e + 1)"
    using rat_exp_bounds [of "\<bar>of_int n\<bar>"] False by (simp_all add: e_def)
  have "(2 :: rat) powi e \<le> 2 powi 53"
    using e(1) assms by (metis (mono_tags, lifting) of_int_le_iff of_int_numeral of_int_power
        order_trans power_int_numeral)
  then have e53: "e \<le> 53"
    using power_int_increasing [of 54 e "2 :: rat"] by (cases "e \<le> 53") simp_all
  show ?thesis
  proof (cases "e \<le> 52")
    case True
    then have "(of_int n :: rat) = of_int (n * 2 ^ nat (52 - e)) * 2 powi (e - 52)"
      by (simp add: power_int_def power_mult_distrib [symmetric])
    then show ?thesis unfolding e_def by (rule fl64_exact)
  next
    case F: False
    then have "e = 53" using e53 by simp
    then have "(of_int (2 ^ 53) :: rat) \<le> of_int \<bar>n\<bar>" using e(1) by simp
    then have "\<bar>n\<bar> = 2 ^ 53" using assms unfolding of_int_le_iff by simp
    then have "n = 2 ^ 53 \<or> n = - (2 ^ 53)" by linarith
    then have "(of_int n :: rat) = of_int (n div 2) * 2 powi (e - 52)"
      using \<open>e = 53\<close> by auto
    then show ?thesis unfolding e_def by (rule fl64_exact)
  qed
qed (simp add: fl64_def)

lemma fl64_scale:
  "0 < x \<Longrightarrow> fl64 x = of_int (round_even (x / 2 powi (rat_exp x - 52))) * 2 powi (rat_exp x - 52)"
  by (simp add: fl64_def Let_def)

lemma fl64_binade:
  assumes "0 < x"
  shows "2 powi (rat_exp x) \<le> fl64 x" "fl64 x \<le> 2 powi (rat_exp x + 1)"
proof -
  define u where "u = (2 :: rat) powi (rat_exp x - 52)"
  have u: "0 < u" "2 powi (rat_exp x) = of_int (2 ^ 52) * u" "2 powi (rat_exp x + 1) = of_int (2 ^ 53) * u"
    by (simp_all add: u_def power_int_diff power_int_add)
  have "of_int (2 ^ 52) \<le> x / u" "x / u \<le> of_int (2 ^ 53)"
    using rat_exp_bounds [OF assms] u by (simp_all add: le_divide_eq divide_le_eq)
  then have "2 ^ 52 \<le> round_even (x / u)" "round_even (x / u) \<le> 2 ^ 53"
    using round_even_mono round_even_int by metis+
  then have "of_int (2 ^ 52) * u \<le> of_int (round_even (x / u)) * u"
    "of_int (round_even (x / u)) * u \<le> of_int (2 ^ 53) * u"
    using u(1) by (simp_all only: mult_le_cancel_right of_int_le_iff) auto
  then show "2 powi (rat_exp x) \<le> fl64 x" "fl64 x \<le> 2 powi (rat_exp x + 1)"
    using fl64_scale [OF assms] u by (simp_all add: u_def [symmetric])
qed

lemma fl64_mono:
  assumes "0 \<le> x" "x \<le> y" shows "fl64 x \<le> fl64 y"
proof (cases "x = 0")
  case True
  then show ?thesis
  proof (cases "y = 0")
    case False
    then have "0 < y" using assms by simp
    then have "2 powi (rat_exp y) \<le> fl64 y" by (rule fl64_binade(1))
    moreover have "(0 :: rat) \<le> 2 powi (rat_exp y)" by simp
    ultimately have "0 \<le> fl64 y" by linarith
    then show ?thesis using True by (simp add: fl64_def [of 0])
  qed simp
next
  case False
  then have x: "0 < x" and y: "0 < y" using assms by auto
  have "(2 :: rat) powi (rat_exp x) < 2 powi (rat_exp y + 1)"
    using rat_exp_bounds(1) [OF x] rat_exp_bounds(2) [OF y] assms(2) by linarith
  then have "rat_exp x \<le> rat_exp y"
    using power_int_increasing [of "rat_exp y + 1" "rat_exp x" "2 :: rat"]
    by (cases "rat_exp x \<le> rat_exp y") simp_all
  then consider "rat_exp x = rat_exp y" | "rat_exp x + 1 \<le> rat_exp y" by linarith
  then show ?thesis
  proof cases
    case 1
    have "round_even (x / 2 powi (rat_exp y - 52)) \<le> round_even (y / 2 powi (rat_exp y - 52))"
      using assms(2) by (intro round_even_mono divide_right_mono) auto
    then show ?thesis using 1 by (simp add: fl64_scale x y mult_right_mono)
  next
    case 2
    then have "(2 :: rat) powi (rat_exp x + 1) \<le> 2 powi (rat_exp y)" by (intro power_int_increasing) auto
    then show ?thesis using fl64_binade(2) [OF x] fl64_binade(1) [OF y] by linarith
  qed
qed

interpretation f64: rounding fl64
  by unfold_locales (fact fl64_mono fl64_int fl64_err)+

end
