(* ===== verification/Rate_Limiter.thy ===== *)
theory Rate_Limiter
  imports Rust_F64 Routing Events Machines
begin

text \<open>
  The rate limiter, \<^verbatim>\<open>rate_limit/bucket.rs\<close> and \<^verbatim>\<open>rate_limit/mod.rs\<close>: token buckets with
  \<^verbatim>\<open>f64\<close> token counts, the concurrent map of buckets keyed by the normalised client address, and
  the eviction task. Each call of \<^verbatim>\<open>Instant::now\<close> is an argument. An entry of the map is locked
  for the whole of \<^verbatim>\<open>check_and_consume\<close>, so the calls for one key are a sequence.
\<close>

section \<open>Token buckets\<close>

record token_bucket =
  tokens :: rat
  last_refill :: instant
  b_rate :: rat
  b_max :: u32
  last_access :: instant

definition u32_as_f64 :: "u32 \<Rightarrow> rat" where
  "u32_as_f64 w = of_nat (unat w)"

definition token_bucket_new :: "instant \<Rightarrow> instant \<Rightarrow> rat \<Rightarrow> u32 \<Rightarrow> token_bucket" where
  "token_bucket_new now1 now2 rate mx =
     \<lparr>tokens = u32_as_f64 mx, last_refill = now1, b_rate = rate, b_max = mx, last_access = now2\<rparr>"

definition duration_since :: "instant \<Rightarrow> instant \<Rightarrow> duration" where
  "duration_since now earlier = nat (now - earlier)"

definition refill :: "instant \<Rightarrow> rat \<Rightarrow> u32 \<Rightarrow> token_bucket \<Rightarrow> token_bucket" where
  "refill now rate mx b =
     (let elapsed = fl64 (of_nat (duration_since now (last_refill b)));
          tokens_to_add = fl64 (fl64 (elapsed / 1000000000) * rate);
          tk = min (fl64 (tokens b + tokens_to_add)) (u32_as_f64 mx);
          tk' = (if mx < b_max b then min tk (u32_as_f64 mx) else tk)
      in b\<lparr>tokens := tk', last_refill := now, b_max := mx, b_rate := rate\<rparr>)"

definition try_consume ::
  "instant \<Rightarrow> instant \<Rightarrow> rat \<Rightarrow> u32 \<Rightarrow> token_bucket \<Rightarrow> token_bucket \<times> bool" where
  "try_consume now1 now2 rate mx b =
     (let b' = (refill now1 rate mx b)\<lparr>last_access := now2\<rparr> in
      if tokens b' \<ge> 1 then (b'\<lparr>tokens := fl64 (tokens b' - 1)\<rparr>, True) else (b', False))"

fun normalize_ip :: "ip_addr \<Rightarrow> ip_addr" where
  "normalize_ip (V4 a b c d) = V4 a b c d"
| "normalize_ip (V6 s0 s1 s2 s3 s4 s5 s6 s7) = V6 s0 s1 s2 s3 0 0 0 0"

section \<open>The limiter\<close>

type_synonym buckets = "ip_addr \<rightharpoonup> token_bucket"

text \<open>
  The clock readings of one call: the two of \<^verbatim>\<open>TokenBucket::new\<close>, which are taken only for a key
  that has no bucket, then the two of \<^verbatim>\<open>try_consume\<close>.
\<close>

record clock =
  at_new_refill :: instant
  at_new_access :: instant
  at_refill :: instant
  at_access :: instant

definition check_and_consume ::
  "rate_limit_config \<Rightarrow> clock \<Rightarrow> ip_addr \<Rightarrow> buckets \<Rightarrow> buckets \<times> bool" where
  "check_and_consume cfg c ip bs =
     (let normalized = normalize_ip ip;
          rate = u32_as_f64 (requests_per_second cfg);
          bst = burst cfg
      in case bs normalized of
           Some b \<Rightarrow>
             (case try_consume (at_refill c) (at_access c) rate bst b of
                (b', result) \<Rightarrow> (bs(normalized \<mapsto> b'), result))
         | None \<Rightarrow>
             (let b = token_bucket_new (at_new_refill c) (at_new_access c) rate bst in
              case try_consume (at_refill c) (at_access c) rate bst b of
                (b', result) \<Rightarrow> (bs(normalized \<mapsto> b'), result)))"

definition evict_stale :: "instant \<Rightarrow> duration \<Rightarrow> buckets \<Rightarrow> buckets" where
  "evict_stale now max_age bs =
     (let cutoff = now - int max_age in
      (\<lambda>k. case bs k of
             None \<Rightarrow> None
           | Some b \<Rightarrow> if last_access b > cutoff then Some b else None))"

definition contains_ip :: "ip_addr \<Rightarrow> buckets \<Rightarrow> bool" where
  "contains_ip ip bs = (bs (normalize_ip ip) \<noteq> None)"

datatype eviction_event = Tick instant | ShutdownChanged

text \<open>
  The eviction task as a function of the events its \<^verbatim>\<open>select!\<close> delivers: the buckets it leaves,
  what it logs, and whether it has ended.
\<close>

fun eviction_task ::
  "duration \<Rightarrow> eviction_event list \<Rightarrow> buckets \<Rightarrow> buckets \<times> log_line list \<times> bool" where
  "eviction_task max_age [] bs = (bs, [], False)"
| "eviction_task max_age (Tick now # es) bs = eviction_task max_age es (evict_stale now max_age bs)"
| "eviction_task max_age (ShutdownChanged # es) bs =
     (bs, [Log LInfo [] ''rate limiter eviction task shutting down''], True)"

section \<open>One bucket\<close>

lemma u32_as_f64_bounds: "0 \<le> u32_as_f64 w" "u32_as_f64 w < 2 ^ 32" "unat w \<le> 2 ^ 53"
proof -
  show "0 \<le> u32_as_f64 w" unfolding u32_as_f64_def by (rule of_nat_0_le_iff)
  have "(of_nat (unat w) :: rat) < of_nat (2 ^ 32)"
    using unat_bounds(3) [of w] by (simp only: of_nat_less_iff)
  then show "u32_as_f64 w < 2 ^ 32" unfolding u32_as_f64_def by simp
  show "unat w \<le> 2 ^ 53" using unat_bounds(3) [of w] by simp
qed

lemma fl64_u32 [simp]: "fl64 (u32_as_f64 w) = u32_as_f64 w"
  using f64.fl_nat [of "unat w"] u32_as_f64_bounds(3) [of w] unfolding u32_as_f64_def by blast

definition refill_amount :: "duration \<Rightarrow> rat \<Rightarrow> rat" where
  "refill_amount d rate = fl64 (fl64 (fl64 (of_nat d) / 1000000000) * rate)"

lemma tokens_refill:
  "tokens (refill now rate mx b) =
     min (fl64 (tokens b + refill_amount (duration_since now (last_refill b)) rate)) (u32_as_f64 mx)"
  by (auto simp: refill_def refill_amount_def Let_def)

lemma refill_fields [simp]:
  "last_refill (refill now rate mx b) = now" "last_access (refill now rate mx b) = last_access b"
  "b_max (refill now rate mx b) = mx" "b_rate (refill now rate mx b) = rate"
  by (simp_all add: refill_def Let_def)

lemma try_consume_fields:
  "try_consume t t' rate mx b = (b', r) \<Longrightarrow>
     last_refill b' = t \<and> last_access b' = t' \<and> b_max b' = mx \<and> b_rate b' = rate \<and>
     r = (1 \<le> tokens (refill t rate mx b)) \<and>
     tokens b' = (if r then fl64 (tokens (refill t rate mx b) - 1) else tokens (refill t rate mx b))"
  by (auto simp: try_consume_def Let_def split: if_splits)

lemma refill_amount_nonneg: "0 \<le> rate \<Longrightarrow> 0 \<le> refill_amount d rate"
  unfolding refill_amount_def by (intro f64.fl_nonneg mult_nonneg_nonneg divide_nonneg_nonneg) auto

lemma refill_amount_upper:
  assumes "0 \<le> rate"
  shows "refill_amount d rate \<le> of_nat d / 1000000000 * rate * (1 + eps) ^ 3"
proof -
  have e: "0 \<le> 1 + eps" using eps_pos by simp
  have 1: "fl64 (of_nat d) \<le> of_nat d * (1 + eps)" by (intro f64.fl_upper) simp
  have "fl64 (fl64 (of_nat d) / 1000000000) \<le> fl64 (of_nat d) / 1000000000 * (1 + eps)"
    by (intro f64.fl_upper divide_nonneg_nonneg f64.fl_nonneg) auto
  also have "\<dots> \<le> of_nat d * (1 + eps) / 1000000000 * (1 + eps)"
    using 1 e by (intro mult_right_mono divide_right_mono) auto
  finally have 2: "fl64 (fl64 (of_nat d) / 1000000000) \<le> of_nat d / 1000000000 * (1 + eps) ^ 2"
    by (simp add: power2_eq_square)
  have "refill_amount d rate \<le> fl64 (fl64 (of_nat d) / 1000000000) * rate * (1 + eps)"
    unfolding refill_amount_def using assms
    by (intro f64.fl_upper mult_nonneg_nonneg f64.fl_nonneg divide_nonneg_nonneg) auto
  also have "\<dots> \<le> of_nat d / 1000000000 * (1 + eps) ^ 2 * rate * (1 + eps)"
    using 2 e assms by (intro mult_right_mono) auto
  finally show ?thesis by (simp add: power2_eq_square power3_eq_cube mult.assoc mult.commute mult.left_commute)
qed

lemma refill_amount_lower:
  assumes "0 \<le> rate"
  shows "of_nat d / 1000000000 * rate * (1 - eps) ^ 3 \<le> refill_amount d rate"
proof -
  have e: "0 \<le> 1 - eps" using eps_pos by simp
  have 1: "of_nat d * (1 - eps) \<le> fl64 (of_nat d)" by (intro f64.fl_lower) simp
  have "of_nat d * (1 - eps) / 1000000000 * (1 - eps) \<le> fl64 (of_nat d) / 1000000000 * (1 - eps)"
    using 1 e by (intro mult_right_mono divide_right_mono) auto
  also have "\<dots> \<le> fl64 (fl64 (of_nat d) / 1000000000)"
    by (intro f64.fl_lower divide_nonneg_nonneg f64.fl_nonneg) auto
  finally have 2: "of_nat d / 1000000000 * (1 - eps) ^ 2 \<le> fl64 (fl64 (of_nat d) / 1000000000)"
    by (simp add: power2_eq_square)
  have "of_nat d / 1000000000 * (1 - eps) ^ 2 * rate * (1 - eps) \<le>
      fl64 (fl64 (of_nat d) / 1000000000) * rate * (1 - eps)"
    using 2 e assms by (intro mult_right_mono) auto
  also have "\<dots> \<le> refill_amount d rate"
    unfolding refill_amount_def using assms
    by (intro f64.fl_lower mult_nonneg_nonneg f64.fl_nonneg divide_nonneg_nonneg) auto
  finally show ?thesis by (simp add: power2_eq_square power3_eq_cube mult.assoc mult.commute mult.left_commute)
qed

text \<open>
  Bucket invariant: the token count is between zero and the burst size.
\<close>

definition bucket_ok :: "u32 \<Rightarrow> token_bucket \<Rightarrow> bool" where
  "bucket_ok mx b = (0 \<le> tokens b \<and> tokens b \<le> u32_as_f64 mx)"

lemma bucket_ok_new: "bucket_ok mx (token_bucket_new t t' rate mx)"
  by (simp add: bucket_ok_def token_bucket_new_def u32_as_f64_bounds)

lemma tokens_refill_nonneg:
  "0 \<le> tokens b \<Longrightarrow> 0 \<le> rate \<Longrightarrow> 0 \<le> tokens (refill t rate mx b)"
  using refill_amount_nonneg f64.fl_nonneg u32_as_f64_bounds(1) by (simp add: tokens_refill)

lemma tokens_refill_upper:
  assumes "0 \<le> tokens b" "0 \<le> rate"
  shows "tokens (refill t rate mx b) \<le>
    tokens b + refill_amount (duration_since t (last_refill b)) rate + eps * u32_as_f64 mx"
proof -
  define s where "s = tokens b + refill_amount (duration_since t (last_refill b)) rate"
  have s: "0 \<le> s" using assms refill_amount_nonneg by (simp add: s_def)
  have "min (fl64 s) (u32_as_f64 mx) \<le> s + eps * u32_as_f64 mx"
  proof (cases "s \<le> u32_as_f64 mx")
    case True
    have "fl64 s \<le> s + eps * s" using f64.fl_upper [OF s] by (simp add: algebra_simps)
    also have "\<dots> \<le> s + eps * u32_as_f64 mx" using True eps_pos by simp
    finally show ?thesis by simp
  next
    case False
    have "0 \<le> eps * u32_as_f64 mx" using eps_pos u32_as_f64_bounds(1) by simp
    then show ?thesis using False by (simp add: min_def)
  qed
  then show ?thesis by (simp add: tokens_refill s_def)
qed

lemma tokens_refill_le_max: "tokens (refill t rate mx b) \<le> u32_as_f64 mx"
  by (simp add: tokens_refill)

lemma fl64_sub1:
  assumes "1 \<le> x" "x \<le> u32_as_f64 mx"
  shows "0 \<le> fl64 (x - 1)" "fl64 (x - 1) \<le> u32_as_f64 mx" "fl64 (x - 1) + 1 \<le> x + eps * u32_as_f64 mx"
proof -
  show "0 \<le> fl64 (x - 1)" using assms by (intro f64.fl_nonneg) simp
  show "fl64 (x - 1) \<le> u32_as_f64 mx"
    using f64.fl_mono [of "x - 1" "u32_as_f64 mx"] assms by simp
  have "fl64 (x - 1) \<le> (x - 1) + eps * (x - 1)"
    using f64.fl_upper [of "x - 1"] assms by (simp add: algebra_simps)
  also have "\<dots> \<le> (x - 1) + eps * u32_as_f64 mx" using assms eps_pos by simp
  finally show "fl64 (x - 1) + 1 \<le> x + eps * u32_as_f64 mx" by simp
qed

lemma try_consume_step:
  assumes "try_consume t t' rate mx b = (b', r)" "0 \<le> tokens b" "0 \<le> rate"
  shows "bucket_ok mx b'"
    and "tokens b' + of_bool r \<le>
      tokens b + refill_amount (duration_since t (last_refill b)) rate + 2 * eps * u32_as_f64 mx"
proof -
  let ?x = "tokens (refill t rate mx b)"
  have f: "r = (1 \<le> ?x)" "tokens b' = (if r then fl64 (?x - 1) else ?x)"
    using try_consume_fields [OF assms(1)] by auto
  have x: "0 \<le> ?x" "?x \<le> u32_as_f64 mx" using tokens_refill_nonneg tokens_refill_le_max assms by auto
  have e: "0 \<le> eps * u32_as_f64 mx" using eps_pos u32_as_f64_bounds(1) by simp
  show "bucket_ok mx b'" using f x fl64_sub1 [of ?x mx] by (auto simp: bucket_ok_def)
  show "tokens b' + of_bool r \<le>
      tokens b + refill_amount (duration_since t (last_refill b)) rate + 2 * eps * u32_as_f64 mx"
    using f x e fl64_sub1(3) [of ?x mx] tokens_refill_upper [OF assms(2,3), of t mx] by auto
qed

section \<open>One key\<close>

definition consume_key ::
  "rate_limit_config \<Rightarrow> clock \<Rightarrow> token_bucket option \<Rightarrow> token_bucket \<times> bool" where
  "consume_key cfg c ob =
     (let rate = u32_as_f64 (requests_per_second cfg);
          b = (case ob of Some b \<Rightarrow> b
               | None \<Rightarrow> token_bucket_new (at_new_refill c) (at_new_access c) rate (burst cfg))
      in try_consume (at_refill c) (at_access c) rate (burst cfg) b)"

lemma check_and_consume_key:
  "check_and_consume cfg c ip bs =
     (case consume_key cfg c (bs (normalize_ip ip)) of
        (b, r) \<Rightarrow> (bs(normalize_ip ip \<mapsto> b), r))"
  by (simp add: check_and_consume_def consume_key_def Let_def split: option.split)

fun key_run ::
  "rate_limit_config \<Rightarrow> clock list \<Rightarrow> token_bucket option \<Rightarrow> token_bucket option \<times> bool list" where
  "key_run cfg [] ob = (ob, [])"
| "key_run cfg (c # cs) ob =
     (case consume_key cfg c ob of (b, r) \<Rightarrow>
        (case key_run cfg cs (Some b) of (ob', rs) \<Rightarrow> (ob', r # rs)))"

fun limiter_run ::
  "rate_limit_config \<Rightarrow> (ip_addr \<times> clock) list \<Rightarrow> buckets \<Rightarrow> buckets \<times> bool list" where
  "limiter_run cfg [] bs = (bs, [])"
| "limiter_run cfg ((ip, c) # qs) bs =
     (case check_and_consume cfg c ip bs of (bs1, r) \<Rightarrow>
        (case limiter_run cfg qs bs1 of (bs2, rs) \<Rightarrow> (bs2, r # rs)))"

definition for_key :: "ip_addr \<Rightarrow> (ip_addr \<times> clock) list \<Rightarrow> clock list" where
  "for_key k qs = map snd (filter (\<lambda>q. normalize_ip (fst q) = k) qs)"

definition answers_for_key :: "ip_addr \<Rightarrow> (ip_addr \<times> clock) list \<Rightarrow> bool list \<Rightarrow> bool list" where
  "answers_for_key k qs rs = map snd (filter (\<lambda>(q, r). normalize_ip (fst q) = k) (zip qs rs))"

text \<open>
  The map serves every key from its own entry alone, so that the limiter is one bucket per key.
\<close>

interpretation limiter: keyed_service
  "\<lambda>(ip, c). check_and_consume cfg c ip" "limiter_run cfg" "\<lambda>(ip, c). normalize_ip ip"
  "\<lambda>(ip, c) ob. case consume_key cfg c ob of (b, r) \<Rightarrow> (Some b, r)" "\<lambda>qs. key_run cfg (map snd qs)"
  for cfg
  by unfold_locales (auto simp: check_and_consume_key split: prod.splits)

lemma limiter_run_key:
  "limiter_run cfg qs bs = (bs', rs) \<Longrightarrow>
   key_run cfg (for_key k qs) (bs k) = (bs' k, answers_for_key k qs rs)"
  using limiter.run_key [of cfg qs bs bs' rs k] by (simp add: for_key_def answers_for_key_def split_beta)

lemma key_run_Some_upper:
  fixes cfg
  defines "M \<equiv> u32_as_f64 (burst cfg)" and "R \<equiv> u32_as_f64 (requests_per_second cfg)"
  assumes "key_run cfg cs (Some b) = (ob, rs)" "0 \<le> tokens b" "sorted (last_refill b # map at_refill cs)"
  shows "of_nat (count_list rs True) \<le> tokens b +
      of_int (last (last_refill b # map at_refill cs) - last_refill b) / 1000000000 * R * (1 + eps) ^ 3
      + of_nat (length cs) * (2 * eps * M)"
  using assms(3-5)
proof (induction cs arbitrary: b ob rs)
  case (Cons c cs)
  let ?t = "at_refill c" and ?l = "last (at_refill c # map at_refill cs)"
  obtain b1 r where b1: "try_consume ?t (at_access c) R (burst cfg) b = (b1, r)" by fastforce
  obtain ob2 rs2 where r2: "key_run cfg cs (Some b1) = (ob2, rs2)" by fastforce
  have rs: "rs = r # rs2" using Cons.prems(1) b1 r2 by (auto simp: consume_key_def R_def)
  have R: "0 \<le> R" by (simp add: R_def u32_as_f64_bounds)
  have l1: "last_refill b1 = ?t" using try_consume_fields [OF b1] by simp
  have d: "of_nat (duration_since ?t (last_refill b)) = (of_int (?t - last_refill b) :: rat)"
    using Cons.prems(3) by (simp add: duration_since_def of_nat_nat)
  have "tokens b1 + of_bool r \<le>
      tokens b + of_int (?t - last_refill b) / 1000000000 * R * (1 + eps) ^ 3 + 2 * eps * M"
    using try_consume_step(2) [OF b1 Cons.prems(2) R]
      refill_amount_upper [OF R, of "duration_since ?t (last_refill b)"] unfolding d M_def by linarith
  moreover have "of_nat (count_list rs2 True) \<le> tokens b1 +
      of_int (?l - ?t) / 1000000000 * R * (1 + eps) ^ 3 + of_nat (length cs) * (2 * eps * M)"
    using Cons.IH [OF r2] try_consume_step(1) [OF b1 Cons.prems(2) R] Cons.prems(3) l1
    by (simp add: bucket_ok_def)
  moreover have "of_int (?l - last_refill b) / 1000000000 * R * (1 + eps) ^ 3 =
      of_int (?t - last_refill b) / 1000000000 * R * (1 + eps) ^ 3 +
      of_int (?l - ?t) / 1000000000 * R * (1 + eps) ^ 3"
    by (simp add: algebra_simps diff_divide_distrib)
  moreover have "of_nat (count_list rs True) = of_bool r + (of_nat (count_list rs2 True) :: rat)"
    unfolding rs by simp
  moreover have "of_nat (length (c # cs)) * (2 * eps * M) =
      2 * eps * M + of_nat (length cs) * (2 * eps * M)" by (simp add: distrib_right)
  moreover have l: "last (last_refill b # map at_refill (c # cs)) = ?l" by simp
  ultimately show ?case unfolding l by linarith
qed auto

lemma key_run_fresh:
  "key_run cfg (c # cs) None =
     key_run cfg (c # cs) (Some (token_bucket_new (at_new_refill c) (at_new_access c)
       (u32_as_f64 (requests_per_second cfg)) (burst cfg)))"
  by (simp add: consume_key_def Let_def)

lemma tokens_refill_ge:
  assumes "of_nat n \<le> tokens b" "n \<le> unat mx" "0 \<le> rate"
  shows "of_nat n \<le> tokens (refill t rate mx b)"
proof -
  have "n \<le> 2 ^ 53" using assms(2) u32_as_f64_bounds(3) [of mx] by linarith
  moreover have "(of_nat n :: rat) \<le> of_nat (unat mx)" using assms(2) by (simp only: of_nat_le_iff)
  ultimately show ?thesis
    using assms(1) refill_amount_nonneg [OF assms(3), of "duration_since t (last_refill b)"]
    unfolding tokens_refill u32_as_f64_def by (intro min.boundedI f64.fl_ge_nat) linarith+
qed

lemma try_consume_ge:
  assumes "of_nat (Suc n) \<le> tokens b" "Suc n \<le> unat mx" "0 \<le> rate"
  shows "\<exists>b'. try_consume t t' rate mx b = (b', True) \<and> of_nat n \<le> tokens b'"
proof -
  let ?x = "tokens (refill t rate mx b)"
  have x: "of_nat (Suc n) \<le> ?x" by (rule tokens_refill_ge [OF assms])
  have "n \<le> 2 ^ 53" using assms(2) u32_as_f64_bounds(3) [of mx] by linarith
  then have "of_nat n \<le> fl64 (?x - 1)" using x by (intro f64.fl_ge_nat) simp_all
  then show ?thesis using x by (simp add: try_consume_def Let_def)
qed

lemma key_run_burst:
  "of_nat n \<le> tokens b \<Longrightarrow> n \<le> unat (burst cfg) \<Longrightarrow> length cs \<le> n \<Longrightarrow>
   snd (key_run cfg cs (Some b)) = replicate (length cs) True"
proof (induction cs arbitrary: n b)
  case (Cons c cs)
  obtain m where m: "n = Suc m" using Cons.prems(3) by (cases n) auto
  obtain b' where b': "consume_key cfg c (Some b) = (b', True)" "of_nat m \<le> tokens b'"
    using try_consume_ge [of m b "burst cfg" "u32_as_f64 (requests_per_second cfg)"] Cons.prems m
      u32_as_f64_bounds(1) by (force simp: consume_key_def Let_def)
  then show ?case using Cons.IH [of m b'] Cons.prems m
    by (cases "key_run cfg cs (Some b')") simp
qed simp


lemma refill_amount_ge_nat:
  assumes "10 ^ 9 * n + k \<le> d * r" "3 * (10 ^ 9 * n + k) \<le> k * 2 ^ 53"
  shows "of_nat n \<le> refill_amount d (of_nat r)"
proof -
  define X where "X = (of_nat (10 ^ 9 * n + k) :: rat)"
  have "X \<le> of_nat (d * r)" unfolding X_def using assms(1) by (simp only: of_nat_le_iff)
  then have 1: "X / 10 ^ 9 \<le> of_nat d / 1000000000 * of_nat r" by simp
  have "of_nat (3 * (10 ^ 9 * n + k)) \<le> (of_nat (k * 2 ^ 53) :: rat)"
    using assms(2) by (simp only: of_nat_le_iff)
  then have "3 * eps * X \<le> of_nat k" by (simp add: X_def eps_def)
  then have "10 ^ 9 * of_nat n \<le> X * (1 - 3 * eps)" by (simp add: X_def algebra_simps)
  also have "\<dots> \<le> X * (1 - eps) ^ 3"
    by (intro mult_left_mono) (simp_all add: eps_def power3_eq_cube X_def)
  finally have "of_nat n \<le> X / 10 ^ 9 * (1 - eps) ^ 3" by simp
  also have "\<dots> \<le> of_nat d / 1000000000 * of_nat r * (1 - eps) ^ 3"
    using 1 by (intro mult_right_mono) (simp_all add: eps_def)
  also have "\<dots> \<le> refill_amount d (of_nat r)" by (rule refill_amount_lower) simp
  finally show ?thesis .
qed

lemma tokens_refill_reaches:
  assumes "10 ^ 9 * n + k \<le> duration_since t (last_refill b) * unat rps"
    "3 * (10 ^ 9 * n + k) \<le> k * 2 ^ 53" "n \<le> unat mx" "0 \<le> tokens b"
  shows "of_nat n \<le> tokens (refill t (u32_as_f64 rps) mx b)"
proof -
  have m: "n \<le> 2 ^ 53" using assms(3) u32_as_f64_bounds(3) [of mx] by linarith
  have "of_nat n \<le> refill_amount (duration_since t (last_refill b)) (of_nat (unat rps))"
    using assms(1,2) by (rule refill_amount_ge_nat)
  then have "of_nat n \<le> fl64 (tokens b + refill_amount (duration_since t (last_refill b)) (u32_as_f64 rps))"
    using assms(4) m unfolding u32_as_f64_def by (intro f64.fl_ge_nat) linarith+
  moreover have "(of_nat n :: rat) \<le> of_nat (unat mx)" using assms(3) by (simp only: of_nat_le_iff)
  ultimately show ?thesis by (simp only: tokens_refill u32_as_f64_def min.bounded_iff)
qed

lemma tokens_refill_full:
  assumes "10 ^ 9 * (unat mx + 1) \<le> duration_since t (last_refill b) * unat rps" "0 \<le> tokens b"
  shows "tokens (refill t (u32_as_f64 rps) mx b) = u32_as_f64 mx"
proof -
  have "of_nat (unat mx) \<le> tokens (refill t (u32_as_f64 rps) mx b)"
    using assms unat_bounds(3) [of mx]
    by (intro tokens_refill_reaches [where k = "10 ^ 9"]) (auto simp: algebra_simps)
  then show ?thesis using tokens_refill_le_max by (metis order_antisym u32_as_f64_def)
qed

lemma tokens_refill_new:
  "0 \<le> rate \<Longrightarrow> tokens (refill t rate mx (token_bucket_new t1 t2 r mx)) = u32_as_f64 mx"
  using tokens_refill_ge [of "unat mx" "token_bucket_new t1 t2 r mx" mx rate t] tokens_refill_le_max
  by (metis order_antisym u32_as_f64_def order_refl token_bucket_new_def token_bucket.select_convs(1))

text \<open>
  What every state of the map satisfies: keys are normalised, and the tokens of a bucket are between
  zero and the burst size it was last used with.
\<close>

definition limiter_ok :: "buckets \<Rightarrow> bool" where
  "limiter_ok bs = (\<forall>k b. bs k = Some b \<longrightarrow> normalize_ip k = k \<and> bucket_ok (b_max b) b)"

lemma normalize_ip_idem [simp]: "normalize_ip (normalize_ip ip) = normalize_ip ip"
  by (cases ip) simp_all

lemma limiter_ok_check: "limiter_ok bs \<Longrightarrow> limiter_ok (fst (check_and_consume cfg c ip bs))"
proof -
  assume ok: "limiter_ok bs"
  obtain b r where b: "consume_key cfg c (bs (normalize_ip ip)) = (b, r)" by fastforce
  have "\<exists>b0. 0 \<le> tokens b0 \<and> try_consume (at_refill c) (at_access c)
      (u32_as_f64 (requests_per_second cfg)) (burst cfg) b0 = (b, r)"
    using b ok bucket_ok_new
    by (force simp: consume_key_def Let_def limiter_ok_def bucket_ok_def split: option.splits)
  then have "bucket_ok (b_max b) b"
    using try_consume_step(1) try_consume_fields u32_as_f64_bounds(1) by metis
  then show ?thesis using ok b by (auto simp: check_and_consume_key limiter_ok_def)
qed

lemma limiter_ok_evict: "limiter_ok bs \<Longrightarrow> limiter_ok (evict_stale now age bs)"
  by (auto simp: limiter_ok_def evict_stale_def Let_def split: option.splits if_splits)

lemma limiter_ok_task: "limiter_ok bs \<Longrightarrow> limiter_ok (fst (eviction_task age es bs))"
  by (induction age es bs rule: eviction_task.induct) (simp_all add: limiter_ok_evict)

lemma consume_key_idle:
  assumes "0 \<le> tokens b"
    and "unat (burst cfg) < 300 * unat (requests_per_second cfg)"
    and "300 * 10 ^ 9 \<le> duration_since (at_refill c) (last_refill b)"
  shows "map_prod tokens id (consume_key cfg c (Some b)) = map_prod tokens id (consume_key cfg c None)"
proof -
  let ?r = "u32_as_f64 (requests_per_second cfg)"
  have "10 ^ 9 * (unat (burst cfg) + 1) \<le> 300 * 10 ^ 9 * unat (requests_per_second cfg)"
    using assms(2) by simp
  also have "\<dots> \<le> duration_since (at_refill c) (last_refill b) * unat (requests_per_second cfg)"
    using assms(3) by (rule mult_le_mono1)
  finally have "tokens (refill (at_refill c) ?r (burst cfg) b) = u32_as_f64 (burst cfg)"
    using assms(1) by (intro tokens_refill_full)
  moreover have "tokens (refill (at_refill c) ?r (burst cfg)
      (token_bucket_new (at_new_refill c) (at_new_access c) ?r (burst cfg))) = u32_as_f64 (burst cfg)"
    by (intro tokens_refill_new) (simp add: u32_as_f64_bounds)
  ultimately show ?thesis by (simp add: consume_key_def try_consume_def Let_def)
qed

section \<open>Properties\<close>

definition example_limits :: rate_limit_config where
  "example_limits = \<lparr>requests_per_second = 10, burst = 2\<rparr>"

definition clock_at :: "instant \<Rightarrow> clock" where
  "clock_at t = \<lparr>at_new_refill = t, at_new_access = t, at_refill = t, at_access = t\<rparr>"

text \<open>
  C2: A client cannot exceed its limit. Over any sequence of requests to a limiter that starts
  empty, the number of admitted requests of one key is at most the burst size, plus the rate times
  the time between the first and the last of them, plus the error of floating point arithmetic:
  the factor (1 + 2^-53)^3 on the refill and 2^-52 of the burst size per request.
\<close>

theorem admitted_at_most_limit:
  assumes "limiter_run cfg qs Map.empty = (bs, rs)"
    and "for_key k qs = c # cs"
    and "sorted (at_new_refill c # map at_refill (c # cs))"
  shows "of_nat (count_list (answers_for_key k qs rs) True) \<le>
           of_nat (unat (burst cfg)) +
           of_int (at_refill (last (c # cs)) - at_new_refill c) / 10 ^ 9
             * of_nat (unat (requests_per_second cfg)) * (1 + eps) ^ 3 +
           of_nat (length (c # cs)) * (2 * eps * of_nat (unat (burst cfg)))"
proof -
  let ?b = "token_bucket_new (at_new_refill c) (at_new_access c)
       (u32_as_f64 (requests_per_second cfg)) (burst cfg)"
  have "key_run cfg (c # cs) (Some ?b) = (bs k, answers_for_key k qs rs)"
    using limiter_run_key [OF assms(1), of k] assms(2) key_run_fresh [of cfg c cs]
    by (simp only: empty_iff)
  moreover have "last_refill ?b = at_new_refill c" "tokens ?b = u32_as_f64 (burst cfg)"
    by (simp_all add: token_bucket_new_def)
  moreover have "last (at_new_refill c # map at_refill (c # cs)) = at_refill (last (c # cs))"
    by (simp add: last_map)
  ultimately show ?thesis
    using key_run_Some_upper [of cfg "c # cs" ?b "bs k" "answers_for_key k qs rs"] assms(3)
      u32_as_f64_bounds(1) [of "burst cfg"]
    unfolding u32_as_f64_def by simp
qed


definition example_requests :: "(ip_addr \<times> clock) list" where
  "example_requests =
     [(V4 192 0 2 1, clock_at 0), (V4 198 51 100 7, clock_at 5), (V4 192 0 2 1, clock_at 10)]"

lemma example_for_key:
  "for_key (V4 192 0 2 1) example_requests = [clock_at 0, clock_at 10]"
  by (simp add: for_key_def example_requests_def)

theorem admitted_at_most_limit_witness:
  "of_nat (count_list (answers_for_key (V4 192 0 2 1) example_requests
       (snd (limiter_run example_limits example_requests Map.empty))) True) \<le>
     of_nat (unat (burst example_limits)) +
     of_int (at_refill (last [clock_at 0, clock_at 10]) - at_new_refill (clock_at 0)) / 10 ^ 9
       * of_nat (unat (requests_per_second example_limits)) * (1 + eps) ^ 3 +
     of_nat (length [clock_at 0, clock_at 10]) * (2 * eps * of_nat (unat (burst example_limits)))"
  by (rule admitted_at_most_limit [OF prod.collapse [symmetric] example_for_key])
    (simp add: clock_at_def)

text \<open>
  The burst is granted: of the requests of a key without a bucket, the first ones, as many as
  the burst size, are all admitted, whatever the clock shows and whatever other clients do.
\<close>

theorem burst_is_granted:
  assumes "limiter_run cfg qs bs = (bs', rs)"
    and "bs k = None"
    and "length (for_key k qs) \<le> unat (burst cfg)"
  shows "answers_for_key k qs rs = replicate (length (for_key k qs)) True"
proof (cases "for_key k qs")
  case Nil
  then show ?thesis using limiter_run_key [OF assms(1), of k] by simp
next
  case (Cons c cs)
  let ?b = "token_bucket_new (at_new_refill c) (at_new_access c)
       (u32_as_f64 (requests_per_second cfg)) (burst cfg)"
  have "snd (key_run cfg (c # cs) (Some ?b)) = replicate (length (c # cs)) True"
    using assms(3) Cons
    by (intro key_run_burst [where n = "unat (burst cfg)"])
      (simp_all add: token_bucket_new_def u32_as_f64_def)
  then show ?thesis
    using limiter_run_key [OF assms(1), of k] assms(2) Cons key_run_fresh [of cfg c cs]
    by (metis snd_conv)
qed

theorem burst_is_granted_witness:
  "answers_for_key (V4 192 0 2 1) example_requests
       (snd (limiter_run example_limits example_requests Map.empty)) =
     replicate (length (for_key (V4 192 0 2 1) example_requests)) True"
  by (rule burst_is_granted [OF prod.collapse [symmetric]])
    (simp_all add: example_for_key example_limits_def)

text \<open>
  Clients do not interfere: the answers to the requests of one key are the answers that a
  limiter would give which sees the requests of this key alone.
\<close>

theorem clients_are_isolated:
  "answers_for_key k qs (snd (limiter_run cfg qs bs)) =
     snd (limiter_run cfg (filter (\<lambda>q. normalize_ip (fst q) = k) qs) bs)"
  using limiter.run_isolated [of cfg qs bs "fst (limiter_run cfg qs bs)" "snd (limiter_run cfg qs bs)" k]
  by (simp add: answers_for_key_def split_beta)

text \<open>
  C14: A throttled client recovers: a request that arrives more than 1/rate seconds after the
  previous one of the same key is admitted, provided the burst size is not zero. Rounding does
  not make it wait longer.
\<close>

theorem waiting_client_is_admitted:
  assumes "limiter_ok bs" and "bs (normalize_ip ip) = Some b" and "0 < unat (burst cfg)"
    and "10 ^ 9 < duration_since (at_refill c) (last_refill b) * unat (requests_per_second cfg)"
  shows "snd (check_and_consume cfg c ip bs)"
proof -
  have "of_nat 1 \<le> tokens (refill (at_refill c) (u32_as_f64 (requests_per_second cfg)) (burst cfg) b)"
    using assms by (intro tokens_refill_reaches [where k = 1]) (auto simp: limiter_ok_def bucket_ok_def)
  then show ?thesis using assms(2)
    by (simp add: check_and_consume_key consume_key_def try_consume_def Let_def)
qed

definition drained_bucket :: token_bucket where
  "drained_bucket = \<lparr>tokens = 0, last_refill = 0, b_rate = 10, b_max = 2, last_access = 0\<rparr>"

theorem waiting_client_is_admitted_witness:
  "snd (check_and_consume example_limits (clock_at 100000001) (V4 192 0 2 1)
          [V4 192 0 2 1 \<mapsto> drained_bucket])"
  by (rule waiting_client_is_admitted [where b = drained_bucket])
    (simp_all add: limiter_ok_def bucket_ok_def u32_as_f64_bounds drained_bucket_def example_limits_def
      clock_at_def duration_since_def)

text \<open>
  A configured burst size of zero blocks every request: no request of any client is admitted,
  in any state of the limiter. Validation accepts this setting.
\<close>

theorem zero_burst_blocks_everything:
  assumes "unat (burst cfg) = 0"
  shows "\<not> snd (check_and_consume cfg c ip bs)"
proof -
  have "\<not> 1 \<le> tokens (refill t r (burst cfg) b)" for t r b
    using tokens_refill_le_max [of t r "burst cfg" b] assms by (simp add: u32_as_f64_def)
  then show ?thesis by (simp add: check_and_consume_key consume_key_def try_consume_def Let_def)
qed

theorem zero_burst_blocks_everything_witness:
  "\<not> snd (check_and_consume \<lparr>requests_per_second = 10, burst = 0\<rparr> (clock_at 0) (V4 192 0 2 1) Map.empty)"
  by (rule zero_burst_blocks_everything) simp

text \<open>
  C32: Eviction does not change how a client is treated as long as the burst size is below the
  refill of the eviction age of 300 seconds: a request after an eviction round gets the answer,
  and leaves the token count, that it would without the round.
\<close>

theorem eviction_is_transparent:
  assumes "limiter_ok bs"
    and "\<And>b. bs (normalize_ip ip) = Some b \<Longrightarrow> last_refill b \<le> last_access b"
    and "now \<le> at_refill c"
    and "unat (burst cfg) < 300 * unat (requests_per_second cfg)"
  shows "snd (check_and_consume cfg c ip (evict_stale now (300 * 10 ^ 9) bs)) =
           snd (check_and_consume cfg c ip bs) \<and>
         map_option tokens (fst (check_and_consume cfg c ip (evict_stale now (300 * 10 ^ 9) bs))
           (normalize_ip ip)) =
         map_option tokens (fst (check_and_consume cfg c ip bs) (normalize_ip ip))"
proof (cases "bs (normalize_ip ip)")
  case None
  then show ?thesis by (simp add: check_and_consume_key evict_stale_def split: prod.split)
next
  case (Some b)
  show ?thesis
  proof (cases "now - 300 * 10 ^ 9 < last_access b")
    case True
    then show ?thesis using Some by (simp add: check_and_consume_key evict_stale_def split: prod.split)
  next
    case False
    have "300 * 10 ^ 9 \<le> duration_since (at_refill c) (last_refill b)"
      using False assms(2) [OF Some] assms(3) by (simp add: duration_since_def)
    moreover have "0 \<le> tokens b" using assms(1) Some by (auto simp: limiter_ok_def bucket_ok_def)
    ultimately have "map_prod tokens id (consume_key cfg c (Some b)) =
        map_prod tokens id (consume_key cfg c None)"
      using assms(4) by (intro consume_key_idle)
    then show ?thesis using Some False
      by (simp add: check_and_consume_key evict_stale_def split: prod.split)
        (metis fst_conv id_apply map_prod_simp snd_conv)
  qed
qed

theorem eviction_is_transparent_witness:
  "snd (check_and_consume example_limits (clock_at 300000000000) (V4 192 0 2 1)
         (evict_stale 300000000000 (300 * 10 ^ 9) [V4 192 0 2 1 \<mapsto> drained_bucket])) =
     snd (check_and_consume example_limits (clock_at 300000000000) (V4 192 0 2 1)
         [V4 192 0 2 1 \<mapsto> drained_bucket]) \<and>
   map_option tokens (fst (check_and_consume example_limits (clock_at 300000000000) (V4 192 0 2 1)
         (evict_stale 300000000000 (300 * 10 ^ 9) [V4 192 0 2 1 \<mapsto> drained_bucket]))
         (normalize_ip (V4 192 0 2 1))) =
     map_option tokens (fst (check_and_consume example_limits (clock_at 300000000000) (V4 192 0 2 1)
         [V4 192 0 2 1 \<mapsto> drained_bucket]) (normalize_ip (V4 192 0 2 1)))"
  by (rule eviction_is_transparent)
    (auto simp: limiter_ok_def bucket_ok_def u32_as_f64_def drained_bucket_def example_limits_def clock_at_def)

text \<open>
  Token counts stay between zero and the burst size, through requests under any sequence of
  configurations and through any number of evictions.
\<close>

theorem limiter_invariant:
  assumes "limiter_ok bs"
  shows "limiter_ok (fst (check_and_consume cfg c ip bs)) \<and>
         limiter_ok (fst (eviction_task age es bs))"
  using assms limiter_ok_check limiter_ok_task by blast

theorem limiter_invariant_witness:
  "limiter_ok (fst (check_and_consume example_limits (clock_at 0) (V4 192 0 2 1) Map.empty)) \<and>
   limiter_ok (fst (eviction_task 300 [Tick 0, ShutdownChanged] Map.empty))"
  by (rule limiter_invariant) (simp add: limiter_ok_def)

end
