(* ===== verification/Proxy_Router.thy ===== *)
theory Proxy_Router
  imports Proxy_Handler Rate_Limiter
begin

text \<open>
  The layers around the proxy handler: \<^verbatim>\<open>proxy/body_limit.rs\<close>, the middleware of
  \<^verbatim>\<open>rate_limit/mod.rs\<close>, and \<^verbatim>\<open>build_router\<close> of \<^verbatim>\<open>proxy/mod.rs\<close>, which puts the rate limiter outermost.
  A handler maps a request to the future of its log lines and response. Each layer loads the
  configuration when the request reaches it: \<open>build_router\<close> takes the three that the limiter, the body
  limit and the proxy handler see, which differ when a reload falls between them.
\<close>

type_synonym ('h, 'b) handler = "('h, 'b) request \<Rightarrow> (log_line list \<times> ('h, 'b) response) future"

section \<open>Layers\<close>

definition DEFAULT_BODY_LIMIT_BYTES :: u64 where "DEFAULT_BODY_LIMIT_BYTES = 104857600"

definition body_limit :: "dynamic_config \<Rightarrow> u64" where
  "body_limit config =
     (if limit_bytes (body config) = 0 then DEFAULT_BODY_LIMIT_BYTES else limit_bytes (body config))"

definition content_length :: "('h, 'b) http_lib \<Rightarrow> ('h, 'b) request \<Rightarrow> u64 option" where
  "content_length L req =
     Option.bind (hm_get L (rq_headers req) ''content-length'') (\<lambda>v.
     Option.bind (hv_to_str L v) parse_u64)"

definition body_limit_middleware ::
  "('h, 'b) http_lib \<Rightarrow> dynamic_config \<Rightarrow> ('h, 'b) handler \<Rightarrow> ('h, 'b) handler" where
  "body_limit_middleware L config next req =
     (let lmt = body_limit config in
      case content_length L req of
        Some len \<Rightarrow>
          if len > lmt then After 0 ([], text_reply 413 ''Payload Too Large'')
          else next (req\<lparr>rq_body := limited L (rq_body req) lmt\<rparr>)
      | None \<Rightarrow> next (req\<lparr>rq_body := limited L (rq_body req) lmt\<rparr>))"

definition rate_limit_middleware ::
  "('h, 'b) http_lib \<Rightarrow> dynamic_config \<Rightarrow> clock \<Rightarrow> ('h, 'b) handler \<Rightarrow> buckets \<Rightarrow> ('h, 'b) request \<Rightarrow>
   buckets \<times> (log_line list \<times> ('h, 'b) response) future" where
  "rate_limit_middleware L config c next bs req =
     (case map_option sa_ip (rq_connect_info req) of
        None \<Rightarrow> (bs, After 0 ([], text_reply 429 ''Too Many Requests''))
      | Some ip \<Rightarrow>
          (let host = unwrap_or (Option.bind (hm_get L (rq_headers req) ''host'') (hv_to_str L)) ''-'';
               path = u_path (rq_uri req)
           in case check_and_consume (rate_limit config) c ip bs of
                (bs', admitted) \<Rightarrow>
                  if \<not> admitted
                  then (bs', After 0 ([Log LWarn [] (''RATE_LIMIT client_ip='' @ show_ip_addr ip @
                               '' host='' @ host @ '' path='' @ path @ '' status=429'')],
                             text_reply 429 ''Too Many Requests''))
                  else (bs', next req)))"

text \<open>
  The route of the proxy: the extractor of the client address rejects a request without one.
\<close>

definition proxy_router ::
  "('h, 'b) http_lib \<Rightarrow> (bool \<Rightarrow> ('h, 'b) request \<Rightarrow> ('h, 'b) upstream_result future) \<Rightarrow>
   dynamic_config \<Rightarrow> u64 \<Rightarrow> ('h, 'b) handler" where
  "proxy_router L client config duration_ms req =
     (case rq_connect_info req of
        Some remote \<Rightarrow> proxy_handler L client config duration_ms remote req
      | None \<Rightarrow> After 0 ([], text_reply 500 ''Missing request extension''))"

definition build_router ::
  "('h, 'b) http_lib \<Rightarrow> (bool \<Rightarrow> ('h, 'b) request \<Rightarrow> ('h, 'b) upstream_result future) \<Rightarrow>
   dynamic_config \<Rightarrow> dynamic_config \<Rightarrow> dynamic_config \<Rightarrow> clock \<Rightarrow> u64 \<Rightarrow> buckets \<Rightarrow> ('h, 'b) request \<Rightarrow>
   buckets \<times> (log_line list \<times> ('h, 'b) response) future" where
  "build_router L client rate_config body_config config c duration_ms bs req =
     rate_limit_middleware L rate_config c
       (body_limit_middleware L body_config (proxy_router L client config duration_ms)) bs req"

section \<open>Lemmas\<close>

lemma build_router_no_peer:
  "rq_connect_info req = None \<Longrightarrow>
   build_router L client cr cb config c ms bs req = (bs, After 0 ([], text_reply 429 ''Too Many Requests''))"
  by (simp add: build_router_def rate_limit_middleware_def)

lemma build_router_peer:
  assumes "rq_connect_info req = Some remote"
  shows "fst (build_router L client cr cb config c ms bs req) =
      fst (check_and_consume (rate_limit cr) c (sa_ip remote) bs)"
    and "\<not> snd (check_and_consume (rate_limit cr) c (sa_ip remote) bs) \<Longrightarrow>
      \<exists>logs. snd (build_router L client cr cb config c ms bs req) =
        After 0 (logs, text_reply 429 ''Too Many Requests'')"
    and "snd (check_and_consume (rate_limit cr) c (sa_ip remote) bs) \<Longrightarrow>
      snd (build_router L client cr cb config c ms bs req) =
        body_limit_middleware L cb (proxy_router L client config ms) req"
  using assms
  by (auto simp: build_router_def rate_limit_middleware_def Let_def split: prod.splits if_splits)

lemma build_router_served:
  assumes "rq_connect_info req = Some remote"
    and "snd (check_and_consume (rate_limit cr) c (sa_ip remote) bs)"
    and "\<And>len. content_length L req = Some len \<Longrightarrow> len \<le> body_limit cb"
  shows "snd (build_router L client cr cb config c ms bs req) =
    proxy_handler L client config ms remote (req\<lparr>rq_body := limited L (rq_body req) (body_limit cb)\<rparr>)"
  using build_router_peer(3) [OF assms(1,2)] assms(1,3)
  by (auto simp: body_limit_middleware_def proxy_router_def Let_def not_less [symmetric] split: option.splits)

lemma example_admitted:
  "snd (check_and_consume (rate_limit valid_dynamic_config) (clock_at 0) ip Map.empty)"
proof -
  have "\<exists>b. consume_key \<lparr>requests_per_second = 10, burst = 20\<rparr> (clock_at 0) None = (b, True)"
    using try_consume_ge [of 19 "token_bucket_new 0 0 (u32_as_f64 10) 20" 20 "u32_as_f64 10" 0 0]
    by (auto simp: consume_key_def Let_def clock_at_def token_bucket_new_def u32_as_f64_def)
  then show ?thesis by (auto simp: check_and_consume_key valid_dynamic_config_def from_sites_def)
qed

section \<open>Properties\<close>

text \<open>
  C31: What happens to a request that arrives on a connection, in this order: over the limit of its
  client it is answered with 429; announcing more than the body limit it is answered with 413;
  otherwise it goes to the proxy handler with its body wrapped in the limit, which is the configured
  number of bytes or the default when there is none. Each step goes by the configuration in force
  when it runs, and these may differ. The first two answers are given at once and do not depend on
  the upstream; the limiter's state is the only state that changes.
\<close>

theorem router_decision:
  assumes "rq_connect_info req = Some remote"
  shows "\<exists>logs. build_router L client rate_config body_config config c ms bs req =
    (fst (check_and_consume (rate_limit rate_config) c (sa_ip remote) bs),
     if \<not> snd (check_and_consume (rate_limit rate_config) c (sa_ip remote) bs)
     then After 0 (logs, text_reply 429 ''Too Many Requests'')
     else if \<exists>len. content_length L req = Some len \<and> body_limit body_config < len
     then After 0 ([], text_reply 413 ''Payload Too Large'')
     else proxy_handler L client config ms remote
            (req\<lparr>rq_body := limited L (rq_body req) (body_limit body_config)\<rparr>))"
  using assms
  by (cases "content_length L req")
    (auto simp: build_router_def rate_limit_middleware_def body_limit_middleware_def proxy_router_def Let_def
      split: prod.splits)

theorem router_decision_witness:
  "let config = valid_dynamic_config in
   \<exists>logs. build_router example_lib example_client config config config (clock_at 0) 3 Map.empty example_request =
    (fst (check_and_consume (rate_limit config) (clock_at 0) (sa_ip example_remote) Map.empty),
     if \<not> snd (check_and_consume (rate_limit config) (clock_at 0) (sa_ip example_remote) Map.empty)
     then After 0 (logs, text_reply 429 ''Too Many Requests'')
     else if \<exists>len. content_length example_lib example_request = Some len \<and> body_limit config < len
     then After 0 ([], text_reply 413 ''Payload Too Large'')
     else proxy_handler example_lib example_client config 3 example_remote
            (example_request\<lparr>rq_body := limited example_lib (rq_body example_request) (body_limit config)\<rparr>))"
  unfolding Let_def by (rule router_decision) (simp add: example_request_def)

end
