(* ===== verification/Command_Line.thy ===== *)
theory Command_Line
  imports Config_File
begin

text \<open>
  The command line, \<^verbatim>\<open>cli.rs\<close>. The struct \<^verbatim>\<open>Cli\<close> is a declaration for the \<^verbatim>\<open>clap\<close> crate: its
  attributes are the command description \<open>cli_command\<close>, and \<^verbatim>\<open>Cli::parse_from\<close> hands this description
  and the arguments to the library and reads the fields from what it matched. The library is the
  parameter \<open>clap\<close>; the locale \<open>clap_laws\<close> has its documented behaviour on command lines that name
  known options, each once, with a value where the option takes one.
\<close>

section \<open>Descriptions and matches\<close>

datatype arg_kind = TakesValue string | Flag

record arg_spec =
  ag_long :: string
  ag_kind :: arg_kind
  ag_help :: string

record command_spec =
  cm_name :: string
  cm_version :: bool
  cm_about :: string
  cm_args :: "arg_spec list"

record matches =
  mt_value :: "string \<Rightarrow> string"
  mt_flag :: "string \<Rightarrow> bool"

text \<open>
  The library either matches or ends the process: with code 0 after printing the version or the
  help, with code 2 after printing an error.
\<close>

datatype clap_exit = DisplayVersion | DisplayHelp | UsageError string

type_synonym clap = "command_spec \<Rightarrow> string list \<Rightarrow> clap_exit + matches"

fun clap_exit_code :: "clap_exit \<Rightarrow> nat" where
  "clap_exit_code DisplayVersion = 0"
| "clap_exit_code DisplayHelp = 0"
| "clap_exit_code (UsageError m) = 2"

section \<open>The command line of the proxy\<close>

definition cli_command :: command_spec where
  "cli_command =
     \<lparr>cm_name = ''reverse-proxy'', cm_version = True, cm_about = ''Reverse proxy server'',
      cm_args =
        [\<lparr>ag_long = ''config'', ag_kind = TakesValue DEFAULT_CONFIG_PATH, ag_help = ''Path to config file''\<rparr>,
         \<lparr>ag_long = ''validate'', ag_kind = Flag, ag_help = ''Validate config and exit''\<rparr>,
         \<lparr>ag_long = ''allow-wildcard-bind'', ag_kind = Flag,
          ag_help = ''Permit 0.0.0.0 as a bind address (for container deployments)''\<rparr>]\<rparr>"

definition cli_of_matches :: "matches \<Rightarrow> cli" where
  "cli_of_matches m =
     \<lparr>cli_config = mt_value m ''config'', cli_validate = mt_flag m ''validate'',
      cli_allow_wildcard = mt_flag m ''allow-wildcard-bind''\<rparr>"

definition parse_from :: "clap \<Rightarrow> string list \<Rightarrow> clap_exit + cli" where
  "parse_from clap args = and_then (clap cli_command args) (\<lambda>m. Ok (cli_of_matches m))"

section \<open>Documented behaviour of the library\<close>

text \<open>
  An option as it is written on a command line: a flag, a value in the next argument, or a value
  after an equals sign.
\<close>

datatype opt = OptFlag string | OptValue string string | OptEquals string string

fun render_opt :: "opt \<Rightarrow> string list" where
  "render_opt (OptFlag n) = [''--'' @ n]"
| "render_opt (OptValue n v) = [''--'' @ n, v]"
| "render_opt (OptEquals n v) = [''--'' @ n @ ''='' @ v]"

fun opt_name :: "opt \<Rightarrow> string" where
  "opt_name (OptFlag n) = n"
| "opt_name (OptValue n v) = n"
| "opt_name (OptEquals n v) = n"

fun opt_value :: "opt \<Rightarrow> string option" where
  "opt_value (OptFlag n) = None"
| "opt_value (OptValue n v) = Some v"
| "opt_value (OptEquals n v) = Some v"

definition find_spec :: "command_spec \<Rightarrow> string \<Rightarrow> arg_spec option" where
  "find_spec cmd n = find (\<lambda>a. ag_long a = n) (cm_args cmd)"

definition kind_of :: "command_spec \<Rightarrow> string \<Rightarrow> arg_kind option" where
  "kind_of cmd n = map_option ag_kind (find_spec cmd n)"

fun opt_fits :: "command_spec \<Rightarrow> opt \<Rightarrow> bool" where
  "opt_fits cmd (OptFlag n) = (kind_of cmd n = Some Flag)"
| "opt_fits cmd (OptValue n v) =
     ((case kind_of cmd n of Some (TakesValue d) \<Rightarrow> True | _ \<Rightarrow> False) \<and> \<not> starts_with v ''-'')"
| "opt_fits cmd (OptEquals n v) =
     ((case kind_of cmd n of Some (TakesValue d) \<Rightarrow> True | _ \<Rightarrow> False) \<and> v \<noteq> [])"

definition usual_line :: "command_spec \<Rightarrow> opt list \<Rightarrow> bool" where
  "usual_line cmd opts =
     (list_all (\<lambda>a. CHR ''='' \<notin> set (ag_long a) \<and> ag_long a \<notin> {''version'', ''help''}) (cm_args cmd) \<and>
      list_all (opt_fits cmd) opts \<and> distinct (map opt_name opts))"

definition given :: "opt list \<Rightarrow> string \<Rightarrow> opt option" where
  "given opts n = find (\<lambda>p. opt_name p = n) opts"

locale clap_laws =
  fixes clap :: clap
  assumes matches_usual: "usual_line cmd opts \<Longrightarrow> \<exists>m. clap cmd (prog # concat (map render_opt opts)) = Ok m"
    and matched_flag: "usual_line cmd opts \<Longrightarrow> clap cmd (prog # concat (map render_opt opts)) = Ok m \<Longrightarrow>
      kind_of cmd n = Some Flag \<Longrightarrow> mt_flag m n \<longleftrightarrow> given opts n \<noteq> None"
    and matched_value: "usual_line cmd opts \<Longrightarrow> clap cmd (prog # concat (map render_opt opts)) = Ok m \<Longrightarrow>
      kind_of cmd n = Some (TakesValue d) \<Longrightarrow>
      mt_value m n = unwrap_or (Option.bind (given opts n) opt_value) d"
    and shows_version: "cm_version cmd \<Longrightarrow> clap cmd [prog, ''--version''] = Err DisplayVersion"
begin

lemma parse_usual:
  assumes "usual_line cli_command opts"
  shows "parse_from clap (prog # concat (map render_opt opts)) =
    Ok \<lparr>cli_config = unwrap_or (Option.bind (given opts ''config'') opt_value) DEFAULT_CONFIG_PATH,
        cli_validate = (given opts ''validate'' \<noteq> None),
        cli_allow_wildcard = (given opts ''allow-wildcard-bind'' \<noteq> None)\<rparr>"
proof -
  obtain m where m: "clap cli_command (prog # concat (map render_opt opts)) = Ok m"
    using matches_usual [OF assms] by blast
  have k: "kind_of cli_command ''config'' = Some (TakesValue DEFAULT_CONFIG_PATH)"
    "kind_of cli_command ''validate'' = Some Flag" "kind_of cli_command ''allow-wildcard-bind'' = Some Flag"
    by (simp_all add: kind_of_def find_spec_def cli_command_def)
  show ?thesis
    using matched_value [OF assms m k(1)] matched_flag [OF assms m k(2)] matched_flag [OF assms m k(3)] m
    by (simp add: parse_from_def cli_of_matches_def)
qed

end

section \<open>An instance\<close>

text \<open>
  A parser of such command lines, as an instance of the interface: options in any order, a repeated
  or unknown option or a missing value is an error.
\<close>

fun scan_args :: "command_spec \<Rightarrow> string list \<Rightarrow> (string \<times> string option) list option" where
  "scan_args cmd [] = Some []"
| "scan_args cmd (a # rest) =
     (if \<not> starts_with a ''--'' then None
      else case split_on CHR ''='' (drop 2 a) of
        [n] \<Rightarrow>
          (case kind_of cmd n of
             None \<Rightarrow> None
           | Some Flag \<Rightarrow> map_option (Cons (n, None)) (scan_args cmd rest)
           | Some (TakesValue d) \<Rightarrow>
               (case rest of
                  [] \<Rightarrow> None
                | v # rest' \<Rightarrow>
                    if starts_with v ''-'' then None
                    else map_option (Cons (n, Some v)) (scan_args cmd rest')))
      | n # vs \<Rightarrow>
          (case kind_of cmd n of
             Some (TakesValue d) \<Rightarrow> map_option (Cons (n, Some (join_str ''='' vs))) (scan_args cmd rest)
           | _ \<Rightarrow> None)
      | [] \<Rightarrow> None)"

definition default_of :: "command_spec \<Rightarrow> string \<Rightarrow> string" where
  "default_of cmd n = (case kind_of cmd n of Some (TakesValue d) \<Rightarrow> d | _ \<Rightarrow> [])"

definition simple_clap :: clap where
  "simple_clap cmd args =
     (case args of
        [] \<Rightarrow> Err (UsageError ''no program name'')
      | _ # rest \<Rightarrow>
          if cm_version cmd \<and> ''--version'' \<in> set rest then Err DisplayVersion
          else if ''--help'' \<in> set rest then Err DisplayHelp
          else case scan_args cmd rest of
            None \<Rightarrow> Err (UsageError ''unexpected argument'')
          | Some ps \<Rightarrow>
              if distinct (map fst ps)
              then Ok \<lparr>mt_value = (\<lambda>n. unwrap_or (Option.bind (map_of ps n) id) (default_of cmd n)),
                       mt_flag = (\<lambda>n. n \<in> fst ` set ps)\<rparr>
              else Err (UsageError ''the argument cannot be used multiple times''))"

lemma kind_of_name:
  assumes "usual_line cmd opts" "kind_of cmd n = Some k"
  shows "CHR ''='' \<notin> set n" "n \<noteq> ''version''" "n \<noteq> ''help''"
proof -
  obtain a where "find_spec cmd n = Some a" using assms(2) by (auto simp: kind_of_def)
  then have "a \<in> set (cm_args cmd)" "ag_long a = n"
    by (auto simp: find_spec_def find_Some_iff)
  then show "CHR ''='' \<notin> set n" "n \<noteq> ''version''" "n \<noteq> ''help''"
    using assms(1) by (auto simp: usual_line_def list_all_iff)
qed

lemma usual_line_Cons:
  "usual_line cmd (p # ps) \<longleftrightarrow> opt_fits cmd p \<and> opt_name p \<notin> opt_name ` set ps \<and> usual_line cmd ps"
  by (auto simp: usual_line_def)

lemma opt_fits_kind: "opt_fits cmd p \<Longrightarrow> \<exists>k. kind_of cmd (opt_name p) = Some k"
  by (cases p) (auto split: option.splits)

lemma scan_args_usual:
  "usual_line cmd opts \<Longrightarrow>
   scan_args cmd (concat (map render_opt opts)) = Some (map (\<lambda>p. (opt_name p, opt_value p)) opts)"
proof (induction opts)
  case (Cons p opts)
  obtain k where k: "kind_of cmd (opt_name p) = Some k" "opt_fits cmd p"
    using Cons.prems opt_fits_kind usual_line_Cons by blast
  have eq: "CHR ''='' \<notin> set (opt_name p)" using kind_of_name [OF Cons.prems k(1)] by blast
  have IH: "scan_args cmd (concat (map render_opt opts)) = Some (map (\<lambda>p. (opt_name p, opt_value p)) opts)"
    using Cons.IH Cons.prems usual_line_Cons by blast
  show ?case
  proof (cases p)
    case (OptEquals n v)
    have "split_on CHR ''='' (n @ CHR ''='' # v) = n # split_on CHR ''='' v" using eq OptEquals by (simp add: split_on_sep)
    moreover obtain w ws where "split_on CHR ''='' v = w # ws" by (cases "split_on CHR ''='' v") auto
    moreover have "join_str ''='' (split_on CHR ''='' v) = v" by (rule join_split)
    ultimately show ?thesis using k IH OptEquals by (auto simp: starts_with_iff split: option.splits arg_kind.splits)
  qed (use k IH eq in \<open>auto simp: split_on_no_sep starts_with_iff split: option.splits arg_kind.splits\<close>)
qed simp

lemma usual_line_special:
  assumes "usual_line cmd opts"
  shows "''--version'' \<notin> set (concat (map render_opt opts))" "''--help'' \<notin> set (concat (map render_opt opts))"
proof -
  have "''--version'' \<notin> set (render_opt p) \<and> ''--help'' \<notin> set (render_opt p)" if "p \<in> set opts" for p
  proof -
    have f: "opt_fits cmd p" using assms that by (auto simp: usual_line_def list_all_iff)
    obtain k where k: "kind_of cmd (opt_name p) = Some k" using opt_fits_kind [OF f] by blast
    have "CHR ''='' \<in> set (n @ CHR ''='' # v)" for n v by simp
    moreover have "CHR ''='' \<notin> set ''version''" "CHR ''='' \<notin> set ''help''" by simp_all
    ultimately have "''version'' \<noteq> n @ CHR ''='' # v" "''help'' \<noteq> n @ CHR ''='' # v" for n v by metis+
    then show ?thesis using kind_of_name [OF assms k] f by (cases p) (auto simp: starts_with_iff)
  qed
  then show "''--version'' \<notin> set (concat (map render_opt opts))" "''--help'' \<notin> set (concat (map render_opt opts))"
    by auto
qed

lemma given_iff: "given opts n \<noteq> None \<longleftrightarrow> n \<in> opt_name ` set opts"
  by (auto simp: given_def find_None_iff)

lemma given_insert_other: "n \<noteq> f \<Longrightarrow> given (opts @ OptFlag f # opts') n = given (opts @ opts') n"
  by (induction opts) (auto simp: given_def)

lemma map_of_given: "map_of (map (\<lambda>p. (opt_name p, opt_value p)) opts) n = map_option opt_value (given opts n)"
  by (induction opts) (auto simp: given_def)

interpretation simple: clap_laws simple_clap
proof
  fix cmd opts prog
  assume u: "usual_line cmd opts"
  let ?ps = "map (\<lambda>p. (opt_name p, opt_value p)) opts"
  have d: "distinct (map fst ?ps)" using u by (simp add: usual_line_def comp_def)
  have c: "simple_clap cmd (prog # concat (map render_opt opts)) =
      Ok \<lparr>mt_value = (\<lambda>n. unwrap_or (Option.bind (map_of ?ps n) id) (default_of cmd n)),
          mt_flag = (\<lambda>n. n \<in> fst ` set ?ps)\<rparr>"
    using scan_args_usual [OF u] usual_line_special [OF u] d by (simp add: simple_clap_def)
  then show "\<exists>m. simple_clap cmd (prog # concat (map render_opt opts)) = Ok m" by blast
  fix m n d
  assume m: "simple_clap cmd (prog # concat (map render_opt opts)) = Ok m"
  show "mt_flag m n \<longleftrightarrow> given opts n \<noteq> None" if "kind_of cmd n = Some Flag"
    using c m given_iff [of opts n] by (auto simp: image_iff)
  show "mt_value m n = unwrap_or (Option.bind (given opts n) opt_value) d" if "kind_of cmd n = Some (TakesValue d)"
    using c m that by (cases "given opts n") (auto simp: map_of_given default_of_def)
next
  show "simple_clap cmd [prog, ''--version''] = Err DisplayVersion" if "cm_version cmd" for cmd prog
    using that by (simp add: simple_clap_def)
qed

end
