(* ===== verification/Program.thy ===== *)
theory Program
  imports Startup Proxy_Router Command_Line
begin

text \<open>
  The whole program: \<^verbatim>\<open>main\<close> from its arguments (\<^verbatim>\<open>main.rs\<close>, \<^verbatim>\<open>cli.rs\<close>), and the running program as the
  shared state that its tasks work on. What happens to the running program is a list of operations in
  the order in which they take effect: signals, calls of the admin interface, requests of clients,
  and ticks of the eviction task. Signals and admin calls work on the one reload handle, each
  atomic on it because the handle's mutex serialises them; a request loads the configuration that
  the handle points to and updates the bucket of its client.
\<close>

section \<open>From the arguments to the exit code\<close>

definition program_main ::
  "clap \<Rightarrow> toml_reader \<Rightarrow> (string \<Rightarrow> bool) \<Rightarrow> u64 option \<Rightarrow> (string \<Rightarrow> io_error + string) \<Rightarrow>
   (loaded_config \<Rightarrow> string \<Rightarrow> anyhow + unit) \<Rightarrow> string list \<Rightarrow> console list \<times> log_line list \<times> nat" where
  "program_main clap toml exists getrlimit read_to_string served argv =
     (case parse_from clap argv of
        Inl e \<Rightarrow> ([], [], clap_exit_code e)
      | Inr args \<Rightarrow> main_proxy toml exists getrlimit read_to_string served args)"

section \<open>The running program\<close>

type_synonym ('h, 'b) upstream_client =
  "bool \<Rightarrow> ('h, 'b) request \<Rightarrow> ('h, 'b) upstream_result future"

datatype ('h, 'b) operation =
    SignalArrives int signal_env
  | AdminCall admin_env "('h, 'b) request"
  | ClientRequest socket_addr clock u64 "('h, 'b) request"
  | EvictionTick instant

record runtime =
  rt_world :: signal_world
  rt_hashes :: "nat \<Rightarrow> string"
  rt_buckets :: buckets

abbreviation runtime_config :: "runtime \<Rightarrow> dynamic_config" where
  "runtime_config r \<equiv> load (sw_handle (rt_world r))"

text \<open>
  The signal loop ends with the first signal that asks for a shutdown.
\<close>

definition deliver_signal :: "'l started \<Rightarrow> string \<Rightarrow> int \<Rightarrow> signal_env \<Rightarrow> runtime \<Rightarrow> runtime" where
  "deliver_signal st config_path sig en r =
     (if is_shutdown_requested (sw_shutdown (rt_world r)) then r
      else r\<lparr>rt_world := fst (handle_signal config_path (sd_reopen_handle st) sig en (rt_world r))\<rparr>)"

definition call_admin ::
  "('h, 'b) http_lib \<Rightarrow> ('h, 'b) axum \<Rightarrow> crypto \<Rightarrow> 'l started \<Rightarrow> admin_env \<Rightarrow> ('h, 'b) request \<Rightarrow> runtime \<Rightarrow> runtime" where
  "call_admin L A C st en req r =
     (case sd_admin st of
        None \<Rightarrow> r
      | Some (ad, key_hash) \<Rightarrow>
          (case admin_router L A C en ad key_hash
                  \<lparr>aw_handle = sw_handle (rt_world r), aw_hashes = rt_hashes r\<rparr> req of
             (w, logs, resp) \<Rightarrow>
               r\<lparr>rt_world := (rt_world r)\<lparr>sw_handle := aw_handle w\<rparr>, rt_hashes := aw_hashes w\<rparr>))"

text \<open>
  A request on a connection of a client: the connection adds the client's address, the router that
  all listeners share does the rest, with the configuration in force for all its layers: a reload is
  an operation before or after the request.
\<close>

definition serve_request ::
  "('h, 'b) http_lib \<Rightarrow> ('h, 'b) upstream_client \<Rightarrow> socket_addr \<Rightarrow> clock \<Rightarrow> u64 \<Rightarrow> ('h, 'b) request \<Rightarrow> runtime \<Rightarrow>
   runtime \<times> (log_line list \<times> ('h, 'b) response) future" where
  "serve_request L client remote c duration_ms req r =
     (case build_router L client (runtime_config r) (runtime_config r) (runtime_config r) c duration_ms (rt_buckets r) (connect_info_call remote req) of
        (bs, answer) \<Rightarrow> (r\<lparr>rt_buckets := bs\<rparr>, answer))"

definition operate ::
  "('h, 'b) http_lib \<Rightarrow> ('h, 'b) axum \<Rightarrow> crypto \<Rightarrow> ('h, 'b) upstream_client \<Rightarrow> 'l started \<Rightarrow> string \<Rightarrow>
   ('h, 'b) operation \<Rightarrow> runtime \<Rightarrow> runtime" where
  "operate L A C client st config_path op r =
     (case op of
        SignalArrives sig en \<Rightarrow> deliver_signal st config_path sig en r
      | AdminCall en req \<Rightarrow> call_admin L A C st en req r
      | ClientRequest remote c ms req \<Rightarrow> fst (serve_request L client remote c ms req r)
      | EvictionTick now \<Rightarrow> r\<lparr>rt_buckets := evict_stale now (from_secs 300) (rt_buckets r)\<rparr>)"

definition runtime_start :: "'l started \<Rightarrow> log_store \<Rightarrow> runtime" where
  "runtime_start st s =
     \<lparr>rt_world = \<lparr>sw_shutdown = sd_shutdown st, sw_handle = sd_handle st, sw_store = s\<rparr>,
      rt_hashes = sd_hashes st, rt_buckets = Map.empty\<rparr>"

section \<open>Lemmas\<close>

lemma started_fields:
  assumes "snd (run_server_start P ld path s) = (acts, Inr st)"
  shows "sd_handle st = reload_handle_new (ld_dynamic_config ld) (ld_static_config ld) (ld_allow_wildcard_bind ld)"
    and "sd_shutdown st = graceful_shutdown_new (shutdown_timeout_secs (ld_static_config ld))"
proof -
  obtain s' r where i: "init (pf_tracing P) (pf_refuse P) (pf_mkdir P) (logging (ld_static_config ld)) s = (s', r)"
    by fastforce
  then obtain rh where "start_services P ld path rh = (acts, Inr st)"
    using assms by (cases r) (auto simp: run_server_start_def with_context_def)
  then show "sd_handle st = reload_handle_new (ld_dynamic_config ld) (ld_static_config ld) (ld_allow_wildcard_bind ld)"
    and "sd_shutdown st = graceful_shutdown_new (shutdown_timeout_secs (ld_static_config ld))"
    by (auto simp: start_services_def Let_def then_stage_Ok_iff split: prod.splits)
qed

text \<open>
  Every operation is a guarded update of the reload handle.
\<close>

lemma deliver_signal_handle:
  "sw_handle (rt_world (deliver_signal st path sig en r)) = sw_handle (rt_world r) \<or>
   handle_consistent (sw_handle (rt_world (deliver_signal st path sig en r)))"
  using handle_signal_handle [of path "sd_reopen_handle st" sig en "rt_world r"]
    sighup.guarded [of "(se_toml en, se_exists en, se_getrlimit en, se_file en, path)" "sw_handle (rt_world r)"]
  by (auto simp: deliver_signal_def)

lemma call_admin_handle:
  "sw_handle (rt_world (call_admin L A C st en req r)) = sw_handle (rt_world r) \<or>
   handle_consistent (sw_handle (rt_world (call_admin L A C st en req r)))"
proof (cases "sd_admin st")
  case (Some p)
  obtain ad k where p: "p = (ad, k)" by fastforce
  let ?w = "\<lparr>aw_handle = sw_handle (rt_world r), aw_hashes = rt_hashes r\<rparr>"
  have "sw_handle (rt_world (call_admin L A C st en req r)) = aw_handle (fst (admin_router L A C en ad k ?w req))"
    using Some p by (simp add: call_admin_def split: prod.split)
  then show ?thesis using admin_call.guarded [of L A C ad k "(en, req)" ?w] by auto
qed (simp add: call_admin_def)

interpretation ops: guarded_update "operate L A C client st path" "\<lambda>r. sw_handle (rt_world r)" handle_consistent
  for L A C client st path
proof
  fix op r
  show "sw_handle (rt_world (operate L A C client st path op r)) = sw_handle (rt_world r) \<or>
    handle_consistent (sw_handle (rt_world (operate L A C client st path op r)))"
    using deliver_signal_handle [of st path _ _ r] call_admin_handle [of L A C st _ _ r]
    by (cases op) (simp_all add: operate_def serve_request_def split: prod.split)
qed

lemma start_consistent:
  assumes "load_config toml exists rl rd c = Ok ld" and "snd (run_server_start P ld path s) = (acts, Inr st)"
  shows "handle_consistent (sw_handle (rt_world (runtime_start st s')))"
  using start_handle_ok [OF assms(1)] started_fields(1) [OF assms(2)] by (auto simp: runtime_start_def)

lemma consistent_reachable:
  assumes "handle_consistent h" and "site \<in> set (all_sites (rh_static_config h))"
    and "to_lowercase n = to_lowercase (s_host site)" and "CHR '':'' \<notin> set p"
  shows "lookup (load h) n = Some site" "lookup (load h) (n @ '':'' @ p) = Some site"
  using assms config_ok_reachable unfolding handle_ok_def snapshot_ok_def load_def by metis+

text \<open>
  The state of the running program is well-formed when the configuration in force is a valid file's,
  the buckets are within their bounds, the log store is consistent, and the watch channel has seen
  a message exactly when a shutdown was requested.
\<close>

definition runtime_ok :: "runtime \<Rightarrow> bool" where
  "runtime_ok r =
     (handle_consistent (sw_handle (rt_world r)) \<and> limiter_ok (rt_buckets r) \<and> store_ok (sw_store (rt_world r)) \<and>
      gs_sent (sw_shutdown (rt_world r)) = of_bool (gs_shutdown_requested (sw_shutdown (rt_world r))))"

lemma operate_buckets:
  "limiter_ok (rt_buckets r) \<Longrightarrow> limiter_ok (rt_buckets (operate L A C client st path op r))"
proof (cases op)
  case (ClientRequest remote c ms req)
  assume "limiter_ok (rt_buckets r)"
  then show ?thesis
    using build_router_peer(1) [of "connect_info_call remote req" remote L client "runtime_config r"
        "runtime_config r" "runtime_config r" c ms "rt_buckets r"]
      limiter_ok_check ClientRequest
    by (simp add: operate_def serve_request_def connect_info_call_def split: prod.split) (metis fst_conv)
qed (auto simp: operate_def deliver_signal_def call_admin_def limiter_ok_evict split: option.split prod.split)

lemma operate_store:
  "store_ok (sw_store (rt_world r)) \<Longrightarrow> store_ok (sw_store (rt_world (operate L A C client st path op r)))"
  by (cases op)
    (auto simp: operate_def deliver_signal_def call_admin_def serve_request_def handle_signal_store_ok
      split: option.split prod.split)

lemma operate_shutdown:
  "gs_sent (sw_shutdown (rt_world r)) = of_bool (gs_shutdown_requested (sw_shutdown (rt_world r))) \<Longrightarrow>
   (let g = sw_shutdown (rt_world (operate L A C client st path op r)) in gs_sent g = of_bool (gs_shutdown_requested g))"
  by (cases op)
    (auto simp: operate_def deliver_signal_def call_admin_def serve_request_def handle_signal_shutdown
      trigger_shutdown_def is_shutdown_requested_def Let_def split: option.split prod.split)

lemma operate_ok: "runtime_ok r \<Longrightarrow> runtime_ok (operate L A C client st path op r)"
  using ops.good_update [of r L A C client st path op] operate_buckets [of r L A C client st path op]
    operate_store [of r L A C client st path op] operate_shutdown [of r L A C client st path op]
  by (simp add: runtime_ok_def Let_def)

lemma fold_operate_ok: "runtime_ok r \<Longrightarrow> runtime_ok (fold (operate L A C client st path) ops r)"
  by (induction ops arbitrary: r) (simp_all add: operate_ok)

lemma runtime_start_ok:
  assumes "load_config toml exists rl rd c = Ok ld" and "run_server_start P ld path s = (s', acts, Inr st)"
    and "store_ok s"
  shows "runtime_ok (runtime_start st s')"
proof -
  have st: "snd (run_server_start P ld path s) = (acts, Inr st)" using assms(2) by simp
  obtain s1 r where i: "init (pf_tracing P) (pf_refuse P) (pf_mkdir P) (logging (ld_static_config ld)) s = (s1, r)"
    by fastforce
  then have "s' = s1" using assms(2) by (cases r) (auto simp: run_server_start_def)
  then have "store_ok s'"
    using init_ok [OF assms(3), of "pf_tracing P" "pf_refuse P" "pf_mkdir P" "logging (ld_static_config ld)"] i by simp
  then show ?thesis
    using start_consistent [OF assms(1) st, of s'] started_fields(2) [OF st]
    by (simp add: runtime_ok_def limiter_ok_def graceful_shutdown_new_def runtime_start_def)
qed

end
