(* ===== verification/Tests_Validation.thy ===== *)
theory Tests_Validation
  imports Validation
begin

text \<open>
  The unit tests of \<^verbatim>\<open>config/validation.rs\<close>, run on the model. A test is the conjunction of its
  assertions; the temporary directory of a test is \<^verbatim>\<open>/tmp/d\<close>, and the files it has written there are
  the ones that exist.
\<close>

section \<open>Vocabulary of the tests\<close>

definition no_files :: "string \<Rightarrow> bool" where
  "no_files p = False"

definition files :: "string list \<Rightarrow> string \<Rightarrow> bool" where
  "files ps p = List.member ps p"

definition passes :: "'e list + unit \<Rightarrow> bool" where
  "passes r = (case r of Inr _ \<Rightarrow> True | Inl _ \<Rightarrow> False)"

definition fails_with :: "('e \<Rightarrow> bool) \<Rightarrow> 'e list + unit \<Rightarrow> bool" where
  "fails_with P r = (case r of Inl es \<Rightarrow> list_ex P es | Inr _ \<Rightarrow> False)"

definition on_first :: "(listener_config \<Rightarrow> listener_config) \<Rightarrow> static_config \<Rightarrow> static_config" where
  "on_first f sc = sc\<lparr>listeners := (listeners sc)[0 := f (listeners sc ! 0)]\<rparr>"

section \<open>The tests\<close>

definition rule1_no_listeners :: bool where
  "rule1_no_listeners \<longleftrightarrow>
     fails_with (\<lambda>e. case e of NoListeners \<Rightarrow> True | _ \<Rightarrow> False)
       (validate no_files
          (valid_static_config\<lparr>listeners := []\<rparr>)
          valid_dynamic_config False)"

definition rule2_wildcard_bind_rejected :: bool where
  "rule2_wildcard_bind_rejected \<longleftrightarrow>
     fails_with (\<lambda>e. case e of WildcardBindNotAllowed _ \<Rightarrow> True | _ \<Rightarrow> False)
       (validate no_files
          (on_first (\<lambda>l. l\<lparr>bind_addr := ''0.0.0.0'', l_tls := make_acme_tls\<rparr>) valid_static_config)
          valid_dynamic_config False)"

definition rule2_wildcard_bind_allowed_by_config_flag :: bool where
  "rule2_wildcard_bind_allowed_by_config_flag \<longleftrightarrow>
     passes (validate no_files
          ((on_first (\<lambda>l. l\<lparr>bind_addr := ''0.0.0.0'', l_tls := make_acme_tls\<rparr>) valid_static_config)\<lparr>allow_wildcard_bind := True\<rparr>)
          valid_dynamic_config False)"

definition rule2_wildcard_bind_allowed_by_cli_flag :: bool where
  "rule2_wildcard_bind_allowed_by_cli_flag \<longleftrightarrow>
     passes (validate no_files
          (on_first (\<lambda>l. l\<lparr>bind_addr := ''0.0.0.0'', l_tls := make_acme_tls\<rparr>) valid_static_config)
          valid_dynamic_config True)"

definition rule2_wildcard_bind_or_logic :: bool where
  "rule2_wildcard_bind_or_logic \<longleftrightarrow>
     passes (validate no_files
          ((on_first (\<lambda>l. l\<lparr>bind_addr := ''0.0.0.0'', l_tls := make_acme_tls\<rparr>) valid_static_config)\<lparr>allow_wildcard_bind := False\<rparr>)
          valid_dynamic_config True)"

definition rule3_duplicate_https_bind :: bool where
  "rule3_duplicate_https_bind \<longleftrightarrow>
     fails_with (\<lambda>e. case e of DuplicateHttpsBind _ _ \<Rightarrow> True | _ \<Rightarrow> False)
       (validate no_files
          (valid_static_config\<lparr>listeners :=
             [\<lparr>bind_addr = ''127.0.0.1'', http_port = 80, https_port = 443, l_tls = make_acme_tls, l_sites = []\<rparr>,
              \<lparr>bind_addr = ''127.0.0.1'', http_port = 8080, https_port = 443, l_tls = make_acme_tls, l_sites = []\<rparr>]\<rparr>)
          valid_dynamic_config False)"

definition rule4_acme_domains_empty :: bool where
  "rule4_acme_domains_empty \<longleftrightarrow>
     fails_with (\<lambda>e. case e of AcmeDomainsEmpty _ \<Rightarrow> True | _ \<Rightarrow> False)
       (validate no_files
          (on_first (\<lambda>l. l\<lparr>l_tls := \<lparr>tls_mode = ''acme'', acme_domains = [], acme_cache_dir = ''/tmp/cache'',
             acme_directory = ''production'', acme_contact = ''mailto:admin@example.com'', cert_path = '''', key_path = ''''\<rparr>\<rparr>) valid_static_config)
          valid_dynamic_config False)"

definition rule5_manual_cert_missing :: bool where
  "rule5_manual_cert_missing \<longleftrightarrow>
     fails_with (\<lambda>e. case e of ManualCertMissing _ \<Rightarrow> True | _ \<Rightarrow> False)
       (validate no_files
          (on_first (\<lambda>l. l\<lparr>l_tls := \<lparr>tls_mode = ''manual'', acme_domains = [], acme_cache_dir = '''',
             acme_directory = ''production'', acme_contact = '''', cert_path = '''', key_path = ''''\<rparr>\<rparr>) valid_static_config)
          valid_dynamic_config False)"

definition rule5_cert_path_not_readable :: bool where
  "rule5_cert_path_not_readable \<longleftrightarrow>
     (let result = validate no_files
          (on_first (\<lambda>l. l\<lparr>l_tls := make_manual_tls ''/nonexistent/cert.pem'' ''/nonexistent/key.pem''\<rparr>) valid_static_config)
          valid_dynamic_config False
      in fails_with (\<lambda>e. case e of CertPathNotReadable _ _ _ \<Rightarrow> True | _ \<Rightarrow> False) result \<and>
         fails_with (\<lambda>e. case e of KeyPathNotReadable _ _ _ \<Rightarrow> True | _ \<Rightarrow> False) result)"

definition rule5_cert_path_readable :: bool where
  "rule5_cert_path_readable \<longleftrightarrow>
     passes (validate (files [''/tmp/d/cert.pem'', ''/tmp/d/key.pem''])
          (on_first (\<lambda>l. l\<lparr>l_tls := make_manual_tls ''/tmp/d/cert.pem'' ''/tmp/d/key.pem''\<rparr>) valid_static_config)
          valid_dynamic_config False)"

definition rule6_site_host_empty :: bool where
  "rule6_site_host_empty \<longleftrightarrow>
     fails_with (\<lambda>e. case e of SiteHostEmpty _ \<Rightarrow> True | _ \<Rightarrow> False)
       (validate no_files
          (on_first (\<lambda>l. l\<lparr>l_tls := make_acme_tls, l_sites := [test_site\<lparr>s_host := '''', s_upstream := ''127.0.0.1:8080''\<rparr>]\<rparr>) valid_static_config)
          valid_dynamic_config False)"

definition rule6_site_upstream_empty :: bool where
  "rule6_site_upstream_empty \<longleftrightarrow>
     fails_with (\<lambda>e. case e of SiteUpstreamEmpty _ \<Rightarrow> True | _ \<Rightarrow> False)
       (validate no_files
          (on_first (\<lambda>l. l\<lparr>l_tls := make_acme_tls, l_sites := [test_site\<lparr>s_host := ''test.local'', s_upstream := ''''\<rparr>]\<rparr>) valid_static_config)
          valid_dynamic_config False)"

definition rule7_duplicate_site_host :: bool where
  "rule7_duplicate_site_host \<longleftrightarrow>
     fails_with (\<lambda>e. case e of DuplicateSiteHost _ \<Rightarrow> True | _ \<Rightarrow> False)
       (validate no_files
          (valid_static_config\<lparr>listeners :=
             [\<lparr>bind_addr = ''127.0.0.1'', http_port = 80, https_port = 443, l_tls = make_acme_tls, l_sites = [test_site]\<rparr>,
              \<lparr>bind_addr = ''127.0.0.2'', http_port = 80, https_port = 443, l_tls = make_acme_tls, l_sites = [test_site\<lparr>s_upstream := ''127.0.0.1:9090''\<rparr>]\<rparr>]\<rparr>)
          valid_dynamic_config False)"

definition rule8_requests_per_second_zero :: bool where
  "rule8_requests_per_second_zero \<longleftrightarrow>
     fails_with (\<lambda>e. case e of RequestsPerSecondZero _ \<Rightarrow> True | _ \<Rightarrow> False)
       (validate no_files
          (valid_static_config)
          
          (valid_dynamic_config\<lparr>rate_limit := (rate_limit valid_dynamic_config)\<lparr>requests_per_second := 0\<rparr>\<rparr>) False)"

definition rule9_body_limit_bytes_zero :: bool where
  "rule9_body_limit_bytes_zero \<longleftrightarrow>
     fails_with (\<lambda>e. case e of BodyLimitBytesZero _ \<Rightarrow> True | _ \<Rightarrow> False)
       (validate no_files
          (valid_static_config)
          
          (valid_dynamic_config\<lparr>body := (body valid_dynamic_config)\<lparr>limit_bytes := 0\<rparr>\<rparr>) False)"

definition rule10_duplicate_http_bind :: bool where
  "rule10_duplicate_http_bind \<longleftrightarrow>
     fails_with (\<lambda>e. case e of DuplicateHttpBind _ _ \<Rightarrow> True | _ \<Rightarrow> False)
       (validate no_files
          (valid_static_config\<lparr>listeners :=
             [\<lparr>bind_addr = ''127.0.0.1'', http_port = 80, https_port = 443, l_tls = make_acme_tls, l_sites = []\<rparr>,
              \<lparr>bind_addr = ''127.0.0.1'', http_port = 80, https_port = 8443, l_tls = make_acme_tls, l_sites = []\<rparr>]\<rparr>)
          valid_dynamic_config False)"

definition rule11_http_and_https_port_same :: bool where
  "rule11_http_and_https_port_same \<longleftrightarrow>
     fails_with (\<lambda>e. case e of HttpsAndHttpPortSame _ _ _ \<Rightarrow> True | _ \<Rightarrow> False)
       (validate no_files
          (on_first (\<lambda>l. l\<lparr>http_port := 443, https_port := 443, l_tls := make_acme_tls\<rparr>) valid_static_config)
          valid_dynamic_config False)"

definition rule12_https_port_zero :: bool where
  "rule12_https_port_zero \<longleftrightarrow>
     fails_with (\<lambda>e. case e of HttpsPortInvalid _ _ \<Rightarrow> True | _ \<Rightarrow> False)
       (validate no_files
          (on_first (\<lambda>l. l\<lparr>https_port := 0, l_tls := make_acme_tls\<rparr>) valid_static_config)
          valid_dynamic_config False)"

definition rule13_http_port_disabled_valid :: bool where
  "rule13_http_port_disabled_valid \<longleftrightarrow>
     passes (validate no_files
          (on_first (\<lambda>l. l\<lparr>http_port := 0, l_tls := make_acme_tls\<rparr>) valid_static_config)
          valid_dynamic_config False)"

definition rule14_health_check_port_conflict :: bool where
  "rule14_health_check_port_conflict \<longleftrightarrow>
     fails_with (\<lambda>e. case e of HealthCheckPortConflict _ _ _ \<Rightarrow> True | _ \<Rightarrow> False)
       (validate no_files
          (on_first (\<lambda>l. l\<lparr>l_tls := make_acme_tls\<rparr>) (valid_static_config\<lparr>health_check_port := 443\<rparr>))
          valid_dynamic_config False)"

definition rule14_health_check_port_conflict_with_http :: bool where
  "rule14_health_check_port_conflict_with_http \<longleftrightarrow>
     fails_with (\<lambda>e. case e of HealthCheckPortConflict _ _ _ \<Rightarrow> True | _ \<Rightarrow> False)
       (validate no_files
          (on_first (\<lambda>l. l\<lparr>l_tls := make_acme_tls\<rparr>) (valid_static_config\<lparr>health_check_port := 80\<rparr>))
          valid_dynamic_config False)"

definition rule15_site_host_contains_port :: bool where
  "rule15_site_host_contains_port \<longleftrightarrow>
     fails_with (\<lambda>e. case e of SiteHostContainsPort _ \<Rightarrow> True | _ \<Rightarrow> False)
       (validate no_files
          (on_first (\<lambda>l. l\<lparr>l_tls := make_acme_tls, l_sites := [test_site\<lparr>s_host := ''test.local:443'', s_upstream := ''127.0.0.1:8080''\<rparr>]\<rparr>) valid_static_config)
          valid_dynamic_config False)"

definition rule16_site_host_is_ip :: bool where
  "rule16_site_host_is_ip \<longleftrightarrow>
     fails_with (\<lambda>e. case e of SiteHostInvalid _ \<Rightarrow> True | _ \<Rightarrow> False)
       (validate no_files
          (on_first (\<lambda>l. l\<lparr>l_tls := make_acme_tls, l_sites := [test_site\<lparr>s_host := ''127.0.0.1'', s_upstream := ''127.0.0.1:8080''\<rparr>]\<rparr>) valid_static_config)
          valid_dynamic_config False)"

definition rule16_hostname_normalized_lowercase :: bool where
  "rule16_hostname_normalized_lowercase \<longleftrightarrow>
     fails_with (\<lambda>e. case e of DuplicateSiteHost _ \<Rightarrow> True | _ \<Rightarrow> False)
       (validate no_files
          (valid_static_config\<lparr>listeners :=
             [\<lparr>bind_addr = ''127.0.0.1'', http_port = 80, https_port = 443, l_tls = make_acme_tls, l_sites = [test_site\<lparr>s_host := ''Test.Local''\<rparr>]\<rparr>,
              \<lparr>bind_addr = ''127.0.0.2'', http_port = 80, https_port = 443, l_tls = make_acme_tls, l_sites = [test_site\<lparr>s_upstream := ''127.0.0.1:9090''\<rparr>]\<rparr>]\<rparr>)
          valid_dynamic_config False)"

definition rule17_upstream_missing_port :: bool where
  "rule17_upstream_missing_port \<longleftrightarrow>
     fails_with (\<lambda>e. case e of UpstreamInvalid _ _ \<Rightarrow> True | _ \<Rightarrow> False)
       (validate no_files
          (on_first (\<lambda>l. l\<lparr>l_tls := make_acme_tls, l_sites := [test_site\<lparr>s_host := ''test.local'', s_upstream := ''gitea''\<rparr>]\<rparr>) valid_static_config)
          valid_dynamic_config False)"

definition rule17_upstream_with_scheme :: bool where
  "rule17_upstream_with_scheme \<longleftrightarrow>
     fails_with (\<lambda>e. case e of UpstreamInvalid _ _ \<Rightarrow> True | _ \<Rightarrow> False)
       (validate no_files
          (on_first (\<lambda>l. l\<lparr>l_tls := make_acme_tls, l_sites := [test_site\<lparr>s_host := ''test.local'', s_upstream := ''http://gitea:3000''\<rparr>]\<rparr>) valid_static_config)
          valid_dynamic_config False)"

definition rule17_upstream_port_zero :: bool where
  "rule17_upstream_port_zero \<longleftrightarrow>
     fails_with (\<lambda>e. case e of UpstreamInvalid _ _ \<Rightarrow> True | _ \<Rightarrow> False)
       (validate no_files
          (on_first (\<lambda>l. l\<lparr>l_tls := make_acme_tls, l_sites := [test_site\<lparr>s_host := ''test.local'', s_upstream := ''gitea:0''\<rparr>]\<rparr>) valid_static_config)
          valid_dynamic_config False)"

definition rule18_upstream_scheme_invalid :: bool where
  "rule18_upstream_scheme_invalid \<longleftrightarrow>
     fails_with (\<lambda>e. case e of UpstreamSchemeInvalid _ _ \<Rightarrow> True | _ \<Rightarrow> False)
       (validate no_files
          (on_first (\<lambda>l. l\<lparr>l_tls := make_acme_tls, l_sites := [test_site\<lparr>s_host := ''test.local'', s_upstream := ''127.0.0.1:8080'', s_upstream_scheme := ''ftp''\<rparr>]\<rparr>) valid_static_config)
          valid_dynamic_config False)"

definition rule19_acme_contact_empty :: bool where
  "rule19_acme_contact_empty \<longleftrightarrow>
     fails_with (\<lambda>e. case e of AcmeContactInvalid _ \<Rightarrow> True | _ \<Rightarrow> False)
       (validate no_files
          (on_first (\<lambda>l. l\<lparr>l_tls := \<lparr>tls_mode = ''acme'', acme_domains = [''test.local''], acme_cache_dir = ''/tmp/cache'',
             acme_directory = ''production'', acme_contact = '''', cert_path = '''', key_path = ''''\<rparr>, l_sites := [test_site]\<rparr>) valid_static_config)
          valid_dynamic_config False)"

definition rule19_acme_contact_not_mailto :: bool where
  "rule19_acme_contact_not_mailto \<longleftrightarrow>
     fails_with (\<lambda>e. case e of AcmeContactInvalid _ \<Rightarrow> True | _ \<Rightarrow> False)
       (validate no_files
          (on_first (\<lambda>l. l\<lparr>l_tls := \<lparr>tls_mode = ''acme'', acme_domains = [''test.local''], acme_cache_dir = ''/tmp/cache'',
             acme_directory = ''production'', acme_contact = ''admin@example.com'', cert_path = '''', key_path = ''''\<rparr>, l_sites := [test_site]\<rparr>) valid_static_config)
          valid_dynamic_config False)"

definition rule19_acme_contact_valid_mailto :: bool where
  "rule19_acme_contact_valid_mailto \<longleftrightarrow>
     passes (validate no_files
          (on_first (\<lambda>l. l\<lparr>l_tls := \<lparr>tls_mode = ''acme'', acme_domains = [''test.local''], acme_cache_dir = ''/tmp/cache'',
             acme_directory = ''production'', acme_contact = ''mailto:admin@example.com'', cert_path = '''', key_path = ''''\<rparr>, l_sites := [test_site]\<rparr>) valid_static_config)
          valid_dynamic_config False)"

definition rule19_acme_contact_mailto_empty_email :: bool where
  "rule19_acme_contact_mailto_empty_email \<longleftrightarrow>
     fails_with (\<lambda>e. case e of AcmeContactInvalid _ \<Rightarrow> True | _ \<Rightarrow> False)
       (validate no_files
          (on_first (\<lambda>l. l\<lparr>l_tls := \<lparr>tls_mode = ''acme'', acme_domains = [''test.local''], acme_cache_dir = ''/tmp/cache'',
             acme_directory = ''production'', acme_contact = ''mailto:'', cert_path = '''', key_path = ''''\<rparr>, l_sites := [test_site]\<rparr>) valid_static_config)
          valid_dynamic_config False)"

definition rule19_acme_contact_mailto_no_at_sign :: bool where
  "rule19_acme_contact_mailto_no_at_sign \<longleftrightarrow>
     fails_with (\<lambda>e. case e of AcmeContactInvalid _ \<Rightarrow> True | _ \<Rightarrow> False)
       (validate no_files
          (on_first (\<lambda>l. l\<lparr>l_tls := \<lparr>tls_mode = ''acme'', acme_domains = [''test.local''], acme_cache_dir = ''/tmp/cache'',
             acme_directory = ''production'', acme_contact = ''mailto:user'', cert_path = '''', key_path = ''''\<rparr>, l_sites := [test_site]\<rparr>) valid_static_config)
          valid_dynamic_config False)"

definition valid_config_passes :: bool where
  "valid_config_passes \<longleftrightarrow>
     passes (validate (files [''/tmp/d/cert.pem'', ''/tmp/d/key.pem''])
          (make_static_with_sites [test_site] (make_manual_tls ''/tmp/d/cert.pem'' ''/tmp/d/key.pem''))
          valid_dynamic_config False)"

definition collects_all_errors :: bool where
  "collects_all_errors \<longleftrightarrow>
     (case validate no_files (valid_static_config\<lparr>listeners := []\<rparr>)
             (valid_dynamic_config\<lparr>rate_limit := (rate_limit valid_dynamic_config)\<lparr>requests_per_second := 0\<rparr>,
                body := (body valid_dynamic_config)\<lparr>limit_bytes := 0\<rparr>\<rparr>) False of
        Inl errors \<Rightarrow> length errors \<ge> 3 \<and> NoListeners \<in> set errors \<and>
          list_ex (\<lambda>e. case e of RequestsPerSecondZero _ \<Rightarrow> True | _ \<Rightarrow> False) errors \<and>
          list_ex (\<lambda>e. case e of BodyLimitBytesZero _ \<Rightarrow> True | _ \<Rightarrow> False) errors
      | Inr _ \<Rightarrow> False)"

definition rule5_only_cert_missing :: bool where
  "rule5_only_cert_missing \<longleftrightarrow>
     (let result = validate (files [''/tmp/d/key.pem''])
          (on_first (\<lambda>l. l\<lparr>l_tls := make_manual_tls ''/nonexistent/cert.pem'' ''/tmp/d/key.pem''\<rparr>) valid_static_config)
          valid_dynamic_config False
      in fails_with (\<lambda>e. case e of CertPathNotReadable _ _ _ \<Rightarrow> True | _ \<Rightarrow> False) result \<and>
         \<not> fails_with (\<lambda>e. case e of KeyPathNotReadable _ _ _ \<Rightarrow> True | _ \<Rightarrow> False) result \<and> \<not> passes result)"

definition rule5_only_key_missing :: bool where
  "rule5_only_key_missing \<longleftrightarrow>
     (let result = validate (files [''/tmp/d/cert.pem''])
          (on_first (\<lambda>l. l\<lparr>l_tls := make_manual_tls ''/tmp/d/cert.pem'' ''/nonexistent/key.pem''\<rparr>) valid_static_config)
          valid_dynamic_config False
      in \<not> fails_with (\<lambda>e. case e of CertPathNotReadable _ _ _ \<Rightarrow> True | _ \<Rightarrow> False) result \<and>
         fails_with (\<lambda>e. case e of KeyPathNotReadable _ _ _ \<Rightarrow> True | _ \<Rightarrow> False) result \<and> \<not> passes result)"

definition rule17_upstream_valid_hostname :: bool where
  "rule17_upstream_valid_hostname \<longleftrightarrow>
     is_valid_upstream ''gitea:3000''"

definition rule17_upstream_valid_ipv4 :: bool where
  "rule17_upstream_valid_ipv4 \<longleftrightarrow>
     is_valid_upstream ''127.0.0.1:3000''"

definition rule17_upstream_valid_ipv6_bracket :: bool where
  "rule17_upstream_valid_ipv6_bracket \<longleftrightarrow>
     is_valid_upstream ''[::1]:3000''"

definition rule17_upstream_valid_ipv6_bracket_full :: bool where
  "rule17_upstream_valid_ipv6_bracket_full \<longleftrightarrow>
     is_valid_upstream ''[2001:db8::1]:8080''"

definition rule17_upstream_invalid_hostname_chars :: bool where
  "rule17_upstream_invalid_hostname_chars \<longleftrightarrow>
     (\<not> is_valid_upstream ''!!!bad!!!:3000'')"

definition rule17_upstream_invalid_special_chars :: bool where
  "rule17_upstream_invalid_special_chars \<longleftrightarrow>
     (\<not> is_valid_upstream ''@#$%:8080'')"

definition rule17_upstream_empty_host :: bool where
  "rule17_upstream_empty_host \<longleftrightarrow>
     (\<not> is_valid_upstream '':3000'')"

definition rule17_upstream_invalid_ipv6_bracket :: bool where
  "rule17_upstream_invalid_ipv6_bracket \<longleftrightarrow>
     (\<not> is_valid_upstream ''[notipv6]:3000'')"

definition rule17_upstream_hostname_with_dots :: bool where
  "rule17_upstream_hostname_with_dots \<longleftrightarrow>
     is_valid_upstream ''app.example.com:8080''"

definition admin_key_path_empty_is_valid :: bool where
  "admin_key_path_empty_is_valid \<longleftrightarrow>
     passes (validate (files [''/tmp/d/cert.pem'', ''/tmp/d/key.pem''])
          ((make_static_with_sites [test_site] (make_manual_tls ''/tmp/d/cert.pem'' ''/tmp/d/key.pem''))\<lparr>admin_key_path := ''''\<rparr>)
          valid_dynamic_config False)"

definition admin_key_path_absolute_is_valid :: bool where
  "admin_key_path_absolute_is_valid \<longleftrightarrow>
     passes (validate (files [''/tmp/d/cert.pem'', ''/tmp/d/key.pem''])
          ((make_static_with_sites [test_site] (make_manual_tls ''/tmp/d/cert.pem'' ''/tmp/d/key.pem''))\<lparr>admin_key_path := ''/etc/reverse-proxy/admin-key''\<rparr>)
          valid_dynamic_config False)"

definition admin_key_path_relative_is_invalid :: bool where
  "admin_key_path_relative_is_invalid \<longleftrightarrow>
     fails_with (\<lambda>e. case e of AdminKeyPathNotAbsolute _ \<Rightarrow> True | _ \<Rightarrow> False)
       (validate no_files
          (valid_static_config\<lparr>admin_key_path := ''relative/path/admin-key''\<rparr>)
          valid_dynamic_config False)"

definition admin_key_path_traversal_is_invalid :: bool where
  "admin_key_path_traversal_is_invalid \<longleftrightarrow>
     fails_with (\<lambda>e. case e of AdminKeyPathTraversal _ \<Rightarrow> True | _ \<Rightarrow> False)
       (validate no_files
          (valid_static_config\<lparr>admin_key_path := ''/etc/../etc/admin-key''\<rparr>)
          valid_dynamic_config False)"

definition rule_connection_idle_timeout_zero_rejected :: bool where
  "rule_connection_idle_timeout_zero_rejected \<longleftrightarrow>
     fails_with (\<lambda>e. case e of ConnectionIdleTimeoutZero v \<Rightarrow> v = 0 | _ \<Rightarrow> False)
       (validate no_files
          (valid_static_config\<lparr>connection_idle_timeout_secs := 0\<rparr>)
          valid_dynamic_config False)"

definition rule_tls_handshake_timeout_zero_rejected :: bool where
  "rule_tls_handshake_timeout_zero_rejected \<longleftrightarrow>
     fails_with (\<lambda>e. case e of TlsHandshakeTimeoutZero v \<Rightarrow> v = 0 | _ \<Rightarrow> False)
       (validate no_files
          (valid_static_config\<lparr>tls_handshake_timeout_secs := 0\<rparr>)
          valid_dynamic_config False)"

definition rule_max_connections_zero_rejected :: bool where
  "rule_max_connections_zero_rejected \<longleftrightarrow>
     fails_with (\<lambda>e. case e of MaxConnectionsZero v \<Rightarrow> v = 0 | _ \<Rightarrow> False)
       (validate no_files
          (valid_static_config\<lparr>max_connections := 0\<rparr>)
          valid_dynamic_config False)"

section \<open>The model passes them\<close>

lemmas test_vocabulary = no_files_def files_def passes_def fails_with_def on_first_def

lemmas validation_eval = validate_def validate_listener_def validate_site_def acme_errors_def manual_errors_def
  scalar_errors_def admin_key_path_errors_def health_port_errors_def valid_static_config_def
  make_static_with_sites_def make_acme_tls_def make_manual_tls_def test_site_def valid_dynamic_config_def
  from_sites_def contains_char_def Let_def

text \<open>
  Evaluation of the address parser at literal arguments.
\<close>

lemma read_groups_numeral:
  "read_groups (numeral k) i s =
     (case (if 0 < (pred_numeral k :: nat) then Option.bind (read_sep CHR '':'' i s) read_ipv4 else None) of
        Some ((a, b, c, d), r) \<Rightarrow> ([a * 256 + b, c * 256 + d], True, r)
      | None \<Rightarrow>
         (case Option.bind (read_sep CHR '':'' i s) (read_number 16 (Some 4) True 65536) of
            Some (g, r) \<Rightarrow> (case read_groups (pred_numeral k) (Suc i) r of (gs, v4, r') \<Rightarrow> (g # gs, v4, r'))
          | None \<Rightarrow> ([], False, s)))"
  by (simp add: numeral_eq_Suc)

lemma replicate_numeral: "replicate (numeral k) x = x # replicate (pred_numeral k) x"
  by (simp add: numeral_eq_Suc)

lemmas address_eval = parse_ipv6_addr_def net_eval read_groups_numeral replicate_numeral

lemmas lowercase_eval = to_lowercase_def ascii_lower_def char_class_defs char_of_def bit_0

lemma listener_tests_pass:
  "rule1_no_listeners" "rule2_wildcard_bind_rejected" "rule2_wildcard_bind_allowed_by_config_flag"
    "rule2_wildcard_bind_allowed_by_cli_flag" "rule2_wildcard_bind_or_logic" "rule3_duplicate_https_bind"
    "rule4_acme_domains_empty" "rule5_manual_cert_missing" "rule5_cert_path_not_readable"
    "rule5_cert_path_readable" "rule8_requests_per_second_zero" "rule9_body_limit_bytes_zero"
    "rule10_duplicate_http_bind" "rule11_http_and_https_port_same" "rule12_https_port_zero"
    "rule13_http_port_disabled_valid" "rule14_health_check_port_conflict"
    "rule14_health_check_port_conflict_with_http" "collects_all_errors" "rule5_only_cert_missing"
    "rule5_only_key_missing" "admin_key_path_relative_is_invalid" "admin_key_path_traversal_is_invalid"
    "rule_connection_idle_timeout_zero_rejected" "rule_tls_handshake_timeout_zero_rejected"
    "rule_max_connections_zero_rejected"
  by (simp_all add: rule1_no_listeners_def rule2_wildcard_bind_rejected_def
    rule2_wildcard_bind_allowed_by_config_flag_def rule2_wildcard_bind_allowed_by_cli_flag_def
    rule2_wildcard_bind_or_logic_def rule3_duplicate_https_bind_def rule4_acme_domains_empty_def
    rule5_manual_cert_missing_def rule5_cert_path_not_readable_def rule5_cert_path_readable_def
    rule8_requests_per_second_zero_def rule9_body_limit_bytes_zero_def rule10_duplicate_http_bind_def
    rule11_http_and_https_port_same_def rule12_https_port_zero_def rule13_http_port_disabled_valid_def
    rule14_health_check_port_conflict_def rule14_health_check_port_conflict_with_http_def collects_all_errors_def
    rule5_only_cert_missing_def rule5_only_key_missing_def admin_key_path_relative_is_invalid_def
    admin_key_path_traversal_is_invalid_def rule_connection_idle_timeout_zero_rejected_def
    rule_tls_handshake_timeout_zero_rejected_def rule_max_connections_zero_rejected_def test_vocabulary
    validation_eval)

lemma site_fixtures:
  "is_valid_hostname ''test.local''" "is_valid_hostname ''Test.Local''" "is_valid_upstream ''127.0.0.1:8080''"
  "is_valid_upstream ''127.0.0.1:9090''" "\<not> is_valid_hostname ''127.0.0.1''"
  "\<not> is_valid_upstream ''gitea''" "\<not> is_valid_upstream ''http://gitea:3000''" "\<not> is_valid_upstream ''gitea:0''"
  using hostname_fixture upstream_fixture parse_ip_addr_bad [of "''Test.Local''"]
  by (simp_all add: name_eval address_eval)

lemma site_tests_pass:
  "rule6_site_host_empty" "rule6_site_upstream_empty" "rule7_duplicate_site_host" "rule15_site_host_contains_port"
    "rule16_site_host_is_ip" "rule16_hostname_normalized_lowercase" "rule17_upstream_missing_port"
    "rule17_upstream_with_scheme" "rule17_upstream_port_zero" "rule18_upstream_scheme_invalid"
    "rule19_acme_contact_empty" "rule19_acme_contact_not_mailto" "rule19_acme_contact_valid_mailto"
    "rule19_acme_contact_mailto_empty_email" "rule19_acme_contact_mailto_no_at_sign" "valid_config_passes"
    "admin_key_path_empty_is_valid" "admin_key_path_absolute_is_valid"
  by (simp_all add: rule6_site_host_empty_def rule6_site_upstream_empty_def rule7_duplicate_site_host_def
    rule15_site_host_contains_port_def rule16_site_host_is_ip_def rule16_hostname_normalized_lowercase_def
    rule17_upstream_missing_port_def rule17_upstream_with_scheme_def rule17_upstream_port_zero_def
    rule18_upstream_scheme_invalid_def rule19_acme_contact_empty_def rule19_acme_contact_not_mailto_def
    rule19_acme_contact_valid_mailto_def rule19_acme_contact_mailto_empty_email_def
    rule19_acme_contact_mailto_no_at_sign_def valid_config_passes_def admin_key_path_empty_is_valid_def
    admin_key_path_absolute_is_valid_def test_vocabulary validation_eval site_fixtures lowercase_eval)

lemma upstream_tests_pass:
  "rule17_upstream_valid_hostname" "rule17_upstream_valid_ipv4" "rule17_upstream_valid_ipv6_bracket"
    "rule17_upstream_valid_ipv6_bracket_full" "rule17_upstream_invalid_hostname_chars"
    "rule17_upstream_invalid_special_chars" "rule17_upstream_empty_host" "rule17_upstream_invalid_ipv6_bracket"
    "rule17_upstream_hostname_with_dots"
  by (simp_all add: rule17_upstream_valid_hostname_def rule17_upstream_valid_ipv4_def
    rule17_upstream_valid_ipv6_bracket_def rule17_upstream_valid_ipv6_bracket_full_def
    rule17_upstream_invalid_hostname_chars_def rule17_upstream_invalid_special_chars_def
    rule17_upstream_empty_host_def rule17_upstream_invalid_ipv6_bracket_def rule17_upstream_hostname_with_dots_def
    name_eval address_eval)

end
