(* ===== verification/Tests_Config.thy ===== *)
theory Tests_Config
  imports Tests_Validation Reload Command_Line
begin

text \<open>
  The fixtures of \<^verbatim>\<open>config/test_fixtures.rs\<close> and the unit tests of \<^verbatim>\<open>utils.rs\<close> and
  \<^verbatim>\<open>config/dynamic_config.rs\<close>, run on the model. The descriptor limit of the environment and the order
  in which concurrent tasks run are arguments.
\<close>

section \<open>Fixtures\<close>

definition test_static_config :: static_config where
  "test_static_config =
     \<lparr>listeners =
        [\<lparr>bind_addr = ''127.0.0.1'', http_port = 80, https_port = 443,
          l_tls = \<lparr>tls_mode = ''acme'', acme_domains = [''test.local''], acme_cache_dir = ''/tmp/acme-cache'',
                   acme_directory = ''staging'', acme_contact = ''mailto:admin@test.local'',
                   cert_path = '''', key_path = ''''\<rparr>,
          l_sites = []\<rparr>],
      allow_wildcard_bind = False, health_check_port = 9900,
      admin_key_path = ''/etc/reverse-proxy/admin-key'', shutdown_timeout_secs = 30,
      connection_idle_timeout_secs = 60, tls_handshake_timeout_secs = 10, max_connections = 1024,
      logging = default_logging\<rparr>"

definition test_dynamic_config :: dynamic_config where
  "test_dynamic_config =
     from_sites
       [\<lparr>s_host = ''test.local'', s_upstream = ''127.0.0.1:8080'', s_upstream_scheme = ''http'',
         s_upstream_connect_timeout_secs = 5, s_upstream_request_timeout_secs = 60\<rparr>]
       \<lparr>requests_per_second = 10, burst = 20\<rparr> \<lparr>limit_bytes = 104857600\<rparr>"

definition test_static_config_fixture_is_valid :: bool where
  "test_static_config_fixture_is_valid \<longleftrightarrow>
     listeners test_static_config \<noteq> [] \<and> health_check_port test_static_config = 9900"

definition test_dynamic_config_fixture_is_valid :: bool where
  "test_dynamic_config_fixture_is_valid \<longleftrightarrow>
     sites test_dynamic_config \<noteq> [] \<and> requests_per_second (rate_limit test_dynamic_config) = 10 \<and>
     limit_bytes (body test_dynamic_config) = 104857600"

section \<open>Host names\<close>

definition strip_port_plain :: bool where
  "strip_port_plain \<longleftrightarrow> strip_port_from_host ''example.com'' = ''example.com''"

definition strip_port_with_port :: bool where
  "strip_port_with_port \<longleftrightarrow> strip_port_from_host ''example.com:8080'' = ''example.com''"

definition strip_port_ipv6_bare :: bool where
  "strip_port_ipv6_bare \<longleftrightarrow> strip_port_from_host ''[::1]'' = ''[::1]''"

definition strip_port_ipv6_with_port :: bool where
  "strip_port_ipv6_with_port \<longleftrightarrow> strip_port_from_host ''[::1]:8080'' = ''[::1]''"

definition strip_port_ipv6_with_long_address :: bool where
  "strip_port_ipv6_with_long_address \<longleftrightarrow> strip_port_from_host ''[2001:db8::1]:8080'' = ''[2001:db8::1]''"

definition strip_port_ipv4_with_port :: bool where
  "strip_port_ipv4_with_port \<longleftrightarrow> strip_port_from_host ''192.168.1.1:8080'' = ''192.168.1.1''"

definition normalize_host_converts_to_lowercase :: bool where
  "normalize_host_converts_to_lowercase \<longleftrightarrow> normalize_host ''Git.Alk.DEV'' = ''git.alk.dev''"

definition normalize_host_strips_port :: bool where
  "normalize_host_strips_port \<longleftrightarrow>
     normalize_host ''git.alk.dev:443'' = ''git.alk.dev'' \<and> normalize_host ''GIT.ALK.DEV:8443'' = ''git.alk.dev''"

definition normalize_host_no_port :: bool where
  "normalize_host_no_port \<longleftrightarrow> normalize_host ''git.alk.dev'' = ''git.alk.dev''"

definition normalize_host_empty_string :: bool where
  "normalize_host_empty_string \<longleftrightarrow> normalize_host '''' = ''''"

definition normalize_host_ipv6_with_port :: bool where
  "normalize_host_ipv6_with_port \<longleftrightarrow> normalize_host ''[::1]:443'' = ''::1''"

definition normalize_host_ipv6_long_with_port :: bool where
  "normalize_host_ipv6_long_with_port \<longleftrightarrow> normalize_host ''[2001:db8::1]:8080'' = ''2001:db8::1''"

definition normalize_host_ipv6_bare :: bool where
  "normalize_host_ipv6_bare \<longleftrightarrow> normalize_host ''[::1]'' = ''::1''"

definition normalize_host_ipv6_uppercase :: bool where
  "normalize_host_ipv6_uppercase \<longleftrightarrow> normalize_host ''[2001:DB8::1]:443'' = ''2001:db8::1''"

definition routing_table_lookup_finds_site :: bool where
  "routing_table_lookup_finds_site \<longleftrightarrow>
     map_option s_host (lookup test_dynamic_config ''test.local'') = Some ''test.local''"

definition routing_table_lookup_case_insensitive :: bool where
  "routing_table_lookup_case_insensitive \<longleftrightarrow>
     map_option s_host (lookup test_dynamic_config ''TEST.LOCAL'') = Some ''test.local''"

definition routing_table_lookup_strips_port :: bool where
  "routing_table_lookup_strips_port \<longleftrightarrow>
     map_option s_host (lookup test_dynamic_config ''test.local:443'') = Some ''test.local''"

definition routing_table_lookup_unknown_host :: bool where
  "routing_table_lookup_unknown_host \<longleftrightarrow> lookup test_dynamic_config ''unknown.example'' = None"

definition build_routing_table_multiple_sites :: bool where
  "build_routing_table_multiple_sites \<longleftrightarrow>
     (let table = build_routing_table
        [\<lparr>s_host = ''git.example.com'', s_upstream = ''127.0.0.1:3000'', s_upstream_scheme = ''http'',
          s_upstream_connect_timeout_secs = 5, s_upstream_request_timeout_secs = 60\<rparr>,
         \<lparr>s_host = ''www.example.com'', s_upstream = ''127.0.0.1:8080'', s_upstream_scheme = ''http'',
          s_upstream_connect_timeout_secs = 5, s_upstream_request_timeout_secs = 60\<rparr>]
      in card (dom table) = 2 \<and> table ''git.example.com'' \<noteq> None \<and> table ''www.example.com'' \<noteq> None)"

definition dynamic_config_from_sites_builds_routing_table :: bool where
  "dynamic_config_from_sites_builds_routing_table \<longleftrightarrow>
     (let config = from_sites
        [\<lparr>s_host = ''My.Site'', s_upstream = ''127.0.0.1:8080'', s_upstream_scheme = ''http'',
          s_upstream_connect_timeout_secs = 5, s_upstream_request_timeout_secs = 60\<rparr>]
        \<lparr>requests_per_second = 10, burst = 20\<rparr> \<lparr>limit_bytes = 104857600\<rparr>
      in routing_table config ''my.site'' \<noteq> None \<and> card (dom (routing_table config)) = 1)"

section \<open>Reloading\<close>

text \<open>
  The descriptor limit of the environment is \<open>rl\<close>; the tests assume that it leaves room for the
  fixture's 1024 connections.
\<close>

abbreviation new_handle :: "static_config \<Rightarrow> bool \<Rightarrow> reload_handle" where
  "new_handle sc cli \<equiv> reload_handle_new test_dynamic_config sc cli"

definition with_rate :: "u32 \<Rightarrow> dynamic_config \<Rightarrow> dynamic_config" where
  "with_rate n dc = from_sites (sites dc) \<lparr>requests_per_second = n, burst = burst (rate_limit dc)\<rparr> (body dc)"

definition arcswap_swap_visible_after_reload :: "u64 option \<Rightarrow> bool" where
  "arcswap_swap_visible_after_reload rl \<longleftrightarrow>
     (let h = new_handle test_static_config False;
          new_dynamic = from_sites
            (sites test_dynamic_config @
             [\<lparr>s_host = ''new.test'', s_upstream = ''127.0.0.1:9090'', s_upstream_scheme = ''http'',
               s_upstream_connect_timeout_secs = 5, s_upstream_request_timeout_secs = 60\<rparr>])
            \<lparr>requests_per_second = 50, burst = burst (rate_limit test_dynamic_config)\<rparr> (body test_dynamic_config);
          (h', result) = reload no_files rl h test_static_config new_dynamic
      in length (sites (load h)) = 1 \<and> requests_per_second (rate_limit (load h)) = 10 \<and> is_ok result \<and>
         length (sites (load h')) = 2 \<and> requests_per_second (rate_limit (load h')) = 50)"

definition reload_rejects_invalid_config :: "u64 option \<Rightarrow> bool" where
  "reload_rejects_invalid_config rl \<longleftrightarrow>
     (let (h', result) = reload no_files rl (new_handle test_static_config False) test_static_config
            (test_dynamic_config\<lparr>rate_limit := (rate_limit test_dynamic_config)\<lparr>requests_per_second := 0\<rparr>\<rparr>)
      in \<not> is_ok result \<and> requests_per_second (rate_limit (load h')) = 10)"

text \<open>
  The five tasks get the mutex in some order.
\<close>

definition concurrent_reload_serialization :: "u64 option \<Rightarrow> u32 list \<Rightarrow> bool" where
  "concurrent_reload_serialization rl order \<longleftrightarrow>
     (let (h', results) =
        foldl (\<lambda>(h, rs) n.
            let (h', r) = reload no_files rl h test_static_config (with_rate n test_dynamic_config)
            in (h', rs @ [r]))
          (new_handle test_static_config False, []) order
      in list_all is_ok results \<and> requests_per_second (rate_limit (load h')) \<in> {10, 20, 30, 40, 50})"

definition static_config_diff_detects_changes :: bool where
  "static_config_diff_detects_changes \<longleftrightarrow>
     (let old = test_static_config;
          new = old\<lparr>health_check_port := 8080, logging := (logging old)\<lparr>log_level := ''debug''\<rparr>\<rparr>;
          changes = diff_static_config old new
      in diff_static_config old old = [] \<and> ''health_check_port'' \<in> set changes \<and> ''logging'' \<in> set changes \<and>
         length changes = 2)"

definition reload_second_time_no_further_static_changes :: "u64 option \<Rightarrow> bool" where
  "reload_second_time_no_further_static_changes rl \<longleftrightarrow>
     (let changed = test_static_config\<lparr>health_check_port := 8080\<rparr>;
          (h1, changes1) = reload no_files rl (new_handle test_static_config False) changed test_dynamic_config;
          (h2, changes2) = reload no_files rl h1 changed test_dynamic_config
      in (case (changes1, changes2) of
            (Inr c1, Inr c2) \<Rightarrow> ''health_check_port'' \<in> set c1 \<and> c2 = []
          | _ \<Rightarrow> False))"

definition reload_second_time_different_static_changes :: "u64 option \<Rightarrow> bool" where
  "reload_second_time_different_static_changes rl \<longleftrightarrow>
     (let changed = test_static_config\<lparr>health_check_port := 8080\<rparr>;
          further = changed\<lparr>shutdown_timeout_secs := 60\<rparr>;
          (h1, changes1) = reload no_files rl (new_handle test_static_config False) changed test_dynamic_config;
          (h2, changes2) = reload no_files rl h1 further test_dynamic_config
      in (case (changes1, changes2) of
            (Inr c1, Inr c2) \<Rightarrow>
              ''health_check_port'' \<in> set c1 \<and> length c1 = 1 \<and> ''health_check_port'' \<notin> set c2 \<and>
              ''shutdown_timeout_secs'' \<in> set c2 \<and> length c2 = 1
          | _ \<Rightarrow> False))"

definition reload_accepts_wildcard_bind_when_flag_true :: "u64 option \<Rightarrow> bool" where
  "reload_accepts_wildcard_bind_when_flag_true rl \<longleftrightarrow>
     (let sc = (on_first (\<lambda>l. l\<lparr>bind_addr := ''0.0.0.0''\<rparr>) test_static_config)\<lparr>allow_wildcard_bind := False\<rparr>
      in is_ok (snd (reload no_files rl (new_handle sc True) sc test_dynamic_config)))"

definition reload_rejects_wildcard_bind_when_flag_false :: "u64 option \<Rightarrow> bool" where
  "reload_rejects_wildcard_bind_when_flag_false rl \<longleftrightarrow>
     (let sc = (on_first (\<lambda>l. l\<lparr>bind_addr := ''0.0.0.0''\<rparr>) test_static_config)\<lparr>allow_wildcard_bind := False\<rparr>
      in case snd (reload no_files rl (new_handle sc False) sc test_dynamic_config) of
           Inl err_msg \<Rightarrow> contains_str err_msg ''0.0.0.0''
         | Inr _ \<Rightarrow> False)"

section \<open>The model passes them\<close>

lemma fixture_tests_pass: test_static_config_fixture_is_valid test_dynamic_config_fixture_is_valid
  by (simp_all add: test_static_config_fixture_is_valid_def test_dynamic_config_fixture_is_valid_def
      test_static_config_def test_dynamic_config_def from_sites_def)

lemmas host_eval = strip_port_from_host_def normalize_host_def rfind_char_def strip_prefix_def strip_suffix_def
  ends_with_def Let_def lowercase_eval

lemma strip_port_tests_pass:
  strip_port_plain strip_port_with_port strip_port_ipv6_bare strip_port_ipv6_with_port
  strip_port_ipv6_with_long_address strip_port_ipv4_with_port
  by (simp_all add: strip_port_plain_def strip_port_with_port_def strip_port_ipv6_bare_def
      strip_port_ipv6_with_port_def strip_port_ipv6_with_long_address_def strip_port_ipv4_with_port_def host_eval)

lemma normalize_host_tests_pass:
  normalize_host_converts_to_lowercase normalize_host_strips_port normalize_host_no_port
  normalize_host_empty_string normalize_host_ipv6_with_port normalize_host_ipv6_long_with_port
  normalize_host_ipv6_bare normalize_host_ipv6_uppercase
  by (simp_all add: normalize_host_converts_to_lowercase_def normalize_host_strips_port_def
      normalize_host_no_port_def normalize_host_empty_string_def normalize_host_ipv6_with_port_def
      normalize_host_ipv6_long_with_port_def normalize_host_ipv6_bare_def normalize_host_ipv6_uppercase_def host_eval)

lemma routing_tests_pass:
  routing_table_lookup_finds_site routing_table_lookup_case_insensitive routing_table_lookup_strips_port
  routing_table_lookup_unknown_host build_routing_table_multiple_sites
  dynamic_config_from_sites_builds_routing_table
  by (simp_all add: routing_table_lookup_finds_site_def routing_table_lookup_case_insensitive_def
      routing_table_lookup_strips_port_def routing_table_lookup_unknown_host_def
      build_routing_table_multiple_sites_def dynamic_config_from_sites_builds_routing_table_def
      test_dynamic_config_def lookup_def from_sites_def build_routing_table_def host_eval)

lemma test_reload_check:
  assumes "validate_nofile rl 1024 = []" "requests_per_second (rate_limit dc) \<noteq> 0" "limit_bytes (body dc) \<noteq> 0"
    "hp \<noteq> 80" "hp \<noteq> 443"
  shows "reload_check no_files rl cli
    (test_static_config\<lparr>health_check_port := hp, shutdown_timeout_secs := st\<rparr>) dc = Ok ()"
  using assms by (simp add: reload_check_def validation_eval test_static_config_def)

lemma test_static_config_unchanged:
  "test_static_config\<lparr>health_check_port := 9900, shutdown_timeout_secs := 30\<rparr> = test_static_config"
  "test_static_config\<lparr>health_check_port := hp, shutdown_timeout_secs := 30\<rparr> = test_static_config\<lparr>health_check_port := hp\<rparr>"
  by (simp_all add: test_static_config_def)

lemma test_static_config_simps [simp]:
  "health_check_port test_static_config = 9900" "shutdown_timeout_secs test_static_config = 30"
  by (simp_all add: test_static_config_def)

lemmas test_reloads = test_reload_check [of _ _ 9900 _ 30, unfolded test_static_config_unchanged]
  test_reload_check [of _ _ 8080 _ 30, unfolded test_static_config_unchanged] test_reload_check [of _ _ 8080 _ 60]

lemma test_dynamic_config_simps [simp]:
  "requests_per_second (rate_limit test_dynamic_config) = 10" "limit_bytes (body test_dynamic_config) = 104857600"
  "length (sites test_dynamic_config) = 1" "body (with_rate n dc) = body dc"
  "requests_per_second (rate_limit (with_rate n dc)) = n"
  by (simp_all add: test_dynamic_config_def from_sites_def with_rate_def)

lemma reload_rejects_passes: "reload_rejects_invalid_config rl"
  by (simp add: reload_rejects_invalid_config_def reload_def reload_check_def validation_eval load_def
      reload_handle_new_def test_static_config_def)

lemma diff_test_passes: static_config_diff_detects_changes
  by (simp add: static_config_diff_detects_changes_def diff_static_config_def test_static_config_def default_defs)

lemma wildcard_tests_pass:
  "validate_nofile rl 1024 = [] \<Longrightarrow> reload_accepts_wildcard_bind_when_flag_true rl"
  "reload_rejects_wildcard_bind_when_flag_false rl"
  by (simp_all add: reload_accepts_wildcard_bind_when_flag_true_def
      reload_rejects_wildcard_bind_when_flag_false_def reload_def reload_check_def validation_eval
      reload_handle_new_def test_static_config_def on_first_def show_validation_error.simps)

lemma reload_tests_pass:
  assumes "validate_nofile rl 1024 = []"
  shows "arcswap_swap_visible_after_reload rl"
    "reload_second_time_no_further_static_changes rl" "reload_second_time_different_static_changes rl"
  using assms
  by (simp_all add: arcswap_swap_visible_after_reload_def 
      reload_second_time_no_further_static_changes_def reload_second_time_different_static_changes_def
      reload_def load_def reload_handle_new_def test_reloads diff_static_config_def from_sites_def Let_def)

lemma concurrent_reload_passes:
  assumes rl: "validate_nofile rl 1024 = []" and "set order \<subseteq> {10, 20, 30, 40, 50}"
  shows "concurrent_reload_serialization rl order"
proof -
  let ?step = "\<lambda>(h, rs) n. let (h', r) = reload no_files rl h test_static_config (with_rate n test_dynamic_config)
            in (h', rs @ [r])"
  have "case foldl ?step (h, rs) order of (h', rs') \<Rightarrow>
      list_all is_ok rs' \<and> requests_per_second (rate_limit (load h')) \<in> {10, 20, 30, 40, 50}"
    if "list_all is_ok rs" "requests_per_second (rate_limit (load h)) \<in> {10, 20, 30, 40, 50}" for h rs
    using assms(2) that
  proof (induction order arbitrary: h rs)
    case (Cons n order)
    have "n \<noteq> 0" using Cons.prems(1) by auto
    then have "reload no_files rl h test_static_config (with_rate n test_dynamic_config) =
       (h\<lparr>rh_config := with_rate n test_dynamic_config, rh_static_config := test_static_config\<rparr>,
        Ok (diff_static_config (rh_static_config h) test_static_config))"
      using rl by (simp add: reload_def test_reloads)
    then show ?case using Cons.IH Cons.prems by (simp add: load_def)
  qed simp
  then show ?thesis by (simp add: concurrent_reload_serialization_def load_def reload_handle_new_def)
qed

end
