(* ===== verification/Tests_Proxy.thy ===== *)
theory Tests_Proxy
  imports Proxy_Router Redirect Tests_Config
begin

text \<open>
  The unit tests of \<^verbatim>\<open>proxy/\<close>, \<^verbatim>\<open>tls/redirect.rs\<close> and \<^verbatim>\<open>logging/format.rs\<close>, run on the model, with the field
  visitor of \<^verbatim>\<open>logging/format.rs\<close> that is compiled for tests. The header tests are run with every
  library that satisfies \<open>http_laws\<close>. The other handler tests are run with association lists as header
  maps and with every URI parser and printer that treat the texts of the tests as listed.
\<close>

section \<open>Headers\<close>

definition insert_all :: "('h, 'b) http_lib \<Rightarrow> (string \<times> string) list \<Rightarrow> 'h" where
  "insert_all L nvs = foldl (\<lambda>h nv. hm_insert L h (fst nv) (snd nv)) (hm_empty L) nvs"

definition make_headers_with_hop_by_hop :: "('h, 'b) http_lib \<Rightarrow> 'h" where
  "make_headers_with_hop_by_hop L = insert_all L
     [(''connection'', ''keep-alive''), (''keep-alive'', ''timeout=5''), (''proxy-authorization'', ''Basic abc''),
      (''proxy-authenticate'', ''Basic realm=x''), (''te'', ''trailers''), (''trailers'', ''chunked''),
      (''transfer-encoding'', ''chunked''), (''upgrade'', ''websocket''), (''content-type'', ''text/html''),
      (''accept'', ''*/*'')]"

definition remove_hop_by_hop_removes_all_listed_headers :: "('h, 'b) http_lib \<Rightarrow> bool" where
  "remove_hop_by_hop_removes_all_listed_headers L \<longleftrightarrow>
     (let h = remove_hop_by_hop L (make_headers_with_hop_by_hop L)
      in hm_get L h ''connection'' = None \<and> hm_get L h ''keep-alive'' = None \<and>
         hm_get L h ''proxy-authorization'' = None \<and> hm_get L h ''proxy-authenticate'' = None \<and>
         hm_get L h ''te'' = None \<and> hm_get L h ''trailers'' = None \<and> hm_get L h ''transfer-encoding'' = None \<and>
         hm_get L h ''upgrade'' = None)"

definition remove_hop_by_hop_preserves_other_headers :: "('h, 'b) http_lib \<Rightarrow> bool" where
  "remove_hop_by_hop_preserves_other_headers L \<longleftrightarrow>
     (let h = remove_hop_by_hop L (make_headers_with_hop_by_hop L)
      in hm_get L h ''content-type'' = Some ''text/html'' \<and> hm_get L h ''accept'' = Some ''*/*'')"

definition test_addr :: "u8 \<Rightarrow> u8 \<Rightarrow> u8 \<Rightarrow> u8 \<Rightarrow> u16 \<Rightarrow> socket_addr" where
  "test_addr a b c d port = \<lparr>sa_ip = V4 a b c d, sa_port = port, sa_scope = 0\<rparr>"

definition inject_proxy_headers_sets_x_real_ip :: "('h, 'b) http_lib \<Rightarrow> bool" where
  "inject_proxy_headers_sets_x_real_ip L \<longleftrightarrow>
     hm_get L (inject_proxy_headers L (hm_empty L) (test_addr 192 168 1 1 12345)) ''x-real-ip'' = Some ''192.168.1.1''"

definition inject_proxy_headers_replaces_x_forwarded_for :: "('h, 'b) http_lib \<Rightarrow> bool" where
  "inject_proxy_headers_replaces_x_forwarded_for L \<longleftrightarrow>
     (let h = hm_insert L (hm_empty L) ''x-forwarded-for'' ''10.0.0.1, 10.0.0.2''
      in hm_get L (inject_proxy_headers L h (test_addr 192 168 1 1 12345)) ''x-forwarded-for'' = Some ''192.168.1.1'')"

definition inject_proxy_headers_sets_x_forwarded_proto_to_https :: "('h, 'b) http_lib \<Rightarrow> bool" where
  "inject_proxy_headers_sets_x_forwarded_proto_to_https L \<longleftrightarrow>
     hm_get L (inject_proxy_headers L (hm_empty L) (test_addr 127 0 0 1 443)) ''x-forwarded-proto'' = Some ''https''"

definition inject_proxy_headers_preserves_host :: "('h, 'b) http_lib \<Rightarrow> bool" where
  "inject_proxy_headers_preserves_host L \<longleftrightarrow>
     (let h = hm_insert L (hm_empty L) ''host'' ''example.com''
      in hm_get L (inject_proxy_headers L h (test_addr 127 0 0 1 443)) ''host'' = Some ''example.com'')"

definition remove_hop_by_hop_empty_headers :: "('h, 'b) http_lib \<Rightarrow> bool" where
  "remove_hop_by_hop_empty_headers L \<longleftrightarrow> hm_iter L (remove_hop_by_hop L (hm_empty L)) = []"

section \<open>Errors\<close>

definition reply_header :: "('h, 'b) response \<Rightarrow> string \<Rightarrow> string option" where
  "reply_header r n = (case r of Reply s hs t \<Rightarrow> map_of hs n | FromParts s h b \<Rightarrow> None)"

definition reply_text :: "('h, 'b) response \<Rightarrow> string option" where
  "reply_text r = (case r of Reply s hs t \<Rightarrow> Some t | FromParts s h b \<Rightarrow> None)"

definition into_response :: "proxy_error \<Rightarrow> (unit, unit) response" where
  "into_response e = snd (proxy_error_into_response e)"

definition bad_gateway_response :: bool where
  "bad_gateway_response \<longleftrightarrow>
     (let resp = into_response (BadGateway ''example.com'' ''127.0.0.1:8080'')
      in response_status resp = 502 \<and> reply_text resp = Some ''Bad Gateway'')"

definition bad_gateway_content_type :: bool where
  "bad_gateway_content_type \<longleftrightarrow>
     (let resp = into_response (BadGateway ''example.com'' ''127.0.0.1:8080'')
      in reply_header resp ''content-type'' = Some ''text/plain; charset=utf-8'')"

definition gateway_timeout_response :: bool where
  "gateway_timeout_response \<longleftrightarrow>
     (let resp = into_response (GatewayTimeout ''example.com'' ''127.0.0.1:8080'')
      in response_status resp = 504 \<and> reply_text resp = Some ''Gateway Timeout'')"

definition gateway_timeout_content_type :: bool where
  "gateway_timeout_content_type \<longleftrightarrow>
     (let resp = into_response (GatewayTimeout ''example.com'' ''127.0.0.1:8080'')
      in reply_header resp ''content-type'' = Some ''text/plain; charset=utf-8'')"

definition too_many_requests_response :: bool where
  "too_many_requests_response \<longleftrightarrow>
     (let resp = into_response (TooManyRequests ''192.168.1.1'' ''example.com'' ''/api'')
      in response_status resp = 429 \<and> reply_text resp = Some ''Too Many Requests'')"

definition too_many_requests_content_type :: bool where
  "too_many_requests_content_type \<longleftrightarrow>
     (let resp = into_response (TooManyRequests ''192.168.1.1'' ''example.com'' ''/api'')
      in reply_header resp ''content-type'' = Some ''text/plain; charset=utf-8'')"

definition error_display_matches_body :: bool where
  "error_display_matches_body \<longleftrightarrow>
     show_proxy_error (BadGateway '''' '''') = ''Bad Gateway'' \<and>
     show_proxy_error (GatewayTimeout '''' '''') = ''Gateway Timeout'' \<and>
     show_proxy_error (TooManyRequests '''' '''' '''') = ''Too Many Requests''"

section \<open>The handler\<close>

definition example_com :: site_config where
  "example_com =
     \<lparr>s_host = ''example.com'', s_upstream = ''127.0.0.1:8080'', s_upstream_scheme = ''http'',
      s_upstream_connect_timeout_secs = 5, s_upstream_request_timeout_secs = 60\<rparr>"

definition make_proxy_state :: "site_config list \<Rightarrow> dynamic_config" where
  "make_proxy_state site_list =
     from_sites site_list \<lparr>requests_per_second = 10, burst = 20\<rparr> \<lparr>limit_bytes = 104857600\<rparr>"

definition make_request_with_connect_info ::
  "('h, string) http_lib \<Rightarrow> string \<Rightarrow> string \<Rightarrow> string option \<Rightarrow> socket_addr \<Rightarrow> string + ('h, string) request" where
  "make_request_with_connect_info L method uri host remote_addr =
     and_then (uri_parse L uri) (\<lambda>u.
     and_then (case host of Some h \<Rightarrow> hm_append L (hm_empty L) ''host'' h | None \<Rightarrow> Ok (hm_empty L)) (\<lambda>headers.
     Ok \<lparr>rq_method = method, rq_uri = u, rq_headers = headers, rq_body = '''', rq_connect_info = Some remote_addr\<rparr>))"

definition make_request ::
  "('h, string) http_lib \<Rightarrow> string option \<Rightarrow> string \<Rightarrow> string + ('h, string) request" where
  "make_request L host_header uri =
     and_then (uri_parse L uri) (\<lambda>u.
     and_then (case host_header of Some h \<Rightarrow> hm_append L (hm_empty L) ''host'' h | None \<Rightarrow> Ok (hm_empty L)) (\<lambda>headers.
     Ok \<lparr>rq_method = ''GET'', rq_uri = u, rq_headers = headers, rq_body = '''', rq_connect_info = None\<rparr>))"

definition answered_with :: "nat \<Rightarrow> (log_line list \<times> ('h, 'b) response) future \<Rightarrow> bool" where
  "answered_with status fut = (case fut of After d (logs, resp) \<Rightarrow> response_status resp = status | Never \<Rightarrow> False)"

definition missing_host_returns_400 ::
  "('h, string) http_lib \<Rightarrow> (bool \<Rightarrow> ('h, string) request \<Rightarrow> ('h, string) upstream_result future) \<Rightarrow> bool" where
  "missing_host_returns_400 L client \<longleftrightarrow>
     (case make_request_with_connect_info L ''GET'' ''/some/path'' None (test_addr 127 0 0 1 12345) of
        Inr req \<Rightarrow> answered_with 400 (proxy_router L client (make_proxy_state [example_com]) 0 req)
      | Inl _ \<Rightarrow> False)"

definition unknown_host_returns_404 ::
  "('h, string) http_lib \<Rightarrow> (bool \<Rightarrow> ('h, string) request \<Rightarrow> ('h, string) upstream_result future) \<Rightarrow> bool" where
  "unknown_host_returns_404 L client \<longleftrightarrow>
     (case make_request_with_connect_info L ''GET'' ''/some/path'' (Some ''unknown.host'') (test_addr 127 0 0 1 12345) of
        Inr req \<Rightarrow> answered_with 404 (proxy_router L client (make_proxy_state [example_com]) 0 req)
      | Inl _ \<Rightarrow> False)"

definition upstream_uri_test ::
  "('h, 'b) http_lib \<Rightarrow> (uri \<Rightarrow> string) \<Rightarrow> string \<Rightarrow> string \<Rightarrow> string \<Rightarrow> string \<Rightarrow> bool" where
  "upstream_uri_test L to_string text scheme upstream expected \<longleftrightarrow>
     (case uri_parse L text of
        Inr uri \<Rightarrow> (case snd (build_upstream_uri L scheme upstream uri) of
                     Inr result \<Rightarrow> to_string result = expected
                   | Inl _ \<Rightarrow> False)
      | Inl _ \<Rightarrow> False)"

definition test_build_upstream_uri_with_query :: "('h, 'b) http_lib \<Rightarrow> (uri \<Rightarrow> string) \<Rightarrow> bool" where
  "test_build_upstream_uri_with_query L to_string \<longleftrightarrow>
     upstream_uri_test L to_string ''/path?foo=bar'' ''http'' ''127.0.0.1:8080'' ''http://127.0.0.1:8080/path?foo=bar''"

definition test_build_upstream_uri_without_query :: "('h, 'b) http_lib \<Rightarrow> (uri \<Rightarrow> string) \<Rightarrow> bool" where
  "test_build_upstream_uri_without_query L to_string \<longleftrightarrow>
     upstream_uri_test L to_string ''/path'' ''http'' ''127.0.0.1:8080'' ''http://127.0.0.1:8080/path''"

definition test_build_upstream_uri_https :: "('h, 'b) http_lib \<Rightarrow> (uri \<Rightarrow> string) \<Rightarrow> bool" where
  "test_build_upstream_uri_https L to_string \<longleftrightarrow>
     upstream_uri_test L to_string ''/secure'' ''https'' ''upstream.example.com'' ''https://upstream.example.com/secure''"

definition upstream_host_test :: "('h, string) http_lib \<Rightarrow> string option \<Rightarrow> string \<Rightarrow> string \<Rightarrow> bool" where
  "upstream_host_test L host_header text expected \<longleftrightarrow>
     (case (uri_parse L text, make_request L host_header text) of
        (Inr uri, Inr req) \<Rightarrow>
          (case build_upstream_request L req uri of
             Inr upstream_req \<Rightarrow> hm_get L (rq_headers upstream_req) ''host'' = Some expected
           | Inl _ \<Rightarrow> False)
      | _ \<Rightarrow> False)"

definition build_upstream_request_sets_host_from_upstream_uri :: "('h, string) http_lib \<Rightarrow> bool" where
  "build_upstream_request_sets_host_from_upstream_uri L \<longleftrightarrow>
     upstream_host_test L None ''http://127.0.0.1:3000/'' ''127.0.0.1:3000''"

definition build_upstream_request_includes_authority_port_in_host :: "('h, string) http_lib \<Rightarrow> bool" where
  "build_upstream_request_includes_authority_port_in_host L \<longleftrightarrow>
     upstream_host_test L None ''http://git.alk.dev:8443/'' ''git.alk.dev:8443''"

definition build_upstream_request_reconstructs_host_from_authority_for_h2 :: "('h, string) http_lib \<Rightarrow> bool" where
  "build_upstream_request_reconstructs_host_from_authority_for_h2 L \<longleftrightarrow>
     upstream_host_test L None ''http://127.0.0.1:3000/'' ''127.0.0.1:3000''"

definition build_upstream_request_h2_authority_wins_over_stale_host_header :: "('h, string) http_lib \<Rightarrow> bool" where
  "build_upstream_request_h2_authority_wins_over_stale_host_header L \<longleftrightarrow>
     upstream_host_test L (Some ''evil.example.com'') ''http://127.0.0.1:3000/'' ''127.0.0.1:3000''"

definition build_upstream_request_omits_default_port_in_host :: "('h, string) http_lib \<Rightarrow> bool" where
  "build_upstream_request_omits_default_port_in_host L \<longleftrightarrow>
     upstream_host_test L None ''http://git.example.com/'' ''git.example.com''"

definition build_upstream_request_brackets_ipv6_authority :: "('h, string) http_lib \<Rightarrow> bool" where
  "build_upstream_request_brackets_ipv6_authority L \<longleftrightarrow>
     upstream_host_test L None ''http://[::1]:3000/'' ''[::1]:3000''"

definition build_upstream_request_h1_client_host_header_is_forwarded :: "('h, string) http_lib \<Rightarrow> bool" where
  "build_upstream_request_h1_client_host_header_is_forwarded L \<longleftrightarrow>
     upstream_host_test L (Some ''git.alk.dev'') ''/some/path'' ''git.alk.dev''"

definition build_upstream_request_keeps_method_headers_and_body :: "('h, string) http_lib \<Rightarrow> bool" where
  "build_upstream_request_keeps_method_headers_and_body L \<longleftrightarrow>
     (case (uri_parse L ''http://127.0.0.1:3000/api'', hm_append L (hm_empty L) ''x-custom'' ''yes'') of
        (Inr uri, Inr headers) \<Rightarrow>
          (case build_upstream_request L
                  \<lparr>rq_method = ''POST'', rq_uri = uri, rq_headers = headers, rq_body = ''payload'',
                   rq_connect_info = None\<rparr> uri of
             Inr upstream_req \<Rightarrow>
               rq_method upstream_req = ''POST'' \<and> u_path (rq_uri upstream_req) = ''/api'' \<and>
               hm_get L (rq_headers upstream_req) ''x-custom'' = Some ''yes'' \<and> rq_body upstream_req = ''payload''
           | Inl _ \<Rightarrow> False)
      | _ \<Rightarrow> False)"

definition default_body_limit_is_100mb :: bool where
  "default_body_limit_is_100mb \<longleftrightarrow> DEFAULT_BODY_LIMIT_BYTES = 104857600"

text \<open>
  The URI texts of these tests and their parts.
\<close>

definition origin_uri :: "string \<Rightarrow> string option \<Rightarrow> uri" where
  "origin_uri path query = \<lparr>u_scheme = None, u_authority = None, u_path = path, u_query = query\<rparr>"

definition absolute_uri :: "string \<Rightarrow> string \<Rightarrow> u16 option \<Rightarrow> string \<Rightarrow> string option \<Rightarrow> uri" where
  "absolute_uri scheme host port path query =
     \<lparr>u_scheme = Some scheme, u_authority = Some \<lparr>au_host = host, au_port = port\<rparr>, u_path = path, u_query = query\<rparr>"

definition test_uris :: "(string \<times> uri) list" where
  "test_uris =
     [(''/some/path'', origin_uri ''/some/path'' None),
      (''/path?foo=bar'', origin_uri ''/path'' (Some ''foo=bar'')),
      (''/path'', origin_uri ''/path'' None),
      (''/secure'', origin_uri ''/secure'' None),
      (''http://127.0.0.1:8080/path?foo=bar'', absolute_uri ''http'' ''127.0.0.1'' (Some 8080) ''/path'' (Some ''foo=bar'')),
      (''http://127.0.0.1:8080/path'', absolute_uri ''http'' ''127.0.0.1'' (Some 8080) ''/path'' None),
      (''https://upstream.example.com/secure'', absolute_uri ''https'' ''upstream.example.com'' None ''/secure'' None),
      (''http://127.0.0.1:3000/'', absolute_uri ''http'' ''127.0.0.1'' (Some 3000) ''/'' None),
      (''http://127.0.0.1:3000/api'', absolute_uri ''http'' ''127.0.0.1'' (Some 3000) ''/api'' None),
      (''http://git.alk.dev:8443/'', absolute_uri ''http'' ''git.alk.dev'' (Some 8443) ''/'' None),
      (''http://git.example.com/'', absolute_uri ''http'' ''git.example.com'' None ''/'' None),
      (''http://[::1]:3000/'', absolute_uri ''http'' ''[::1]'' (Some 3000) ''/'' None)]"

definition treats_test_uris :: "(string \<Rightarrow> string + uri) \<Rightarrow> (uri \<Rightarrow> string) \<Rightarrow> bool" where
  "treats_test_uris parse to_string = list_all (\<lambda>(t, u). parse t = Ok u \<and> to_string u = t) test_uris"

section \<open>The field visitor\<close>

type_synonym kv_visitor = "(string \<times> string) list"

definition replace_quotes :: "string \<Rightarrow> string" where
  "replace_quotes v = concat (map (\<lambda>c. if c = CHR 0x22 then [CHR 0x5C, CHR 0x22] else [c]) v)"

definition kv_format :: "kv_visitor \<Rightarrow> string" where
  "kv_format pairs =
     (let parts = map (\<lambda>(k, v).
        if contains_char v CHR '' '' \<or> contains_char v CHR 0x22
        then k @ ''='' @ [CHR 0x22] @ replace_quotes v @ [CHR 0x22]
        else k @ ''='' @ v) pairs
      in join_str '' '' parts)"

definition record_str :: "kv_visitor \<Rightarrow> string \<Rightarrow> string \<Rightarrow> kv_visitor" where
  "record_str pairs field v = pairs @ [(field, v)]"

definition record_debug :: "('v \<Rightarrow> string) \<Rightarrow> kv_visitor \<Rightarrow> string \<Rightarrow> 'v \<Rightarrow> kv_visitor" where
  "record_debug debug pairs field v = pairs @ [(field, debug v)]"

definition record_u64 :: "kv_visitor \<Rightarrow> string \<Rightarrow> u64 \<Rightarrow> kv_visitor" where
  "record_u64 pairs field v = pairs @ [(field, show_word v)]"

definition record_i64 :: "kv_visitor \<Rightarrow> string \<Rightarrow> 64 word \<Rightarrow> kv_visitor" where
  "record_i64 pairs field v =
     pairs @ [(field, if sint v < 0 then ''-'' @ show_nat (nat (- sint v)) else show_nat (nat (sint v)))]"

definition record_bool :: "kv_visitor \<Rightarrow> string \<Rightarrow> bool \<Rightarrow> kv_visitor" where
  "record_bool pairs field v = pairs @ [(field, if v then ''true'' else ''false'')]"

definition kv_visitor_formats_simple_key_value :: bool where
  "kv_visitor_formats_simple_key_value \<longleftrightarrow>
     kv_format [(''client_ip'', ''203.0.113.50''), (''status'', ''200'')] = ''client_ip=203.0.113.50 status=200''"

definition kv_visitor_quotes_values_with_spaces :: bool where
  "kv_visitor_quotes_values_with_spaces \<longleftrightarrow>
     kv_format [(''error'', ''connection refused'')] = ''error='' @ [CHR 0x22] @ ''connection refused'' @ [CHR 0x22]"

definition kv_visitor_escapes_quotes_in_values :: bool where
  "kv_visitor_escapes_quotes_in_values \<longleftrightarrow>
     contains_str (kv_format [(''error'', ''connection '' @ [CHR 0x22] @ ''timeout'' @ [CHR 0x22])])
       (''connection '' @ [CHR 0x5C, CHR 0x22] @ ''timeout'' @ [CHR 0x5C, CHR 0x22])"

definition kv_visitor_handles_numeric_values :: bool where
  "kv_visitor_handles_numeric_values \<longleftrightarrow>
     (let formatted = kv_format [(''status'', ''200''), (''duration_ms'', ''45'')]
      in contains_str formatted ''status=200'' \<and> contains_str formatted ''duration_ms=45'')"

definition kv_visitor_handles_empty :: bool where
  "kv_visitor_handles_empty \<longleftrightarrow> kv_format [] = ''''"

section \<open>Redirect URLs\<close>

definition test_redirect_url_standard_443 :: bool where
  "test_redirect_url_standard_443 \<longleftrightarrow> build_redirect_url ''example.com'' 443 ''/'' '''' = ''https://example.com/''"

definition test_redirect_url_non_standard_port :: bool where
  "test_redirect_url_non_standard_port \<longleftrightarrow>
     build_redirect_url ''example.com'' 8443 ''/'' '''' = ''https://example.com:8443/''"

definition test_redirect_url_with_path :: bool where
  "test_redirect_url_with_path \<longleftrightarrow>
     build_redirect_url ''example.com'' 443 ''/some/path'' '''' = ''https://example.com/some/path''"

definition test_redirect_url_with_query :: bool where
  "test_redirect_url_with_query \<longleftrightarrow>
     build_redirect_url ''example.com'' 443 ''/path'' ''key=val'' = ''https://example.com/path?key=val''"

definition test_redirect_url_with_path_and_query :: bool where
  "test_redirect_url_with_path_and_query \<longleftrightarrow>
     build_redirect_url ''example.com'' 8443 ''/path'' ''a=b&c=d'' = ''https://example.com:8443/path?a=b&c=d''"

definition test_redirect_url_strips_host_port :: bool where
  "test_redirect_url_strips_host_port \<longleftrightarrow>
     build_redirect_url ''example.com:8080'' 443 ''/'' '''' = ''https://example.com/''"

definition test_redirect_url_strips_host_port_non_standard_https :: bool where
  "test_redirect_url_strips_host_port_non_standard_https \<longleftrightarrow>
     build_redirect_url ''example.com:8080'' 8443 ''/api'' ''token=abc'' = ''https://example.com:8443/api?token=abc''"

definition test_redirect_url_empty_path :: bool where
  "test_redirect_url_empty_path \<longleftrightarrow> build_redirect_url ''example.com'' 443 '''' '''' = ''https://example.com/''"

definition test_redirect_url_path_without_leading_slash :: bool where
  "test_redirect_url_path_without_leading_slash \<longleftrightarrow>
     build_redirect_url ''example.com'' 443 ''path'' '''' = ''https://example.com/path''"

definition test_redirect_url_root_path_with_query :: bool where
  "test_redirect_url_root_path_with_query \<longleftrightarrow>
     build_redirect_url ''git.alk.dev'' 443 ''/'' ''repo=test'' = ''https://git.alk.dev/?repo=test''"

definition test_redirect_url_ipv6_host :: bool where
  "test_redirect_url_ipv6_host \<longleftrightarrow> build_redirect_url ''[::1]'' 443 ''/'' '''' = ''https://[::1]/''"

definition test_redirect_url_ipv6_host_with_port :: bool where
  "test_redirect_url_ipv6_host_with_port \<longleftrightarrow> build_redirect_url ''[::1]:8080'' 443 ''/'' '''' = ''https://[::1]/''"

definition test_redirect_url_ipv6_host_non_standard_https_port :: bool where
  "test_redirect_url_ipv6_host_non_standard_https_port \<longleftrightarrow>
     build_redirect_url ''[::1]:8080'' 8443 ''/'' '''' = ''https://[::1]:8443/''"

definition test_redirect_url_ipv4_host :: bool where
  "test_redirect_url_ipv4_host \<longleftrightarrow>
     build_redirect_url ''203.0.113.10'' 443 ''/'' '''' = ''https://203.0.113.10/''"

section \<open>The model passes them\<close>

lemmas number_eval = show_word_def show_nat_def show_radix.simps digit_char_def char_of_def bit_0

lemma header_tests_pass:
  assumes "http_laws L"
  shows "remove_hop_by_hop_removes_all_listed_headers L" "remove_hop_by_hop_preserves_other_headers L"
    "inject_proxy_headers_sets_x_real_ip L" "inject_proxy_headers_replaces_x_forwarded_for L"
    "inject_proxy_headers_sets_x_forwarded_proto_to_https L" "inject_proxy_headers_preserves_host L"
  by (simp_all add: remove_hop_by_hop_removes_all_listed_headers_def remove_hop_by_hop_preserves_other_headers_def
      inject_proxy_headers_sets_x_real_ip_def inject_proxy_headers_replaces_x_forwarded_for_def
      inject_proxy_headers_sets_x_forwarded_proto_to_https_def inject_proxy_headers_preserves_host_def
      make_headers_with_hop_by_hop_def insert_all_def test_addr_def http_laws.get_values [OF assms]
      http_laws.values_insert [OF assms] http_laws.values_remove_hop_by_hop [OF assms]
      http_laws.values_inject [OF assms] HOP_BY_HOP_def show_quad_def number_eval)

lemma empty_headers_test_passes:
  assumes "http_laws L"
  shows "remove_hop_by_hop_empty_headers L"
proof -
  let ?h = "remove_hop_by_hop L (hm_empty L)"
  have "filter (\<lambda>nv. fst nv = k) (hm_iter L ?h) = []" for k
    using http_laws.values_iter [OF assms, of ?h k]
    by (simp add: http_laws.values_remove_hop_by_hop [OF assms] http_laws.values_empty [OF assms] split: if_splits)
  then have "nv \<notin> set (hm_iter L ?h)" for nv
    by (metis (mono_tags, lifting) filter_empty_conv)
  then show ?thesis
    unfolding remove_hop_by_hop_empty_headers_def by (cases "hm_iter L ?h") auto
qed

lemma error_tests_pass:
  bad_gateway_response bad_gateway_content_type gateway_timeout_response gateway_timeout_content_type
  too_many_requests_response too_many_requests_content_type error_display_matches_body
  by (simp_all add: bad_gateway_response_def bad_gateway_content_type_def gateway_timeout_response_def
      gateway_timeout_content_type_def too_many_requests_response_def too_many_requests_content_type_def
      error_display_matches_body_def into_response_def proxy_error_into_response_def reply_header_def reply_text_def)

lemma visitor_tests_pass:
  kv_visitor_formats_simple_key_value kv_visitor_quotes_values_with_spaces kv_visitor_escapes_quotes_in_values
  kv_visitor_handles_numeric_values kv_visitor_handles_empty
  by (simp_all add: kv_visitor_formats_simple_key_value_def kv_visitor_quotes_values_with_spaces_def
      kv_visitor_escapes_quotes_in_values_def kv_visitor_handles_numeric_values_def kv_visitor_handles_empty_def
      kv_format_def replace_quotes_def contains_char_def)

lemma redirect_tests_pass:
  test_redirect_url_standard_443 test_redirect_url_non_standard_port test_redirect_url_with_path
  test_redirect_url_with_query test_redirect_url_with_path_and_query test_redirect_url_strips_host_port
  test_redirect_url_strips_host_port_non_standard_https test_redirect_url_empty_path
  test_redirect_url_path_without_leading_slash test_redirect_url_root_path_with_query test_redirect_url_ipv6_host
  test_redirect_url_ipv6_host_with_port test_redirect_url_ipv6_host_non_standard_https_port
  test_redirect_url_ipv4_host
  by (simp_all add: test_redirect_url_standard_443_def test_redirect_url_non_standard_port_def
      test_redirect_url_with_path_def test_redirect_url_with_query_def test_redirect_url_with_path_and_query_def
      test_redirect_url_strips_host_port_def test_redirect_url_strips_host_port_non_standard_https_def
      test_redirect_url_empty_path_def test_redirect_url_path_without_leading_slash_def
      test_redirect_url_root_path_with_query_def test_redirect_url_ipv6_host_def
      test_redirect_url_ipv6_host_with_port_def test_redirect_url_ipv6_host_non_standard_https_port_def
      test_redirect_url_ipv4_host_def build_redirect_url_def host_eval number_eval)

text \<open>
  There are such a parser and printer.
\<close>

lemma test_uris_treated:
  "treats_test_uris (\<lambda>t. case map_of test_uris t of Some u \<Rightarrow> Ok u | None \<Rightarrow> Err ''invalid uri character'')
     (\<lambda>u. unwrap_or (map_of (map prod.swap test_uris) u) [])"
  by (simp add: treats_test_uris_def test_uris_def origin_uri_def absolute_uri_def)

lemmas uri_defs = origin_uri_def absolute_uri_def

lemma uri_tests_pass:
  assumes "treats_test_uris parse to_string"
  shows "test_build_upstream_uri_with_query (alist_lib parse cap) to_string"
    "test_build_upstream_uri_without_query (alist_lib parse cap) to_string"
    "test_build_upstream_uri_https (alist_lib parse cap) to_string"
  using assms
  by (simp_all add: treats_test_uris_def test_uris_def test_build_upstream_uri_with_query_def
      test_build_upstream_uri_without_query_def test_build_upstream_uri_https_def upstream_uri_test_def
      build_upstream_uri_def alist_lib_def uri_defs)

lemma answer_tests_pass:
  assumes "treats_test_uris parse to_string"
  shows "missing_host_returns_400 (alist_lib parse cap) client" "unknown_host_returns_404 (alist_lib parse cap) client"
  using assms
  by (simp_all add: treats_test_uris_def test_uris_def missing_host_returns_400_def unknown_host_returns_404_def
      make_request_with_connect_info_def answered_with_def proxy_router_def proxy_handler_def prepare_upstream_def
      request_host_def uri_host_def make_proxy_state_def example_com_def proxy_error_into_response_def alist_lib_def
      visible_ascii_def lookup_def from_sites_def build_routing_table_def host_eval uri_defs)

lemma upstream_request_tests_pass:
  assumes "treats_test_uris parse to_string"
  shows "build_upstream_request_sets_host_from_upstream_uri (alist_lib parse cap)"
    "build_upstream_request_includes_authority_port_in_host (alist_lib parse cap)"
    "build_upstream_request_reconstructs_host_from_authority_for_h2 (alist_lib parse cap)"
    "build_upstream_request_h2_authority_wins_over_stale_host_header (alist_lib parse cap)"
    "build_upstream_request_omits_default_port_in_host (alist_lib parse cap)"
    "build_upstream_request_brackets_ipv6_authority (alist_lib parse cap)"
    "build_upstream_request_h1_client_host_header_is_forwarded (alist_lib parse cap)"
    "build_upstream_request_keeps_method_headers_and_body (alist_lib parse cap)"
  using assms
  by (simp_all add: treats_test_uris_def test_uris_def build_upstream_request_sets_host_from_upstream_uri_def
      build_upstream_request_includes_authority_port_in_host_def
      build_upstream_request_reconstructs_host_from_authority_for_h2_def
      build_upstream_request_h2_authority_wins_over_stale_host_header_def
      build_upstream_request_omits_default_port_in_host_def build_upstream_request_brackets_ipv6_authority_def
      build_upstream_request_h1_client_host_header_is_forwarded_def
      build_upstream_request_keeps_method_headers_and_body_def upstream_host_test_def make_request_def
      build_upstream_request_def authority_host_value_def alist_lib_def al_remove_def visible_ascii_def uri_defs
      number_eval Let_def)

lemma body_limit_test_passes: default_body_limit_is_100mb
  by (simp add: default_body_limit_is_100mb_def DEFAULT_BODY_LIMIT_BYTES_def)

end
