(* ===== verification/Tests_Limiter.thy ===== *)
theory Tests_Limiter
  imports Tests_Proxy
begin

text \<open>
  The unit tests of \<^verbatim>\<open>rate_limit/bucket.rs\<close> and \<^verbatim>\<open>rate_limit/mod.rs\<close>, run on the model. In a run of a
  test the calls take no time and a sleep takes as long as it says.
\<close>

section \<open>Buckets\<close>

fun consume_times :: "nat \<Rightarrow> instant \<Rightarrow> rat \<Rightarrow> u32 \<Rightarrow> token_bucket \<Rightarrow> token_bucket \<times> bool" where
  "consume_times 0 t rate mx b = (b, True)"
| "consume_times (Suc n) t rate mx b =
     (case try_consume t t rate mx b of
        (b1, admitted) \<Rightarrow> (case consume_times n t rate mx b1 of (b2, all) \<Rightarrow> (b2, admitted \<and> all)))"

definition milliseconds :: "int \<Rightarrow> instant" where
  "milliseconds n = n * 1000000"

definition token_bucket_starts_full :: bool where
  "token_bucket_starts_full \<longleftrightarrow> tokens (token_bucket_new 0 0 10 20) = 20"

definition token_bucket_consume_within_burst :: bool where
  "token_bucket_consume_within_burst \<longleftrightarrow> snd (consume_times 20 0 10 20 (token_bucket_new 0 0 10 20))"

definition token_bucket_reject_when_empty :: bool where
  "token_bucket_reject_when_empty \<longleftrightarrow>
     (let (b, all) = consume_times 5 0 10 5 (token_bucket_new 0 0 10 5)
      in all \<and> \<not> snd (try_consume 0 0 10 5 b))"

definition token_bucket_refills_over_time :: bool where
  "token_bucket_refills_over_time \<longleftrightarrow>
     (let (b, all) = consume_times 5 0 1000 5 (token_bucket_new 0 0 1000 5);
          (b1, sixth) = try_consume 0 0 1000 5 b
      in all \<and> \<not> sixth \<and> snd (try_consume (milliseconds 10) (milliseconds 10) 1000 5 b1))"

definition token_bucket_caps_at_max :: bool where
  "token_bucket_caps_at_max \<longleftrightarrow>
     (let (b, all) = consume_times 5 0 10 5 (token_bucket_new 0 0 10 5);
          (b1, _) = try_consume (milliseconds 500) (milliseconds 500) 10 5 b
      in all \<and> tokens b1 \<le> 11 / 2)"

definition token_bucket_config_reload_caps_tokens :: bool where
  "token_bucket_config_reload_caps_tokens \<longleftrightarrow>
     (let (b, admitted) = try_consume 0 0 10 20 (token_bucket_new 0 0 10 20)
      in admitted \<and> tokens (refill 0 10 10 b) \<le> u32_as_f64 10 + 1)"

definition token_bucket_config_reload_adopts_new_rate :: bool where
  "token_bucket_config_reload_adopts_new_rate \<longleftrightarrow>
     (let (b, all) = consume_times 5 0 10 5 (token_bucket_new 0 0 10 5);
          (b1, sixth) = try_consume 0 0 10 5 b
      in all \<and> \<not> sixth \<and> snd (try_consume (milliseconds 200) (milliseconds 200) 50 5 b1))"

definition normalize_ipv4_unchanged :: bool where
  "normalize_ipv4_unchanged \<longleftrightarrow> normalize_ip (V4 192 168 1 1) = V4 192 168 1 1"

definition normalize_ipv6_truncates_to_64_prefix :: bool where
  "normalize_ipv6_truncates_to_64_prefix \<longleftrightarrow>
     normalize_ip (V6 0x2001 0x0db8 0x85a3 0x0001 0x1234 0x5678 0x9abc 0xdef0) =
       V6 0x2001 0x0db8 0x85a3 0x0001 0 0 0 0"

definition normalize_ipv6_already_64_prefix :: bool where
  "normalize_ipv6_already_64_prefix \<longleftrightarrow>
     normalize_ip (V6 0x2001 0x0db8 0 0 0 0 0 0) = V6 0x2001 0x0db8 0 0 0 0 0 0"

definition normalize_ipv6_link_local :: bool where
  "normalize_ipv6_link_local \<longleftrightarrow>
     normalize_ip (V6 0xfe80 0 0 0 0x1234 0x5678 0x9abc 0xdef0) = V6 0xfe80 0 0 0 0 0 0 0"

definition normalize_loopback_ipv6 :: bool where
  "normalize_loopback_ipv6 \<longleftrightarrow> normalize_ip (V6 0 0 0 0 0 0 0 1) = V6 0 0 0 0 0 0 0 0"

section \<open>The limiter\<close>

definition make_limiter :: "u32 \<Rightarrow> u32 \<Rightarrow> dynamic_config" where
  "make_limiter rps b = test_dynamic_config\<lparr>rate_limit := \<lparr>requests_per_second = rps, burst = b\<rparr>\<rparr>"

fun check_times :: "nat \<Rightarrow> dynamic_config \<Rightarrow> ip_addr \<Rightarrow> buckets \<Rightarrow> buckets \<times> bool" where
  "check_times 0 config ip bs = (bs, True)"
| "check_times (Suc n) config ip bs =
     (case check_and_consume (rate_limit config) (clock_at 0) ip bs of
        (bs1, admitted) \<Rightarrow> (case check_times n config ip bs1 of (bs2, all) \<Rightarrow> (bs2, admitted \<and> all)))"

definition check_and_consume_allows_within_burst :: bool where
  "check_and_consume_allows_within_burst \<longleftrightarrow> snd (check_times 5 (make_limiter 10 5) (V4 192 168 1 1) Map.empty)"

definition check_and_consume_rejects_above_burst :: bool where
  "check_and_consume_rejects_above_burst \<longleftrightarrow>
     (let (bs, all) = check_times 5 (make_limiter 10 5) (V4 192 168 1 1) Map.empty
      in all \<and> \<not> snd (check_times 1 (make_limiter 10 5) (V4 192 168 1 1) bs))"

definition check_and_consume_per_ip_independent :: bool where
  "check_and_consume_per_ip_independent \<longleftrightarrow>
     (let (bs, all) = check_times 5 (make_limiter 10 5) (V4 192 168 1 1) Map.empty;
          (bs1, sixth) = check_times 1 (make_limiter 10 5) (V4 192 168 1 1) bs
      in all \<and> \<not> sixth \<and> snd (check_times 1 (make_limiter 10 5) (V4 192 168 1 2) bs1))"

definition check_and_consume_ipv6_normalized_to_64 :: bool where
  "check_and_consume_ipv6_normalized_to_64 \<longleftrightarrow>
     (let ip1 = V6 0x2001 0x0db8 0x85a3 0x0001 0x1111 0x2222 0x3333 0x4444;
          ip2 = V6 0x2001 0x0db8 0x85a3 0x0001 0x5555 0x6666 0x7777 0x8888;
          (bs, all) = check_times 5 (make_limiter 10 5) ip1 Map.empty
      in all \<and> \<not> snd (check_times 1 (make_limiter 10 5) ip2 bs))"

definition evict_removes_stale_entries :: bool where
  "evict_removes_stale_entries \<longleftrightarrow>
     (let cfg = rate_limit (make_limiter 10 20); ip1 = V4 192 168 1 1; ip2 = V4 192 168 1 2;
          bs1 = fst (check_and_consume cfg (clock_at 0) ip1 Map.empty);
          bs2 = fst (check_and_consume cfg (clock_at (milliseconds 50)) ip2 bs1);
          bs3 = evict_stale (milliseconds 50) (nat (milliseconds 25)) bs2
      in bs3 (normalize_ip ip1) = None \<and> bs3 (normalize_ip ip2) \<noteq> None)"

definition config_reload_adopted_on_next_request :: bool where
  "config_reload_adopted_on_next_request \<longleftrightarrow>
     (let (bs, first) = check_times 1 test_dynamic_config (V4 192 168 1 1) Map.empty;
          new_config = make_limiter 10 2;
          (bs1, two) = check_times 2 new_config (V4 192 168 1 1) bs
      in first \<and> two \<and> \<not> snd (check_times 1 new_config (V4 192 168 1 1) bs1))"

section \<open>The middleware\<close>

text \<open>
  The tests of the middleware put it in front of a handler that answers \<^verbatim>\<open>ok\<close> and serve it on a
  loopback port. Their requests arrive with the client's address when the service is made with
  connect info.
\<close>

definition ok_handler :: "('h, string) handler" where
  "ok_handler req = After 0 ([], text_reply 200 ''ok'')"

definition test_get :: "'h \<Rightarrow> socket_addr option \<Rightarrow> ('h, string) request" where
  "test_get headers peer =
     \<lparr>rq_method = ''GET'', rq_uri = origin_uri ''/'' None, rq_headers = headers, rq_body = '''', rq_connect_info = peer\<rparr>"

fun serve_all ::
  "('h, string) http_lib \<Rightarrow> dynamic_config \<Rightarrow> ('h, string) request list \<Rightarrow> buckets \<Rightarrow>
   (log_line list \<times> ('h, string) response) future list" where
  "serve_all L config [] bs = []"
| "serve_all L config (req # reqs) bs =
     (case rate_limit_middleware L config (clock_at 0) ok_handler bs req of
        (bs1, answer) \<Rightarrow> answer # serve_all L config reqs bs1)"

definition answers :: "nat list \<Rightarrow> (log_line list \<times> ('h, 'b) response) future list \<Rightarrow> bool" where
  "answers statuses futs = list_all2 answered_with statuses futs"

definition middleware_uses_connect_info_without_xff_header :: "('h, string) http_lib \<Rightarrow> u16 \<Rightarrow> bool" where
  "middleware_uses_connect_info_without_xff_header L port \<longleftrightarrow>
     answers [200, 200, 200, 200, 200, 429]
       (serve_all L (make_limiter 10 5)
          (replicate 6 (test_get (hm_empty L) (Some (test_addr 127 0 0 1 port)))) Map.empty)"

definition middleware_rejects_without_connect_info :: "('h, string) http_lib \<Rightarrow> bool" where
  "middleware_rejects_without_connect_info L \<longleftrightarrow>
     answers [429] (serve_all L (make_limiter 10 20) [test_get (hm_empty L) None] Map.empty)"

definition middleware_ignores_xff_header_same_bucket :: "('h, string) http_lib \<Rightarrow> u16 \<Rightarrow> bool" where
  "middleware_ignores_xff_header_same_bucket L port \<longleftrightarrow>
     answers [200, 200, 429]
       (serve_all L (make_limiter 10 2)
          (map (\<lambda>v. test_get (hm_insert L (hm_empty L) ''x-forwarded-for'' v) (Some (test_addr 127 0 0 1 port)))
             [''10.0.0.1'', ''10.0.0.2'', ''10.0.0.3'']) Map.empty)"

section \<open>The model passes them\<close>

text \<open>
  A bucket with \<open>m\<close> tokens that was last used at \<open>t\<close>. A call at the same time takes one token.
\<close>

definition still :: "instant \<Rightarrow> rat \<Rightarrow> u32 \<Rightarrow> nat \<Rightarrow> token_bucket" where
  "still t rate mx m = \<lparr>tokens = of_nat m, last_refill = t, b_rate = rate, b_max = mx, last_access = t\<rparr>"

lemma still_new: "token_bucket_new t t rate mx = still t rate mx (unat mx)"
  by (simp add: token_bucket_new_def still_def u32_as_f64_def)

lemma refill_still:
  assumes "m \<le> unat mx"
  shows "refill t rate mx (still t rate' mx' m) = still t rate mx m"
proof -
  have "m \<le> 2 ^ 53" using assms u32_as_f64_bounds(3) [of mx] by linarith
  then have "fl64 (of_nat m) = of_nat m" by (rule f64.fl_nat)
  moreover have "(of_nat m :: rat) \<le> of_nat (unat mx)" using assms by (simp only: of_nat_le_iff)
  ultimately show ?thesis by (simp add: refill_def still_def duration_since_def f64.fl_0 u32_as_f64_def Let_def)
qed

lemma consume_still:
  "Suc m \<le> unat mx \<Longrightarrow> try_consume t t rate mx (still t rate' mx' (Suc m)) = (still t rate mx m, True)"
  "try_consume t t rate mx (still t rate' mx' 0) = (still t rate mx 0, False)"
proof -
  assume m: "Suc m \<le> unat mx"
  have "m \<le> 2 ^ 53" using m u32_as_f64_bounds(3) [of mx] by linarith
  then have "fl64 (of_nat m) = of_nat m" by (rule f64.fl_nat)
  then show "try_consume t t rate mx (still t rate' mx' (Suc m)) = (still t rate mx m, True)"
    using refill_still [OF m] by (simp add: try_consume_def Let_def) (simp add: still_def)
next
  show "try_consume t t rate mx (still t rate' mx' 0) = (still t rate mx 0, False)"
    using refill_still [of 0 mx] by (simp add: try_consume_def Let_def) (simp add: still_def)
qed

lemma consume_some:
  "0 < m \<Longrightarrow> m \<le> unat mx \<Longrightarrow> try_consume t t rate mx (still t rate' mx' m) = (still t rate mx (m - 1), True)"
  using consume_still(1) [of "m - 1"] by simp

lemma still_simps: "tokens (still t rate mx m) = of_nat m" "last_refill (still t rate mx m) = t"
  by (simp_all add: still_def)

lemma consume_times_still:
  "n \<le> m \<Longrightarrow> m \<le> unat mx \<Longrightarrow> consume_times n t rate mx (still t rate mx m) = (still t rate mx (m - n), True)"
  by (induction n arbitrary: m) (simp_all add: consume_some)

lemmas bucket_eval = still_new consume_times_still consume_some consume_still(2) still_simps

lemma bucket_tests_pass:
  token_bucket_starts_full token_bucket_consume_within_burst token_bucket_reject_when_empty
  by (simp_all add: token_bucket_starts_full_def token_bucket_consume_within_burst_def
      token_bucket_reject_when_empty_def bucket_eval)

lemma cap_tests_pass: token_bucket_config_reload_caps_tokens token_bucket_caps_at_max
proof -
  have le: "tokens (refill t rate 10 b) \<le> 10" "tokens (refill t rate 5 b) \<le> 5" for t rate b
    using tokens_refill_le_max [of t rate 10 b] tokens_refill_le_max [of t rate 5 b] by (simp_all add: u32_as_f64_def)
  then show token_bucket_config_reload_caps_tokens
    using order_trans [OF le(1), of "11"]
    by (simp add: token_bucket_config_reload_caps_tokens_def bucket_eval u32_as_f64_def)
  have "tokens b' \<le> 11 / 2" if "try_consume t t 10 5 b = (b', r)" "0 \<le> tokens b" for t b b' r
    using try_consume_step(1) [OF that] by (simp add: bucket_ok_def u32_as_f64_def)
  then show token_bucket_caps_at_max
    by (simp add: token_bucket_caps_at_max_def bucket_eval split: prod.split)
qed

lemma late_consume:
  assumes "6000000000 \<le> nat t * unat rps"
  shows "snd (try_consume t t (u32_as_f64 rps) 5 (still 0 rate mx 0))"
proof -
  have "tokens (refill t (u32_as_f64 rps) 5 (still 0 rate mx 0)) = 5"
    using tokens_refill_full [of 5 t "still 0 rate mx 0" rps] assms
    by (simp add: still_simps duration_since_def u32_as_f64_def)
  then show ?thesis by (simp add: try_consume_def Let_def)
qed

lemma refill_tests_pass: token_bucket_refills_over_time token_bucket_config_reload_adopts_new_rate
  using late_consume [of 10000000 1000 1000 5] late_consume [of 200000000 50 10 5]
  by (simp_all add: token_bucket_refills_over_time_def token_bucket_config_reload_adopts_new_rate_def bucket_eval
      milliseconds_def u32_as_f64_def)

lemma normalize_tests_pass:
  normalize_ipv4_unchanged normalize_ipv6_truncates_to_64_prefix normalize_ipv6_already_64_prefix
  normalize_ipv6_link_local normalize_loopback_ipv6
  by (simp_all add: normalize_ipv4_unchanged_def normalize_ipv6_truncates_to_64_prefix_def
      normalize_ipv6_already_64_prefix_def normalize_ipv6_link_local_def normalize_loopback_ipv6_def)

lemma check_still:
  "bs (normalize_ip ip) = Some (still 0 r x m) \<Longrightarrow> 0 < m \<Longrightarrow> m \<le> unat (burst cfg) \<Longrightarrow>
   check_and_consume cfg (clock_at 0) ip bs =
     (bs(normalize_ip ip \<mapsto> still 0 (u32_as_f64 (requests_per_second cfg)) (burst cfg) (m - 1)), True)"
  "bs (normalize_ip ip) = Some (still 0 r x 0) \<Longrightarrow>
   check_and_consume cfg (clock_at 0) ip bs =
     (bs(normalize_ip ip \<mapsto> still 0 (u32_as_f64 (requests_per_second cfg)) (burst cfg) 0), False)"
  by (simp_all add: check_and_consume_def clock_at_def consume_still(2) consume_some Let_def)

lemma check_fresh:
  "bs (normalize_ip ip) = None \<Longrightarrow> burst cfg \<noteq> 0 \<Longrightarrow>
   check_and_consume cfg (clock_at 0) ip bs =
     (bs(normalize_ip ip \<mapsto> still 0 (u32_as_f64 (requests_per_second cfg)) (burst cfg) (unat (burst cfg) - 1)), True)"
  by (simp add: check_and_consume_def clock_at_def consume_some still_new unat_gt_0 Let_def)

lemma numeral_times:
  "check_times (numeral k) config ip bs =
     (case check_and_consume (rate_limit config) (clock_at 0) ip bs of
        (bs1, admitted) \<Rightarrow>
          (case check_times (pred_numeral k) config ip bs1 of (bs2, all) \<Rightarrow> (bs2, admitted \<and> all)))"
  by (simp add: numeral_eq_Suc)

lemmas limiter_eval = make_limiter_def check_still check_fresh numeral_times

lemma limiter_tests_pass:
  check_and_consume_allows_within_burst check_and_consume_rejects_above_burst
  check_and_consume_per_ip_independent check_and_consume_ipv6_normalized_to_64
  by (simp_all add: check_and_consume_allows_within_burst_def check_and_consume_rejects_above_burst_def
      check_and_consume_per_ip_independent_def check_and_consume_ipv6_normalized_to_64_def limiter_eval)

lemma fl64_numeral: "numeral k \<le> (2 ^ 53 :: int) \<Longrightarrow> fl64 (numeral k) = numeral k"
  using f64.fl_int [of "numeral k"] by simp

lemma reload_limiter_test_passes: config_reload_adopted_on_next_request
  by (simp add: config_reload_adopted_on_next_request_def test_dynamic_config_def from_sites_def make_limiter_def
      check_and_consume_def token_bucket_new_def try_consume_def refill_def duration_since_def u32_as_f64_def Let_def
      f64.fl_0 f64.fl_1 fl64_numeral numeral_times clock_at_def)

lemma evict_test_passes: evict_removes_stale_entries
  by (simp add: evict_removes_stale_entries_def evict_stale_def milliseconds_def make_limiter_def
      check_and_consume_def try_consume_def token_bucket_new_def clock_at_def Let_def)

lemma middleware_tests_pass:
  "middleware_uses_connect_info_without_xff_header L port" "middleware_rejects_without_connect_info L"
  "middleware_ignores_xff_header_same_bucket L port"
  by (simp_all add: middleware_uses_connect_info_without_xff_header_def middleware_rejects_without_connect_info_def
      middleware_ignores_xff_header_same_bucket_def answers_def answered_with_def rate_limit_middleware_def
      test_get_def test_addr_def ok_handler_def replicate_numeral limiter_eval Let_def)

end
