(* ===== verification/Tests_Files.thy ===== *)
theory Tests_Files
  imports Tests_Config
begin

text \<open>
  The unit tests of \<^verbatim>\<open>config/static_config.rs\<close>, \<^verbatim>\<open>config/fd_budget.rs\<close>, \<^verbatim>\<open>config/mod.rs\<close> and \<^verbatim>\<open>cli.rs\<close>, run
  on the model. A TOML text of a test is the table of its keys, as the reader delivers it. The soft
  descriptor limit, the times of a file and the argument parser are arguments.
\<close>

section \<open>Tables\<close>

definition raw_acme :: "string list \<Rightarrow> string \<Rightarrow> raw_tls" where
  "raw_acme domains cache_dir =
     \<lparr>rt_mode = ''acme'', rt_acme_domains = Some domains, rt_acme_cache_dir = Some cache_dir,
      rt_acme_directory = None, rt_acme_contact = None, rt_cert_path = None, rt_key_path = None\<rparr>"

definition raw_manual :: "string \<Rightarrow> string \<Rightarrow> raw_tls" where
  "raw_manual cert key =
     \<lparr>rt_mode = ''manual'', rt_acme_domains = None, rt_acme_cache_dir = None, rt_acme_directory = None,
      rt_acme_contact = None, rt_cert_path = Some cert, rt_key_path = Some key\<rparr>"

definition raw_site_of :: "string \<Rightarrow> string \<Rightarrow> raw_site" where
  "raw_site_of host upstream =
     \<lparr>rs_host = host, rs_upstream = upstream, rs_upstream_scheme = None,
      rs_upstream_connect_timeout_secs = None, rs_upstream_request_timeout_secs = None\<rparr>"

definition raw_listener_of :: "string \<Rightarrow> raw_tls \<Rightarrow> raw_listener" where
  "raw_listener_of addr tls =
     \<lparr>rl_bind_addr = addr, rl_http_port = None, rl_https_port = None, rl_tls = tls, rl_sites = None\<rparr>"

definition raw_of :: "u32 \<Rightarrow> u32 \<Rightarrow> u64 \<Rightarrow> raw_full" where
  "raw_of rps b limit =
     \<lparr>rf_listeners = None, rf_allow_wildcard_bind = None, rf_health_check_port = None,
      rf_admin_key_path = None, rf_shutdown_timeout_secs = None, rf_connection_idle_timeout_secs = None,
      rf_tls_handshake_timeout_secs = None, rf_max_connections = None, rf_logging = None,
      rf_rate_limit = \<lparr>requests_per_second = rps, burst = b\<rparr>, rf_body = \<lparr>limit_bytes = limit\<rparr>\<rparr>"

definition info_text :: raw_logging where
  "info_text = \<lparr>rg_level = Some ''info'', rg_format = Some ''text'', rg_log_file_path = None\<rparr>"

definition multi_config_toml :: raw_full where
  "multi_config_toml = (raw_of 10 20 104857600)
     \<lparr>rf_health_check_port := Some 9900, rf_admin_key_path := Some ''/etc/reverse-proxy/admin-key'',
      rf_logging := Some info_text,
      rf_listeners := Some
        [(raw_listener_of ''203.0.113.10''
            ((raw_acme [''git.alk.dev''] ''/var/lib/reverse-proxy/acme-cache-git'')
               \<lparr>rt_acme_directory := Some ''production''\<rparr>))
           \<lparr>rl_http_port := Some 80, rl_https_port := Some 443,
            rl_sites := Some [(raw_site_of ''git.alk.dev'' ''127.0.0.1:3000'')\<lparr>rs_upstream_scheme := Some ''http''\<rparr>]\<rparr>,
         (raw_listener_of ''203.0.113.11''
            (raw_manual ''/etc/ssl/alk.dev/fullchain.pem'' ''/etc/ssl/alk.dev/privkey.pem''))
           \<lparr>rl_http_port := Some 80, rl_https_port := Some 443,
            rl_sites := Some [(raw_site_of ''alk.dev'' ''127.0.0.1:8080'')\<lparr>rs_upstream_scheme := Some ''http''\<rparr>]\<rparr>]\<rparr>"

definition shared_ip_san_toml :: raw_full where
  "shared_ip_san_toml = (raw_of 10 20 104857600)
     \<lparr>rf_health_check_port := Some 9900, rf_admin_key_path := Some ''/etc/reverse-proxy/admin-key'',
      rf_logging := Some info_text,
      rf_listeners := Some
        [(raw_listener_of ''203.0.113.10''
            ((raw_acme [''git.alk.dev'', ''alk.dev''] ''/var/lib/reverse-proxy/acme-cache'')
               \<lparr>rt_acme_directory := Some ''production''\<rparr>))
           \<lparr>rl_http_port := Some 80, rl_https_port := Some 443,
            rl_sites := Some [raw_site_of ''git.alk.dev'' ''127.0.0.1:3000'', raw_site_of ''alk.dev'' ''127.0.0.1:8080'']\<rparr>]\<rparr>"

section \<open>Deserialisation\<close>

definition deserialize_multi_config :: bool where
  "deserialize_multi_config \<longleftrightarrow>
     (let config = de_full multi_config_toml;
          listener1 = fc_listeners config ! 0; listener2 = fc_listeners config ! 1
      in length (fc_listeners config) = 2 \<and> \<not> fc_allow_wildcard_bind config \<and> fc_health_check_port config = 9900 \<and>
         fc_admin_key_path config = ''/etc/reverse-proxy/admin-key'' \<and> fc_shutdown_timeout_secs config = 30 \<and>
         fc_connection_idle_timeout_secs config = 60 \<and> fc_tls_handshake_timeout_secs config = 10 \<and>
         fc_max_connections config = 1024 \<and> log_level (fc_logging config) = ''info'' \<and>
         log_format (fc_logging config) = ''text'' \<and> log_file_path (fc_logging config) = None \<and>
         bind_addr listener1 = ''203.0.113.10'' \<and> http_port listener1 = 80 \<and> https_port listener1 = 443 \<and>
         tls_mode (l_tls listener1) = ''acme'' \<and> acme_domains (l_tls listener1) = [''git.alk.dev''] \<and>
         acme_cache_dir (l_tls listener1) = ''/var/lib/reverse-proxy/acme-cache-git'' \<and>
         acme_directory (l_tls listener1) = ''production'' \<and> length (l_sites listener1) = 1 \<and>
         s_host (l_sites listener1 ! 0) = ''git.alk.dev'' \<and> s_upstream (l_sites listener1 ! 0) = ''127.0.0.1:3000'' \<and>
         s_upstream_scheme (l_sites listener1 ! 0) = ''http'' \<and>
         bind_addr listener2 = ''203.0.113.11'' \<and> tls_mode (l_tls listener2) = ''manual'' \<and>
         cert_path (l_tls listener2) = ''/etc/ssl/alk.dev/fullchain.pem'' \<and>
         key_path (l_tls listener2) = ''/etc/ssl/alk.dev/privkey.pem'' \<and> length (l_sites listener2) = 1 \<and>
         s_host (l_sites listener2 ! 0) = ''alk.dev'')"

definition deserialize_shared_ip_san :: bool where
  "deserialize_shared_ip_san \<longleftrightarrow>
     (let config = de_full shared_ip_san_toml; listener = fc_listeners config ! 0
      in length (fc_listeners config) = 1 \<and> bind_addr listener = ''203.0.113.10'' \<and>
         tls_mode (l_tls listener) = ''acme'' \<and> acme_domains (l_tls listener) = [''git.alk.dev'', ''alk.dev''] \<and>
         acme_cache_dir (l_tls listener) = ''/var/lib/reverse-proxy/acme-cache'' \<and> length (l_sites listener) = 2 \<and>
         s_host (l_sites listener ! 0) = ''git.alk.dev'' \<and> s_host (l_sites listener ! 1) = ''alk.dev'')"

definition defaults_applied_when_omitted :: bool where
  "defaults_applied_when_omitted \<longleftrightarrow>
     (let config = de_full ((raw_of 10 20 104857600)
            \<lparr>rf_listeners := Some [raw_listener_of ''192.168.1.1'' (raw_acme [''example.com''] ''/tmp/cache'')]\<rparr>);
          listener = fc_listeners config ! 0
      in \<not> fc_allow_wildcard_bind config \<and> fc_health_check_port config = 9900 \<and>
         fc_admin_key_path config = ''/etc/reverse-proxy/admin-key'' \<and> fc_shutdown_timeout_secs config = 30 \<and>
         fc_connection_idle_timeout_secs config = 60 \<and> fc_tls_handshake_timeout_secs config = 10 \<and>
         fc_max_connections config = 1024 \<and> log_level (fc_logging config) = ''info'' \<and>
         log_format (fc_logging config) = ''text'' \<and> log_file_path (fc_logging config) = None \<and>
         http_port listener = 80 \<and> https_port listener = 443 \<and>
         acme_directory (l_tls listener) = ''production'' \<and> l_sites listener = [])"

definition logging_with_file_path :: bool where
  "logging_with_file_path \<longleftrightarrow>
     (let config = de_full ((raw_of 10 20 104857600)
            \<lparr>rf_logging := Some \<lparr>rg_level = Some ''debug'', rg_format = Some ''json'',
                                rg_log_file_path = Some ''/var/log/reverse-proxy/access.log''\<rparr>,
             rf_listeners := Some [raw_listener_of ''203.0.113.10'' (raw_manual ''/etc/ssl/cert.pem'' ''/etc/ssl/key.pem'')]\<rparr>)
      in log_level (fc_logging config) = ''debug'' \<and> log_format (fc_logging config) = ''json'' \<and>
         log_file_path (fc_logging config) = Some ''/var/log/reverse-proxy/access.log'')"

definition site_defaults :: bool where
  "site_defaults \<longleftrightarrow>
     (let config = de_full ((raw_of 10 20 104857600)
            \<lparr>rf_listeners := Some
               [(raw_listener_of ''203.0.113.10'' (raw_acme [''test.example''] ''/tmp/acme''))
                  \<lparr>rl_sites := Some [raw_site_of ''test.example'' ''127.0.0.1:8080'']\<rparr>]\<rparr>);
          site = l_sites (fc_listeners config ! 0) ! 0
      in s_host site = ''test.example'' \<and> s_upstream site = ''127.0.0.1:8080'' \<and> s_upstream_scheme site = ''http'' \<and>
         s_upstream_connect_timeout_secs site = 5 \<and> s_upstream_request_timeout_secs site = 60)"

section \<open>Descriptor budget\<close>

definition fd_budget_fits_when_max_connections_plus_reserved_within_limit :: bool where
  "fd_budget_fits_when_max_connections_plus_reserved_within_limit \<longleftrightarrow>
     is_ok (check_fd_budget 800 8192) \<and> is_ok (check_fd_budget 960 1024)"

definition fd_budget_rejects_when_max_connections_plus_reserved_exceeds_limit :: bool where
  "fd_budget_rejects_when_max_connections_plus_reserved_exceeds_limit \<longleftrightarrow>
     \<not> is_ok (check_fd_budget 1024 1024) \<and> \<not> is_ok (check_fd_budget 1023 1024) \<and> \<not> is_ok (check_fd_budget 8129 8192)"

definition fd_budget_boundary_exactly_at_limit_passes :: bool where
  "fd_budget_boundary_exactly_at_limit_passes \<longleftrightarrow>
     is_ok (check_fd_budget 960 1024) \<and> \<not> is_ok (check_fd_budget 961 1024)"

definition validate_nofile_rejects_absurd_max_connections_on_finite_limits :: "u64 option \<Rightarrow> bool" where
  "validate_nofile_rejects_absurd_max_connections_on_finite_limits rl \<longleftrightarrow>
     soft_nofile_limit rl = None \<or>
     (let errors = validate_nofile rl (- 1 div 2)
      in length errors = 1 \<and> (case errors ! 0 of MaxConnectionsExceedsNofile _ _ _ \<Rightarrow> True | _ \<Rightarrow> False))"

definition validate_nofile_accepts_sane_max_connections_in_this_environment :: "u64 option \<Rightarrow> bool" where
  "validate_nofile_accepts_sane_max_connections_in_this_environment rl \<longleftrightarrow>
     (case soft_nofile_limit rl of
        None \<Rightarrow> True
      | Some soft \<Rightarrow>
          (let sane = (if soft < RESERVED_FDS then 0 else soft - RESERVED_FDS) in validate_nofile rl sane = []))"

section \<open>Reading a file\<close>

definition valid_config_toml :: raw_full where
  "valid_config_toml = (raw_of 20 40 104857600)
     \<lparr>rf_health_check_port := Some 9900, rf_admin_key_path := Some ''/tmp/test-admin-key'',
      rf_logging := Some info_text,
      rf_listeners := Some
        [(raw_listener_of ''127.0.0.1''
            ((raw_acme [''test.local''] ''/tmp/acme-cache'')
               \<lparr>rt_acme_directory := Some ''staging'', rt_acme_contact := Some ''mailto:admin@test.local''\<rparr>))
           \<lparr>rl_http_port := Some 80, rl_https_port := Some 443,
            rl_sites := Some [raw_site_of ''test.local'' ''127.0.0.1:8080'']\<rparr>]\<rparr>"

definition bound_to :: "string \<Rightarrow> raw_site list option \<Rightarrow> raw_full \<Rightarrow> raw_full" where
  "bound_to addr raw_sites r = r
     \<lparr>rf_listeners := Some
        [(raw_listener_of addr
            ((raw_acme [''test.local''] ''/tmp/acme-cache'')\<lparr>rt_acme_contact := Some ''mailto:admin@test.local''\<rparr>))
           \<lparr>rl_http_port := Some 80, rl_https_port := Some 443, rl_sites := raw_sites\<rparr>]\<rparr>"

text \<open>
  An undisturbed read of a file whose text is \<open>toml\<close>.
\<close>

definition undisturbed :: "string \<Rightarrow> file_read" where
  "undisturbed content =
     \<lparr>metadata_before = Ok (Some 0), config_content = Ok content, metadata_after = Ok (Some 0)\<rparr>"

definition read_table :: "raw_full \<Rightarrow> bool \<Rightarrow> reload_error + static_config \<times> dynamic_config" where
  "read_table raw cli =
     snd (read_and_validate_config (\<lambda>_. Ok raw) no_files (undisturbed ''toml'') ''/tmp/d/config.toml'' cli)"

definition read_and_validate_config_valid_file :: bool where
  "read_and_validate_config_valid_file \<longleftrightarrow>
     (case read_table valid_config_toml False of
        Inr (sc, dc) \<Rightarrow> requests_per_second (rate_limit dc) = 20 \<and> health_check_port sc = 9900
      | Inl _ \<Rightarrow> False)"

definition read_and_validate_config_missing_file :: bool where
  "read_and_validate_config_missing_file \<longleftrightarrow>
     (case snd (read_and_validate_config (\<lambda>_. Err ''no table'') no_files
             \<lparr>metadata_before = Err ''No such file or directory'', config_content = Err ''No such file or directory'',
              metadata_after = Err ''No such file or directory''\<rparr> ''/nonexistent/config.toml'' False) of
        Inl (Io _) \<Rightarrow> True
      | _ \<Rightarrow> False)"

definition read_and_validate_config_invalid_toml :: bool where
  "read_and_validate_config_invalid_toml \<longleftrightarrow>
     (case snd (read_and_validate_config (\<lambda>_. Err ''expected newline'') no_files (undisturbed ''invalid toml {{{'')
             ''/tmp/d/config.toml'' False) of
        Inl (Parse _) \<Rightarrow> True
      | _ \<Rightarrow> False)"

definition read_and_validate_config_validation_fails :: bool where
  "read_and_validate_config_validation_fails \<longleftrightarrow>
     (case read_table (bound_to ''127.0.0.1'' None
             ((raw_of 0 20 104857600)\<lparr>rf_health_check_port := Some 9900, rf_logging := Some info_text\<rparr>)) False of
        Inl (ReloadValidation msg) \<Rightarrow> contains_str msg ''requests_per_second''
      | _ \<Rightarrow> False)"

definition read_and_validate_config_wildcard_bind_allowed_with_flag :: bool where
  "read_and_validate_config_wildcard_bind_allowed_with_flag \<longleftrightarrow>
     is_ok (read_table (bound_to ''0.0.0.0'' (Some [raw_site_of ''test.local'' ''127.0.0.1:8080''])
       ((raw_of 10 20 104857600)\<lparr>rf_health_check_port := Some 9900, rf_logging := Some info_text\<rparr>)) True)"

definition read_and_validate_config_wildcard_bind_rejected_without_flag :: bool where
  "read_and_validate_config_wildcard_bind_rejected_without_flag \<longleftrightarrow>
     (case read_table (bound_to ''0.0.0.0'' (Some [raw_site_of ''test.local'' ''127.0.0.1:8080''])
             ((raw_of 10 20 104857600)\<lparr>rf_health_check_port := Some 9900, rf_logging := Some info_text\<rparr>)) False of
        Inl (ReloadValidation msg) \<Rightarrow> contains_str msg ''0.0.0.0''
      | _ \<Rightarrow> False)"

text \<open>
  The file is written again with the same text at some moment; the two times are what the reads of
  its metadata see.
\<close>

definition read_and_validate_config_mtime_change_detected :: "instant option \<Rightarrow> instant option \<Rightarrow> bool" where
  "read_and_validate_config_mtime_change_detected before after \<longleftrightarrow>
     (case snd (read_and_validate_config (\<lambda>_. Ok valid_config_toml) no_files
             \<lparr>metadata_before = Ok before, config_content = Ok ''toml'', metadata_after = Ok after\<rparr>
             ''/tmp/d/config.toml'' False) of
        Inl FileChangedDuringRead \<Rightarrow> True
      | Inr _ \<Rightarrow> True
      | Inl _ \<Rightarrow> False)"

section \<open>Command line\<close>

definition cli_default_config_path :: "clap \<Rightarrow> bool" where
  "cli_default_config_path clap \<longleftrightarrow>
     (case parse_from clap [''reverse-proxy''] of
        Inr c \<Rightarrow> cli_config c = DEFAULT_CONFIG_PATH \<and> \<not> cli_validate c \<and> \<not> cli_allow_wildcard c
      | Inl _ \<Rightarrow> False)"

definition cli_custom_config_path :: "clap \<Rightarrow> bool" where
  "cli_custom_config_path clap \<longleftrightarrow>
     (case parse_from clap [''reverse-proxy'', ''--config'', ''/tmp/test.toml''] of
        Inr c \<Rightarrow> cli_config c = ''/tmp/test.toml''
      | Inl _ \<Rightarrow> False)"

definition cli_validate_flag :: "clap \<Rightarrow> bool" where
  "cli_validate_flag clap \<longleftrightarrow>
     (case parse_from clap [''reverse-proxy'', ''--validate''] of Inr c \<Rightarrow> cli_validate c | Inl _ \<Rightarrow> False)"

definition cli_allow_wildcard_bind_flag :: "clap \<Rightarrow> bool" where
  "cli_allow_wildcard_bind_flag clap \<longleftrightarrow>
     (case parse_from clap [''reverse-proxy'', ''--allow-wildcard-bind''] of
        Inr c \<Rightarrow> cli_allow_wildcard c
      | Inl _ \<Rightarrow> False)"

definition cli_all_flags :: "clap \<Rightarrow> bool" where
  "cli_all_flags clap \<longleftrightarrow>
     (case parse_from clap [''reverse-proxy'', ''--config'', ''/custom/path.toml'', ''--validate'', ''--allow-wildcard-bind''] of
        Inr c \<Rightarrow> cli_config c = ''/custom/path.toml'' \<and> cli_validate c \<and> cli_allow_wildcard c
      | Inl _ \<Rightarrow> False)"

definition cli_version_flag :: "clap \<Rightarrow> bool" where
  "cli_version_flag clap \<longleftrightarrow>
     (case parse_from clap [''reverse-proxy'', ''--version''] of Inl e \<Rightarrow> e = DisplayVersion | Inr _ \<Rightarrow> False)"

definition parse_from_vec :: "clap \<Rightarrow> bool" where
  "parse_from_vec clap \<longleftrightarrow>
     (case parse_from clap [''reverse-proxy'', ''--validate'', ''--allow-wildcard-bind''] of
        Inr c \<Rightarrow> cli_validate c \<and> cli_allow_wildcard c
      | Inl _ \<Rightarrow> False)"

text \<open>
  The tests of \<open>load_config\<close> write their text to \<^verbatim>\<open>/tmp/d/config.toml\<close> and parse a command line that
  names it.
\<close>

definition load_test ::
  "clap \<Rightarrow> u64 option \<Rightarrow> string list \<Rightarrow> toml_reader \<Rightarrow> (string \<Rightarrow> io_error + string) \<Rightarrow> string list \<Rightarrow>
   (load_error + loaded_config \<Rightarrow> bool) \<Rightarrow> bool" where
  "load_test clap rl existing toml read_to_string args check =
     (case parse_from clap args of
        Inr c \<Rightarrow> check (load_config toml (files existing) rl read_to_string c)
      | Inl _ \<Rightarrow> False)"

definition one_file :: "string \<Rightarrow> string \<Rightarrow> string \<Rightarrow> io_error + string" where
  "one_file path content p = (if p = path then Ok content else Err ''No such file or directory'')"

abbreviation loading :: "string list \<Rightarrow> string list" where
  "loading flags \<equiv> [''reverse-proxy'', ''--config'', ''/tmp/d/config.toml''] @ flags"

abbreviation stored :: "string \<Rightarrow> io_error + string" where
  "stored \<equiv> one_file ''/tmp/d/config.toml'' ''toml''"

definition fails_saying :: "string list \<Rightarrow> load_error + loaded_config \<Rightarrow> bool" where
  "fails_saying texts r =
     (case r of Inl e \<Rightarrow> list_ex (contains_str (show_load_error e)) texts | Inr _ \<Rightarrow> False)"

definition load_config_missing_file :: "clap \<Rightarrow> u64 option \<Rightarrow> bool" where
  "load_config_missing_file clap rl \<longleftrightarrow>
     load_test clap rl [] (\<lambda>_. Err ''no table'') (\<lambda>p. Err ''No such file or directory'')
       [''reverse-proxy'', ''--config'', ''/nonexistent/config.toml'']
       (fails_saying [''failed to read config file'', ''No such file''])"

definition load_config_invalid_toml :: "clap \<Rightarrow> u64 option \<Rightarrow> bool" where
  "load_config_invalid_toml clap rl \<longleftrightarrow>
     load_test clap rl [] (\<lambda>_. Err ''expected newline'') (one_file ''/tmp/d/bad.toml'' ''not valid toml {{{{'')
       [''reverse-proxy'', ''--config'', ''/tmp/d/bad.toml'']
       (fails_saying [''failed to parse config file''])"

definition load_config_valid_file :: "clap \<Rightarrow> u64 option \<Rightarrow> bool" where
  "load_config_valid_file clap rl \<longleftrightarrow>
     load_test clap rl [''/tmp/d/cert.pem'', ''/tmp/d/key.pem'']
       (\<lambda>_. Ok ((raw_of 10 20 104857600)
          \<lparr>rf_listeners := Some
             [(raw_listener_of ''127.0.0.1'' (raw_manual ''/tmp/d/cert.pem'' ''/tmp/d/key.pem''))
                \<lparr>rl_http_port := Some 80, rl_https_port := Some 443,
                 rl_sites := Some [raw_site_of ''test.local'' ''127.0.0.1:8080'']\<rparr>]\<rparr>))
       stored (loading [])
       (\<lambda>r. case r of
          Inr loaded \<Rightarrow> \<not> ld_allow_wildcard_bind loaded \<and> length (listeners (ld_static_config loaded)) = 1 \<and>
            length (sites (ld_dynamic_config loaded)) = 1
        | Inl _ \<Rightarrow> False)"

definition wildcard_table :: "bool option \<Rightarrow> raw_full" where
  "wildcard_table allow = (raw_of 10 20 104857600)
     \<lparr>rf_allow_wildcard_bind := allow,
      rf_listeners := Some
        [(raw_listener_of ''0.0.0.0''
            ((raw_acme [''test.local''] ''/tmp/acme'')\<lparr>rt_acme_contact := Some ''mailto:admin@test.local''\<rparr>))
           \<lparr>rl_http_port := Some 80, rl_https_port := Some 443\<rparr>]\<rparr>"

definition load_config_wildcard_bind_or_logic :: "clap \<Rightarrow> u64 option \<Rightarrow> bool" where
  "load_config_wildcard_bind_or_logic clap rl \<longleftrightarrow>
     load_test clap rl [] (\<lambda>_. Ok (wildcard_table (Some False))) stored (loading [''--allow-wildcard-bind''])
       (\<lambda>r. case r of Inr loaded \<Rightarrow> ld_allow_wildcard_bind loaded | Inl _ \<Rightarrow> False)"

definition load_config_wildcard_bind_rejected_without_flag :: "clap \<Rightarrow> u64 option \<Rightarrow> bool" where
  "load_config_wildcard_bind_rejected_without_flag clap rl \<longleftrightarrow>
     load_test clap rl [] (\<lambda>_. Ok (wildcard_table None)) stored (loading [])
       (fails_saying [''config validation failed''])"

definition load_config_validation_fails_reports_errors :: "clap \<Rightarrow> u64 option \<Rightarrow> bool" where
  "load_config_validation_fails_reports_errors clap rl \<longleftrightarrow>
     load_test clap rl [] (\<lambda>_. Ok (raw_of 0 20 0)) stored (loading []) (fails_saying [''config validation failed''])"

definition load_config_allow_wildcard_from_config_only :: "clap \<Rightarrow> u64 option \<Rightarrow> bool" where
  "load_config_allow_wildcard_from_config_only clap rl \<longleftrightarrow>
     load_test clap rl [] (\<lambda>_. Ok (wildcard_table (Some True))) stored (loading [])
       (\<lambda>r. case r of Inr loaded \<Rightarrow> ld_allow_wildcard_bind loaded | Inl _ \<Rightarrow> False)"

section \<open>The model passes them\<close>

lemmas table_defs = raw_acme_def raw_manual_def raw_site_of_def raw_listener_of_def raw_of_def info_text_def
  multi_config_toml_def shared_ip_san_toml_def valid_config_toml_def bound_to_def

lemmas table_eval = table_defs de_full_def de_listener_def de_tls_def de_site_def de_logging_def default_defs Let_def

lemma deserialisation_tests_pass:
  deserialize_multi_config deserialize_shared_ip_san defaults_applied_when_omitted logging_with_file_path site_defaults
  by (simp_all add: deserialize_multi_config_def deserialize_shared_ip_san_def defaults_applied_when_omitted_def
      logging_with_file_path_def site_defaults_def table_eval)

lemma fd_budget_tests_pass:
  fd_budget_fits_when_max_connections_plus_reserved_within_limit
  fd_budget_rejects_when_max_connections_plus_reserved_exceeds_limit
  fd_budget_boundary_exactly_at_limit_passes
  by (simp_all add: fd_budget_fits_when_max_connections_plus_reserved_within_limit_def
      fd_budget_rejects_when_max_connections_plus_reserved_exceeds_limit_def
      fd_budget_boundary_exactly_at_limit_passes_def check_fd_budget_def RESERVED_FDS_def)

text \<open>
  The two tests that ask the environment pass where its soft limit is at least the reserve, and
  below half of the address space.
\<close>

lemma nofile_environment_tests_pass:
  assumes "\<And>soft. soft_nofile_limit rl = Some soft \<Longrightarrow> 64 \<le> unat soft \<and> unat soft < 2 ^ 63"
  shows "validate_nofile_rejects_absurd_max_connections_on_finite_limits rl"
    "validate_nofile_accepts_sane_max_connections_in_this_environment rl"
  using assms
  by (auto simp: validate_nofile_rejects_absurd_max_connections_on_finite_limits_def
      validate_nofile_accepts_sane_max_connections_in_this_environment_def validate_nofile_def check_fd_budget_def
      RESERVED_FDS_def word_less_nat_alt split: option.splits)

lemmas read_eval = read_table_def undisturbed_def read_and_validate_config_def into_static_and_dynamic_def
  reload_error_from_validation_def no_files_def validation_eval table_eval

lemma read_tests_pass:
  read_and_validate_config_valid_file read_and_validate_config_missing_file read_and_validate_config_invalid_toml
  read_and_validate_config_validation_fails read_and_validate_config_wildcard_bind_allowed_with_flag
  read_and_validate_config_wildcard_bind_rejected_without_flag
  by (simp_all add: read_and_validate_config_valid_file_def read_and_validate_config_missing_file_def
      read_and_validate_config_invalid_toml_def read_and_validate_config_validation_fails_def
      read_and_validate_config_wildcard_bind_allowed_with_flag_def
      read_and_validate_config_wildcard_bind_rejected_without_flag_def read_eval site_fixtures
      show_validation_error.simps)

lemma mtime_test_passes: "read_and_validate_config_mtime_change_detected before after"
  by (simp add: read_and_validate_config_mtime_change_detected_def read_eval site_fixtures)

text \<open>
  The command line tests pass with every parser that behaves as documented.
\<close>

lemma test_lines:
  "usual_line cli_command []" "usual_line cli_command [OptFlag ''validate'']"
  "usual_line cli_command [OptFlag ''allow-wildcard-bind'']"
  "usual_line cli_command [OptFlag ''validate'', OptFlag ''allow-wildcard-bind'']"
  "\<not> starts_with p ''-'' \<Longrightarrow> usual_line cli_command [OptValue ''config'' p]"
  "\<not> starts_with p ''-'' \<Longrightarrow> usual_line cli_command [OptValue ''config'' p, OptFlag ''allow-wildcard-bind'']"
  "\<not> starts_with p ''-'' \<Longrightarrow>
    usual_line cli_command [OptValue ''config'' p, OptFlag ''validate'', OptFlag ''allow-wildcard-bind'']"
  by (simp_all add: usual_line_def cli_command_def kind_of_def find_spec_def)

lemma flag_tests_pass:
  assumes "clap_laws clap"
  shows "cli_default_config_path clap" "cli_validate_flag clap" "cli_allow_wildcard_bind_flag clap"
    "parse_from_vec clap"
  using test_lines(1-4) [THEN clap_laws.parse_usual [OF assms, of _ "''reverse-proxy''"]]
  by (simp_all add: cli_default_config_path_def cli_validate_flag_def cli_allow_wildcard_bind_flag_def
      parse_from_vec_def given_def)

lemma parse_config:
  assumes "clap_laws clap" and "\<not> starts_with p ''-''"
  shows "parse_from clap [''reverse-proxy'', ''--config'', p] =
      Ok \<lparr>cli_config = p, cli_validate = False, cli_allow_wildcard = False\<rparr>"
    "parse_from clap [''reverse-proxy'', ''--config'', p, ''--allow-wildcard-bind''] =
      Ok \<lparr>cli_config = p, cli_validate = False, cli_allow_wildcard = True\<rparr>"
    "parse_from clap [''reverse-proxy'', ''--config'', p, ''--validate'', ''--allow-wildcard-bind''] =
      Ok \<lparr>cli_config = p, cli_validate = True, cli_allow_wildcard = True\<rparr>"
  using test_lines(5-7) [OF assms(2), THEN clap_laws.parse_usual [OF assms(1), of _ "''reverse-proxy''"]]
  by (simp_all add: given_def)

lemma config_tests_pass:
  "clap_laws clap \<Longrightarrow> cli_custom_config_path clap" "clap_laws clap \<Longrightarrow> cli_all_flags clap"
  by (simp_all add: cli_custom_config_path_def cli_all_flags_def parse_config)

lemma version_test_passes: "clap_laws clap \<Longrightarrow> cli_version_flag clap"
  using clap_laws.shows_version [of clap cli_command "''reverse-proxy''"]
  by (simp add: cli_version_flag_def parse_from_def cli_command_def)

lemmas load_eval = load_test_def one_file_def fails_saying_def load_config_def full_config_parse_def
  into_static_and_dynamic_def wildcard_table_def files_def bullet_list_def validation_eval table_eval

lemma load_error_tests_pass:
  assumes "clap_laws clap"
  shows "load_config_missing_file clap rl" "load_config_invalid_toml clap rl"
    "load_config_wildcard_bind_rejected_without_flag clap rl" "load_config_validation_fails_reports_errors clap rl"
  using assms
  by (simp_all add: load_config_missing_file_def load_config_invalid_toml_def parse_config
      load_config_wildcard_bind_rejected_without_flag_def load_config_validation_fails_reports_errors_def load_eval)

lemma load_ok_tests_pass:
  assumes "clap_laws clap" and "validate_nofile rl 1024 = []"
  shows "load_config_valid_file clap rl" "load_config_wildcard_bind_or_logic clap rl"
    "load_config_allow_wildcard_from_config_only clap rl"
  using assms
  by (simp_all add: load_config_valid_file_def load_config_wildcard_bind_or_logic_def parse_config
      load_config_allow_wildcard_from_config_only_def load_eval site_fixtures)

end
