(* ===== verification/Tests_Server.thy ===== *)
theory Tests_Server
  imports Server Signals Tests_Limiter Tests_Files
begin

text \<open>
  The unit tests of \<^verbatim>\<open>server.rs\<close> and \<^verbatim>\<open>shutdown.rs\<close>, run on the model. In a run of a test the calls
  take no time and a sleep takes as long as it says. The texts of operating system errors, the time
  a handshake takes and the descriptor limit are arguments.
\<close>

section \<open>Accept errors\<close>

definition from_raw_os_error :: "(int \<Rightarrow> string) \<Rightarrow> int \<Rightarrow> accept_error" where
  "from_raw_os_error os_text errno = \<lparr>ae_kind = OtherKind, ae_os = Some errno, ae_text = os_text errno\<rparr>"

definition error_new :: "error_kind \<Rightarrow> string \<Rightarrow> accept_error" where
  "error_new kind text = \<lparr>ae_kind = kind, ae_os = None, ae_text = text\<rparr>"

definition emfile :: "(int \<Rightarrow> string) \<Rightarrow> accept_error" where
  "emfile os_text = from_raw_os_error os_text EMFILE"

definition transient_accept_errors_are_wouldblock_or_interrupted :: "(int \<Rightarrow> string) \<Rightarrow> bool" where
  "transient_accept_errors_are_wouldblock_or_interrupted os_text \<longleftrightarrow>
     is_transient_accept_error (error_new WouldBlock ''would block'') \<and>
     is_transient_accept_error (error_new Interrupted ''interrupted'') \<and>
     \<not> is_transient_accept_error (emfile os_text)"

definition resource_accept_errors_include_emfile_enfile_enobufs_enomem :: "(int \<Rightarrow> string) \<Rightarrow> bool" where
  "resource_accept_errors_include_emfile_enfile_enobufs_enomem os_text \<longleftrightarrow>
     list_all (\<lambda>errno. is_resource_accept_error (from_raw_os_error os_text errno)) [EMFILE, ENFILE, ENOBUFS, ENOMEM] \<and>
     is_resource_accept_error (error_new ConnectionAborted ''aborted'') \<and>
     \<not> is_resource_accept_error (error_new OtherKind ''denied'') \<and>
     \<not> is_resource_accept_error (error_new OtherKind ''other'')"

definition resource_error_kinds_are_not_transient :: "(int \<Rightarrow> string) \<Rightarrow> bool" where
  "resource_error_kinds_are_not_transient os_text \<longleftrightarrow>
     list_all (\<lambda>errno. \<not> is_transient_accept_error (from_raw_os_error os_text errno)) [EMFILE, ENFILE, ENOBUFS, ENOMEM]"

definition reporter_emits_first_error_immediately :: "(int \<Rightarrow> string) \<Rightarrow> bool" where
  "reporter_emits_first_error_immediately os_text \<longleftrightarrow>
     (let report = accept_error_report_new; report1 = fst (report_log 0 0 (emfile os_text) report)
      in last_log report = None \<and> last_log report1 \<noteq> None \<and> suppressed report1 = 0)"

fun log_times :: "nat \<Rightarrow> accept_error \<Rightarrow> accept_error_report \<Rightarrow> accept_error_report" where
  "log_times 0 e r = r"
| "log_times (Suc n) e r = log_times n e (fst (report_log 0 0 e r))"

definition reporter_suppresses_repeats_within_window :: "(int \<Rightarrow> string) \<Rightarrow> bool" where
  "reporter_suppresses_repeats_within_window os_text \<longleftrightarrow>
     suppressed (log_times 1000 (emfile os_text) (fst (report_log 0 0 (emfile os_text) accept_error_report_new))) = 1000"

definition reporter_emits_summary_after_window_with_suppressed_count :: "(int \<Rightarrow> string) \<Rightarrow> instant \<Rightarrow> bool" where
  "reporter_emits_summary_after_window_with_suppressed_count os_text now \<longleftrightarrow>
     (let report = (fst (report_log now now (emfile os_text) accept_error_report_new))
            \<lparr>last_log := Some (now - int ACCEPT_ERROR_SUPPRESS), suppressed := 5558248\<rparr>;
          report1 = fst (report_log now now (emfile os_text) report)
      in suppressed report1 = 0 \<and>
         (case last_log report1 of Some t \<Rightarrow> t > now - int (from_secs 1) | None \<Rightarrow> False))"

definition reporter_keys_by_error_signature :: "(int \<Rightarrow> string) \<Rightarrow> bool" where
  "reporter_keys_by_error_signature os_text \<longleftrightarrow>
     (let reports1 = fst (reporter_report 0 0 (emfile os_text) Map.empty);
          reports2 = fst (reporter_report 0 0 (from_raw_os_error os_text ENFILE) reports1)
      in card (dom reports2) = 2)"

definition handle_accept_error_sleeps_on_resource_errors :: "(int \<Rightarrow> string) \<Rightarrow> bool" where
  "handle_accept_error_sleeps_on_resource_errors os_text \<longleftrightarrow>
     snd (snd (handle_accept_error 0 0 (emfile os_text) Map.empty)) = ACCEPT_BACKOFF_RESOURCE"

definition handle_accept_error_sleeps_less_on_other_errors :: bool where
  "handle_accept_error_sleeps_less_on_other_errors \<longleftrightarrow>
     snd (snd (handle_accept_error 0 0 (error_new OtherKind ''boom'') Map.empty)) = ACCEPT_BACKOFF_OTHER"

definition handle_accept_error_does_not_sleep_on_transient_errors :: bool where
  "handle_accept_error_does_not_sleep_on_transient_errors \<longleftrightarrow>
     snd (snd (handle_accept_error 0 0 (error_new Interrupted ''interrupted'') Map.empty)) = 0"

section \<open>Handshakes and permits\<close>

definition accept_tls_with_timeout_times_out_on_stalled_handshake :: bool where
  "accept_tls_with_timeout_times_out_on_stalled_handshake \<longleftrightarrow>
     (case accept_tls_with_timeout (from_secs 3) (Never :: (io_error + unit) future) of
        After d r \<Rightarrow> r = Err HandshakeTimeout \<and> d = from_secs 3
      | Never \<Rightarrow> False)"

definition accept_tls_with_timeout_completes_real_handshake :: "duration \<Rightarrow> 's \<Rightarrow> bool" where
  "accept_tls_with_timeout_completes_real_handshake needed stream \<longleftrightarrow>
     (case accept_tls_with_timeout (from_secs 5) (After needed (Ok stream)) of
        After d r \<Rightarrow> is_ok r
      | Never \<Rightarrow> False)"

definition connection_semaphore_reports_cap :: bool where
  "connection_semaphore_reports_cap \<longleftrightarrow> sem_max_connections (conn_semaphore_new 7) = 7"

definition connection_semaphore_permits_are_shared_across_clones :: bool where
  "connection_semaphore_permits_are_shared_across_clones \<longleftrightarrow>
     (case Option.bind (acquire_owned (conn_semaphore_new 2)) acquire_owned of
        Some sem \<Rightarrow> acquire_owned sem = None \<and> acquire_owned (release_permit (release_permit sem)) \<noteq> None
      | None \<Rightarrow> False)"

section \<open>Idle state and watchdog\<close>

definition idle_state_starts_not_idle :: bool where
  "idle_state_starts_not_idle \<longleftrightarrow>
     (let state = idle_state_new 0
      in int (idle_for 0 state) < milliseconds 100 \<and> idle_in_flight state = 0)"

definition idle_state_touch_updates_last_activity :: bool where
  "idle_state_touch_updates_last_activity \<longleftrightarrow>
     (let state = idle_state_new 0; now = milliseconds 50
      in int (idle_for now state) \<ge> milliseconds 50 \<and> int (idle_for now (touch now state)) < milliseconds 10)"

definition fetch_add :: "usize \<Rightarrow> idle_state \<Rightarrow> idle_state" where
  "fetch_add n s = s\<lparr>idle_in_flight := idle_in_flight s + n\<rparr>"

definition fetch_sub :: "usize \<Rightarrow> idle_state \<Rightarrow> idle_state" where
  "fetch_sub n s = s\<lparr>idle_in_flight := idle_in_flight s - n\<rparr>"

definition idle_state_in_flight_tracks_increments_and_decrements :: bool where
  "idle_state_in_flight_tracks_increments_and_decrements \<longleftrightarrow>
     (let s0 = idle_state_new 0; s1 = fetch_add 1 s0; s2 = fetch_add 1 s1; s3 = fetch_sub 1 s2
      in idle_in_flight s0 = 0 \<and> idle_in_flight s1 = 1 \<and> idle_in_flight s2 = 2 \<and> idle_in_flight s3 = 1)"

definition idle_watchdog_fires_after_timeout_when_idle :: bool where
  "idle_watchdog_fires_after_timeout_when_idle \<longleftrightarrow>
     (let timeout = milliseconds 50
      in case idle_watchdog (\<lambda>_. idle_state_new 0) (nat timeout) 0 of
           Some elapsed \<Rightarrow> elapsed \<ge> timeout \<and> elapsed < timeout + milliseconds 100
         | None \<Rightarrow> False)"

text \<open>
  A watchdog under a timer: whether the timer wins.
\<close>

definition timer_wins :: "instant \<Rightarrow> instant option \<Rightarrow> bool" where
  "timer_wins deadline fired = (case fired of None \<Rightarrow> True | Some t \<Rightarrow> t > deadline)"

definition idle_watchdog_does_not_fire_while_request_in_flight :: bool where
  "idle_watchdog_does_not_fire_while_request_in_flight \<longleftrightarrow>
     (let state = fetch_add 1 (idle_state_new 0)
      in timer_wins (milliseconds 200) (idle_watchdog (\<lambda>_. state) (nat (milliseconds 50)) 0) \<and>
         idle_in_flight state = 1)"

definition idle_watchdog_resets_after_request_completes :: bool where
  "idle_watchdog_resets_after_request_completes \<longleftrightarrow>
     (let timeout = milliseconds 50; start = milliseconds 30;
          state = touch start (fetch_sub 1 (fetch_add 1 (idle_state_new 0)))
      in case idle_watchdog (\<lambda>_. state) (nat timeout) start of
           Some t \<Rightarrow> t - start \<ge> timeout
         | None \<Rightarrow> False)"

definition idle_watchdog_rechecks_after_short_sleep_when_partially_idle :: bool where
  "idle_watchdog_rechecks_after_short_sleep_when_partially_idle \<longleftrightarrow>
     (let start = milliseconds 40
      in case idle_watchdog (\<lambda>_. idle_state_new 0) (nat (milliseconds 100)) start of
           Some t \<Rightarrow> t - start \<ge> milliseconds 60 \<and> t - start < milliseconds 200
         | None \<Rightarrow> False)"

definition idle_watchdog_never_fires_with_persistent_in_flight :: bool where
  "idle_watchdog_never_fires_with_persistent_in_flight \<longleftrightarrow>
     timer_wins (milliseconds 300)
       (idle_watchdog (\<lambda>_. fetch_add 1 (idle_state_new 0)) (nat (milliseconds 50)) 0)"

section \<open>Shutdown\<close>

definition graceful_shutdown_new_default_timeout :: bool where
  "graceful_shutdown_new_default_timeout \<longleftrightarrow>
     (let shutdown = graceful_shutdown_new 30
      in gs_shutdown_timeout shutdown = from_secs 30 \<and> \<not> is_shutdown_requested shutdown)"

definition graceful_shutdown_trigger :: bool where
  "graceful_shutdown_trigger \<longleftrightarrow>
     (let shutdown = graceful_shutdown_new 10
      in \<not> is_shutdown_requested shutdown \<and> is_shutdown_requested (trigger_shutdown shutdown))"

text \<open>
  The value in the channel is true once a value has been sent; reading it with
  \<^verbatim>\<open>borrow_and_update\<close> marks what was sent so far as seen.
\<close>

definition borrow_and_update :: "graceful_shutdown \<Rightarrow> nat \<times> bool" where
  "borrow_and_update g = (gs_sent g, gs_sent g > 0)"

definition graceful_shutdown_subscribe_receives_signal :: bool where
  "graceful_shutdown_subscribe_receives_signal \<longleftrightarrow>
     (let shutdown = graceful_shutdown_new 5;
          (seen, before) = borrow_and_update shutdown;
          triggered = trigger_shutdown shutdown
      in \<not> before \<and> receiver_changed seen triggered \<and> snd (borrow_and_update triggered))"

definition graceful_shutdown_custom_timeout :: bool where
  "graceful_shutdown_custom_timeout \<longleftrightarrow> gs_shutdown_timeout (graceful_shutdown_new 60) = from_secs 60"

definition sighup_reload_valid_config :: "u64 option \<Rightarrow> bool" where
  "sighup_reload_valid_config rl \<longleftrightarrow>
     (let h = fst (handle_sighup_reload (\<lambda>_. Ok valid_config_toml) no_files rl (undisturbed ''toml'')
                     (new_handle test_static_config False) ''/tmp/d/config.toml'')
      in requests_per_second (rate_limit (load h)) = 20 \<and> burst (rate_limit (load h)) = 40)"

definition sighup_reload_invalid_config_keeps_old :: "u64 option \<Rightarrow> bool" where
  "sighup_reload_invalid_config_keeps_old rl \<longleftrightarrow>
     (let h = fst (handle_sighup_reload (\<lambda>_. Err ''expected newline'') no_files rl (undisturbed ''invalid toml {{{'')
                     (new_handle test_static_config False) ''/tmp/d/config.toml'')
      in requests_per_second (rate_limit (load h)) = 10)"

definition sighup_reload_missing_file_logs_error :: "u64 option \<Rightarrow> bool" where
  "sighup_reload_missing_file_logs_error rl \<longleftrightarrow>
     (let h = fst (handle_sighup_reload (\<lambda>_. Err ''no table'') no_files rl
                     \<lparr>metadata_before = Err ''No such file or directory'', config_content = Err ''No such file or directory'',
                      metadata_after = Err ''No such file or directory''\<rparr>
                     (new_handle test_static_config False) ''/nonexistent/config.toml'')
      in requests_per_second (rate_limit (load h)) = 10)"

section \<open>The model passes them\<close>

lemmas error_eval = from_raw_os_error_def error_new_def emfile_def is_transient_accept_error_def
  is_resource_accept_error_def EMFILE_def ENFILE_def ENOBUFS_def ENOMEM_def

lemma classification_tests_pass:
  "transient_accept_errors_are_wouldblock_or_interrupted os_text"
  "resource_accept_errors_include_emfile_enfile_enobufs_enomem os_text" "resource_error_kinds_are_not_transient os_text"
  by (simp_all add: transient_accept_errors_are_wouldblock_or_interrupted_def
      resource_accept_errors_include_emfile_enfile_enobufs_enomem_def resource_error_kinds_are_not_transient_def
      error_eval)

lemma log_times_suppressed:
  "log_times n e \<lparr>last_log = Some 0, suppressed = k\<rparr> = \<lparr>last_log = Some 0, suppressed = k + of_nat n\<rparr>"
  by (induction n arbitrary: k) (simp_all add: report_log_def ACCEPT_ERROR_SUPPRESS_def Let_def)

lemma reporter_tests_pass:
  "reporter_emits_first_error_immediately os_text" "reporter_suppresses_repeats_within_window os_text"
  "reporter_emits_summary_after_window_with_suppressed_count os_text now"
  by (simp_all add: reporter_emits_first_error_immediately_def reporter_suppresses_repeats_within_window_def
      reporter_emits_summary_after_window_with_suppressed_count_def report_log_def accept_error_report_new_def
      log_times_suppressed from_secs_def Let_def)

lemma reporter_key_test_passes:
  "os_text EMFILE \<noteq> os_text ENFILE \<Longrightarrow> reporter_keys_by_error_signature os_text"
  by (simp add: reporter_keys_by_error_signature_def reporter_report_def emfile_def from_raw_os_error_def Let_def
      split: prod.split)

lemma backoff_tests_pass:
  "handle_accept_error_sleeps_on_resource_errors os_text" handle_accept_error_sleeps_less_on_other_errors
  handle_accept_error_does_not_sleep_on_transient_errors
  by (simp_all add: handle_accept_error_sleeps_on_resource_errors_def
      handle_accept_error_sleeps_less_on_other_errors_def handle_accept_error_does_not_sleep_on_transient_errors_def
      handle_accept_error_def error_eval split: prod.split)

lemma handshake_tests_pass:
  accept_tls_with_timeout_times_out_on_stalled_handshake
  "needed \<le> from_secs 5 \<Longrightarrow> accept_tls_with_timeout_completes_real_handshake needed stream"
  by (simp_all add: accept_tls_with_timeout_times_out_on_stalled_handshake_def
      accept_tls_with_timeout_completes_real_handshake_def accept_tls_with_timeout_def)

lemma semaphore_tests_pass:
  connection_semaphore_reports_cap connection_semaphore_permits_are_shared_across_clones
  by (simp_all add: connection_semaphore_reports_cap_def connection_semaphore_permits_are_shared_across_clones_def
      conn_semaphore_new_def acquire_owned_def release_permit_def)

lemmas idle_eval = idle_state_new_def idle_for_def touch_def fetch_add_def fetch_sub_def milliseconds_def

lemma idle_state_tests_pass:
  idle_state_starts_not_idle idle_state_touch_updates_last_activity
  idle_state_in_flight_tracks_increments_and_decrements
  by (simp_all add: idle_state_starts_not_idle_def idle_state_touch_updates_last_activity_def
      idle_state_in_flight_tracks_increments_and_decrements_def idle_eval)

lemma watchdog_fires_tests_pass:
  idle_watchdog_fires_after_timeout_when_idle idle_watchdog_resets_after_request_completes
  idle_watchdog_rechecks_after_short_sleep_when_partially_idle
  by (simp_all add: idle_watchdog_fires_after_timeout_when_idle_def idle_watchdog_resets_after_request_completes_def
      idle_watchdog_rechecks_after_short_sleep_when_partially_idle_def idle_watchdog.simps idle_eval)

lemma watchdog_waits_tests_pass:
  idle_watchdog_does_not_fire_while_request_in_flight idle_watchdog_never_fires_with_persistent_in_flight
proof -
  have "idle_watchdog (\<lambda>_. fetch_add 1 (idle_state_new 0)) timeout 0 = None" for timeout
    using idle_watchdog_Some [of "\<lambda>_. fetch_add 1 (idle_state_new 0)" timeout 0]
    by (cases "idle_watchdog (\<lambda>_. fetch_add 1 (idle_state_new 0)) timeout 0") (auto simp: idle_eval)
  then show idle_watchdog_does_not_fire_while_request_in_flight idle_watchdog_never_fires_with_persistent_in_flight
    by (simp_all add: idle_watchdog_does_not_fire_while_request_in_flight_def timer_wins_def
        idle_watchdog_never_fires_with_persistent_in_flight_def) (simp add: idle_eval)
qed

lemma shutdown_tests_pass:
  graceful_shutdown_new_default_timeout graceful_shutdown_trigger graceful_shutdown_subscribe_receives_signal
  graceful_shutdown_custom_timeout
  by (simp_all add: graceful_shutdown_new_default_timeout_def graceful_shutdown_trigger_def
      graceful_shutdown_subscribe_receives_signal_def graceful_shutdown_custom_timeout_def graceful_shutdown_new_def
      is_shutdown_requested_def trigger_shutdown_def receiver_changed_def borrow_and_update_def)

lemma sighup_tests_pass:
  "sighup_reload_invalid_config_keeps_old rl" "sighup_reload_missing_file_logs_error rl"
  by (simp_all add: sighup_reload_invalid_config_keeps_old_def sighup_reload_missing_file_logs_error_def
      handle_sighup_reload_def read_and_validate_config_def undisturbed_def load_def reload_handle_new_def)

lemma sighup_valid_test_passes:
  assumes "validate_nofile rl 1024 = []"
  shows "sighup_reload_valid_config rl"
  using assms
  by (simp add: sighup_reload_valid_config_def handle_sighup_reload_def read_eval site_fixtures
      reload_def reload_check_def load_def reload_handle_new_def)

end
