(* ===== verification/Tests_Admin.thy ===== *)
theory Tests_Admin
  imports Admin Tests_Proxy Tests_Files
begin

text \<open>
  The unit tests of \<^verbatim>\<open>admin/auth.rs\<close> and \<^verbatim>\<open>health.rs\<close>, run on the model. The digest, the network, the
  routing library and the random bytes are arguments; the request of a test client reaches the
  router of the listener that the test has started.
\<close>

section \<open>Loading the key\<close>

definition load_key :: "crypto \<Rightarrow> string \<Rightarrow> admin_key_error + string option" where
  "load_key C key_content =
     snd (load_admin_key C (one_file ''/tmp/d/admin-key'' key_content) ''/tmp/d/admin-key'')"

definition load_admin_key_empty_path_returns_none :: "crypto \<Rightarrow> (string \<Rightarrow> io_error + string) \<Rightarrow> bool" where
  "load_admin_key_empty_path_returns_none C read_to_string \<longleftrightarrow> snd (load_admin_key C read_to_string '''') = Ok None"

definition load_admin_key_missing_file_returns_none :: "crypto \<Rightarrow> bool" where
  "load_admin_key_missing_file_returns_none C \<longleftrightarrow>
     snd (load_admin_key C (\<lambda>_. Err ''No such file or directory'') ''/nonexistent/admin-key'') = Ok None"

definition load_admin_key_valid_file_returns_hash :: "crypto \<Rightarrow> bool" where
  "load_admin_key_valid_file_returns_hash C \<longleftrightarrow>
     load_key C (''test-secret-key'' @ [CHR 0x0A]) = Ok (Some (sha256 C ''test-secret-key''))"

definition load_admin_key_trims_whitespace :: "crypto \<Rightarrow> bool" where
  "load_admin_key_trims_whitespace C \<longleftrightarrow>
     load_key C (''  test-secret-key  '' @ [CHR 0x0A]) = Ok (Some (sha256 C ''test-secret-key''))"

definition load_admin_key_empty_file_returns_error :: "crypto \<Rightarrow> bool" where
  "load_admin_key_empty_file_returns_error C \<longleftrightarrow> load_key C (''  '' @ [CHR 0x0A]) = Err EmptyFile"

definition hash_is_deterministic :: "crypto \<Rightarrow> bool" where
  "hash_is_deterministic C \<longleftrightarrow>
     (case (load_key C (''same-key'' @ [CHR 0x0A]), load_key C (''same-key'' @ [CHR 0x0A])) of
        (Inr (Some hash1), Inr (Some hash2)) \<Rightarrow> hash1 = hash2
      | _ \<Rightarrow> False)"

section \<open>The listener\<close>

text \<open>
  A started listener: its address, the admin state that it serves when there is one, and the world
  that its handlers work on.
\<close>

record test_listener =
  tl_addr :: socket_addr
  tl_admin :: "(admin_state \<times> nat) option"
  tl_world :: admin_world

definition test_admin_world :: "string \<Rightarrow> admin_world" where
  "test_admin_world hash = \<lparr>aw_handle = new_handle test_static_config False, aw_hashes = (\<lambda>_. hash)\<rparr>"

definition test_admin_state :: admin_state where
  "test_admin_state = \<lparr>ad_config_path = ''/tmp/d/config.toml'', ad_start_time = 0, ad_key_hash = 0\<rparr>"

definition start_test_listener_with_admin :: "'l tcp \<Rightarrow> crypto \<Rightarrow> string \<Rightarrow> test_listener option" where
  "start_test_listener_with_admin net C key_content =
     (case load_key C key_content of
        Inr (Some key_hash) \<Rightarrow>
          (case snd (start_health_check_listener net [] 0 (Some test_admin_state) (Some 0)) of
             Inr (addr, listener, served) \<Rightarrow>
               Some \<lparr>tl_addr = addr, tl_admin = served, tl_world = test_admin_world key_hash\<rparr>
           | Inl _ \<Rightarrow> None)
      | _ \<Rightarrow> None)"

definition call ::
  "('h, string) http_lib \<Rightarrow> ('h, string) axum \<Rightarrow> crypto \<Rightarrow> admin_env \<Rightarrow> test_listener \<Rightarrow> string \<Rightarrow> string \<Rightarrow>
   string option \<Rightarrow> test_listener \<times> admin_response" where
  "call L A C en l method path token =
     (let headers = (case token of
            Some t \<Rightarrow> hm_insert L (hm_empty L) ''authorization'' (''Bearer '' @ t) | None \<Rightarrow> hm_empty L);
          req = \<lparr>rq_method = method, rq_uri = origin_uri path None, rq_headers = headers, rq_body = '''',
                 rq_connect_info = None\<rparr>
      in case tl_admin l of
           Some (st, k) \<Rightarrow>
             (case admin_router L A C en st k (tl_world l) req of (w, logs, resp) \<Rightarrow> (l\<lparr>tl_world := w\<rparr>, resp))
         | None \<Rightarrow> (l, health_router A req))"

fun admin_status :: "admin_response \<Rightarrow> nat" where
  "admin_status (Bare s) = s"
| "admin_status (Json s j) = s"

definition test_health_check_returns_200 ::
  "('h, string) http_lib \<Rightarrow> ('h, string) axum \<Rightarrow> 'l tcp \<Rightarrow> crypto \<Rightarrow> admin_env \<Rightarrow> bool" where
  "test_health_check_returns_200 L A net C en \<longleftrightarrow>
     (case start_test_listener_with_admin net C ''test-admin-key'' of
        Some l \<Rightarrow> admin_status (snd (call L A C en l ''GET'' ''/health'' None)) = 200
      | None \<Rightarrow> False)"

definition is_loopback :: "ip_addr \<Rightarrow> bool" where
  "is_loopback ip = (case ip of V4 a b c d \<Rightarrow> a = 127 | V6 a b c d e f g h \<Rightarrow> [a, b, c, d, e, f, g, h] = [0, 0, 0, 0, 0, 0, 0, 1])"

definition test_health_check_binds_to_localhost :: "'l tcp \<Rightarrow> crypto \<Rightarrow> bool" where
  "test_health_check_binds_to_localhost net C \<longleftrightarrow>
     (case start_test_listener_with_admin net C ''test-admin-key'' of
        Some l \<Rightarrow> is_loopback (sa_ip (tl_addr l))
      | None \<Rightarrow> False)"

definition test_admin_reload_with_valid_token ::
  "('h, string) http_lib \<Rightarrow> ('h, string) axum \<Rightarrow> 'l tcp \<Rightarrow> crypto \<Rightarrow> admin_env \<Rightarrow> bool" where
  "test_admin_reload_with_valid_token L A net C en \<longleftrightarrow>
     (let raw = valid_config_toml\<lparr>rf_rate_limit := \<lparr>requests_per_second = 10, burst = 20\<rparr>\<rparr>;
          en' = en\<lparr>en_toml := \<lambda>_. Ok raw, en_exists := no_files, en_file := undisturbed ''toml''\<rparr>
      in case start_test_listener_with_admin net C (''test-admin-key'' @ [CHR 0x0A]) of
           Some l \<Rightarrow>
             (case snd (call L A C en' l ''POST'' ''/admin/reload'' (Some ''test-admin-key'')) of
                Json s (ReloadResponse status msg) \<Rightarrow> s = 200 \<and> status = ''ok''
              | _ \<Rightarrow> False)
         | None \<Rightarrow> False)"

definition test_admin_reload_with_wrong_token_returns_401 ::
  "('h, string) http_lib \<Rightarrow> ('h, string) axum \<Rightarrow> 'l tcp \<Rightarrow> crypto \<Rightarrow> admin_env \<Rightarrow> bool" where
  "test_admin_reload_with_wrong_token_returns_401 L A net C en \<longleftrightarrow>
     (case start_test_listener_with_admin net C ''correct-key'' of
        Some l \<Rightarrow> admin_status (snd (call L A C en l ''POST'' ''/admin/reload'' (Some ''wrong-key''))) = 401
      | None \<Rightarrow> False)"

definition test_admin_reload_with_no_token_returns_401 ::
  "('h, string) http_lib \<Rightarrow> ('h, string) axum \<Rightarrow> 'l tcp \<Rightarrow> crypto \<Rightarrow> admin_env \<Rightarrow> bool" where
  "test_admin_reload_with_no_token_returns_401 L A net C en \<longleftrightarrow>
     (case start_test_listener_with_admin net C ''some-key'' of
        Some l \<Rightarrow> admin_status (snd (call L A C en l ''POST'' ''/admin/reload'' None)) = 401
      | None \<Rightarrow> False)"

definition test_admin_status_with_valid_token ::
  "('h, string) http_lib \<Rightarrow> ('h, string) axum \<Rightarrow> 'l tcp \<Rightarrow> crypto \<Rightarrow> admin_env \<Rightarrow> bool" where
  "test_admin_status_with_valid_token L A net C en \<longleftrightarrow>
     (case start_test_listener_with_admin net C ''status-key'' of
        Some l \<Rightarrow>
          (case snd (call L A C en l ''GET'' ''/admin/status'' (Some ''status-key'')) of
             Json s (StatusResponse status uptime_secs n) \<Rightarrow> s = 200 \<and> status = ''ok''
           | _ \<Rightarrow> False)
      | None \<Rightarrow> False)"

definition test_admin_rotate_key ::
  "('h, string) http_lib \<Rightarrow> ('h, string) axum \<Rightarrow> 'l tcp \<Rightarrow> crypto \<Rightarrow> admin_env \<Rightarrow> bool" where
  "test_admin_rotate_key L A net C en \<longleftrightarrow>
     (case start_test_listener_with_admin net C ''initial-key'' of
        Some l \<Rightarrow>
          (case call L A C en l ''POST'' ''/admin/rotate-key'' (Some ''initial-key'') of
             (l1, Json s (RotateKeyResponse status new_key)) \<Rightarrow>
               s = 200 \<and> status = ''ok'' \<and> new_key \<noteq> '''' \<and>
               admin_status (snd (call L A C en l1 ''GET'' ''/admin/status'' (Some ''initial-key''))) = 401 \<and>
               admin_status (snd (call L A C en l1 ''GET'' ''/admin/status'' (Some new_key))) = 200
           | _ \<Rightarrow> False)
      | None \<Rightarrow> False)"

definition test_health_endpoint_always_200 ::
  "('h, string) http_lib \<Rightarrow> ('h, string) axum \<Rightarrow> 'l tcp \<Rightarrow> crypto \<Rightarrow> admin_env \<Rightarrow> bool" where
  "test_health_endpoint_always_200 L A net C en \<longleftrightarrow>
     (case start_test_listener_with_admin net C ''any-key'' of
        Some l \<Rightarrow>
          admin_status (snd (call L A C en l ''GET'' ''/health'' None)) = 200 \<and>
          admin_status (snd (call L A C en l ''GET'' ''/health'' (Some ''random''))) = 200
      | None \<Rightarrow> False)"

definition test_admin_disabled_returns_404 ::
  "('h, string) http_lib \<Rightarrow> ('h, string) axum \<Rightarrow> 'l tcp \<Rightarrow> crypto \<Rightarrow> admin_env \<Rightarrow> admin_world \<Rightarrow> bool" where
  "test_admin_disabled_returns_404 L A net C en w \<longleftrightarrow>
     (case snd (start_health_check_listener net [] 0 None None) of
        Inr (addr, listener, served) \<Rightarrow>
          (let l = \<lparr>tl_addr = addr, tl_admin = served, tl_world = w\<rparr>
           in admin_status (snd (call L A C en l ''POST'' ''/admin/reload'' (Some ''some-key''))) = 404 \<and>
              admin_status (snd (call L A C en l ''GET'' ''/admin/status'' (Some ''some-key''))) = 404 \<and>
              admin_status (snd (call L A C en l ''GET'' ''/health'' None)) = 200)
      | Inl _ \<Rightarrow> False)"

section \<open>The model passes them\<close>

lemma white_space_bytes:
  "white_space =
     [[CHR 0x09], [CHR 0x0A], [CHR 0x0B], [CHR 0x0C], [CHR 0x0D], [CHR 0x20], [CHR 0xC2, CHR 0x85], [CHR 0xC2, CHR 0xA0],
      [CHR 0xE1, CHR 0x9A, CHR 0x80], [CHR 0xE2, CHR 0x80, CHR 0xA8], [CHR 0xE2, CHR 0x80, CHR 0xA9],
      [CHR 0xE2, CHR 0x80, CHR 0xAF], [CHR 0xE2, CHR 0x81, CHR 0x9F], [CHR 0xE3, CHR 0x80, CHR 0x80],
      [CHR 0xE2, CHR 0x80, CHR 0x80], [CHR 0xE2, CHR 0x80, CHR 0x81], [CHR 0xE2, CHR 0x80, CHR 0x82],
      [CHR 0xE2, CHR 0x80, CHR 0x83], [CHR 0xE2, CHR 0x80, CHR 0x84], [CHR 0xE2, CHR 0x80, CHR 0x85],
      [CHR 0xE2, CHR 0x80, CHR 0x86], [CHR 0xE2, CHR 0x80, CHR 0x87], [CHR 0xE2, CHR 0x80, CHR 0x88],
      [CHR 0xE2, CHR 0x80, CHR 0x89], [CHR 0xE2, CHR 0x80, CHR 0x8A]]"
  by (simp add: white_space_def char_of_def bit_0)

lemma trim_start_with_numeral:
  "trim_start_with ws (numeral k) s =
     (case find (\<lambda>w. w \<noteq> [] \<and> starts_with s w) ws of
        None \<Rightarrow> s | Some w \<Rightarrow> trim_start_with ws (pred_numeral k) (drop (length w) s))"
  by (simp add: numeral_eq_Suc)

lemma trimmed:
  "trim (''test-secret-key'' @ [CHR 0x0A]) = ''test-secret-key''"
  "trim (''  test-secret-key  '' @ [CHR 0x0A]) = ''test-secret-key''"
  "trim (''  '' @ [CHR 0x0A]) = []" "trim (''same-key'' @ [CHR 0x0A]) = ''same-key''"
  "trim (''test-admin-key'' @ [CHR 0x0A]) = ''test-admin-key''" "trim ''test-admin-key'' = ''test-admin-key''"
  "trim ''correct-key'' = ''correct-key''" "trim ''some-key'' = ''some-key''" "trim ''status-key'' = ''status-key''"
  "trim ''initial-key'' = ''initial-key''" "trim ''any-key'' = ''any-key''"
  by (simp_all add: trim_def trim_start_def trim_end_def white_space_bytes trim_start_with_numeral)

lemma load_key_trim:
  "load_key C content = (if trim content = [] then Err EmptyFile else Ok (Some (sha256 C (trim content))))"
  by (simp add: load_key_def load_admin_key_def one_file_def Let_def)

lemma key_tests_pass:
  "load_admin_key_empty_path_returns_none C read_to_string" "load_admin_key_missing_file_returns_none C"
  "load_admin_key_valid_file_returns_hash C" "load_admin_key_trims_whitespace C"
  "load_admin_key_empty_file_returns_error C" "hash_is_deterministic C"
  unfolding load_admin_key_empty_path_returns_none_def load_admin_key_missing_file_returns_none_def
      load_admin_key_valid_file_returns_hash_def load_admin_key_trims_whitespace_def
      load_admin_key_empty_file_returns_error_def hash_is_deterministic_def load_key_trim trimmed
  by (simp_all add: load_admin_key_def)

text \<open>
  What the tests use of the network: binding a free port of the loopback address succeeds and gives
  a listener on that address. What they use of the routing library: routes made with \<^verbatim>\<open>get\<close> and
  \<^verbatim>\<open>post\<close> serve these methods, and an unmatched request is answered with 404.
\<close>

definition test_network :: "'l tcp \<Rightarrow> bool" where
  "test_network net =
     (case tcp_bind net [] \<lparr>sa_ip = V4 127 0 0 1, sa_port = 0, sa_scope = 0\<rparr> of
        Inr l \<Rightarrow> (case tcp_local_addr net l of Inr a \<Rightarrow> sa_ip a = V4 127 0 0 1 | Inl _ \<Rightarrow> False)
      | Inl _ \<Rightarrow> False)"

definition test_routing :: "('h, 'b) axum \<Rightarrow> bool" where
  "test_routing A \<longleftrightarrow>
     ax_get A ''GET'' \<and> ax_post A ''POST'' \<and> \<not> ax_post A ''GET'' \<and> (\<forall>req. ax_not_found A req = Bare 404)"

lemma test_network_bind:
  assumes "test_network net"
  obtains l a where "tcp_bind net [] \<lparr>sa_ip = V4 127 0 0 1, sa_port = 0, sa_scope = 0\<rparr> = Ok l"
    "tcp_local_addr net l = Ok a" "sa_ip a = V4 127 0 0 1"
  using assms by (auto simp: test_network_def split: sum.splits)

lemma test_listener_started:
  assumes "test_network net" "trim content \<noteq> []"
  shows "\<exists>a. start_test_listener_with_admin net C content =
      Some \<lparr>tl_addr = a, tl_admin = Some (test_admin_state, 0), tl_world = test_admin_world (sha256 C (trim content))\<rparr> \<and>
    sa_ip a = V4 127 0 0 1"
  by (rule test_network_bind [OF assms(1)])
    (simp add: start_test_listener_with_admin_def start_health_check_listener_def load_key_trim assms(2))

lemma test_started:
  assumes "test_network net" "trim content = key" "key \<noteq> []"
  obtains a where "start_test_listener_with_admin net C content =
      Some \<lparr>tl_addr = a, tl_admin = Some (test_admin_state, 0), tl_world = test_admin_world (sha256 C key)\<rparr>"
    "sa_ip a = V4 127 0 0 1"
  using test_listener_started [OF assms(1), of content C] assms by auto

lemmas call_eval = call_def admin_router_def admin_routes_def admin_auth_middleware_def health_router_def
  health_handler_def origin_uri_def test_admin_world_def test_admin_state_def test_routing_def alist_lib_def
  al_remove_def visible_ascii_def Let_def

lemma health_tests_pass:
  assumes "test_network net" "test_routing A"
  shows "test_health_check_returns_200 (alist_lib parse cap) A net C en"
    "test_health_endpoint_always_200 (alist_lib parse cap) A net C en"
    "test_health_check_binds_to_localhost net C"
proof -
  show "test_health_check_returns_200 (alist_lib parse cap) A net C en"
    by (rule test_started [OF assms(1) trimmed(6), of C])
      (use assms(2) in \<open>simp_all add: test_health_check_returns_200_def call_eval\<close>)
  show "test_health_check_binds_to_localhost net C"
    by (rule test_started [OF assms(1) trimmed(6), of C])
      (simp_all add: test_health_check_binds_to_localhost_def is_loopback_def)
  show "test_health_endpoint_always_200 (alist_lib parse cap) A net C en"
    by (rule test_started [OF assms(1) trimmed(11), of C])
      (use assms(2) in \<open>simp_all add: test_health_endpoint_always_200_def call_eval\<close>)
qed

text \<open>
  The tests with a wrong key rely on digests of different keys being different.
\<close>

lemma refusal_tests_pass:
  assumes "test_network net" "test_routing A" "sha256 C ''wrong-key'' \<noteq> sha256 C ''correct-key''"
  shows "test_admin_reload_with_wrong_token_returns_401 (alist_lib parse cap) A net C en"
    "test_admin_reload_with_no_token_returns_401 (alist_lib parse cap) A net C en"
proof -
  show "test_admin_reload_with_wrong_token_returns_401 (alist_lib parse cap) A net C en"
    by (rule test_started [OF assms(1) trimmed(7), of C])
      (use assms(2,3) in \<open>simp_all add: test_admin_reload_with_wrong_token_returns_401_def call_eval\<close>)
  show "test_admin_reload_with_no_token_returns_401 (alist_lib parse cap) A net C en"
    by (rule test_started [OF assms(1) trimmed(8), of C])
      (use assms(2) in \<open>simp_all add: test_admin_reload_with_no_token_returns_401_def call_eval\<close>)
qed

lemma status_test_passes:
  assumes "test_network net" "test_routing A"
  shows "test_admin_status_with_valid_token (alist_lib parse cap) A net C en"
  by (rule test_started [OF assms(1) trimmed(9), of C])
    (use assms(2) in \<open>simp_all add: test_admin_status_with_valid_token_def status_handler_def call_eval\<close>)

lemma rotate_test_passes:
  assumes "test_network net" "test_routing A" "hex_encode C (en_random en) \<noteq> []"
    "visible_ascii (hex_encode C (en_random en))"
    "sha256 C ''initial-key'' \<noteq> sha256 C (hex_encode C (en_random en))"
  shows "test_admin_rotate_key (alist_lib parse cap) A net C en"
  by (rule test_started [OF assms(1) trimmed(10), of C])
    (use assms(2-5) in \<open>simp_all add: test_admin_rotate_key_def rotate_key_handler_def status_handler_def call_eval\<close>)

lemma disabled_test_passes:
  assumes "test_network net" "test_routing A"
  shows "test_admin_disabled_returns_404 (alist_lib parse cap) A net C en w"
  by (rule test_network_bind [OF assms(1)])
    (use assms(2) in \<open>simp_all add: test_admin_disabled_returns_404_def start_health_check_listener_def call_eval\<close>)

lemma admin_reload_test_passes:
  assumes "test_network net" "test_routing A" "validate_nofile (en_getrlimit en) 1024 = []"
  shows "test_admin_reload_with_valid_token (alist_lib parse cap) A net C en"
  by (rule test_started [OF assms(1) trimmed(5), of C])
    (use assms(2,3) in \<open>simp_all add: test_admin_reload_with_valid_token_def reload_handler_def call_eval read_eval
        site_fixtures reload_def reload_check_def reload_handle_new_def\<close>)

end
