(* ===== verification/Tests_Setup.thy ===== *)
theory Tests_Setup
  imports Tls_Setup Log_Files Tests_Files
begin

text \<open>
  The unit tests of \<^verbatim>\<open>tls/config.rs\<close>, \<^verbatim>\<open>tls/acceptor.rs\<close>, \<^verbatim>\<open>tls/acme.rs\<close>, \<^verbatim>\<open>logging/mod.rs\<close> and
  \<^verbatim>\<open>logging/reopen.rs\<close>, run on the model. The libraries are arguments. Left out are the tests whose
  assertions are about fields and types of \<^verbatim>\<open>rustls\<close> and \<^verbatim>\<open>rustls-acme\<close> that the sources do not use.
\<close>

section \<open>Certificates and cipher suites\<close>

definition test_load_certs_from_pem :: "rustls \<Rightarrow> bool" where
  "test_load_certs_from_pem R \<longleftrightarrow>
     (case load_certs R ''/tmp/d/cert.pem'' of Inr certs \<Rightarrow> length certs = 1 | Inl _ \<Rightarrow> False)"

definition test_cipher_suite_restriction :: "(cipher_suite \<Rightarrow> string) \<Rightarrow> bool" where
  "test_cipher_suite_restriction debug \<longleftrightarrow>
     (let names = map debug (cp_cipher_suites crypto_provider);
          some = (\<lambda>text. list_ex (\<lambda>cs. contains_str cs text) names)
      in length (cp_cipher_suites crypto_provider) = 7 \<and>
         some ''AES_256_GCM_SHA384'' \<and> some ''AES_128_GCM_SHA256'' \<and> some ''CHACHA20_POLY1305_SHA256'' \<and>
         some ''ECDHE_ECDSA_WITH_AES_256_GCM_SHA384'' \<and> some ''ECDHE_ECDSA_WITH_AES_128_GCM_SHA256'' \<and>
         some ''ECDHE_RSA_WITH_AES_256_GCM_SHA384'' \<and> some ''ECDHE_RSA_WITH_AES_128_GCM_SHA256'')"

definition test_no_chacha20_for_tls12 :: "(cipher_suite \<Rightarrow> string) \<Rightarrow> bool" where
  "test_no_chacha20_for_tls12 debug \<longleftrightarrow>
     \<not> list_ex (\<lambda>cs. contains_str (debug cs) ''ECDHE'' \<and> contains_str (debug cs) ''CHACHA20'')
         (cp_cipher_suites crypto_provider)"

definition test_load_certs_empty_file :: "rustls \<Rightarrow> bool" where
  "test_load_certs_empty_file R \<longleftrightarrow> \<not> is_ok (load_certs R ''/tmp/d/empty.pem'')"

definition test_load_certs_nonexistent_file :: "rustls \<Rightarrow> bool" where
  "test_load_certs_nonexistent_file R \<longleftrightarrow> \<not> is_ok (load_certs R ''/nonexistent/path/cert.pem'')"

definition test_load_private_key_nonexistent_file :: "rustls \<Rightarrow> bool" where
  "test_load_private_key_nonexistent_file R \<longleftrightarrow> \<not> is_ok (load_private_key R ''/nonexistent/path/key.pem'')"

section \<open>Setup of a listener\<close>

definition test_acme_tls_alpn_value :: bool where
  "test_acme_tls_alpn_value \<longleftrightarrow> ACME_TLS_ALPN_01 = ''acme-tls/1''"

definition test_build_acme_server_config :: "rustls \<Rightarrow> acme_config \<Rightarrow> bool" where
  "test_build_acme_server_config R resolver \<longleftrightarrow>
     (case build_acme_server_config R resolver of
        Inr config \<Rightarrow>
          ''h2'' \<in> set (sc_alpn_protocols config) \<and> ''http/1.1'' \<in> set (sc_alpn_protocols config) \<and>
          ACME_TLS_ALPN_01 \<in> set (sc_alpn_protocols config)
      | Inl _ \<Rightarrow> False)"

definition refused_naming :: "rustls \<Rightarrow> tls_config \<Rightarrow> string \<Rightarrow> bool" where
  "refused_naming R tls text \<longleftrightarrow>
     (case snd (snd (setup_tls R tls)) of Inl err \<Rightarrow> contains_str (hd err) text | Inr _ \<Rightarrow> False)"

definition test_setup_tls_manual_missing_cert_path :: "rustls \<Rightarrow> bool" where
  "test_setup_tls_manual_missing_cert_path R \<longleftrightarrow>
     refused_naming R
       \<lparr>tls_mode = ''manual'', acme_domains = [], acme_cache_dir = '''', acme_directory = ''production'',
        acme_contact = '''', cert_path = '''', key_path = ''/some/key.pem''\<rparr> ''cert_path''"

definition test_setup_tls_manual_missing_key_path :: "rustls \<Rightarrow> bool" where
  "test_setup_tls_manual_missing_key_path R \<longleftrightarrow>
     refused_naming R
       \<lparr>tls_mode = ''manual'', acme_domains = [], acme_cache_dir = '''', acme_directory = ''production'',
        acme_contact = '''', cert_path = ''/some/cert.pem'', key_path = ''''\<rparr> ''key_path''"

definition test_setup_tls_acme_missing_domains :: "rustls \<Rightarrow> bool" where
  "test_setup_tls_acme_missing_domains R \<longleftrightarrow>
     refused_naming R
       \<lparr>tls_mode = ''acme'', acme_domains = [], acme_cache_dir = ''/tmp/cache'', acme_directory = ''staging'',
        acme_contact = ''mailto:admin@example.com'', cert_path = '''', key_path = ''''\<rparr> ''acme_domains''"

definition test_setup_tls_acme_missing_cache_dir :: "rustls \<Rightarrow> bool" where
  "test_setup_tls_acme_missing_cache_dir R \<longleftrightarrow>
     refused_naming R
       \<lparr>tls_mode = ''acme'', acme_domains = [''example.com''], acme_cache_dir = '''', acme_directory = ''staging'',
        acme_contact = ''mailto:admin@example.com'', cert_path = '''', key_path = ''''\<rparr> ''acme_cache_dir''"

definition test_setup_tls_unknown_mode :: "rustls \<Rightarrow> bool" where
  "test_setup_tls_unknown_mode R \<longleftrightarrow>
     refused_naming R
       \<lparr>tls_mode = ''invalid'', acme_domains = [], acme_cache_dir = '''', acme_directory = ''production'',
        acme_contact = '''', cert_path = '''', key_path = ''''\<rparr> ''unknown TLS mode''"

definition test_acme_config_production_directory :: bool where
  "test_acme_config_production_directory \<longleftrightarrow>
     directory_url \<lparr>at_domains = [''example.com''], at_cache_dir = ''/tmp/test-cache'', at_directory = ''production'',
       at_contact = []\<rparr> = LETS_ENCRYPT_PRODUCTION_DIRECTORY"

definition test_acme_config_staging_directory :: bool where
  "test_acme_config_staging_directory \<longleftrightarrow>
     directory_url \<lparr>at_domains = [''example.com''], at_cache_dir = ''/tmp/test-cache'', at_directory = ''staging'',
       at_contact = []\<rparr> = LETS_ENCRYPT_STAGING_DIRECTORY"

definition test_acme_config_custom_directory :: bool where
  "test_acme_config_custom_directory \<longleftrightarrow>
     (let custom_url = ''https://custom-acme.example.com/directory''
      in directory_url \<lparr>at_domains = [''example.com''], at_cache_dir = ''/tmp/test-cache'', at_directory = custom_url,
           at_contact = []\<rparr> = custom_url)"

definition test_acme_config_multiple_domains :: bool where
  "test_acme_config_multiple_domains \<longleftrightarrow>
     (let config = \<lparr>at_domains = [''git.alk.dev'', ''alk.dev''], at_cache_dir = ''/var/lib/reverse-proxy/acme-cache'',
            at_directory = ''production'', at_contact = [''mailto:admin@alk.dev'']\<rparr>
      in length (at_domains config) = 2 \<and> directory_url config = LETS_ENCRYPT_PRODUCTION_DIRECTORY)"

section \<open>Log files\<close>

text \<open>
  The tests of \<open>init\<close> accept the error of a process whose subscriber is already set.
\<close>

definition already_set :: "anyhow \<Rightarrow> bool" where
  "already_set e \<longleftrightarrow> contains_str (hd e) ''global default trace dispatcher'' \<or> contains_str (hd e) ''already been set''"

definition no_refusal :: "string \<Rightarrow> io_error option" where
  "no_refusal p = None"

definition init_creates_log_directory_and_file :: "('v, 'f) tracing \<Rightarrow> log_store \<Rightarrow> bool" where
  "init_creates_log_directory_and_file T s \<longleftrightarrow>
     (let config = \<lparr>log_level = ''info'', log_format = ''text'', log_file_path = Some ''/tmp/d/logs/access.log''\<rparr>;
          (s', result) = init T no_refusal no_refusal config s
      in (case result of Inl e \<Rightarrow> already_set e | Inr _ \<Rightarrow> True) \<and> ls_dir s' ''/tmp/d/logs/access.log'' \<noteq> None)"

definition init_returns_reopen_handle_when_file_configured :: "('v, 'f) tracing \<Rightarrow> log_store \<Rightarrow> bool" where
  "init_returns_reopen_handle_when_file_configured T s \<longleftrightarrow>
     (let config = \<lparr>log_level = ''info'', log_format = ''text'', log_file_path = Some ''/tmp/d/access.log''\<rparr>
      in case snd (init T no_refusal no_refusal config s) of
           Inr reopen_handle \<Rightarrow> reopen_handle \<noteq> None
         | Inl e \<Rightarrow> already_set e)"

definition init_returns_no_reopen_handle_when_no_file :: "('v, 'f) tracing \<Rightarrow> log_store \<Rightarrow> bool" where
  "init_returns_no_reopen_handle_when_no_file T s \<longleftrightarrow>
     (let config = \<lparr>log_level = ''info'', log_format = ''text'', log_file_path = None\<rparr>
      in case snd (init T no_refusal no_refusal config s) of
           Inr reopen_handle \<Rightarrow> reopen_handle = None
         | Inl e \<Rightarrow> already_set e)"

definition empty_store :: log_store where
  "empty_store =
     \<lparr>ls_dir = Map.empty, ls_data = (\<lambda>_. []), ls_next_inode = 0, ls_fds = (\<lambda>_. (0, 0)), ls_next_fd = 0,
      ls_cells = (\<lambda>_. 0), ls_next_cell = 0\<rparr>"

definition overwrite :: "string \<Rightarrow> string \<Rightarrow> log_store \<Rightarrow> log_store" where
  "overwrite path text s =
     (case open_truncate no_refusal path s of (s', Inr fd) \<Rightarrow> file_write fd text s' | (s', Inl _) \<Rightarrow> s')"

definition reopen_swaps_underlying_file :: bool where
  "reopen_swaps_underlying_file \<longleftrightarrow>
     (case reopenable_new no_refusal no_refusal ''/tmp/d/access.log'' empty_store of
        (s0, Inr writer) \<Rightarrow>
          (let handle = handle_with_path writer ''/tmp/d/access.log'';
               s1 = file_write (make_writer writer s0) ''first'' s0;
               s2 = overwrite ''/tmp/d/access.log'' ''ROTATED'' s1;
               (s3, result) = reopen no_refusal handle s2;
               s4 = file_write (make_writer writer s3) ''second'' s3
           in is_ok result \<and> file_content s4 ''/tmp/d/access.log'' = Some ''second'')
      | (_, Inl _) \<Rightarrow> False)"

definition reopen_without_path_returns_error :: bool where
  "reopen_without_path_returns_error \<longleftrightarrow>
     (case reopenable_new no_refusal no_refusal ''/tmp/d/access.log'' empty_store of
        (s0, Inr writer) \<Rightarrow> \<not> is_ok (snd (reopen no_refusal (writer_handle writer) s0))
      | (_, Inl _) \<Rightarrow> False)"

section \<open>The model passes them\<close>

lemma cert_tests_pass:
  "rl_open R ''/tmp/d/cert.pem'' = Ok pem \<Longrightarrow> rl_pem_certs R pem = [Ok der] \<Longrightarrow> test_load_certs_from_pem R"
  "rl_open R ''/tmp/d/empty.pem'' = Ok '''' \<Longrightarrow> rl_pem_certs R '''' = [] \<Longrightarrow> test_load_certs_empty_file R"
  "rl_open R ''/nonexistent/path/cert.pem'' = Err e \<Longrightarrow> test_load_certs_nonexistent_file R"
  "rl_open R ''/nonexistent/path/key.pem'' = Err e \<Longrightarrow> test_load_private_key_nonexistent_file R"
  by (simp_all add: test_load_certs_from_pem_def test_load_certs_empty_file_def test_load_certs_nonexistent_file_def
      test_load_private_key_nonexistent_file_def load_certs_def load_private_key_def)

text \<open>
  The library prints a suite by its name.
\<close>

fun suite_name :: "cipher_suite \<Rightarrow> string" where
  "suite_name TLS_ECDHE_ECDSA_WITH_AES_128_GCM_SHA256 = ''TLS_ECDHE_ECDSA_WITH_AES_128_GCM_SHA256''"
| "suite_name TLS_ECDHE_RSA_WITH_AES_128_GCM_SHA256 = ''TLS_ECDHE_RSA_WITH_AES_128_GCM_SHA256''"
| "suite_name TLS_ECDHE_ECDSA_WITH_AES_256_GCM_SHA384 = ''TLS_ECDHE_ECDSA_WITH_AES_256_GCM_SHA384''"
| "suite_name TLS_ECDHE_RSA_WITH_AES_256_GCM_SHA384 = ''TLS_ECDHE_RSA_WITH_AES_256_GCM_SHA384''"
| "suite_name TLS_ECDHE_ECDSA_WITH_CHACHA20_POLY1305_SHA256 = ''TLS_ECDHE_ECDSA_WITH_CHACHA20_POLY1305_SHA256''"
| "suite_name TLS_ECDHE_RSA_WITH_CHACHA20_POLY1305_SHA256 = ''TLS_ECDHE_RSA_WITH_CHACHA20_POLY1305_SHA256''"
| "suite_name TLS13_AES_128_GCM_SHA256 = ''TLS13_AES_128_GCM_SHA256''"
| "suite_name TLS13_AES_256_GCM_SHA384 = ''TLS13_AES_256_GCM_SHA384''"
| "suite_name TLS13_CHACHA20_POLY1305_SHA256 = ''TLS13_CHACHA20_POLY1305_SHA256''"

lemma suite_tests_pass: "test_cipher_suite_restriction suite_name" "test_no_chacha20_for_tls12 suite_name"
  by (simp_all add: test_cipher_suite_restriction_def test_no_chacha20_for_tls12_def crypto_provider_def
      RESTRICTED_CIPHER_SUITES_def)

lemma setup_tls_tests_pass:
  "test_setup_tls_manual_missing_cert_path R" "test_setup_tls_manual_missing_key_path R"
  "test_setup_tls_acme_missing_domains R" "test_setup_tls_acme_missing_cache_dir R" "test_setup_tls_unknown_mode R"
  by (simp_all add: test_setup_tls_manual_missing_cert_path_def test_setup_tls_manual_missing_key_path_def
      test_setup_tls_acme_missing_domains_def test_setup_tls_acme_missing_cache_dir_def
      test_setup_tls_unknown_mode_def refused_naming_def setup_tls_def)

lemma acme_tests_pass:
  test_acme_tls_alpn_value test_acme_config_production_directory test_acme_config_staging_directory
  test_acme_config_custom_directory test_acme_config_multiple_domains
  "rl_refuse_versions R crypto_provider [TLS12, TLS13] = None \<Longrightarrow> test_build_acme_server_config R resolver"
  by (simp_all add: test_acme_tls_alpn_value_def test_acme_config_production_directory_def
      test_acme_config_staging_directory_def test_acme_config_custom_directory_def
      test_acme_config_multiple_domains_def test_build_acme_server_config_def build_acme_server_config_def
      ACME_TLS_ALPN_01_def directory_url_def)

lemma init_tests_pass:
  assumes "\<And>layers e. tr_try_init T layers = Some e \<Longrightarrow> already_set [e]"
  shows "init_creates_log_directory_and_file T s" "init_returns_reopen_handle_when_file_configured T s"
    "init_returns_no_reopen_handle_when_no_file T s"
  using assms
  by (auto simp: init_creates_log_directory_and_file_def init_returns_reopen_handle_when_file_configured_def
      init_returns_no_reopen_handle_when_no_file_def init_def init_text_def reopenable_new_def open_truncate_def
      no_refusal_def Let_def split: option.splits)

lemma reopen_tests_pass: reopen_swaps_underlying_file reopen_without_path_returns_error
  by (simp_all add: reopen_swaps_underlying_file_def reopen_without_path_returns_error_def reopenable_new_def
      open_truncate_def no_refusal_def empty_store_def handle_with_path_def make_writer_def file_write_def
      overwrite_def reopen_def file_content_def writer_handle_def write_at_def split: option.split)

end
