(* ===== verification/Spec2Isabelle.thy ===== *)
theory Spec2Isabelle
  imports Program Tests_Server Tests_Admin Tests_Setup
begin

text \<open>
  Verification of a TLS-terminating reverse proxy written in Rust. The sources are under \<^verbatim>\<open>src/\<close>;
  paths below are relative to \<^verbatim>\<open>src/src/\<close>.

  \<^bold>\<open>The program.\<close> At start the proxy reads a TOML file (\<^verbatim>\<open>cli.rs\<close>, \<^verbatim>\<open>config/\<close>), checks it, opens its log,
  binds a loopback port for health checks and administration, and for every listener a plain port
  that redirects and a TLS port that proxies (\<^verbatim>\<open>main.rs\<close>). An accepted connection takes a permit of a
  semaphore shared by all listeners, does the handshake under a timeout, and is served next to a
  watchdog that ends it when it is idle (\<^verbatim>\<open>server.rs\<close>). A request passes the rate limiter and the body
  limit, is routed by its host name to a site and sent upstream with rewritten headers (\<^verbatim>\<open>proxy/\<close>,
  \<^verbatim>\<open>rate_limit/\<close>). Signals and admin calls reload the configuration, reopen the log, rotate the admin
  key or shut the program down (\<^verbatim>\<open>shutdown.rs\<close>, \<^verbatim>\<open>admin/\<close>, \<^verbatim>\<open>logging/\<close>).

  \<^bold>\<open>Language and libraries.\<close> Strings are lists of bytes in UTF-8 and \<open>to_lowercase\<close> changes ASCII
  letters only, which is exact on host names that pass validation. Machine integers are words of
  their width. An instant is an integer and a duration a natural number, in nanoseconds; every
  reading of the clock is an argument. A fallible function returns a sum whose left side is the
  error. An operation that logs returns its log lines. \<open>Prelude\<close>, \<open>Rust_Str\<close>, \<open>Rust_Num\<close>, \<open>Rust_Net\<close>
  (addresses, with the round trip of printing and parsing), \<open>Rust_F64\<close> (rounding to 53 bits; the locale
  \<open>rounding\<close> has what the limiter needs of it), \<open>Rust_Async\<close> (futures and timeouts) and \<open>Events\<close> (log
  lines, \<^verbatim>\<open>anyhow\<close> errors, sockets) model what the sources use of the language and its library.
  Crates are parameters: the HTTP types are the record \<open>http_lib\<close> with the locale \<open>http_laws\<close> of
  documented behaviour (\<open>Http_Model\<close>, interpreted on association lists), the argument parser is a
  function with the locale \<open>clap_laws\<close> (\<open>Command_Line\<close>, with an instance), the HTTP client and the
  serving of a connection are functions into futures, and \<open>rustls\<close>, \<open>tracing\<close>, \<open>axum\<close>, \<open>crypto\<close>, \<open>tcp\<close>
  and \<open>platform\<close> are records of the answers of the respective libraries and the operating system.

  \<^bold>\<open>Interfaces.\<close> \<open>Machines\<close> has the contracts that several components fulfil, as locales with the
  consequences proved once: machines that run on lists of events and keep an invariant
  (\<open>invariant_machine\<close>: a connection, the server), a machine that refines an
  abstract one (\<open>machine_refinement\<close>: the server and the admission of connections), a service that
  treats the calls for each key by themselves (\<open>keyed_service\<close>: the rate limiter and the reporter of
  accept errors), a pool of permits, a table with a normalised key, and an update that either keeps
  a value or puts a good one in its place (\<open>guarded_update\<close>: SIGHUP, the admin calls and every
  operation of the running program). Each is interpreted in the theory of the component.

  \<^bold>\<open>Theories and sources.\<close>

  \<^item> \<open>Config_Data\<close>: \<^verbatim>\<open>config/static_config.rs\<close> and the settings of \<^verbatim>\<open>config/dynamic_config.rs\<close>.

  \<^item> \<open>Routing\<close>: \<^verbatim>\<open>utils.rs\<close>, host normalisation and routing table of \<^verbatim>\<open>config/dynamic_config.rs\<close>.

  \<^item> \<open>Validation\<close>: \<^verbatim>\<open>config/validation.rs\<close>; the imperative sequence of checks equals a declarative
    specification \<open>config_ok\<close>, the two syntax checks equal theirs, and \<open>reference_ok\<close> has the rules of
    \<^verbatim>\<open>docs/architecture/config.md\<close> to compare them with.

  \<^item> \<open>Fd_Budget\<close>: \<^verbatim>\<open>config/fd_budget.rs\<close>. \<open>Config_File\<close>: \<^verbatim>\<open>config/mod.rs\<close> and the loading of \<^verbatim>\<open>cli.rs\<close>.
    \<open>Command_Line\<close>: the declaration of the arguments and \<^verbatim>\<open>parse_from\<close> of \<^verbatim>\<open>cli.rs\<close>.

  \<^item> \<open>Reload\<close>: \<^verbatim>\<open>ConfigReloadHandle\<close> and \<^verbatim>\<open>handle_sighup_reload\<close>; \<open>reload_step\<close> is the step
    relation of any number of concurrent reloads, whose invariant is proved by rule induction. Each
    check may find other files and another descriptor limit than the one before.

  \<^item> \<open>Rate_Limiter\<close>: \<^verbatim>\<open>rate_limit/bucket.rs\<close> and \<^verbatim>\<open>rate_limit/mod.rs\<close>; bounds on what a client gets in a
    time span, with the rounding errors of the floating point arithmetic accounted for.

  \<^item> \<open>Proxy_Parts\<close>, \<open>Proxy_Handler\<close>, \<open>Proxy_Router\<close>: \<^verbatim>\<open>proxy/\<close>, the log macros, and the middleware of the
    limiter. \<open>Upstream_Clients\<close>: the clients of \<^verbatim>\<open>proxy/handler.rs\<close>.

  \<^item> \<open>Accept_Errors\<close>, \<open>Idle_Tracking\<close>, \<open>Server\<close>: \<^verbatim>\<open>server.rs\<close>. A connection and the server are state
    machines over lists of events in any order (\<open>conn_run\<close>, \<open>server_run\<close>), with invariants by induction.

  \<^item> \<open>Redirect\<close>: \<^verbatim>\<open>tls/redirect.rs\<close>. \<open>Tls_Setup\<close>: \<^verbatim>\<open>tls/config.rs\<close>, \<^verbatim>\<open>tls/acme.rs\<close>, \<^verbatim>\<open>tls/acceptor.rs\<close>.

  \<^item> \<open>Admin\<close>: \<^verbatim>\<open>admin/\<close> and \<^verbatim>\<open>health.rs\<close>. \<open>Log_Files\<close>: \<^verbatim>\<open>logging/mod.rs\<close> and \<^verbatim>\<open>logging/reopen.rs\<close>.
    \<open>Signals\<close>: \<^verbatim>\<open>shutdown.rs\<close>. \<open>Startup\<close>: \<^verbatim>\<open>main.rs\<close>.

  \<^item> \<open>Program\<close>: the program as a whole, from the command line to the exit code, and its runtime state
    under any sequence of signals, admin calls, requests and evictions.

  \<^item> This theory: the properties of the running program that span the components.

  \<^item> \<open>Tests_Validation\<close>, \<open>Tests_Config\<close>, \<open>Tests_Files\<close>, \<open>Tests_Proxy\<close>, \<open>Tests_Limiter\<close>, \<open>Tests_Server\<close>,
    \<open>Tests_Admin\<close>, \<open>Tests_Setup\<close>: the unit tests in the sources, under their names, as predicates of the
    model, and the fixtures of \<^verbatim>\<open>config/test_fixtures.rs\<close>. The lemmas \<open>..._tests_pass\<close> and
    \<open>..._test_passes\<close> show that the model passes them. They tie the definitions to what the authors of
    the code expect of it; what a test takes from its environment is an argument, with the
    assumption stated in the lemma.

  \<^bold>\<open>What is shown.\<close> Validation agrees with the configuration reference but for two rules, which are
  named; the sites of an accepted file are reachable, at start and after any sequence of signals and admin calls;
  reloads are all or nothing, also when they interleave. A request for a site of the running program
  that the limiter admits is answered within the limits of the site and logged once; validation mode
  predicts whether a start gets past its configuration. The limiter admits at most the burst plus
  the rate times the elapsed time, and a client that waits is admitted. A forwarded request has
  exactly the headers it should have and every routed request is answered within its time limits and
  logged once. Connections never exceed the maximum over all listeners, the server refines a counter
  of free permits, counters are exact, every task ends, the watchdog ends exactly the idle
  connections, a listener that has seen the shutdown accepts nothing more, draining and shutdown
  terminate within stated times. Without the key the admin listener answers 401 everywhere but on
  \<^verbatim>\<open>/health\<close>; rotation replaces the key. The start puts all HTTPS listeners into service or none, and
  succeeds exactly when the platform lets it. Other theorems state executions in which the code does not do
  what its documentation says: a stale reload that wins, a drain that misses a connection, a
  cancelled request that keeps its connection open, a connect timeout that cuts slow responses, a
  request routed by one host and forwarded with another, a shutdown longer than its timeout, a
  failed start that has answered requests, an accepted configuration that cannot start.

  \<^bold>\<open>Loops.\<close> Loops over data are recursive functions. \<open>drain_in_flight\<close> is a function with a termination
  proof, by the time left until the timeout. \<open>idle_watchdog\<close> may run forever and is a partial function
  into \<open>option\<close>; that it returns is proved where it is claimed. Event loops consume the list of their
  events. The only fuel is that of trimming white space in \<open>Rust_Num\<close>, the length of the text: every
  round removes at least one byte.

  \<^bold>\<open>Not modelled.\<close> The parser of the command line, the TLS handshake, the HTTP protocol, certificate
  issuance and TOML syntax, which are in crates; the text of JSON answers; module declarations;
  code for platforms other than unix. Of the unit tests, those that assert only on values of a crate
  (three of \<^verbatim>\<open>tls/config.rs\<close> and one that matches the kind of a decoded key, the resolver count of
  \<^verbatim>\<open>tls/acme.rs\<close>) or only that a macro compiles (\<^verbatim>\<open>logging/format.rs\<close>), with the certificates they make. The
  integration tests under \<^verbatim>\<open>src/tests/\<close>, which drive the built program over real sockets.
  Writes to a log file are taken to be complete, and partial failures of the operating system appear
  as errors of the calls that report them. The layers of the router take their configurations one by
  one, but in the runtime of \<open>Program\<close> a request is one operation, so that no reload falls between
  its layers there. The panic of the semaphore for more than \<open>2 ^ 61 - 1\<close> permits is left out.
\<close>

section \<open>A program that runs\<close>

text \<open>
  A platform on which the start of the example configuration succeeds.
\<close>

definition working_platform :: "(socket_addr, unit, unit) platform" where
  "working_platform =
     example_platform\<lparr>pf_net := \<lparr>tcp_bind = (\<lambda>bound a. Ok a), tcp_local_addr = (\<lambda>a. Ok a)\<rparr>\<rparr>"

lemma working_listeners:
  "\<exists>acts https. start_listeners working_platform (make_static_with_sites [test_site] make_acme_tls) admin = (acts, Ok https)"
proof -
  let ?sc = "make_static_with_sites [test_site] make_acme_tls"
  have http: "parse_socket_addr (''127.0.0.1:'' @ show_word (80 :: u16)) = Some (loopback 80)"
    "parse_socket_addr (''127.0.0.1:'' @ show_word (443 :: u16)) = Some (loopback 443)"
    using parse_loopback [of 80] parse_loopback [of 443] by simp_all
  have h: "\<exists>acts bound. start_health working_platform (health_check_port ?sc) admin = (acts, Ok bound)"
    by (simp add: start_health_def start_health_check_listener_def Let_def make_static_with_sites_def
        working_platform_def example_platform_def split: option.split prod.split)
  have b: "\<exists>acts lc sock. bind_listeners working_platform bound (listeners ?sc) = (acts, Ok [(lc, sock)]) \<and>
      l_tls lc = make_acme_tls" for bound
    using http
    by (simp add: make_static_with_sites_def bind_http_def bind_https_def start_http_redirect_listener_def Let_def
        then_stage_def working_platform_def example_platform_def)
  have t: "\<exists>acts acceptor. setup_acceptors working_platform [(lc, sock)] = (acts, Ok [acceptor])"
    if "l_tls lc = make_acme_tls" for lc and sock :: socket_addr
    using that
    by (simp add: setup_acceptor_def setup_tls_def acme_setup_def build_acme_server_config_def Let_def then_stage_def
        make_acme_tls_def working_platform_def example_platform_def)
  obtain acts bound acts' lc sock acts'' acceptor
    where "start_health working_platform (health_check_port ?sc) admin = (acts, Ok bound)"
      "bind_listeners working_platform bound (listeners ?sc) = (acts', Ok [(lc, sock)])"
      "setup_acceptors working_platform [(lc, sock)] = (acts'', Ok [acceptor])"
    using h b t by meson
  then show ?thesis by (simp add: start_listeners_def then_stage_def)
qed

lemma working_start:
  "\<exists>acts st. snd (run_server_start working_platform example_loaded path s) = (acts, Inr st)"
proof -
  have i: "\<exists>s'. init (pf_tracing working_platform) (pf_refuse working_platform) (pf_mkdir working_platform)
      (logging (make_static_with_sites [test_site] make_acme_tls)) s = (s', Ok None)"
    by (simp add: init_def Let_def init_text_def make_static_with_sites_def working_platform_def
        example_platform_def default_logging_def default_log_format_def)
  obtain admin_logs hash where "load_admin_auth working_platform
      (admin_key_path (make_static_with_sites [test_site] make_acme_tls)) = (admin_logs, hash)" by fastforce
  then show ?thesis
    using i working_listeners [of "map_option (\<lambda>_. (\<lparr>ad_config_path = path,
        ad_start_time = pf_now working_platform, ad_key_hash = 0\<rparr>, 0)) hash"]
    by (auto simp: run_server_start_def example_loaded_def start_services_def Let_def then_stage_def
        working_platform_def example_platform_def create_https_client_def split: prod.split)
qed

lemma example_after_sighup:
  "sw_handle (rt_world (fold (operate example_lib example_axum example_crypto client st path)
     [SignalArrives SIGHUP example_signal_env] (runtime_start st s))) = sd_handle st"
  by (simp add: operate_def deliver_signal_def handle_signal_def signal_numbers runtime_start_def handle_sighup_reload_def
      read_and_validate_config_def example_signal_env_def)

lemma working_start_all:
  "\<exists>s' acts st. run_server_start working_platform example_loaded path s = (s', acts, Inr st)"
  using working_start [of path s] by (metis prod.collapse)

section \<open>Properties of the whole program\<close>

text \<open>
  C6: Every site stays reachable while the program runs. When the configuration has loaded and the
  start has succeeded, then after any sequence of signals, calls of the admin interface, requests
  and evictions, with whatever they find in the configuration file, every site of the static
  configuration in force is found under its host name, in any casing and with any port.
\<close>

theorem sites_stay_reachable:
  assumes "load_config toml exists rl rd c = Ok ld"
    and "snd (run_server_start P ld (cli_config c) s) = (acts, Inr st)"
    and "r = fold (operate L A C client st (cli_config c)) ops (runtime_start st s')"
    and "site \<in> set (all_sites (rh_static_config (sw_handle (rt_world r))))"
    and "to_lowercase h = to_lowercase (s_host site)" and "CHR '':'' \<notin> set p"
  shows "lookup (runtime_config r) h = Some site \<and> lookup (runtime_config r) (h @ '':'' @ p) = Some site"
  using ops.good_updates [OF start_consistent [OF assms(1,2)], of L A C client st "cli_config c" ops s'] assms(3-6)
    consistent_reachable by blast

theorem sites_stay_reachable_witness:
  "\<exists>acts st. snd (run_server_start working_platform example_loaded (cli_config example_cli) example_store) = (acts, Inr st) \<and>
    (let r = fold (operate example_lib example_axum example_crypto example_client st (cli_config example_cli))
               [SignalArrives SIGHUP example_signal_env] (runtime_start st example_store)
     in lookup (runtime_config r) ''Test.LOCAL'' = Some test_site \<and>
        lookup (runtime_config r) (''Test.LOCAL'' @ '':'' @ ''8443'') = Some test_site)"
proof -
  obtain acts st where st: "snd (run_server_start working_platform example_loaded (cli_config example_cli) example_store) = (acts, Inr st)"
    using working_start by blast
  let ?r = "fold (operate example_lib example_axum example_crypto example_client st (cli_config example_cli))
               [SignalArrives SIGHUP example_signal_env] (runtime_start st example_store)"
  have "sw_handle (rt_world ?r) = sd_handle st" by (rule example_after_sighup)
  then have "rh_static_config (sw_handle (rt_world ?r)) = ld_static_config example_loaded"
    using started_fields(1) [OF st] by (simp add: reload_handle_new_def)
  then have "test_site \<in> set (all_sites (rh_static_config (sw_handle (rt_world ?r))))"
    by (simp add: example_loaded_def example_all_sites)
  moreover have "to_lowercase ''Test.LOCAL'' = to_lowercase (s_host test_site)"
    unfolding test_site_def by code_simp
  moreover have "CHR '':'' \<notin> set ''8443''" by simp
  ultimately have "lookup (runtime_config ?r) ''Test.LOCAL'' = Some test_site \<and>
      lookup (runtime_config ?r) (''Test.LOCAL'' @ '':'' @ ''8443'') = Some test_site"
    by (rule sites_stay_reachable [OF example_load st refl])
  then show ?thesis using st unfolding Let_def by blast
qed

text \<open>
  C7: A client of a configured site gets its answer. At any time while the program runs, a request
  whose host is the name of a site of the configuration in force, that the limiter admits and that
  does not announce too large a body, is answered within the time limits of this site, whatever the
  upstream does; and it is logged, with the client's address, the site's upstream and the status
  that the client receives.
\<close>

theorem site_request_is_answered:
  assumes "load_config toml exists rl rd c = Ok ld"
    and "snd (run_server_start P ld (cli_config c) s) = (acts, Inr st)"
    and "r = fold (operate L A C client st (cli_config c)) ops (runtime_start st s')"
    and "site \<in> set (all_sites (rh_static_config (sw_handle (rt_world r))))"
    and "request_host L req \<noteq> []" and "to_lowercase (request_host L req) = to_lowercase (s_host site)"
    and "snd (check_and_consume (rate_limit (runtime_config r)) clk (sa_ip remote) (rt_buckets r))"
    and "\<And>len. content_length L req = Some len \<Longrightarrow> len \<le> body_limit (runtime_config r)"
  shows "\<exists>d logs resp. snd (serve_request L client remote clk ms req r) =
      After d (logs @ [log_request (show_ip_addr (sa_ip remote)) (request_host L req) (rq_method req)
        (u_path (rq_uri req)) (response_status resp) (s_upstream site) ms], resp) \<and>
    d \<le> site_time_limit site"
proof -
  let ?config = "runtime_config r" and ?req = "connect_info_call remote req"
  let ?lim = "?req\<lparr>rq_body := limited L (rq_body ?req) (body_limit ?config)\<rparr>"
  have same: "content_length L ?req = content_length L req" "request_host L ?lim = request_host L req"
    "rq_connect_info ?req = Some remote" "rq_method ?lim = rq_method req" "rq_uri ?lim = rq_uri req"
    by (simp_all add: content_length_def request_host_def connect_info_call_def split: option.split)
  have "handle_consistent (sw_handle (rt_world r))"
    using ops.good_updates [OF start_consistent [OF assms(1,2)]] assms(3) by simp
  then have "lookup ?config (request_host L req) = Some site"
    using consistent_reachable(1) [of _ site _ "[]"] assms(4,6) by simp
  then have "\<exists>d logs resp. proxy_handler L client ?config ms remote ?lim =
      After d (logs @ [log_request (show_ip_addr (sa_ip remote)) (request_host L req) (rq_method req)
        (u_path (rq_uri req)) (response_status resp) (s_upstream site) ms], resp) \<and> d \<le> site_time_limit site"
    using routed_request_answered [of L ?lim ?config site client ms remote] assms(5) unfolding same by blast
  moreover have "snd (build_router L client ?config ?config ?config clk ms (rt_buckets r) ?req) = proxy_handler L client ?config ms remote ?lim"
    using build_router_served [of ?req remote ?config clk "rt_buckets r" L ?config] assms(7,8) same by simp
  ultimately show ?thesis by (simp add: serve_request_def split: prod.split) (metis snd_conv)
qed

theorem site_request_is_answered_witness:
  "\<exists>acts st. snd (run_server_start working_platform example_loaded (cli_config example_cli) example_store) = (acts, Inr st) \<and>
    (let r = fold (operate example_lib example_axum example_crypto (\<lambda>s r. Never) st (cli_config example_cli))
               [SignalArrives SIGHUP example_signal_env] (runtime_start st example_store)
     in \<exists>d logs resp. snd (serve_request example_lib (\<lambda>s r. Never) example_remote (clock_at 0) 3 example_request r) =
          After d (logs @ [log_request (show_ip_addr (sa_ip example_remote)) (request_host example_lib example_request)
            (rq_method example_request) (u_path (rq_uri example_request)) (response_status resp)
            (s_upstream test_site) 3], resp) \<and>
        d \<le> site_time_limit test_site)"
proof -
  obtain acts st where st: "snd (run_server_start working_platform example_loaded (cli_config example_cli) example_store) = (acts, Inr st)"
    using working_start by blast
  let ?r = "fold (operate example_lib example_axum example_crypto (\<lambda>s r. Never) st (cli_config example_cli))
               [SignalArrives SIGHUP example_signal_env] (runtime_start st example_store)"
  have h: "sw_handle (rt_world ?r) = sd_handle st" by (rule example_after_sighup)
  then have hs: "rh_static_config (sw_handle (rt_world ?r)) = ld_static_config example_loaded"
    "runtime_config ?r = valid_dynamic_config"
    using started_fields(1) [OF st] by (simp_all add: reload_handle_new_def load_def example_loaded_def)
  have b: "rt_buckets ?r = Map.empty"
    by (simp add: operate_def deliver_signal_def runtime_start_def)
  have host: "request_host example_lib example_request = ''test.local''"
    using prepare_upstream_Ok(1) [OF example_prepare] by simp
  have "\<exists>d logs resp. snd (serve_request example_lib (\<lambda>s r. Never) example_remote (clock_at 0) 3 example_request ?r) =
          After d (logs @ [log_request (show_ip_addr (sa_ip example_remote)) (request_host example_lib example_request)
            (rq_method example_request) (u_path (rq_uri example_request)) (response_status resp)
            (s_upstream test_site) 3], resp) \<and>
        d \<le> site_time_limit test_site"
  proof (rule site_request_is_answered [OF example_load st refl])
    show "test_site \<in> set (all_sites (rh_static_config (sw_handle (rt_world ?r))))"
      unfolding hs by (simp add: example_loaded_def example_all_sites)
    show "snd (check_and_consume (rate_limit (runtime_config ?r)) (clock_at 0) (sa_ip example_remote) (rt_buckets ?r))"
      unfolding hs b by (rule example_admitted)
    show "len \<le> body_limit (runtime_config ?r)" if "content_length example_lib example_request = Some len" for len
      using that by (simp add: content_length_def example_request_def example_lib_def alist_lib_def)
  qed (simp_all add: host test_site_def)
  then show ?thesis using st unfolding Let_def by blast
qed

text \<open>
  C13: The shared state of the running program is well-formed at all times: after a successful start
  and any sequence of operations, the configuration in force is one that some valid file has, every
  token bucket is under a normalised address and holds between zero and its burst size, the log
  store is consistent, and the shutdown channel carries a message exactly when a shutdown was
  requested.
\<close>

theorem running_program_well_formed:
  assumes "load_config toml exists rl rd c = Ok ld"
    and "run_server_start P ld (cli_config c) s = (s', acts, Inr st)" and "store_ok s"
  shows "runtime_ok (fold (operate L A C client st (cli_config c)) ops (runtime_start st s'))"
  using fold_operate_ok [OF runtime_start_ok [OF assms]] .

theorem running_program_well_formed_witness:
  "\<exists>s' acts st. run_server_start working_platform example_loaded (cli_config example_cli) example_store = (s', acts, Inr st) \<and>
    runtime_ok (fold (operate example_lib example_axum example_crypto example_client st (cli_config example_cli))
      [ClientRequest example_remote (clock_at 0) 3 example_request, SignalArrives SIGTERM example_signal_env,
       EvictionTick 0] (runtime_start st s'))"
proof -
  obtain s' acts st where st: "run_server_start working_platform example_loaded (cli_config example_cli) example_store = (s', acts, Inr st)"
    using working_start_all by blast
  have "store_ok example_store" by (simp add: example_store_def store_ok_def)
  then show ?thesis using running_program_well_formed [OF example_load st] st by blast
qed

text \<open>
  C26: The validation mode agrees with the start. Take any usual command line, with its options in any
  order and the flag \<^verbatim>\<open>--validate\<close> anywhere among them, and the same line without the flag. With the
  flag, the program never starts the server and logs nothing: it prints that the configuration is
  valid and ends with 0, or prints the error and ends with 1. It ends with 0 exactly when the line
  without the flag gets as far as running the server with the loaded configuration, under the same
  permission for the wildcard address; otherwise that line prints the error and ends with 1 as well.
\<close>

theorem validate_mode_predicts_start:
  assumes "clap_laws clap" and "usual_line cli_command (before @ OptFlag ''validate'' # after)"
    and "c = \<lparr>cli_config = unwrap_or (Option.bind (given (before @ after) ''config'') opt_value) DEFAULT_CONFIG_PATH,
              cli_validate = False, cli_allow_wildcard = (given (before @ after) ''allow-wildcard-bind'' \<noteq> None)\<rparr>"
  shows "let main = (\<lambda>opts. program_main clap toml exists rl rd served (prog # concat (map render_opt opts))) in
    case load_config toml exists rl rd c of
      Inr ld \<Rightarrow>
        main (before @ OptFlag ''validate'' # after) = ([Stdout ''Configuration is valid.''], [], 0) \<and>
        main (before @ after) =
          (case served ld (cli_config c) of
             Inl e \<Rightarrow> ([], [Log LError [] (''fatal error: '' @ show_anyhow e)], 1) | Inr _ \<Rightarrow> ([], [], 0))
    | Inl e \<Rightarrow>
        main (before @ OptFlag ''validate'' # after) = ([Stderr (show_load_error e)], [], 1) \<and>
        main (before @ after) =
          ([Stderr (''error: '' @ show_anyhow (case e of Context m cause \<Rightarrow> [m, cause] | Bail m \<Rightarrow> [m]))], [], 1)"
proof -
  have u: "usual_line cli_command (before @ after)" using assms(2) by (auto simp: usual_line_def)
  have "''validate'' \<notin> opt_name ` set (before @ after)" using assms(2) by (auto simp: usual_line_def)
  then have "given (before @ after) ''validate'' = None" using given_iff by blast
  then have n: "parse_from clap (prog # concat (map render_opt (before @ after))) = Ok c"
    using clap_laws.parse_usual [OF assms(1) u, of prog] by (simp add: assms(3))
  have v: "parse_from clap (prog # concat (map render_opt (before @ OptFlag ''validate'' # after))) =
      Ok (c\<lparr>cli_validate := True\<rparr>)"
    using clap_laws.parse_usual [OF assms(1,2), of prog] given_iff [of "before @ OptFlag ''validate'' # after" "''validate''"]
    by (simp add: given_insert_other assms(3))
  have "load_config toml exists rl rd (c\<lparr>cli_validate := True\<rparr>) = load_config toml exists rl rd c"
    by (simp add: load_config_def)
  moreover have "\<not> cli_validate c" by (simp add: assms(3))
  ultimately show ?thesis unfolding Let_def program_main_def n v
    by (auto simp: main_proxy_def run_validate_def split: sum.split load_error.split)
qed

theorem validate_mode_predicts_start_witness:
  "let main = (\<lambda>argv. program_main simple_clap example_toml (\<lambda>p. True) (Some 8192) (\<lambda>p. Ok ''example'')
      (\<lambda>ld path. Err [''port taken'']) (''reverse-proxy'' # argv))
   in main [''--config'', cli_config example_cli, ''--validate''] = ([Stdout ''Configuration is valid.''], [], 0) \<and>
      main [''--config'', cli_config example_cli] =
        ([], [Log LError [] (''fatal error: '' @ show_anyhow [''port taken''])], 1)"
proof -
  have "\<not> starts_with (cli_config example_cli) ''-''" by (simp add: example_cli_def DEFAULT_CONFIG_PATH_def starts_with_iff)
  then have u: "usual_line cli_command ([OptValue ''config'' (cli_config example_cli)] @ OptFlag ''validate'' # [])"
    by (simp add: usual_line_def cli_command_def kind_of_def find_spec_def)
  have c: "example_cli = \<lparr>cli_config = unwrap_or (Option.bind
        (given ([OptValue ''config'' (cli_config example_cli)] @ []) ''config'') opt_value) DEFAULT_CONFIG_PATH,
      cli_validate = False,
      cli_allow_wildcard = (given ([OptValue ''config'' (cli_config example_cli)] @ []) ''allow-wildcard-bind'' \<noteq> None)\<rparr>"
    by (simp add: example_cli_def given_def)
  show ?thesis
    using validate_mode_predicts_start [OF simple.clap_laws_axioms u c, of example_toml
        "\<lambda>p. True" "Some 8192" "\<lambda>p. Ok ''example''" "\<lambda>ld path. Err [''port taken'']" "''reverse-proxy''"] example_load
    by simp
qed

end
